(* ===== verification/Prelude.thy ===== *)
theory Prelude
  imports Main "HOL-Library.Signed_Division"
begin

text \<open>
  Shared vocabulary of the development: the collections the component proofs
  draw on, the time and identifier types, and generic facts about lists that
  stand for database tables (filtering by a key, updating the rows that match,
  summing a column).
\<close>

named_theorems policy_defs \<open>definitions of pure policy functions\<close>
named_theorems store_defs \<open>definitions of repository operations\<close>
named_theorems row_simps \<open>how table helpers act on rows\<close>

text \<open>Dates are JavaScript time values: milliseconds since the epoch.\<close>

type_synonym time = int
type_synonym ident = string

text \<open>What the code throws: an \<open>AppError\<close> with its code, HTTP status and field errors (field
  and code), or any other exception, which the HTTP layer reports as an internal error.\<close>

datatype app_error = AppError string nat "(string \<times> string) list" | OtherError

type_synonym 'a result = "app_error + 'a"

subsection \<open>Tables\<close>

text \<open>\<open>update_where p f t\<close> is SQL's UPDATE: every row that satisfies \<open>p\<close> is replaced
  by its image.\<close>

definition update_where :: "('r \<Rightarrow> bool) \<Rightarrow> ('r \<Rightarrow> 'r) \<Rightarrow> 'r list \<Rightarrow> 'r list" where
  "update_where p f t = map (\<lambda>r. if p r then f r else r) t"

text \<open>\<open>sum_by p g t\<close> is \<open>COALESCE(SUM(g), 0)\<close> over the rows that satisfy \<open>p\<close>.\<close>

definition sum_by :: "('r \<Rightarrow> bool) \<Rightarrow> ('r \<Rightarrow> int) \<Rightarrow> 'r list \<Rightarrow> int" where
  "sum_by p g t = sum_list (map g (filter p t))"

definition count_by :: "('r \<Rightarrow> bool) \<Rightarrow> 'r list \<Rightarrow> nat" where
  "count_by p t = length (filter p t)"

lemma update_where_Nil [simp, row_simps]: "update_where p f [] = []"
  by (simp add: update_where_def)

lemma update_where_Cons [simp, row_simps]:
  "update_where p f (r # t) = (if p r then f r else r) # update_where p f t"
  by (simp add: update_where_def)

lemma length_update_where [simp]: "length (update_where p f t) = length t"
  by (simp add: update_where_def)

lemma map_update_where_id:
  assumes "\<And>r. r \<in> set t \<Longrightarrow> p r \<Longrightarrow> k (f r) = k r"
  shows "map k (update_where p f t) = map k t"
  using assms by (induction t) auto

lemma set_update_where:
  "set (update_where p f t) = f ` {r \<in> set t. p r} \<union> {r \<in> set t. \<not> p r}"
  by (induction t) auto

lemma in_update_whereE:
  assumes "r \<in> set (update_where p f t)"
  obtains (hit) r0 where "r0 \<in> set t" "p r0" "r = f r0"
    | (miss) "r \<in> set t" "\<not> p r"
  using assms by (auto simp: set_update_where)

lemma update_where_none: "(\<And>r. r \<in> set t \<Longrightarrow> \<not> p r) \<Longrightarrow> update_where p f t = t"
  by (induction t) auto

lemma sum_by_Nil [simp]: "sum_by p g [] = 0"
  by (simp add: sum_by_def)

lemma sum_by_Cons [simp]: "sum_by p g (r # t) = (if p r then g r else 0) + sum_by p g t"
  by (simp add: sum_by_def)

lemma sum_by_append [simp]: "sum_by p g (t @ u) = sum_by p g t + sum_by p g u"
  by (simp add: sum_by_def)

lemma sum_by_nonneg: "(\<And>r. r \<in> set t \<Longrightarrow> p r \<Longrightarrow> 0 \<le> g r) \<Longrightarrow> 0 \<le> sum_by p g t"
  by (induction t) (auto intro: add_nonneg_nonneg)

lemma sum_by_mono:
  assumes "\<And>r. r \<in> set t \<Longrightarrow> p r \<Longrightarrow> q r"
    and "\<And>r. r \<in> set t \<Longrightarrow> q r \<Longrightarrow> 0 \<le> g r"
  shows "sum_by p g t \<le> sum_by q g t"
  using assms by (induction t) (auto intro: add_mono add_increasing2 add_increasing)

lemma sum_by_cong:
  "(\<And>r. r \<in> set t \<Longrightarrow> p r = q r) \<Longrightarrow> (\<And>r. r \<in> set t \<Longrightarrow> q r \<Longrightarrow> g r = h r)
    \<Longrightarrow> sum_by p g t = sum_by q h t"
  by (induction t) auto

text \<open>An UPDATE that only removes rows from a sum cannot increase it.\<close>

lemma sum_by_update_where_le:
  assumes "\<And>r. r \<in> set t \<Longrightarrow> u r \<Longrightarrow> p (f r) \<Longrightarrow> p r \<and> g (f r) = g r"
    and "\<And>r. r \<in> set t \<Longrightarrow> p r \<Longrightarrow> 0 \<le> g r"
  shows "sum_by p g (update_where u f t) \<le> sum_by p g t"
  using assms
proof (induction t)
  case (Cons r t)
  then have "sum_by p g (update_where u f t) \<le> sum_by p g t" by simp
  then show ?case using Cons.prems(1)[of r] Cons.prems(2)[of r] by auto
qed simp

lemma sum_by_update_where_eq:
  assumes "\<And>r. r \<in> set t \<Longrightarrow> u r \<Longrightarrow> p (f r) = p r \<and> g (f r) = g r"
  shows "sum_by p g (update_where u f t) = sum_by p g t"
  using assms by (induction t) auto

text \<open>Rows with distinct keys: looking a key up finds the row.\<close>

lemma find_key_distinct:
  assumes "distinct (map k t)" "r \<in> set t"
  shows "find (\<lambda>x. k x = k r) t = Some r"
  using assms
proof (induction t)
  case (Cons a t)
  then show ?case by (cases "a = r") (auto simp: rev_image_eqI)
qed simp

lemma find_Some_in: "find p t = Some r \<Longrightarrow> r \<in> set t \<and> p r"
  by (auto simp: find_Some_iff)

lemma find_key_unique:
  assumes "distinct (map k t)" "find (\<lambda>x. k x = i) t = Some r" "r' \<in> set t" "k r' = i"
  shows "r' = r"
  using assms find_key_distinct[of k t r'] by simp

lemma find_append: "find p (xs @ ys) = (case find p xs of None \<Rightarrow> find p ys | Some x \<Rightarrow> Some x)"
  by (induction xs) auto

lemma find_update_where:
  "(\<And>x. k (f x) = k x) \<Longrightarrow>
    find (\<lambda>x. k x = i) (update_where (\<lambda>y. k y = i) f t) = map_option f (find (\<lambda>x. k x = i) t)"
  by (induction t) auto

text \<open>Splitting a sum, and a sum of positive amounts that is not positive.\<close>

lemma sum_by_split: "sum_by p g t = sum_by (\<lambda>r. p r \<and> q r) g t + sum_by (\<lambda>r. p r \<and> \<not> q r) g t"
  by (induction t) auto

lemma sum_by_pos_empty:
  assumes "\<And>r. r \<in> set t \<Longrightarrow> 0 < g r" "sum_by p g t \<le> 0"
  shows "filter p t = []"
  using assms
proof (induction t)
  case (Cons r t)
  have "0 \<le> sum_by p g t" using Cons.prems(1) by (intro sum_by_nonneg) (auto simp: less_imp_le)
  moreover have "0 < g r" by (rule Cons.prems(1)) simp
  ultimately have "\<not> p r" "sum_by p g t \<le> 0" using Cons.prems(2) by (cases "p r"; simp)+
  then show ?case using Cons.IH Cons.prems(1) by simp
qed simp

subsection \<open>Loops over selected rows\<close>

text \<open>A loop that updates, one by one and by key, the rows that a query selected has the
  effect of one UPDATE of the selected rows.\<close>

lemma fold_update_where:
  assumes "distinct (map k rows)" "\<And>r x. k (f r x) = k x"
  shows "fold (\<lambda>r. update_where (\<lambda>x. k x = k r) (f r)) rows t =
    map (\<lambda>x. case find (\<lambda>r. k r = k x) rows of None \<Rightarrow> x | Some r \<Rightarrow> f r x) t"
  using assms(1)
proof (induction rows arbitrary: t)
  case (Cons a rows)
  have none: "k x = k a \<Longrightarrow> find (\<lambda>r. k r = k x) rows = None" for x
    using Cons.prems by (auto simp: find_None_iff rev_image_eqI)
  show ?case using Cons none assms(2) by (auto simp: update_where_def)
qed simp

lemma find_filter_key:
  assumes "distinct (map k t)" "x \<in> set t"
  shows "find (\<lambda>r. k r = k x) (filter p t) = (if p x then Some x else None)"
proof (cases "p x")
  case True
  then show ?thesis using assms find_key_distinct[of k "filter p t" x] by (simp add: distinct_map_filter)
next
  case False
  then have "r \<in> set (filter p t) \<Longrightarrow> k r \<noteq> k x" for r
    using assms by (auto simp: distinct_map inj_on_def)
  then show ?thesis using False by (auto simp: find_None_iff)
qed

lemma fold_update_selected:
  assumes "distinct (map k t)" "\<And>r x. k (f r x) = k x"
  shows "fold (\<lambda>r. update_where (\<lambda>x. k x = k r) (f r)) (filter p t) t = update_where p (\<lambda>x. f x x) t"
  using assms by (subst fold_update_where)
    (auto simp: distinct_map_filter update_where_def find_filter_key)

text \<open>A projection of the loop state evolves on its own.\<close>

lemma fold_proj: "(\<And>x st. \<pi> (f x st) = g x (\<pi> st)) \<Longrightarrow> \<pi> (fold f xs st) = fold g xs (\<pi> st)"
  by (induction xs arbitrary: st) simp_all

lemma fold_same: "(\<And>x st. \<pi> (f x st) = \<pi> st) \<Longrightarrow> \<pi> (fold f xs st) = \<pi> st"
  by (induction xs arbitrary: st) simp_all

lemma fold_snoc_map: "fold (\<lambda>x acc. if p x then acc @ [h x] else acc) xs a = a @ map h (filter p xs)"
  by (induction xs arbitrary: a) simp_all

lemma fold_count: "fold (\<lambda>x n. if p x then Suc n else n) xs a = a + length (filter p xs)"
  by (induction xs arbitrary: a) simp_all

subsection \<open>Invariants of transition systems\<close>

text \<open>What a component with a step relation provides: an initial state that satisfies the
  invariant and steps that keep it. What it gets: every reachable state satisfies it.\<close>

locale invariant_system =
  fixes step :: "'s \<Rightarrow> 's \<Rightarrow> bool" and init :: 's and inv :: "'s \<Rightarrow> bool"
  assumes inv_init: "inv init"
    and inv_step: "step s s' \<Longrightarrow> inv s \<Longrightarrow> inv s'"
begin

lemma reach_inv: "step\<^sup>*\<^sup>* init s \<Longrightarrow> inv s"
  by (induction rule: rtranclp_induct) (auto intro: inv_init inv_step)

lemma reach_step_inv: "step\<^sup>*\<^sup>* init s \<Longrightarrow> step s s' \<Longrightarrow> inv s \<and> inv s'"
  using reach_inv inv_step by blast

text \<open>A quantity that no step lowers, on states with the invariant, is monotone along runs.\<close>

lemma reach_mono:
  fixes m :: "'s \<Rightarrow> 'a::preorder"
  assumes "step\<^sup>*\<^sup>* s s'" "inv s" "\<And>a b. inv a \<Longrightarrow> step a b \<Longrightarrow> m a \<le> m b"
  shows "m s \<le> m s' \<and> inv s'"
  using assms(1,2) by (induction rule: rtranclp_induct) (auto intro: inv_step order_trans assms(3))

end

end
