(* ===== verification/JsRuntime.thy ===== *)
theory JsRuntime
  imports Prelude
begin

text \<open>
  The pieces of the JavaScript runtime the money code relies on: the \<open>BigInt\<close>
  constructor on strings, \<open>bigint\<close> division and remainder (which truncate),
  \<open>String\<close>'s \<open>split\<close>, \<open>slice\<close>, \<open>padStart\<close> and \<open>padEnd\<close>, and decimal printing.
  Strings are lists of code units below 256, which covers every string the
  code's own schemas accept for an amount.
\<close>

subsection \<open>Characters and digits\<close>

definition code_unit :: "char \<Rightarrow> int" where
  "code_unit c = of_char c"

definition is_space :: "char \<Rightarrow> bool" where
  "is_space c \<longleftrightarrow> code_unit c \<in> {9, 10, 11, 12, 13, 32, 160}"

definition digit_val :: "char \<Rightarrow> int option" where
  "digit_val c = (let n = code_unit c in
     if 48 \<le> n \<and> n \<le> 57 then Some (n - 48)
     else if 97 \<le> n \<and> n \<le> 102 then Some (n - 87)
     else if 65 \<le> n \<and> n \<le> 70 then Some (n - 55)
     else None)"

definition is_digit :: "char \<Rightarrow> bool" where
  "is_digit c \<longleftrightarrow> 48 \<le> code_unit c \<and> code_unit c \<le> 57"

text \<open>The character class \<open>[A-Za-z0-9]\<close> of a regular expression.\<close>

definition ascii_alnum :: "char \<Rightarrow> bool" where
  "ascii_alnum c = (let u = code_unit c in 97 \<le> u \<and> u < 123 \<or> 65 \<le> u \<and> u < 91 \<or> 48 \<le> u \<and> u < 58)"

definition digit_char :: "int \<Rightarrow> char" where
  "digit_char n = char_of (48 + n)"

text \<open>The value of a digit string in a radix; \<open>None\<close> when a character is no digit of it.\<close>

fun parse_radix :: "int \<Rightarrow> string \<Rightarrow> int \<Rightarrow> int option" where
  "parse_radix r [] acc = Some acc"
| "parse_radix r (c # cs) acc = (case digit_val c of
     Some d \<Rightarrow> if d < r then parse_radix r cs (r * acc + d) else None
   | None \<Rightarrow> None)"

definition digits_value :: "int \<Rightarrow> string \<Rightarrow> int option" where
  "digits_value r s = (if s = [] then None else parse_radix r s 0)"

definition trim :: "string \<Rightarrow> string" where
  "trim s = rev (dropWhile is_space (rev (dropWhile is_space s)))"

text \<open>\<open>BigInt(s)\<close>: \<open>None\<close> is the \<open>SyntaxError\<close> it throws.\<close>

definition BigInt :: "string \<Rightarrow> int option" where
  "BigInt s = (let t = trim s in
     if t = [] then Some 0
     else if hd t = CHR ''-'' then map_option uminus (digits_value 10 (tl t))
     else if hd t = CHR ''+'' then digits_value 10 (tl t)
     else if take 2 t = ''0x'' \<or> take 2 t = ''0X'' then digits_value 16 (drop 2 t)
     else if take 2 t = ''0o'' \<or> take 2 t = ''0O'' then digits_value 8 (drop 2 t)
     else if take 2 t = ''0b'' \<or> take 2 t = ''0B'' then digits_value 2 (drop 2 t)
     else digits_value 10 t)"

function digits :: "int \<Rightarrow> string" where
  "digits n = (if n < 10 then [digit_char n] else digits (n div 10) @ [digit_char (n mod 10)])"
  by auto
termination by (relation "measure nat") auto

declare digits.simps [simp del]

text \<open>\<open>String(n)\<close> of a bigint.\<close>

definition int_dec :: "int \<Rightarrow> string" where
  "int_dec i = (if i < 0 then CHR ''-'' # digits (- i) else digits i)"

subsection \<open>String methods\<close>

fun split_at :: "char \<Rightarrow> string \<Rightarrow> string list" where
  "split_at d [] = [[]]"
| "split_at d (c # cs) = (if c = d then [] # split_at d cs
     else (case split_at d cs of [] \<Rightarrow> [[c]] | p # ps \<Rightarrow> (c # p) # ps))"

definition padEnd :: "nat \<Rightarrow> char \<Rightarrow> string \<Rightarrow> string" where
  "padEnd n c s = s @ replicate (n - length s) c"

definition padStart :: "nat \<Rightarrow> char \<Rightarrow> string \<Rightarrow> string" where
  "padStart n c s = replicate (n - length s) c @ s"

text \<open>Destructuring \<open>const [a, b = d] = s.split(".")\<close>.\<close>

definition split_dot :: "string \<Rightarrow> string \<Rightarrow> string \<times> string" where
  "split_dot s d = (case split_at CHR ''.'' s of
     [] \<Rightarrow> ([], d) | [a] \<Rightarrow> (a, d) | a # b # _ \<Rightarrow> (a, b))"

subsection \<open>Facts\<close>

lemma digit_val_digit_char [simp]: "0 \<le> d \<Longrightarrow> d < 10 \<Longrightarrow> digit_val (digit_char d) = Some d"
  by (simp add: digit_val_def digit_char_def code_unit_def)

lemma is_digit_digit_char [simp]: "0 \<le> d \<Longrightarrow> d < 10 \<Longrightarrow> is_digit (digit_char d)"
  by (simp add: is_digit_def digit_char_def code_unit_def)

lemma digit_val_is_digit: "is_digit c \<Longrightarrow> \<exists>d. digit_val c = Some d \<and> 0 \<le> d \<and> d < 10"
  by (auto simp: is_digit_def digit_val_def Let_def)

lemma is_digit_not:
  assumes "is_digit c"
  shows "\<not> is_space c" "c \<noteq> CHR ''-''" "c \<noteq> CHR ''+''" "c \<noteq> CHR ''.''"
    "c \<noteq> CHR ''x''" "c \<noteq> CHR ''X''" "c \<noteq> CHR ''o''" "c \<noteq> CHR ''O''" "c \<noteq> CHR ''b''" "c \<noteq> CHR ''B''"
  using assms by (auto simp: is_digit_def is_space_def code_unit_def)

definition digit_string :: "string \<Rightarrow> bool" where
  "digit_string s \<longleftrightarrow> s \<noteq> [] \<and> list_all is_digit s"

lemma parse_radix_append:
  "parse_radix r (xs @ ys) a = (case parse_radix r xs a of None \<Rightarrow> None | Some b \<Rightarrow> parse_radix r ys b)"
  by (induction xs arbitrary: a) (auto split: option.splits)

lemma parse_radix_digits:
  "list_all is_digit s \<Longrightarrow> 0 \<le> a \<Longrightarrow> \<exists>n. parse_radix 10 s a = Some n \<and> a \<le> n"
proof (induction s arbitrary: a)
  case (Cons c s)
  then obtain d where d: "digit_val c = Some d" "0 \<le> d" "d < 10" using digit_val_is_digit by auto
  obtain n where "parse_radix 10 s (10 * a + d) = Some n" "10 * a + d \<le> n"
    using Cons.IH[of "10 * a + d"] Cons.prems d by auto
  then show ?case using d Cons.prems by auto
qed simp

lemma parse_radix_digits_id [simp]: "0 \<le> n \<Longrightarrow> parse_radix 10 (digits n) 0 = Some n"
proof (induction n rule: digits.induct)
  case (1 n)
  then show ?case by (subst digits.simps) (auto simp: parse_radix_append)
qed

lemma list_all_digits [simp]: "0 \<le> n \<Longrightarrow> list_all is_digit (digits n)"
proof (induction n rule: digits.induct)
  case (1 n)
  then show ?case by (subst digits.simps) auto
qed

lemma digits_ne [simp]: "digits n \<noteq> []"
  by (subst digits.simps) auto

lemma digit_string_digits [simp]: "0 \<le> n \<Longrightarrow> digit_string (digits n)"
  by (simp add: digit_string_def)

lemma length_digits_le: "n < 10 ^ k \<Longrightarrow> 0 < k \<Longrightarrow> length (digits n) \<le> k"
proof (induction n arbitrary: k rule: digits.induct)
  case (1 n)
  show ?case
  proof (cases "n < 10")
    case True then show ?thesis using 1(3) by (subst digits.simps) auto
  next
    case False
    then have "k \<noteq> 1" using 1(2) by auto
    then obtain j where j: "k = Suc j" "0 < j" using 1(3) by (cases k) auto
    have "n < 10 * 10 ^ j" using 1(2) j by simp
    then have "n div 10 < 10 ^ j" by simp
    then have "length (digits (n div 10)) \<le> j" using 1(1) False j by simp
    then show ?thesis using False j by (subst digits.simps) auto
  qed
qed

lemma trim_digit_string [simp]: "digit_string s \<Longrightarrow> trim s = s"
proof -
  assume s: "digit_string s"
  then have "dropWhile is_space s = s" by (cases s) (auto simp: digit_string_def is_digit_not)
  moreover have "dropWhile is_space (rev s) = rev s"
  proof (cases "rev s")
    case (Cons c t)
    then have "c \<in> set s" by (metis list.set_intros(1) set_rev)
    then show ?thesis using s Cons by (simp add: digit_string_def list_all_iff is_digit_not)
  qed simp
  ultimately show ?thesis by (simp add: trim_def)
qed

lemma take2_digit_string:
  "digit_string s \<Longrightarrow> \<not> is_digit x \<Longrightarrow> take 2 s \<noteq> [c, x]"
  by (cases s; cases "tl s") (auto simp: digit_string_def)

lemma not_digit_radix_mark [simp]:
  "\<not> is_digit CHR ''x''" "\<not> is_digit CHR ''X''" "\<not> is_digit CHR ''o''"
  "\<not> is_digit CHR ''O''" "\<not> is_digit CHR ''b''" "\<not> is_digit CHR ''B''"
  by (simp_all add: is_digit_def code_unit_def)

lemma BigInt_digit_string [simp]:
  assumes "digit_string s"
  shows "BigInt s = parse_radix 10 s 0"
proof -
  have ne: "s \<noteq> []" and hd: "is_digit (hd s)"
    using assms by (cases s; simp add: digit_string_def)+
  show ?thesis
    using assms ne is_digit_not(2,3)[OF hd]
    by (simp add: BigInt_def digits_value_def take2_digit_string)
qed

lemma split_at_no_sep: "c \<notin> set s \<Longrightarrow> split_at c s = [s]"
  by (induction s) auto

lemma split_at_sep: "c \<notin> set s \<Longrightarrow> split_at c (s @ c # t) = s # split_at c t"
  by (induction s) auto

lemma digits_no_dot: "list_all is_digit s \<Longrightarrow> CHR ''.'' \<notin> set s"
  by (auto simp: list_all_iff is_digit_def code_unit_def)

lemma split_dot_digits [simp]:
  "list_all is_digit a \<Longrightarrow> list_all is_digit b \<Longrightarrow> split_dot (a @ CHR ''.'' # b) d = (a, b)"
  by (simp add: split_dot_def split_at_sep split_at_no_sep digits_no_dot)

lemma split_dot_integer [simp]: "list_all is_digit a \<Longrightarrow> split_dot a d = (a, d)"
  by (simp add: split_dot_def split_at_no_sep digits_no_dot)

lemma digit_zero [simp]: "digit_val CHR ''0'' = Some 0" "is_digit CHR ''0''"
  by (simp_all add: digit_val_def is_digit_def code_unit_def)

lemma parse_radix_zeros [simp]: "0 < r \<Longrightarrow> parse_radix r (replicate m CHR ''0'' @ s) 0 = parse_radix r s 0"
  by (induction m) auto

lemma parse_padStart [simp]: "0 < r \<Longrightarrow> parse_radix r (padStart k CHR ''0'' s) 0 = parse_radix r s 0"
  by (simp add: padStart_def)

lemma list_all_padStart [simp]:
  "list_all is_digit (padStart k CHR ''0'' s) = list_all is_digit s"
  by (auto simp: padStart_def list_all_iff)

lemma digit_string_padStart [simp]: "digit_string s \<Longrightarrow> digit_string (padStart k CHR ''0'' s)"
  by (auto simp: digit_string_def padStart_def list_all_iff)

lemma length_padStart [simp]: "length s \<le> k \<Longrightarrow> length (padStart k c s) = k"
  by (simp add: padStart_def)

lemma padEnd_full [simp]: "k \<le> length s \<Longrightarrow> padEnd k c s = s"
  by (simp add: padEnd_def)

lemma int_dec_nonneg: "0 \<le> i \<Longrightarrow> int_dec i = digits i"
  by (simp add: int_dec_def)

lemma sdiv_nonneg: "0 \<le> a \<Longrightarrow> 0 < b \<Longrightarrow> a sdiv b = a div (b::int)"
  by (simp add: signed_divide_int_def sgn_if)

lemma smod_nonneg: "0 \<le> a \<Longrightarrow> 0 < b \<Longrightarrow> a smod b = a mod (b::int)"
  by (cases "a = 0") (simp_all add: signed_modulo_int_def)

end
