(* ===== verification/Currency.thy ===== *)
theory Currency
  imports JsRuntime
begin

text \<open>
  The money helpers: \<open>shared/domain/currency.ts\<close> (cents and EURC micro units),
  \<open>shared/domain/position.ts\<close>, and how a NUMERIC(15,2) column reads as text.
  \<open>None\<close> is the \<open>SyntaxError\<close> that \<open>BigInt\<close> throws on malformed text.
\<close>

subsection \<open>Definitions\<close>

definition toCents :: "string \<Rightarrow> int option" where
  "toCents value = (let (euros, fraction) = split_dot value ''00'' in
     case BigInt euros of None \<Rightarrow> None
     | Some e \<Rightarrow> (case BigInt (take 2 (padEnd 2 CHR ''0'' fraction)) of None \<Rightarrow> None
       | Some f \<Rightarrow> Some (e * 100 + f)))"

definition fromCents :: "int \<Rightarrow> string" where
  "fromCents value = int_dec (value sdiv 100) @ ''.'' @ padStart 2 CHR ''0'' (int_dec (value smod 100))"

definition subtractCurrencyFloorZero :: "string \<Rightarrow> string \<Rightarrow> string option" where
  "subtractCurrencyFloorZero a b = (case toCents a of None \<Rightarrow> None
     | Some l \<Rightarrow> (case toCents b of None \<Rightarrow> None
       | Some r \<Rightarrow> Some (fromCents (if l - r > 0 then l - r else 0))))"

definition toEurcMicros :: "string \<Rightarrow> int option" where
  "toEurcMicros value = (let (euros, fraction) = split_dot value ''000000'' in
     case BigInt euros of None \<Rightarrow> None
     | Some e \<Rightarrow> (case BigInt (take 6 (padEnd 6 CHR ''0'' fraction)) of None \<Rightarrow> None
       | Some f \<Rightarrow> Some (e * 1000000 + f)))"

definition fromEurcMicros :: "int \<Rightarrow> string" where
  "fromEurcMicros micros = (let negative = micros < 0;
      absolute = (if negative then - micros else micros);
      euros = absolute sdiv 1000000;
      fraction = padStart 6 CHR ''0'' (int_dec (absolute smod 1000000))
    in (if negative then ''-'' else []) @ int_dec euros @ ''.'' @ fraction)"

definition costBasisToUnitCount :: "string \<Rightarrow> string" where
  "costBasisToUnitCount costBasisEur = costBasisEur"

definition normalizeCurrency :: "string \<Rightarrow> string option" where
  "normalizeCurrency value = (let (euros, fraction) = split_dot value ''00'' in
     case BigInt euros of None \<Rightarrow> None
     | Some e \<Rightarrow> (case BigInt (take 2 (padEnd 2 CHR ''0'' fraction)) of None \<Rightarrow> None
       | Some f \<Rightarrow> let cents = e * 100 + f in
           Some (int_dec (cents sdiv 100) @ ''.'' @ padStart 2 CHR ''0'' (int_dec (cents smod 100)))))"

text \<open>The request schemas accept an amount by the pattern \<open>/^\d+\.\d{2}$/\<close>.\<close>

definition currency_pattern :: "string \<Rightarrow> bool" where
  "currency_pattern s \<longleftrightarrow> 4 \<le> length s \<and> digit_string (take (length s - 3) s) \<and>
     s ! (length s - 3) = CHR ''.'' \<and> list_all is_digit (drop (length s - 2) s)"

text \<open>A plain decimal text stored into a NUMERIC column with \<open>k\<close> fraction digits:
  PostgreSQL rounds half away from zero.\<close>

definition numericText :: "nat \<Rightarrow> string \<Rightarrow> int option" where
  "numericText k s = (let negative = (s \<noteq> [] \<and> hd s = CHR ''-'');
      t = (if negative then tl s else s);
      (whole, fraction) = split_dot t [];
      scaled = parse_radix 10 (whole @ take k (padEnd k CHR ''0'' fraction)) 0;
      up = (if k < length fraction then
              (case digit_val (fraction ! k) of None \<Rightarrow> 0 | Some d \<Rightarrow> if d \<ge> 5 then 1 else 0) else 0)
    in if whole @ fraction \<noteq> [] \<and> list_all is_digit (whole @ fraction) then
         (case scaled of None \<Rightarrow> None
          | Some v \<Rightarrow> Some (if negative then - (v + up) else v + up))
       else None)"

subsection \<open>Fixed-point text\<close>

text \<open>
  What the code needs of a pair of money converters: a printer with a fixed number
  of fraction digits and a parser that reads digits on both sides of the point.
\<close>

locale decimal_codec =
  fixes parse :: "string \<Rightarrow> int option"
    and print :: "int \<Rightarrow> string"
    and k :: nat
  assumes k_pos: "0 < k"
    and parse_digits: "\<lbrakk>digit_string a; digit_string f; length f = k;
        parse_radix 10 a 0 = Some m; parse_radix 10 f 0 = Some n\<rbrakk>
      \<Longrightarrow> parse (a @ CHR ''.'' # f) = Some (m * 10 ^ k + n)"
    and print_digits: "0 \<le> v \<Longrightarrow> print v =
        digits (v div 10 ^ k) @ CHR ''.'' # padStart k CHR ''0'' (digits (v mod 10 ^ k))"
begin

lemma frac_length: "length (padStart k CHR ''0'' (digits (n mod 10 ^ k))) = k"
  using k_pos by (simp add: length_digits_le)

lemma roundtrip:
  assumes "0 \<le> v"
  shows "parse (print v) = Some v"
proof -
  have "0 \<le> v div 10 ^ k" using assms by (simp add: pos_imp_zdiv_nonneg_iff)
  then have "parse (print v) = Some (v div 10 ^ k * 10 ^ k + v mod 10 ^ k)"
    using assms by (simp add: print_digits parse_digits frac_length)
  also have "\<dots> = Some v" by (metis div_mult_mod_eq)
  finally show ?thesis .
qed

lemma print_inj: "0 \<le> v \<Longrightarrow> 0 \<le> w \<Longrightarrow> print v = print w \<Longrightarrow> v = w"
  using roundtrip by (metis option.inject)

lemma parse_total:
  assumes "digit_string a" "digit_string f" "length f = k"
  shows "\<exists>v\<ge>0. parse (a @ CHR ''.'' # f) = Some v"
proof -
  obtain m n where "parse_radix 10 a 0 = Some m" "0 \<le> m" "parse_radix 10 f 0 = Some n" "0 \<le> n"
    using assms parse_radix_digits[of a 0] parse_radix_digits[of f 0]
    by (auto simp: digit_string_def)
  then show ?thesis using parse_digits[OF assms] by simp
qed

end

interpretation cents: decimal_codec toCents fromCents 2
proof (unfold_locales, goal_cases)
  case (2 a f m n)
  then show ?case by (auto simp: toCents_def digit_string_def)
next
  case (3 v)
  then show ?case
    by (simp add: fromCents_def int_dec_nonneg sdiv_nonneg smod_nonneg pos_imp_zdiv_nonneg_iff)
qed simp

interpretation eurc: decimal_codec toEurcMicros fromEurcMicros 6
proof (unfold_locales, goal_cases)
  case (2 a f m n)
  then show ?case by (auto simp: toEurcMicros_def digit_string_def)
next
  case (3 v)
  then show ?case
    by (simp add: fromEurcMicros_def Let_def int_dec_nonneg sdiv_nonneg smod_nonneg pos_imp_zdiv_nonneg_iff)
qed simp

lemma normalizeCurrency_eq: "normalizeCurrency v = map_option fromCents (toCents v)"
  by (simp add: normalizeCurrency_def toCents_def fromCents_def Let_def
      split: prod.splits option.splits)

lemma currency_patternE:
  assumes "currency_pattern s"
  obtains a f where "s = a @ CHR ''.'' # f" "digit_string a" "digit_string f" "length f = 2"
proof
  let ?n = "length s - 3"
  have l: "4 \<le> length s" using assms by (simp add: currency_pattern_def)
  have "s = take ?n s @ s ! ?n # drop (Suc ?n) s" using l by (intro id_take_nth_drop) simp
  moreover have "Suc ?n = length s - 2" using l by simp
  ultimately show "s = take ?n s @ CHR ''.'' # drop (length s - 2) s"
    using assms by (simp add: currency_pattern_def)
  show "digit_string (take ?n s)" using assms by (simp add: currency_pattern_def)
  show "digit_string (drop (length s - 2) s)" using assms l
    by (simp add: currency_pattern_def digit_string_def)
  show "length (drop (length s - 2) s) = 2" using l by simp
qed

lemma toCents_currency_pattern: "currency_pattern s \<Longrightarrow> \<exists>v\<ge>0. toCents s = Some v"
  by (elim currency_patternE) (simp add: cents.parse_total)

lemma subtractCurrencyFloorZero_fromCents:
  "0 \<le> a \<Longrightarrow> 0 \<le> b \<Longrightarrow>
    subtractCurrencyFloorZero (fromCents a) (fromCents b) = Some (fromCents (max 0 (a - b)))"
  by (simp add: subtractCurrencyFloorZero_def cents.roundtrip max_def)

lemma fromCents_zero: "fromCents 0 = ''0.00''"
  by code_simp

lemma fromCents_eq_zero_iff: "0 \<le> v \<Longrightarrow> fromCents v = ''0.00'' \<longleftrightarrow> v = 0"
  using cents.print_inj[of v 0] fromCents_zero by auto

text \<open>On the amounts the request schemas accept, the stored NUMERIC(15,2) value is what
  \<^const>\<open>toCents\<close> reads.\<close>

lemma parse_radix_scale:
  assumes "parse_radix 10 a 0 = Some m" "parse_radix 10 f 0 = Some n"
  shows "parse_radix 10 (a @ f) 0 = Some (m * 10 ^ length f + n)"
proof -
  have "\<exists>n. parse_radix 10 f 0 = Some n \<Longrightarrow>
      parse_radix 10 f c = Some (c * 10 ^ length f + the (parse_radix 10 f 0))" for c
  proof (induction f rule: rev_induct)
    case (snoc x xs)
    then show ?case by (auto simp: parse_radix_append algebra_simps split: option.splits if_splits)
  qed simp
  then show ?thesis using assms by (simp add: parse_radix_append)
qed

lemma numericText_currency_pattern:
  assumes "currency_pattern s"
  shows "numericText 2 s = toCents s"
proof -
  obtain a f where s: "s = a @ CHR ''.'' # f" "digit_string a" "digit_string f" "length f = 2"
    using assms by (rule currency_patternE)
  obtain m n where mn: "parse_radix 10 a 0 = Some m" "parse_radix 10 f 0 = Some n"
    using s parse_radix_digits[of a 0] parse_radix_digits[of f 0] by (auto simp: digit_string_def)
  have "hd s \<noteq> CHR ''-''" using s(1,2) by (cases a) (auto simp: digit_string_def is_digit_not)
  then have "numericText 2 s = Some (m * 10 ^ 2 + n)"
    using s mn parse_radix_scale[OF mn] by (simp add: numericText_def digit_string_def)
  also have "\<dots> = toCents s" using s mn cents.parse_digits by simp
  finally show ?thesis .
qed

lemma fromCents_pattern: "0 \<le> v \<Longrightarrow> currency_pattern (fromCents v)"
proof -
  assume v: "0 \<le> v"
  let ?a = "digits (v div 100)" and ?f = "padStart 2 CHR ''0'' (digits (v mod 100))"
  have print: "fromCents v = ?a @ CHR ''.'' # ?f" using cents.print_digits[OF v] by simp
  have f: "length ?f = 2" "list_all is_digit ?f" using cents.frac_length[of v] by simp_all
  have a: "digit_string ?a" "0 < length ?a" using v by (simp_all add: pos_imp_zdiv_nonneg_iff)
  show ?thesis unfolding currency_pattern_def print using f a by (simp add: nth_append Suc_leI)
qed

lemma numericText_fromCents: "0 \<le> v \<Longrightarrow> numericText 2 (fromCents v) = Some v"
  by (simp add: numericText_currency_pattern fromCents_pattern cents.roundtrip)

text \<open>A euro amount read as EURC: one cent is ten thousand micros.\<close>

lemma toEurcMicros_fromCents:
  assumes "0 \<le> v"
  shows "toEurcMicros (fromCents v) = Some (v * 10000)"
proof -
  let ?a = "digits (v div 100)" and ?f = "padStart 2 CHR ''0'' (digits (v mod 100))"
  have print: "fromCents v = ?a @ CHR ''.'' # ?f" using cents.print_digits[OF assms] by simp
  have f: "length ?f = 2" "digit_string ?f" using cents.frac_length[of v] by simp_all
  have pad: "padEnd 6 CHR ''0'' ?f = ?f @ ''0000''" using f(1) by (simp add: padEnd_def eval_nat_numeral)
  have zeros: "parse_radix 10 ''0000'' 0 = Some 0" by code_simp
  have "parse_radix 10 (?f @ ''0000'') 0 = Some (v mod 100 * 10000)"
    using parse_radix_scale[OF _ zeros, of ?f "v mod 100"] by simp
  moreover have "digit_string (?f @ ''0000'')" using f(2) by (simp add: digit_string_def)
  moreover have "digit_string ?a" "list_all is_digit ?a" "list_all is_digit ?f" using assms f(2)
    by (simp_all add: pos_imp_zdiv_nonneg_iff digit_string_def)
  ultimately have "toEurcMicros (fromCents v) = Some (v div 100 * 1000000 + v mod 100 * 10000)"
    using f(1) pad assms by (simp add: toEurcMicros_def print pos_imp_zdiv_nonneg_iff)
  moreover have "v div 100 * 1000000 + v mod 100 * 10000 = (v div 100 * 100 + v mod 100) * 10000"
    by (simp only: distrib_right mult.assoc arith_simps)
  ultimately show ?thesis by (simp only: div_mult_mod_eq)
qed

end
