(* ===== verification/OfferingPolicy.thy ===== *)
theory OfferingPolicy
  imports Currency
begin

text \<open>
  The pure policies of \<open>modules/offering/domain\<close>: disclosure packs, the
  finalization gate and the reconfirmation window, materiality, reminders, and
  reservation eligibility. Enumerations keep the source's values, capitalised.
\<close>

subsection \<open>Disclosure packs (disclosure-pack.policy.ts)\<close>

datatype DisclosureDocumentType =
    Ecsp_kiis | Priips_kid | Final_offer_summary | Final_terms_sheet
  | Issuer_offeror_structure_sheet | Investor_rights_payout_waterfall_summary
  | Risk_factors_summary | Property_appraisal_summary | Fees_costs_tax_liquidity_summary
  | Withdrawal_cancellation_supplement_rights_notice | Full_prospectus

definition disclosureDocumentTypes :: "DisclosureDocumentType list" where
  "disclosureDocumentTypes =
    [Ecsp_kiis, Priips_kid, Final_offer_summary, Final_terms_sheet,
     Issuer_offeror_structure_sheet, Investor_rights_payout_waterfall_summary,
     Risk_factors_summary, Property_appraisal_summary, Fees_costs_tax_liquidity_summary,
     Withdrawal_cancellation_supplement_rights_notice, Full_prospectus]"

definition isCoreReadingDocumentType :: "DisclosureDocumentType \<Rightarrow> bool" where
  "isCoreReadingDocumentType t \<longleftrightarrow> t \<noteq> Full_prospectus"

definition isCompleteDisclosurePack :: "DisclosureDocumentType list \<Rightarrow> bool" where
  "isCompleteDisclosurePack documentTypes \<longleftrightarrow>
     list_all (\<lambda>required. required \<in> set documentTypes) disclosureDocumentTypes"

subsection \<open>Finalization (finalization.policy.ts)\<close>

datatype offeringStatus = Pre_offering | Final_offering | Closed

definition canPublishFinalOfferingTerms ::
  "offeringStatus \<Rightarrow> time option \<Rightarrow> string \<Rightarrow> string \<Rightarrow> bool option" where
  "canPublishFinalOfferingTerms status finalOfferingPublishedAt targetRaiseEur fundedEur =
    (if status = Pre_offering \<and> finalOfferingPublishedAt = None then
       (case toCents fundedEur of None \<Rightarrow> None | Some f \<Rightarrow>
         (case toCents targetRaiseEur of None \<Rightarrow> None | Some t \<Rightarrow> Some (f \<ge> t)))
     else Some False)"

definition PLATFORM_RIGHTS_WINDOW_HOURS :: int where
  "PLATFORM_RIGHTS_WINDOW_HOURS = 168"

definition computeEffectiveRightsEndAt :: "time \<Rightarrow> time" where
  "computeEffectiveRightsEndAt publishedAt = publishedAt + PLATFORM_RIGHTS_WINDOW_HOURS * 60 * 60 * 1000"

definition isReconfirmationWindowOpen :: "time \<Rightarrow> time \<Rightarrow> bool" where
  "isReconfirmationWindowOpen effectiveRightsEndAt now \<longleftrightarrow> now < effectiveRightsEndAt"

subsection \<open>Materiality and public statuses\<close>

datatype MaterialityClassification = Per_se_material | Reviewed_material | Non_material

datatype MaterialityThresholdType = Valuation | Cashflow | Gross_rent | Closing_delay

definition materialityResetTriggered :: "MaterialityClassification \<Rightarrow> bool" where
  "materialityResetTriggered classification \<longleftrightarrow> classification \<noteq> Non_material"

definition isPublicOfferingStatus :: "offeringStatus \<Rightarrow> bool" where
  "isPublicOfferingStatus status \<longleftrightarrow> status \<in> {Pre_offering, Final_offering}"

subsection \<open>Reconfirmation reminders (reconfirmation-reminder.policy.ts)\<close>

definition isReconfirmationReminderDue ::
  "int \<Rightarrow> time option \<Rightarrow> time \<Rightarrow> time \<Rightarrow> time \<Rightarrow> bool" where
  "isReconfirmationReminderDue intervalHours lastReminderSentAt finalOfferingPublishedAt
     effectiveRightsEndAt now =
    (if now \<ge> effectiveRightsEndAt then False
     else if intervalHours \<le> 0 then False
     else (let since = (case lastReminderSentAt of None \<Rightarrow> finalOfferingPublishedAt | Some s \<Rightarrow> s);
               dueAt = since + intervalHours * 60 * 60 * 1000
           in now \<ge> dueAt))"

subsection \<open>Reservation eligibility (reservation-eligibility.policy.ts)\<close>

datatype ReservationBlocker =
    Account_restricted | Kyc_not_eligible | Kyc_renewal_due | Login_methods_incomplete
  | Payment_account_not_ready | Disclosure_pack_unavailable | Offering_not_open
  | Capacity_exhausted | Funding_rail_unavailable | Recovery_cooldown_active

datatype accountStatus = Active | Recovery_review | Suspended_restricted

datatype loginMethod = Passkey | Google | Apple | Device_key

datatype capitalState =
    Capital_initiated | Eurc_purchase_pending | Eurc_reserved | Purchase_failed
  | Reconfirmation_pending | Eurc_finalized

definition FUNDED_CAPITAL_STATES :: "capitalState list" where
  "FUNDED_CAPITAL_STATES = [Eurc_reserved, Reconfirmation_pending, Eurc_finalized]"

definition isReservationFunded :: "capitalState option \<Rightarrow> bool" where
  "isReservationFunded latestCapitalState \<longleftrightarrow>
    (case latestCapitalState of None \<Rightarrow> False | Some s \<Rightarrow> s \<in> set FUNDED_CAPITAL_STATES)"

definition isKycCurrent :: "string option \<Rightarrow> time option \<Rightarrow> time \<Rightarrow> bool" where
  "isKycCurrent kycEligibilityState kycRenewalDueAt now \<longleftrightarrow>
    kycEligibilityState = Some ''eligible'' \<and>
    (case kycRenewalDueAt of None \<Rightarrow> False | Some d \<Rightarrow> d > now)"

definition isLoginMethodsComplete :: "loginMethod list \<Rightarrow> bool" where
  "isLoginMethodsComplete methods \<longleftrightarrow>
    Device_key \<in> set methods \<and> (Google \<in> set methods \<or> Apple \<in> set methods)"

definition isInvestmentEligible :: "accountStatus \<Rightarrow> bool \<Rightarrow> bool \<Rightarrow> bool" where
  "isInvestmentEligible status kycCurrent loginMethodsComplete \<longleftrightarrow>
    status = Active \<and> kycCurrent \<and> loginMethodsComplete"

record blockerInput =
  bi_now :: time
  bi_fundingRailAvailable :: bool
  bi_offeringStatus :: offeringStatus
  bi_finalTermsPublished :: bool
  bi_hasDisclosurePack :: bool
  bi_remainingCapacityEur :: string
  bi_accountStatus :: accountStatus
  bi_kycEligibilityState :: "string option"
  bi_kycRenewalDueAt :: "time option"
  bi_loginMethods :: "loginMethod list"
  bi_walletProvisioned :: bool
  bi_recoveryCooldownEndsAt :: "time option"

text \<open>The pushes of the source, in its order: \<open>b_if c x\<close> pushes \<open>x\<close> when \<open>c\<close> holds.\<close>

definition b_if :: "bool \<Rightarrow> ReservationBlocker \<Rightarrow> ReservationBlocker list" where
  "b_if c x = (if c then [x] else [])"

definition computeReservationBlockers :: "blockerInput \<Rightarrow> ReservationBlocker list" where
  "computeReservationBlockers i =
    (let kycCurrent = isKycCurrent (bi_kycEligibilityState i) (bi_kycRenewalDueAt i) (bi_now i);
         loginMethodsComplete = isLoginMethodsComplete (bi_loginMethods i)
     in b_if (bi_accountStatus i \<noteq> Active) Account_restricted
      @ (if bi_kycEligibilityState i \<noteq> Some ''eligible'' then [Kyc_not_eligible]
         else b_if (\<not> kycCurrent) Kyc_renewal_due)
      @ b_if (\<not> loginMethodsComplete) Login_methods_incomplete
      @ b_if (\<not> bi_walletProvisioned i) Payment_account_not_ready
      @ b_if (\<not> bi_hasDisclosurePack i) Disclosure_pack_unavailable
      @ b_if (bi_offeringStatus i \<noteq> Pre_offering \<or> bi_finalTermsPublished i) Offering_not_open
      @ b_if (bi_remainingCapacityEur i = ''0.00'') Capacity_exhausted
      @ b_if (\<not> bi_fundingRailAvailable i) Funding_rail_unavailable
      @ b_if (case bi_recoveryCooldownEndsAt i of None \<Rightarrow> False | Some e \<Rightarrow> e > bi_now i)
          Recovery_cooldown_active)"

definition isReservationExpired :: "time \<Rightarrow> time \<Rightarrow> int \<Rightarrow> bool" where
  "isReservationExpired createdAt now expiryMinutes \<longleftrightarrow> createdAt + expiryMinutes * 60000 < now"

subsection \<open>Facts\<close>

lemma b_if_Nil [simp]: "b_if c x = [] \<longleftrightarrow> \<not> c"
  by (simp add: b_if_def)

lemma set_b_if [simp]: "set (b_if c x) = (if c then {x} else {})"
  by (cases c) (simp_all add: b_if_def)

lemma set_disclosureDocumentTypes: "set disclosureDocumentTypes = UNIV"
proof -
  have "t \<in> set disclosureDocumentTypes" for t
    by (cases t) (simp_all add: disclosureDocumentTypes_def)
  then show ?thesis by blast
qed

lemma isCompleteDisclosurePack_iff: "isCompleteDisclosurePack ts \<longleftrightarrow> set ts = UNIV"
  by (auto simp: isCompleteDisclosurePack_def list_all_iff set_disclosureDocumentTypes)

lemma isKycCurrent_eligible: "isKycCurrent s d n \<Longrightarrow> s = Some ''eligible''"
  by (simp add: isKycCurrent_def)

lemma computeReservationBlockers_Nil:
  "computeReservationBlockers i = [] \<longleftrightarrow>
    isInvestmentEligible (bi_accountStatus i)
      (isKycCurrent (bi_kycEligibilityState i) (bi_kycRenewalDueAt i) (bi_now i))
      (isLoginMethodsComplete (bi_loginMethods i)) \<and>
    bi_walletProvisioned i \<and> bi_hasDisclosurePack i \<and>
    bi_offeringStatus i = Pre_offering \<and> \<not> bi_finalTermsPublished i \<and>
    bi_remainingCapacityEur i \<noteq> ''0.00'' \<and> bi_fundingRailAvailable i \<and>
    (\<forall>e. bi_recoveryCooldownEndsAt i = Some e \<longrightarrow> e \<le> bi_now i)"
  by (auto simp: computeReservationBlockers_def isInvestmentEligible_def Let_def not_less
      dest: isKycCurrent_eligible split: option.splits)

lemma distinct_computeReservationBlockers: "distinct (computeReservationBlockers i)"
  by (auto simp: computeReservationBlockers_def Let_def b_if_def)

lemma canPublishFinalOfferingTerms_fromCents:
  "0 \<le> t \<Longrightarrow> 0 \<le> f \<Longrightarrow>
    canPublishFinalOfferingTerms s p (fromCents t) (fromCents f) = Some (s = Pre_offering \<and> p = None \<and> t \<le> f)"
  by (simp add: canPublishFinalOfferingTerms_def cents.roundtrip)

lemma window_open_after_publish: "isReconfirmationWindowOpen (computeEffectiveRightsEndAt t) t"
  by (simp add: isReconfirmationWindowOpen_def computeEffectiveRightsEndAt_def
      PLATFORM_RIGHTS_WINDOW_HOURS_def)

text \<open>A reminder is never due outside the window, and two reminders are at least the
  interval apart.\<close>

lemma reminder_due_window:
  "isReconfirmationReminderDue h l p e n \<Longrightarrow> isReconfirmationWindowOpen e n"
  by (simp add: isReconfirmationReminderDue_def isReconfirmationWindowOpen_def split: if_splits)

lemma reminder_spacing:
  "isReconfirmationReminderDue h (Some l) p e n \<Longrightarrow> l + h * 3600000 \<le> n \<and> 0 < h"
  by (simp add: isReconfirmationReminderDue_def Let_def split: if_splits)

end
