(* ===== verification/OfferingStore.thy ===== *)
theory OfferingStore
  imports OfferingPolicy "HOL-Library.Char_ord" "HOL-Library.List_Lexorder"
begin

text \<open>
  The transactions of \<open>PrismaOfferingRepository\<close>
  (\<open>modules/offering/repository/prisma-offering.repository.ts\<close>) over an explicit
  store with one list per table. Every transaction takes a row lock on the
  offering or the reservation it works on, so a run of the system is a sequence
  of these operations. A NUMERIC(15,2) column is an integer number of cents and
  reads as text through \<^const>\<open>fromCents\<close>. The identifiers that \<open>ulid()\<close> yields are
  the values of a parameter at successive positions of the counter \<open>st_ulids\<close>.
  A constraint of the schema that an insert violates aborts the transaction:
  the operation then returns \<open>Throws\<close> and the store is unchanged.
\<close>

subsection \<open>Tables\<close>

datatype reservationStage =
  Initiated | Awaiting_reconfirmation | Reconfirmed | Finalized | Lapsed | Cancelled

record offering =
  o_id :: ident
  o_pivId :: ident
  o_minimumRaiseEur :: int
  o_targetRaiseEur :: int
  o_status :: offeringStatus
  o_finalOfferingPublishedAt :: "time option"
  o_platformRightsEndAt :: "time option"
  o_effectiveRightsEndAt :: "time option"
  o_createdAt :: time

record reservation =
  r_id :: ident
  r_offeringId :: ident
  r_accountId :: ident
  r_clientIdempotencyKey :: "string option"
  r_amountEur :: int
  r_stage :: reservationStage
  r_disclosurePackVersionAtReservation :: "string option"
  r_reconfirmedAt :: "time option"
  r_reservationFinalizedAt :: "time option"
  r_createdAt :: time

record moneyEvent =
  m_id :: ident
  m_reservationId :: ident
  m_provider :: string
  m_providerReference :: "string option"
  m_capitalState :: capitalState
  m_amountEur :: int
  m_amountEurc :: "int option"
  m_recordedAt :: time

record disclosureDocument =
  d_id :: ident
  d_documentType :: DisclosureDocumentType
  d_documentRef :: string
  d_isCoreReading :: bool

record disclosurePack =
  p_id :: ident
  p_offeringId :: ident
  p_version :: nat
  p_publishedAt :: time
  p_supersededAt :: "time option"
  p_isCurrent :: bool
  p_documents :: "disclosureDocument list"

record materialityRecord =
  mat_id :: ident
  mat_offeringId :: ident
  mat_changeDescription :: string
  mat_classification :: MaterialityClassification
  mat_thresholdType :: "MaterialityThresholdType option"
  mat_resetTriggered :: bool
  mat_classifiedByAccountId :: ident
  mat_classifiedAt :: time

record position =
  pos_id :: ident
  pos_reservationId :: "ident option"
  pos_pivId :: ident
  pos_accountId :: ident
  pos_unitCount :: string
  pos_costBasisEur :: string
  pos_holderWalletAddress :: "string option"

record piv =
  piv_id :: ident
  piv_propertyId :: ident
  piv_caseId :: ident
  piv_tokenId :: "string option"

text \<open>The JSON value of the audit log's \<open>changes\<close> column.\<close>

datatype json = JText string | JNum int | JBool bool | JNull | JTexts "string list"

record auditLog =
  a_actorAccountId :: "ident option"
  a_action :: string
  a_resourceType :: string
  a_resourceId :: ident
  a_changes :: "(string \<times> json) list"
  a_createdAt :: time

text \<open>The jobs the transactions enqueue, with their payloads.\<close>

datatype job =
    Open_ipo_escrow_campaign (j_piv: ident) (j_token: string) (j_target: string) (j_deadline: int)
  | Offering_reconfirmation_window_opened (j_offering: ident) (j_reservations: "ident list")
  | Post_ipo_structuring_handoff (j_case: ident)

record offeringStore =
  offerings :: "offering list"
  reservations :: "reservation list"
  moneyEvents :: "moneyEvent list"
  disclosurePacks :: "disclosurePack list"
  materialityRecords :: "materialityRecord list"
  positionLedger :: "position list"
  pivs :: "piv list"
  intakeCases :: "(ident \<times> time option) list"
  walletRegistrations :: "(ident \<times> string) list"
  auditLogs :: "auditLog list"
  jobs :: "job list"
  pivTokenIdSeq :: nat
  st_ulids :: nat

definition emptyStore :: offeringStore where
  "emptyStore = \<lparr>offerings = [], reservations = [], moneyEvents = [], disclosurePacks = [],
     materialityRecords = [], positionLedger = [], pivs = [], intakeCases = [],
     walletRegistrations = [], auditLogs = [], jobs = [], pivTokenIdSeq = 1, st_ulids = 0\<rparr>"

subsection \<open>Queries\<close>

definition findOffering :: "ident \<Rightarrow> offeringStore \<Rightarrow> offering option" where
  "findOffering i s = find (\<lambda>x. o_id x = i) (offerings s)"

definition findReservation :: "ident \<Rightarrow> offeringStore \<Rightarrow> reservation option" where
  "findReservation i s = find (\<lambda>r. r_id r = i) (reservations s)"

text \<open>\<open>ORDER BY recorded_at DESC, money_event_id DESC LIMIT 1\<close> over the events of a
  reservation.\<close>

definition laterEvent :: "moneyEvent \<Rightarrow> moneyEvent \<Rightarrow> bool" where
  "laterEvent a b \<longleftrightarrow> m_recordedAt b < m_recordedAt a \<or>
     m_recordedAt a = m_recordedAt b \<and> m_id b < m_id a"

fun latestOf :: "moneyEvent list \<Rightarrow> moneyEvent option" where
  "latestOf [] = None"
| "latestOf (e # es) = (case latestOf es of None \<Rightarrow> Some e
     | Some l \<Rightarrow> if laterEvent l e then Some l else Some e)"

definition latestMoney :: "ident \<Rightarrow> offeringStore \<Rightarrow> moneyEvent option" where
  "latestMoney rid s = latestOf (filter (\<lambda>e. m_reservationId e = rid) (moneyEvents s))"

definition latestCapitalState :: "ident \<Rightarrow> offeringStore \<Rightarrow> capitalState option" where
  "latestCapitalState rid s = map_option m_capitalState (latestMoney rid s)"

definition capacityHolding :: "ident \<Rightarrow> reservation \<Rightarrow> bool" where
  "capacityHolding oid r \<longleftrightarrow> r_offeringId r = oid \<and> r_stage r \<notin> {Cancelled, Lapsed}"

text \<open>\<open>COALESCE(SUM(column) FILTER (WHERE p), 0)::text\<close>: SUM over no row is NULL.\<close>

definition sumText :: "('r \<Rightarrow> bool) \<Rightarrow> ('r \<Rightarrow> int) \<Rightarrow> 'r list \<Rightarrow> string" where
  "sumText p g t = (if filter p t = [] then ''0'' else fromCents (sum_by p g t))"

definition reservedCapacity :: "ident \<Rightarrow> offeringStore \<Rightarrow> int" where
  "reservedCapacity oid s = sum_by (capacityHolding oid) r_amountEur (reservations s)"

definition latestAmount :: "offeringStore \<Rightarrow> reservation \<Rightarrow> int" where
  "latestAmount s r = (case latestMoney (r_id r) s of None \<Rightarrow> 0 | Some e \<Rightarrow> m_amountEur e)"

definition fundedIn :: "offeringStore \<Rightarrow> reservation \<Rightarrow> bool" where
  "fundedIn s r \<longleftrightarrow> isReservationFunded (latestCapitalState (r_id r) s)"

text \<open>The pack the lifecycle writes consult: current and not superseded, highest version
  first.\<close>

fun highestVersion :: "disclosurePack list \<Rightarrow> disclosurePack option" where
  "highestVersion [] = None"
| "highestVersion (p # ps) = (case highestVersion ps of None \<Rightarrow> Some p
     | Some q \<Rightarrow> if p_version p < p_version q then Some q else Some p)"

definition isCurrentPackOf :: "ident \<Rightarrow> disclosurePack \<Rightarrow> bool" where
  "isCurrentPackOf oid p \<longleftrightarrow> p_offeringId p = oid \<and> p_isCurrent p \<and> p_supersededAt p = None"

definition currentPack :: "ident \<Rightarrow> offeringStore \<Rightarrow> disclosurePack option" where
  "currentPack oid s = highestVersion (filter (isCurrentPackOf oid) (disclosurePacks s))"

definition currentDocumentTypes :: "ident \<Rightarrow> offeringStore \<Rightarrow> DisclosureDocumentType list" where
  "currentDocumentTypes oid s = (case currentPack oid s of None \<Rightarrow> []
     | Some p \<Rightarrow> map d_documentType (p_documents p))"

end
