(* ===== verification/Calendar.thy ===== *)
theory Calendar
  imports JsRuntime
begin

text \<open>
  \<open>Date\<close> in UTC, as the ECMAScript standard defines it on time values (milliseconds
  since 1970-01-01T00:00:00Z): the year, month, day and weekday of a time, the
  setters that the code calls (which overflow into the neighbouring months), and
  \<open>toISOString\<close>.
\<close>

subsection \<open>Definitions\<close>

definition msPerDay :: int where "msPerDay = 86400000"

definition Day :: "time \<Rightarrow> int" where "Day t = t div msPerDay"

definition TimeWithinDay :: "time \<Rightarrow> int" where "TimeWithinDay t = t mod msPerDay"

definition isLeap :: "int \<Rightarrow> bool" where
  "isLeap y \<longleftrightarrow> (y mod 4 = 0 \<and> y mod 100 \<noteq> 0) \<or> y mod 400 = 0"

definition DayFromYear :: "int \<Rightarrow> int" where
  "DayFromYear y = 365 * (y - 1970) + (y - 1969) div 4 - (y - 1901) div 100 + (y - 1601) div 400"

definition yearFromDay :: "int \<Rightarrow> int" where
  "yearFromDay d = (let y = 1970 + (d * 400) div 146097 in
     if DayFromYear (y + 1) \<le> d then y + 1 else if d < DayFromYear y then y - 1 else y)"

definition monthStarts :: "bool \<Rightarrow> int list" where
  "monthStarts leap = (if leap then [0, 31, 60, 91, 121, 152, 182, 213, 244, 274, 305, 335]
     else [0, 31, 59, 90, 120, 151, 181, 212, 243, 273, 304, 334])"

definition monthStart :: "bool \<Rightarrow> nat \<Rightarrow> int" where
  "monthStart leap m = (if m < 12 then monthStarts leap ! m else if leap then 366 else 365)"

definition dayInYear :: "int \<Rightarrow> int" where
  "dayInYear d = d - DayFromYear (yearFromDay d)"

text \<open>Months count from 0, as in JavaScript.\<close>

definition monthFromDay :: "int \<Rightarrow> nat" where
  "monthFromDay d = length (filter (\<lambda>x. x \<le> dayInYear d) (monthStarts (isLeap (yearFromDay d)))) - 1"

definition dateFromDay :: "int \<Rightarrow> int" where
  "dateFromDay d = dayInYear d - monthStart (isLeap (yearFromDay d)) (monthFromDay d) + 1"

definition MakeDay :: "int \<Rightarrow> int \<Rightarrow> int \<Rightarrow> int" where
  "MakeDay y m dt = (let ym = y + m div 12; mn = nat (m mod 12) in
     DayFromYear ym + monthStart (isLeap ym) mn + dt - 1)"

definition getUTCFullYear :: "time \<Rightarrow> int" where "getUTCFullYear t = yearFromDay (Day t)"

definition getUTCMonth :: "time \<Rightarrow> int" where "getUTCMonth t = int (monthFromDay (Day t))"

definition getUTCDate :: "time \<Rightarrow> int" where "getUTCDate t = dateFromDay (Day t)"

definition getUTCDay :: "time \<Rightarrow> int" where "getUTCDay t = (Day t + 4) mod 7"

definition setUTCMonth :: "time \<Rightarrow> int \<Rightarrow> time" where
  "setUTCMonth t m = MakeDay (getUTCFullYear t) m (getUTCDate t) * msPerDay + TimeWithinDay t"

definition setUTCDate :: "time \<Rightarrow> int \<Rightarrow> time" where
  "setUTCDate t d = MakeDay (getUTCFullYear t) (getUTCMonth t) d * msPerDay + TimeWithinDay t"

definition DateUTC :: "int \<Rightarrow> int \<Rightarrow> int \<Rightarrow> time" where
  "DateUTC y m d = MakeDay y m d * msPerDay"

definition pad :: "nat \<Rightarrow> int \<Rightarrow> string" where
  "pad k n = padStart k CHR ''0'' (int_dec n)"

definition isoYear :: "int \<Rightarrow> string" where
  "isoYear y = (if 0 \<le> y \<and> y \<le> 9999 then pad 4 y
     else (if y < 0 then ''-'' else ''+'') @ pad 6 (abs y))"

definition toISOString :: "time \<Rightarrow> string" where
  "toISOString t = (let ms = TimeWithinDay t in
     isoYear (getUTCFullYear t) @ ''-'' @ pad 2 (getUTCMonth t + 1) @ ''-'' @ pad 2 (getUTCDate t)
     @ ''T'' @ pad 2 (ms div 3600000) @ '':'' @ pad 2 (ms div 60000 mod 60) @ '':''
     @ pad 2 (ms div 1000 mod 60) @ ''.'' @ pad 3 (ms mod 1000) @ ''Z'')"

subsection \<open>Years\<close>

lemma div_bounds:
  assumes "0 < (k::int)"
  shows "k * (n div k) \<le> n" "n < k * (n div k) + k"
  using pos_mod_bound[OF assms, of n] pos_mod_sign[OF assms, of n] mult_div_mod_eq[of k n]
  by linarith+

lemma DayFromYear_bounds:
  "146097 * (y - 1970) - 800 < 400 * DayFromYear y"
  "400 * DayFromYear y < 146097 * (y - 1970) + 800"
proof -
  obtain a b c where abc: "a = (y - 1969) div 4" "b = (y - 1901) div 100" "c = (y - 1601) div 400"
    by simp
  have d: "4 * a \<le> y - 1969" "y - 1969 < 4 * a + 4" "100 * b \<le> y - 1901" "y - 1901 < 100 * b + 100"
    "400 * c \<le> y - 1601" "y - 1601 < 400 * c + 400"
    unfolding abc by (rule div_bounds; simp)+
  show "146097 * (y - 1970) - 800 < 400 * DayFromYear y"
    unfolding DayFromYear_def abc[symmetric] using d by (simp add: algebra_simps)
  show "400 * DayFromYear y < 146097 * (y - 1970) + 800"
    unfolding DayFromYear_def abc[symmetric] using d by (simp add: algebra_simps)
qed

lemma step_div:
  fixes x k :: int
  assumes "0 < k"
  shows "(x + 1) div k = x div k + (if (x + 1) mod k = 0 then 1 else 0)"
proof -
  have x: "x + 1 = k * (x div k) + (x mod k + 1)" by simp
  have r: "0 \<le> x mod k" "x mod k < k" using assms by simp_all
  show ?thesis
  proof (cases "x mod k + 1 = k")
    case True
    then have "x + 1 = k * (x div k + 1) + 0" using x by (simp add: algebra_simps)
    then show ?thesis using assms int_div_pos_eq[of "x + 1" k "x div k + 1" 0]
        int_mod_pos_eq[of "x + 1" k "x div k + 1" 0] by simp
  next
    case False
    then have "(x + 1) div k = x div k" "(x + 1) mod k = x mod k + 1"
      using int_div_pos_eq[OF x] int_mod_pos_eq[OF x] r by auto
    then show ?thesis using r by simp
  qed
qed

lemma leap_shift:
  "(y - 1968) mod 4 = y mod (4::int)" "(y - 1900) mod 100 = y mod (100::int)"
  "(y - 1600) mod 400 = y mod (400::int)"
  using mod_mult_self1[of "y - 1968" 492 4] mod_mult_self1[of "y - 1900" 19 100]
    mod_mult_self1[of "y - 1600" 4 400] by simp_all

lemma leap_cancel:
  fixes y :: int
  shows "y mod 400 = 0 \<Longrightarrow> y mod 100 = 0" "y mod 100 = 0 \<Longrightarrow> y mod 4 = 0"
  using mod_mod_cancel[of 100 400 y] mod_mod_cancel[of 4 100 y] by simp_all

lemma leap_count:
  fixes y a b c :: int
  assumes "p400 \<Longrightarrow> p100" "p100 \<Longrightarrow> p4"
  shows "365 * (y + 1 - 1970) + (a + (if p4 then 1 else 0)) - (b + (if p100 then 1 else 0))
      + (c + (if p400 then 1 else 0))
    = 365 * (y - 1970) + a - b + c + (if (p4 \<and> \<not> p100) \<or> p400 then 366 else 365)"
  using assms by (cases p4; cases p100; cases p400) simp_all

lemma year_steps:
  "(y + 1 - 1969) div 4 = (y - 1969) div 4 + (if y mod (4::int) = 0 then 1 else 0)"
  "(y + 1 - 1901) div 100 = (y - 1901) div 100 + (if y mod (100::int) = 0 then 1 else 0)"
  "(y + 1 - 1601) div 400 = (y - 1601) div 400 + (if y mod (400::int) = 0 then 1 else 0)"
proof -
  have e: "y + 1 - 1969 = (y - 1969) + 1" "y + 1 - 1901 = (y - 1901) + 1" "y + 1 - 1601 = (y - 1601) + 1"
    "(y - 1969) + 1 = y - 1968" "(y - 1901) + 1 = y - 1900" "(y - 1601) + 1 = y - 1600" by simp_all
  show "(y + 1 - 1969) div 4 = (y - 1969) div 4 + (if y mod (4::int) = 0 then 1 else 0)"
    by (subst e, subst step_div, simp, subst e, subst leap_shift, rule refl)
  show "(y + 1 - 1901) div 100 = (y - 1901) div 100 + (if y mod (100::int) = 0 then 1 else 0)"
    by (subst e, subst step_div, simp, subst e, subst leap_shift, rule refl)
  show "(y + 1 - 1601) div 400 = (y - 1601) div 400 + (if y mod (400::int) = 0 then 1 else 0)"
    by (subst e, subst step_div, simp, subst e, subst leap_shift, rule refl)
qed

lemma DayFromYear_Suc: "DayFromYear (y + 1) = DayFromYear y + (if isLeap y then 366 else 365)"
  unfolding DayFromYear_def isLeap_def year_steps by (rule leap_count) (fact leap_cancel)+

lemma DayFromYear_less: "y < z \<Longrightarrow> DayFromYear y < DayFromYear z"
proof (induction "nat (z - y)" arbitrary: z)
  case (Suc n)
  have "DayFromYear (z - 1) < DayFromYear z" using DayFromYear_Suc[of "z - 1"] by simp
  moreover have "y = z - 1 \<or> DayFromYear y < DayFromYear (z - 1)"
    using Suc(1)[of "z - 1"] Suc(2,3) by linarith
  ultimately show ?case by auto
qed simp

lemma yearFromDay_bounds:
  "DayFromYear (yearFromDay d) \<le> d" "d < DayFromYear (yearFromDay d + 1)"
proof -
  obtain y where y: "y = 1970 + (d * 400) div 146097" by simp
  have "146097 * (d * 400 div 146097) \<le> d * 400" "d * 400 < 146097 * (d * 400 div 146097) + 146097"
    by (rule div_bounds; simp)+
  moreover have "d * 400 div 146097 = y - 1970" using y by simp
  ultimately have b: "146097 * (y - 1970) \<le> d * 400" "d * 400 < 146097 * (y - 1970) + 146097"
    by simp_all
  have lo: "DayFromYear (y - 1) \<le> d" using b(1) DayFromYear_bounds(2)[of "y - 1"] by (simp add: algebra_simps)
  have hi: "d < DayFromYear (y + 2)" using b(2) DayFromYear_bounds(1)[of "y + 2"] by (simp add: algebra_simps)
  show "DayFromYear (yearFromDay d) \<le> d" "d < DayFromYear (yearFromDay d + 1)"
    using lo hi by (simp_all add: yearFromDay_def y[symmetric] Let_def add.assoc)
qed

lemma yearFromDay_unique: "DayFromYear y \<le> d \<Longrightarrow> d < DayFromYear (y + 1) \<Longrightarrow> yearFromDay d = y"
proof (rule ccontr)
  assume a: "DayFromYear y \<le> d" "d < DayFromYear (y + 1)" "yearFromDay d \<noteq> y"
  then consider "yearFromDay d + 1 \<le> y" | "y + 1 \<le> yearFromDay d" by linarith
  then show False
  proof cases
    case 1
    then have "DayFromYear (yearFromDay d + 1) \<le> DayFromYear y"
      using DayFromYear_less[of "yearFromDay d + 1" y] by (cases "yearFromDay d + 1 = y") auto
    then show False using a(1) yearFromDay_bounds(2)[of d] by linarith
  next
    case 2
    then have "DayFromYear (y + 1) \<le> DayFromYear (yearFromDay d)"
      using DayFromYear_less[of "y + 1" "yearFromDay d"] by (cases "y + 1 = yearFromDay d") auto
    then show False using a(2) yearFromDay_bounds(1)[of d] by linarith
  qed
qed

lemma dayInYear_bounds: "0 \<le> dayInYear d" "dayInYear d < (if isLeap (yearFromDay d) then 366 else 365)"
  using yearFromDay_bounds[of d] DayFromYear_Suc[of "yearFromDay d"] by (auto simp: dayInYear_def)

subsection \<open>Months\<close>

lemma monthStart_vals:
  "monthStart l 0 = 0" "monthStart l 1 = 31" "monthStart l 12 = (if l then 366 else 365)"
  by (simp_all add: monthStart_def monthStarts_def)

definition monthIndex :: "bool \<Rightarrow> int \<Rightarrow> nat" where
  "monthIndex leap n = length (filter (\<lambda>x. x \<le> n) (monthStarts leap)) - 1"

lemma monthFromDay_index: "monthFromDay d = monthIndex (isLeap (yearFromDay d)) (dayInYear d)"
  by (simp add: monthFromDay_def monthIndex_def)

lemma twelve_cases: "m < 12 \<Longrightarrow> m \<in> {0, 1, 2, 3, 4, 5, 6, 7, 8, 9, 10, 11::nat}"
  unfolding insert_iff empty_iff by presburger

lemma length_filter_le_sorted:
  assumes "sorted xs" "m < length xs" "xs ! m \<le> (n::int)" "Suc m < length xs \<Longrightarrow> n < xs ! Suc m"
  shows "length (filter (\<lambda>x. x \<le> n) xs) = Suc m"
proof -
  have "filter (\<lambda>x. x \<le> n) (take (Suc m) xs) = take (Suc m) xs"
  proof (rule filter_True, rule ballI)
    fix x assume "x \<in> set (take (Suc m) xs)"
    then obtain i where "i < Suc m" "i < length xs" "x = xs ! i" by (auto simp: in_set_conv_nth)
    then have "x \<le> xs ! m" using assms(1,2) by (auto intro: sorted_nth_mono)
    then show "x \<le> n" using assms(3) by simp
  qed
  moreover have "filter (\<lambda>x. x \<le> n) (drop (Suc m) xs) = []"
  proof (rule filter_False, rule ballI)
    fix x assume "x \<in> set (drop (Suc m) xs)"
    then obtain i where "i < length xs - Suc m" "x = xs ! (Suc m + i)"
      by (auto simp: in_set_conv_nth)
    then have i: "Suc m + i < length xs" "x = xs ! (Suc m + i)" by linarith+
    then have "xs ! Suc m \<le> x" using assms(1) by (auto intro: sorted_nth_mono)
    then show "\<not> x \<le> n" using assms(4) i(1) by simp
  qed
  ultimately have "filter (\<lambda>x. x \<le> n) xs = take (Suc m) xs"
    using filter_append[of "\<lambda>x. x \<le> n" "take (Suc m) xs" "drop (Suc m) xs"] by simp
  then show ?thesis using assms(2) by simp
qed

lemma monthStarts_facts: "sorted (monthStarts l)" "length (monthStarts l) = 12"
  by (cases l; simp add: monthStarts_def)+

lemma monthIndex_unique:
  assumes "m < 12" "monthStart l m \<le> n" "n < monthStart l (Suc m)"
  shows "monthIndex l n = m"
  using length_filter_le_sorted[of "monthStarts l" m n] monthStarts_facts[of l] assms
  by (simp add: monthIndex_def monthStart_def split: if_splits)

lemma month_exists:
  assumes "0 \<le> n" "n < (if l then 366 else 365)"
  shows "\<exists>m<12. monthStart l m \<le> n \<and> n < monthStart l (Suc m)"
proof (rule ccontr)
  assume no: "\<not> ?thesis"
  have "k \<le> 12 \<Longrightarrow> monthStart l k \<le> n" for k
  proof (induction k)
    case (Suc k) then show ?case using no by force
  qed (use assms(1) monthStart_vals in simp)
  from this[of 12] show False using assms(2) by (simp add: monthStart_vals)
qed

lemma monthFromDay_bounds:
  "monthFromDay d < 12"
  "monthStart (isLeap (yearFromDay d)) (monthFromDay d) \<le> dayInYear d"
  "dayInYear d < monthStart (isLeap (yearFromDay d)) (Suc (monthFromDay d))"
proof -
  obtain m where "m < 12" "monthStart (isLeap (yearFromDay d)) m \<le> dayInYear d"
    "dayInYear d < monthStart (isLeap (yearFromDay d)) (Suc m)"
    using month_exists dayInYear_bounds by metis
  moreover from this have "monthFromDay d = m" by (simp add: monthFromDay_index monthIndex_unique)
  ultimately show "monthFromDay d < 12"
    "monthStart (isLeap (yearFromDay d)) (monthFromDay d) \<le> dayInYear d"
    "dayInYear d < monthStart (isLeap (yearFromDay d)) (Suc (monthFromDay d))" by simp_all
qed

text \<open>The civil date of a day determines the day.\<close>

lemma MakeDay_civil: "MakeDay (yearFromDay d) (int (monthFromDay d)) (dateFromDay d) = d"
  using monthFromDay_bounds(1)[of d]
  by (simp add: MakeDay_def dateFromDay_def dayInYear_def Let_def)

definition daysInMonth :: "int \<Rightarrow> nat \<Rightarrow> int" where
  "daysInMonth y m = monthStart (isLeap y) (Suc m) - monthStart (isLeap y) m"

lemma dateFromDay_bounds: "1 \<le> dateFromDay d" "dateFromDay d \<le> daysInMonth (yearFromDay d) (monthFromDay d)"
  using monthFromDay_bounds[of d] by (simp_all add: dateFromDay_def daysInMonth_def)

lemma monthStart_le_year: "m < 12 \<Longrightarrow> 0 \<le> monthStart l m \<and> monthStart l (Suc m) \<le> (if l then 366 else 365)"
  using twelve_cases[of m] by (auto simp: monthStart_def monthStarts_def)

text \<open>And a civil date that exists is the date of the day it makes.\<close>

lemma civil_MakeDay:
  assumes "m < 12" "1 \<le> dt" "dt \<le> daysInMonth y m"
  shows "yearFromDay (MakeDay y (int m) dt) = y" "monthFromDay (MakeDay y (int m) dt) = m"
    "dateFromDay (MakeDay y (int m) dt) = dt"
proof -
  let ?d = "MakeDay y (int m) dt"
  have d: "?d = DayFromYear y + monthStart (isLeap y) m + dt - 1"
    using assms(1) by (simp add: MakeDay_def Let_def)
  have s: "0 \<le> monthStart (isLeap y) m" "monthStart (isLeap y) (Suc m) \<le> (if isLeap y then 366 else 365)"
    using monthStart_le_year[OF assms(1)] by blast+
  show y: "yearFromDay ?d = y"
    using s assms(2,3) DayFromYear_Suc[of y]
    by (intro yearFromDay_unique) (simp_all add: d daysInMonth_def)
  have di: "dayInYear ?d = monthStart (isLeap y) m + dt - 1" using d y by (simp add: dayInYear_def)
  show m: "monthFromDay ?d = m"
    using assms by (simp add: monthFromDay_index y di monthIndex_unique daysInMonth_def)
  show "dateFromDay ?d = dt" by (simp add: dateFromDay_def y m di)
qed

lemma Day_combine [simp]: "0 \<le> r \<Longrightarrow> r < msPerDay \<Longrightarrow> Day (d * msPerDay + r) = d"
  by (simp add: Day_def msPerDay_def)

lemma TimeWithinDay_combine [simp]:
  "0 \<le> r \<Longrightarrow> r < msPerDay \<Longrightarrow> TimeWithinDay (d * msPerDay + r) = r"
  by (simp add: TimeWithinDay_def msPerDay_def)

lemma TimeWithinDay_bounds [simp]: "0 \<le> TimeWithinDay t" "TimeWithinDay t < msPerDay"
  by (simp_all add: TimeWithinDay_def msPerDay_def)

lemma Day_TimeWithinDay: "Day t * msPerDay + TimeWithinDay t = t"
  by (simp add: Day_def TimeWithinDay_def)

lemma setUTCDate_shift: "setUTCDate t (getUTCDate t + n) = t + n * msPerDay"
proof -
  have "MakeDay (getUTCFullYear t) (getUTCMonth t) (getUTCDate t + n) = Day t + n"
    using MakeDay_civil[of "Day t"]
    by (simp add: getUTCFullYear_def getUTCMonth_def getUTCDate_def MakeDay_def Let_def)
  then show ?thesis using Day_TimeWithinDay[of t] by (simp add: setUTCDate_def algebra_simps)
qed

end
