(* ===== verification/OfferingOps.thy ===== *)
theory OfferingOps
  imports OfferingStore Calendar
begin

text \<open>
  The writing transactions of \<open>PrismaOfferingRepository\<close>, one definition per
  method, with the loop bodies over the locked reservations as definitions of
  their own. Results follow the \<open>conflict\<close> values of the source; \<open>Throws\<close> stands
  for an exception inside the transaction, which rolls it back.
\<close>

definition addAudit :: "ident option \<Rightarrow> string \<Rightarrow> string \<Rightarrow> ident \<Rightarrow> (string \<times> json) list \<Rightarrow> time
    \<Rightarrow> offeringStore \<Rightarrow> offeringStore" where
  "addAudit actor action resourceType resourceId changes at s = s\<lparr>auditLogs := auditLogs s @
     [\<lparr>a_actorAccountId = actor, a_action = action, a_resourceType = resourceType,
       a_resourceId = resourceId, a_changes = changes, a_createdAt = at\<rparr>]\<rparr>"

definition enqueue :: "job \<Rightarrow> offeringStore \<Rightarrow> offeringStore" where
  "enqueue j s = s\<lparr>jobs := jobs s @ [j]\<rparr>"

definition updateReservation :: "ident \<Rightarrow> (reservation \<Rightarrow> reservation) \<Rightarrow> offeringStore \<Rightarrow> offeringStore" where
  "updateReservation i f s = s\<lparr>reservations := update_where (\<lambda>r. r_id r = i) f (reservations s)\<rparr>"

definition updateOffering :: "ident \<Rightarrow> (offering \<Rightarrow> offering) \<Rightarrow> offeringStore \<Rightarrow> offeringStore" where
  "updateOffering i f s = s\<lparr>offerings := update_where (\<lambda>x. o_id x = i) f (offerings s)\<rparr>"

text \<open>\<open>moneyEvent.create\<close> with an identifier of its own.\<close>

definition createMoneyEvent :: "(nat \<Rightarrow> string) \<Rightarrow> ident \<Rightarrow> string \<Rightarrow> string option \<Rightarrow> capitalState \<Rightarrow> int
    \<Rightarrow> int option \<Rightarrow> time \<Rightarrow> offeringStore \<Rightarrow> offeringStore" where
  "createMoneyEvent ulid rid provider ref st amount eurc at s = s\<lparr>moneyEvents := moneyEvents s @
     [\<lparr>m_id = ''money_event_'' @ ulid (st_ulids s), m_reservationId = rid, m_provider = provider,
       m_providerReference = ref, m_capitalState = st, m_amountEur = amount, m_amountEurc = eurc,
       m_recordedAt = at\<rparr>], st_ulids := Suc (st_ulids s)\<rparr>"

subsection \<open>openOfferingForApprovedCase\<close>

text \<open>A rolled-back transaction does not give a sequence value back, so the token
  sequence advances on every branch after \<open>nextval\<close>.\<close>

record openInput =
  oi_caseId :: ident
  oi_propertyId :: ident
  oi_ipoValueEur :: string
  oi_openEscrowCampaign :: bool
  oi_traceId :: string
  oi_openedAt :: time

datatype openResult = Opened (or_pivId: ident) (or_offeringId: ident) | OpenThrows

definition newOffering :: "ident \<Rightarrow> ident \<Rightarrow> int \<Rightarrow> time \<Rightarrow> offering" where
  "newOffering oid pid value dbNow = \<lparr>o_id = oid, o_pivId = pid, o_minimumRaiseEur = value,
     o_targetRaiseEur = value, o_status = Pre_offering, o_finalOfferingPublishedAt = None,
     o_platformRightsEndAt = None, o_effectiveRightsEndAt = None, o_createdAt = dbNow\<rparr>"

definition createOffering :: "(nat \<Rightarrow> string) \<Rightarrow> ident \<Rightarrow> string \<Rightarrow> time \<Rightarrow> offeringStore
    \<Rightarrow> (ident \<times> offeringStore) option" where
  "createOffering ulid pid ipoValueEur dbNow s =
    (let oid = ''offering_'' @ ulid (st_ulids s) in
     case numericText 2 ipoValueEur of None \<Rightarrow> None
     | Some v \<Rightarrow> if v \<le> 0 \<or> findOffering oid s \<noteq> None then None
         else Some (oid, s\<lparr>offerings := offerings s @ [newOffering oid pid v dbNow],
                           st_ulids := Suc (st_ulids s)\<rparr>))"

definition openOfferingForApprovedCase ::
  "(nat \<Rightarrow> string) \<Rightarrow> time \<Rightarrow> openInput \<Rightarrow> offeringStore \<Rightarrow> openResult \<times> offeringStore" where
  "openOfferingForApprovedCase ulid dbNow i s =
    (case find (\<lambda>p. piv_propertyId p = oi_propertyId i) (pivs s) of
       Some existingPiv \<Rightarrow>
         (case find (\<lambda>x. o_pivId x = piv_id existingPiv) (offerings s) of
            Some existingOffering \<Rightarrow> (Opened (piv_id existingPiv) (o_id existingOffering), s)
          | None \<Rightarrow>
            (case createOffering ulid (piv_id existingPiv) (oi_ipoValueEur i) dbNow s of
               None \<Rightarrow> (OpenThrows, s)
             | Some (oid, s1) \<Rightarrow> (Opened (piv_id existingPiv) oid, s1)))
     | None \<Rightarrow>
       (case map_of (intakeCases s) (oi_caseId i) of
          None \<Rightarrow> (OpenThrows, s)
        | Some ipoEndAt \<Rightarrow>
          if oi_openEscrowCampaign i \<and> ipoEndAt = None then (OpenThrows, s)
          else
            (let tokenId = int_dec (int (pivTokenIdSeq s));
                 pid = ''piv_'' @ ulid (st_ulids s);
                 s0 = s\<lparr>pivTokenIdSeq := Suc (pivTokenIdSeq s)\<rparr>;
                 s1 = s0\<lparr>st_ulids := Suc (st_ulids s),
                        pivs := pivs s @ [\<lparr>piv_id = pid, piv_propertyId = oi_propertyId i,
                          piv_caseId = oi_caseId i, piv_tokenId = Some tokenId\<rparr>]\<rparr>
             in if find (\<lambda>p. piv_id p = pid) (pivs s) \<noteq> None then (OpenThrows, s0)
                else case createOffering ulid pid (oi_ipoValueEur i) dbNow s1 of
                  None \<Rightarrow> (OpenThrows, s0)
                | Some (oid, s2) \<Rightarrow>
                  (let s3 = addAudit None ''offering.opened_for_approved_case'' ''offering'' oid
                        [(''trace_id'', JText (oi_traceId i)), (''case_id'', JText (oi_caseId i)),
                         (''piv_id'', JText pid), (''target_raise_eur'', JText (oi_ipoValueEur i)),
                         (''token_id'', JText tokenId)] (oi_openedAt i) s2
                   in case ipoEndAt of
                        Some end \<Rightarrow>
                          if oi_openEscrowCampaign i then
                            (case toEurcMicros (oi_ipoValueEur i) of
                               None \<Rightarrow> (OpenThrows, s0)
                             | Some target \<Rightarrow> (Opened pid oid,
                                 enqueue (Open_ipo_escrow_campaign pid tokenId (int_dec target)
                                   (end div 1000)) s3))
                          else (Opened pid oid, s3)
                      | None \<Rightarrow> (Opened pid oid, s3)))))"

subsection \<open>createReservation\<close>

record createInput =
  ci_reservationId :: ident
  ci_offeringId :: ident
  ci_accountId :: ident
  ci_clientIdempotencyKey :: "string option"
  ci_amountEur :: string
  ci_disclosurePackVersionAtReservation :: "string option"
  ci_traceId :: string
  ci_createdAt :: time

record replayState =
  rs_amountEur :: string
  rs_reservationStage :: reservationStage
  rs_latestCapitalState :: "capitalState option"

datatype createResult =
    Create_offering_not_open
  | Create_capacity_exceeded
  | Create_reused (cr_id: ident) (cr_createdAt: time) (cr_replay: replayState)
  | Create_created (cr_id: ident) (cr_createdAt: time)
  | CreateThrows

definition keyMatches :: "createInput \<Rightarrow> string \<Rightarrow> reservation \<Rightarrow> bool" where
  "keyMatches i k r \<longleftrightarrow> r_accountId r = ci_accountId i \<and> r_offeringId r = ci_offeringId i \<and>
     r_clientIdempotencyKey r = Some k"

definition findByClientKey :: "createInput \<Rightarrow> offeringStore \<Rightarrow> reservation option" where
  "findByClientKey i s = (case ci_clientIdempotencyKey i of None \<Rightarrow> None
     | Some k \<Rightarrow> find (keyMatches i k) (reservations s))"

definition newReservation :: "createInput \<Rightarrow> int \<Rightarrow> reservation" where
  "newReservation i amount = \<lparr>r_id = ci_reservationId i, r_offeringId = ci_offeringId i,
     r_accountId = ci_accountId i, r_clientIdempotencyKey = ci_clientIdempotencyKey i,
     r_amountEur = amount, r_stage = Initiated,
     r_disclosurePackVersionAtReservation = ci_disclosurePackVersionAtReservation i,
     r_reconfirmedAt = None, r_reservationFinalizedAt = None, r_createdAt = ci_createdAt i\<rparr>"

definition insertReservation ::
  "(nat \<Rightarrow> string) \<Rightarrow> createInput \<Rightarrow> offeringStore \<Rightarrow> createResult \<times> offeringStore" where
  "insertReservation ulid i s =
    (case numericText 2 (ci_amountEur i) of None \<Rightarrow> (CreateThrows, s)
     | Some amount \<Rightarrow>
       if amount \<le> 0 \<or> findReservation (ci_reservationId i) s \<noteq> None then (CreateThrows, s)
       else (Create_created (ci_reservationId i) (ci_createdAt i),
         addAudit (Some (ci_accountId i)) ''offering.reservation_created'' ''reservation''
           (ci_reservationId i)
           [(''trace_id'', JText (ci_traceId i)), (''offering_id'', JText (ci_offeringId i)),
            (''amount_eur'', JText (ci_amountEur i))] (ci_createdAt i)
         (createMoneyEvent ulid (ci_reservationId i) ''coinbase_cdp'' None Capital_initiated amount
            None (ci_createdAt i)
         (s\<lparr>reservations := reservations s @ [newReservation i amount]\<rparr>))))"

definition createReservation ::
  "(nat \<Rightarrow> string) \<Rightarrow> createInput \<Rightarrow> offeringStore \<Rightarrow> createResult \<times> offeringStore" where
  "createReservation ulid i s =
    (case findOffering (ci_offeringId i) s of
       None \<Rightarrow> (Create_offering_not_open, s)
     | Some x \<Rightarrow>
       if o_status x \<noteq> Pre_offering then (Create_offering_not_open, s)
       else (case findByClientKey i s of
         Some existing \<Rightarrow>
           (Create_reused (r_id existing) (r_createdAt existing)
              \<lparr>rs_amountEur = fromCents (r_amountEur existing),
               rs_reservationStage = r_stage existing,
               rs_latestCapitalState = latestCapitalState (r_id existing) s\<rparr>, s)
       | None \<Rightarrow>
         (let reservedCapacityEur = sumText (capacityHolding (ci_offeringId i)) r_amountEur (reservations s)
          in case (toCents (fromCents (o_targetRaiseEur x)), toCents reservedCapacityEur,
                   toCents (ci_amountEur i)) of
            (Some target, Some reserved, Some amount) \<Rightarrow>
              (let remainingCents = target - reserved
               in if amount > (if remainingCents > 0 then remainingCents else 0)
                  then (Create_capacity_exceeded, s)
                  else insertReservation ulid i s)
          | _ \<Rightarrow> (CreateThrows, s))))"

subsection \<open>recordMoneyEvent, timer listings, expireReservation\<close>

record advanceInput =
  ai_reservationId :: ident
  ai_provider :: string
  ai_providerReference :: "string option"
  ai_capitalState :: capitalState
  ai_amountEur :: string
  ai_amountEurc :: "string option"
  ai_recordedAt :: time

text \<open>\<open>None\<close> is the exception of a violated constraint: no such reservation, or an amount
  that is not a positive number.\<close>

definition recordMoneyEvent ::
  "(nat \<Rightarrow> string) \<Rightarrow> advanceInput \<Rightarrow> offeringStore \<Rightarrow> offeringStore option" where
  "recordMoneyEvent ulid i s =
    (case numericText 2 (ai_amountEur i) of None \<Rightarrow> None
     | Some amount \<Rightarrow>
       (case (case ai_amountEurc i of None \<Rightarrow> Some None
              | Some t \<Rightarrow> map_option Some (numericText 6 t)) of None \<Rightarrow> None
        | Some eurc \<Rightarrow>
          if amount \<le> 0 \<or> (\<exists>e\<in>set_option eurc. e \<le> 0) \<or>
             findReservation (ai_reservationId i) s = None then None
          else Some (createMoneyEvent ulid (ai_reservationId i) (ai_provider i)
                 (ai_providerReference i) (ai_capitalState i) amount eurc (ai_recordedAt i) s)))"

record timerRow =
  t_reservationId :: ident
  t_offeringId :: ident
  t_accountId :: ident
  t_createdAt :: time
  t_latestCapitalState :: "capitalState option"

definition listInitiatedReservationsForTimers :: "offeringStore \<Rightarrow> timerRow list" where
  "listInitiatedReservationsForTimers s =
    map (\<lambda>r. \<lparr>t_reservationId = r_id r, t_offeringId = r_offeringId r, t_accountId = r_accountId r,
              t_createdAt = r_createdAt r, t_latestCapitalState = latestCapitalState (r_id r) s\<rparr>)
        (filter (\<lambda>r. r_stage r = Initiated) (reservations s))"

record pendingRow =
  pr_reservationId :: ident
  pr_accountId :: ident
  pr_amountEur :: string

definition listPendingPurchaseReservationsForTimers :: "offeringStore \<Rightarrow> pendingRow list" where
  "listPendingPurchaseReservationsForTimers s =
    map (\<lambda>r. \<lparr>pr_reservationId = r_id r, pr_accountId = r_accountId r,
              pr_amountEur = fromCents (r_amountEur r)\<rparr>)
        (filter (\<lambda>r. r_stage r = Initiated \<and>
           latestCapitalState (r_id r) s \<in> {Some Eurc_purchase_pending, Some Purchase_failed})
         (reservations s))"

definition expireReservation ::
  "ident \<Rightarrow> string \<Rightarrow> time \<Rightarrow> offeringStore \<Rightarrow> bool \<times> offeringStore" where
  "expireReservation reservationId traceId expiredAt s =
    (case findReservation reservationId s of
       None \<Rightarrow> (False, s)
     | Some current \<Rightarrow>
       if r_stage current \<noteq> Initiated then (False, s)
       else if isReservationFunded (latestCapitalState reservationId s) then (False, s)
       else (True, addAudit None ''offering.reservation_lapsed'' ''reservation'' reservationId
              [(''trace_id'', JText traceId), (''previous_stage'', JText ''initiated''),
               (''new_stage'', JText ''lapsed'')] expiredAt
              (updateReservation reservationId (\<lambda>r. r\<lparr>r_stage := Lapsed\<rparr>) s)))"

subsection \<open>publishFinalOfferingTerms\<close>

record publishInput =
  pi_offeringId :: ident
  pi_accountId :: ident
  pi_founderReviewNotes :: string
  pi_traceId :: string
  pi_publishedAt :: time

datatype publishResult =
    Publish_offering_not_found | Publish_not_open | Publish_already_published
  | Publish_target_not_reached | Publish_disclosure_pack_incomplete
  | Published (pub_effectiveRightsEndAt: time) (pub_awaiting: nat) (pub_cancelled: nat)
  | PublishThrows

text \<open>The body of the loop over the locked \<open>initiated\<close> reservations. The rows carry the
  capital state read when they were selected; the loop's state is the store, the
  identifiers moved to reconfirmation, and the count of cancelled ones.\<close>

definition publishStep :: "(nat \<Rightarrow> string) \<Rightarrow> time \<Rightarrow> reservation \<times> capitalState option
    \<Rightarrow> offeringStore \<times> ident list \<times> nat \<Rightarrow> offeringStore \<times> ident list \<times> nat" where
  "publishStep ulid publishedAt row st = (case (row, st) of ((r, latest), (s, awaiting, cancelled)) \<Rightarrow>
     let funded = (case latest of None \<Rightarrow> False | Some c \<Rightarrow> c \<in> set FUNDED_CAPITAL_STATES) in
     if funded then
       (createMoneyEvent ulid (r_id r) ''internal'' None Reconfirmation_pending (r_amountEur r) None
          publishedAt
          (updateReservation (r_id r) (\<lambda>x. x\<lparr>r_stage := Awaiting_reconfirmation\<rparr>) s),
        awaiting @ [r_id r], cancelled)
     else
       (updateReservation (r_id r) (\<lambda>x. x\<lparr>r_stage := Cancelled\<rparr>) s, awaiting, Suc cancelled))"

definition publishRows :: "ident \<Rightarrow> offeringStore \<Rightarrow> (reservation \<times> capitalState option) list" where
  "publishRows oid s = map (\<lambda>r. (r, latestCapitalState (r_id r) s))
     (filter (\<lambda>r. r_offeringId r = oid \<and> r_stage r = Initiated) (reservations s))"

text \<open>The money counted towards the target: the latest event of every reservation of the
  offering, whatever the reservation's stage.\<close>

definition countedFunded :: "ident \<Rightarrow> offeringStore \<Rightarrow> int" where
  "countedFunded oid s =
     sum_by (\<lambda>r. r_offeringId r = oid \<and> fundedIn s r) (latestAmount s) (reservations s)"

definition countedFundedText :: "ident \<Rightarrow> offeringStore \<Rightarrow> string" where
  "countedFundedText oid s =
     sumText (\<lambda>r. r_offeringId r = oid \<and> fundedIn s r) (latestAmount s) (reservations s)"

definition publishFinalOfferingTerms ::
  "(nat \<Rightarrow> string) \<Rightarrow> publishInput \<Rightarrow> offeringStore \<Rightarrow> publishResult \<times> offeringStore" where
  "publishFinalOfferingTerms ulid i s =
    (case findOffering (pi_offeringId i) s of
       None \<Rightarrow> (Publish_offering_not_found, s)
     | Some x \<Rightarrow>
       (case find (\<lambda>p. piv_id p = o_pivId x) (pivs s) of
          None \<Rightarrow> (Publish_offering_not_found, s)
        | Some pv \<Rightarrow>
          if o_status x \<noteq> Pre_offering then (Publish_not_open, s)
          else if o_finalOfferingPublishedAt x \<noteq> None then (Publish_already_published, s)
          else
            (let fundedEur = countedFundedText (pi_offeringId i) s in
             case canPublishFinalOfferingTerms (o_status x) (o_finalOfferingPublishedAt x)
                    (fromCents (o_targetRaiseEur x)) fundedEur of
               None \<Rightarrow> (PublishThrows, s)
             | Some False \<Rightarrow> (Publish_target_not_reached, s)
             | Some True \<Rightarrow>
               if \<not> isCompleteDisclosurePack (currentDocumentTypes (pi_offeringId i) s)
               then (Publish_disclosure_pack_incomplete, s)
               else
                 (let (s1, awaiting, cancelled) =
                        fold (publishStep ulid (pi_publishedAt i)) (publishRows (pi_offeringId i) s) (s, [], 0);
                      platformRightsEndAt = computeEffectiveRightsEndAt (pi_publishedAt i);
                      effectiveRightsEndAt = platformRightsEndAt;
                      s2 = updateOffering (pi_offeringId i)
                             (\<lambda>y. y\<lparr>o_finalOfferingPublishedAt := Some (pi_publishedAt i),
                                  o_platformRightsEndAt := Some platformRightsEndAt,
                                  o_effectiveRightsEndAt := Some effectiveRightsEndAt\<rparr>) s1;
                      s3 = addAudit (Some (pi_accountId i)) ''offering.final_terms_published''
                             ''offering'' (pi_offeringId i)
                             [(''trace_id'', JText (pi_traceId i)),
                              (''founder_review_notes'', JText (pi_founderReviewNotes i)),
                              (''funded_eur'', JText fundedEur),
                              (''target_raise_eur'', JText (fromCents (o_targetRaiseEur x))),
                              (''effective_rights_end_at'', JText (toISOString effectiveRightsEndAt)),
                              (''reservations_awaiting_reconfirmation'', JNum (int (length awaiting))),
                              (''reservations_cancelled'', JNum (int cancelled))] (pi_publishedAt i) s2;
                      s4 = (if awaiting \<noteq> []
                            then enqueue (Offering_reconfirmation_window_opened (pi_offeringId i) awaiting) s3
                            else s3);
                      s5 = enqueue (Post_ipo_structuring_handoff (piv_caseId pv)) s4
                  in (Published effectiveRightsEndAt (length awaiting) cancelled, s5)))))"

subsection \<open>reconfirmReservation\<close>

record reconfirmInput =
  rci_reservationId :: ident
  rci_accountId :: ident
  rci_traceId :: string
  rci_reconfirmedAt :: time

datatype reconfirmResult =
    Reconfirm_not_found | Reconfirm_not_awaiting_reconfirmation | Reconfirm_window_closed
  | Reconfirm_disclosure_pack_incomplete | ReconfirmedAt (rc_at: time) | ReconfirmThrows

definition reconfirmReservation ::
  "reconfirmInput \<Rightarrow> offeringStore \<Rightarrow> reconfirmResult \<times> offeringStore" where
  "reconfirmReservation i s =
    (case findReservation (rci_reservationId i) s of
       None \<Rightarrow> (Reconfirm_not_found, s)
     | Some r \<Rightarrow>
       if r_accountId r \<noteq> rci_accountId i then (Reconfirm_not_found, s)
       else if r_stage r \<noteq> Awaiting_reconfirmation then (Reconfirm_not_awaiting_reconfirmation, s)
       else (case findOffering (r_offeringId r) s of
         None \<Rightarrow> (ReconfirmThrows, s)
       | Some x \<Rightarrow>
         (case o_effectiveRightsEndAt x of
            None \<Rightarrow> (Reconfirm_window_closed, s)
          | Some end \<Rightarrow>
            if \<not> isReconfirmationWindowOpen end (rci_reconfirmedAt i) then (Reconfirm_window_closed, s)
            else if \<not> isCompleteDisclosurePack (currentDocumentTypes (r_offeringId r) s)
            then (Reconfirm_disclosure_pack_incomplete, s)
            else (ReconfirmedAt (rci_reconfirmedAt i),
              addAudit (Some (rci_accountId i)) ''offering.reservation_reconfirmed'' ''reservation''
                (rci_reservationId i)
                [(''trace_id'', JText (rci_traceId i)),
                 (''disclosure_pack_version'',
                  case currentPack (r_offeringId r) s of None \<Rightarrow> JNull | Some p \<Rightarrow> JNum (int (p_version p)))]
                (rci_reconfirmedAt i)
                (updateReservation (rci_reservationId i)
                   (\<lambda>y. y\<lparr>r_stage := Reconfirmed, r_reconfirmedAt := Some (rci_reconfirmedAt i)\<rparr>) s)))))"

subsection \<open>commitOfferingFinalization\<close>

definition listOfferingsPendingFinalizationCommit :: "offeringStore \<Rightarrow> (ident \<times> time) list" where
  "listOfferingsPendingFinalizationCommit s =
    map (\<lambda>x. (o_id x, the (o_effectiveRightsEndAt x)))
      (filter (\<lambda>x. o_effectiveRightsEndAt x \<noteq> None)
        (filter (\<lambda>x. o_status x = Pre_offering \<and> o_finalOfferingPublishedAt x \<noteq> None) (offerings s)))"

datatype commitResult =
    Commit_offering_not_found | Commit_not_publishable_state | Commit_window_still_open
  | Committed (com_positionsCreated: nat) (com_reservationsLapsed: nat)

definition commitRows :: "ident \<Rightarrow> offeringStore \<Rightarrow> reservation list" where
  "commitRows oid s = filter (\<lambda>r. r_offeringId r = oid \<and>
     r_stage r \<in> {Awaiting_reconfirmation, Reconfirmed}) (reservations s)"

text \<open>The loop body: the loop's state is the store and the two counters.\<close>

definition commitStep :: "(nat \<Rightarrow> string) \<Rightarrow> ident \<Rightarrow> time \<Rightarrow> reservation
    \<Rightarrow> offeringStore \<times> nat \<times> nat \<Rightarrow> offeringStore \<times> nat \<times> nat" where
  "commitStep ulid pivId finalizedAt r st = (case st of (s, created, lapsed) \<Rightarrow>
     if r_stage r = Reconfirmed then
       (let s1 = s\<lparr>positionLedger := positionLedger s @
                  [\<lparr>pos_id = ''position_'' @ ulid (st_ulids s), pos_reservationId = Some (r_id r),
                    pos_pivId = pivId, pos_accountId = r_accountId r,
                    pos_unitCount = costBasisToUnitCount (fromCents (r_amountEur r)),
                    pos_costBasisEur = fromCents (r_amountEur r),
                    pos_holderWalletAddress = map_of (walletRegistrations s) (r_accountId r)\<rparr>],
                  st_ulids := Suc (st_ulids s)\<rparr>;
            s2 = updateReservation (r_id r)
                   (\<lambda>x. x\<lparr>r_stage := Finalized, r_reservationFinalizedAt := Some finalizedAt\<rparr>) s1
        in (createMoneyEvent ulid (r_id r) ''internal'' None Eurc_finalized (r_amountEur r) None
              finalizedAt s2, Suc created, lapsed))
     else (updateReservation (r_id r) (\<lambda>x. x\<lparr>r_stage := Lapsed\<rparr>) s, created, Suc lapsed))"

definition commitOfferingFinalization ::
  "(nat \<Rightarrow> string) \<Rightarrow> ident \<Rightarrow> string \<Rightarrow> time \<Rightarrow> offeringStore \<Rightarrow> commitResult \<times> offeringStore" where
  "commitOfferingFinalization ulid offeringId traceId finalizedAt s =
    (case findOffering offeringId s of
       None \<Rightarrow> (Commit_offering_not_found, s)
     | Some x \<Rightarrow>
       if o_status x \<noteq> Pre_offering \<or> o_finalOfferingPublishedAt x = None
       then (Commit_not_publishable_state, s)
       else (case o_effectiveRightsEndAt x of
         None \<Rightarrow> (Commit_window_still_open, s)
       | Some end \<Rightarrow>
         if isReconfirmationWindowOpen end finalizedAt then (Commit_window_still_open, s)
         else (let (s1, created, lapsed) =
                     fold (commitStep ulid (o_pivId x) finalizedAt) (commitRows offeringId s) (s, 0, 0);
                   s2 = updateOffering offeringId (\<lambda>y. y\<lparr>o_status := Final_offering\<rparr>) s1
               in (Committed created lapsed,
                   addAudit None ''offering.finalized'' ''offering'' offeringId
                     [(''trace_id'', JText traceId), (''positions_created'', JNum (int created)),
                      (''reservations_lapsed'', JNum (int lapsed))] finalizedAt s2))))"

subsection \<open>classifyMateriality\<close>

record classifyInput =
  cl_offeringId :: ident
  cl_accountId :: ident
  cl_changeDescription :: string
  cl_classification :: MaterialityClassification
  cl_thresholdType :: "MaterialityThresholdType option"
  cl_traceId :: string
  cl_classifiedAt :: time

datatype classifyResult =
    Classify_offering_not_found | Classify_no_active_reconfirmation_window
  | Classified (cls_id: ident) (cls_resetTriggered: bool) (cls_effectiveRightsEndAt: "time option")
      (cls_reservationsReset: nat)

definition reconfirmedRows :: "ident \<Rightarrow> offeringStore \<Rightarrow> reservation list" where
  "reconfirmedRows oid s =
     filter (\<lambda>r. r_offeringId r = oid \<and> r_stage r = Reconfirmed) (reservations s)"

definition resetStep :: "reservation \<Rightarrow> offeringStore \<Rightarrow> offeringStore" where
  "resetStep r s = updateReservation (r_id r)
     (\<lambda>x. x\<lparr>r_stage := Awaiting_reconfirmation, r_reconfirmedAt := None\<rparr>) s"

fun classificationText :: "MaterialityClassification \<Rightarrow> string" where
  "classificationText Per_se_material = ''per_se_material''"
| "classificationText Reviewed_material = ''reviewed_material''"
| "classificationText Non_material = ''non_material''"

fun thresholdText :: "MaterialityThresholdType \<Rightarrow> string" where
  "thresholdText Valuation = ''valuation''"
| "thresholdText Cashflow = ''cashflow''"
| "thresholdText Gross_rent = ''gross_rent''"
| "thresholdText Closing_delay = ''closing_delay''"

definition applyReset :: "classifyInput \<Rightarrow> offeringStore \<Rightarrow> offeringStore \<times> time \<times> nat" where
  "applyReset i s =
    (let reconfirmed = reconfirmedRows (cl_offeringId i) s;
         s1 = fold resetStep reconfirmed s;
         end = computeEffectiveRightsEndAt (cl_classifiedAt i)
     in (updateOffering (cl_offeringId i)
           (\<lambda>y. y\<lparr>o_platformRightsEndAt := Some end, o_effectiveRightsEndAt := Some end\<rparr>) s1,
         end, length reconfirmed))"

definition classifyMateriality ::
  "(nat \<Rightarrow> string) \<Rightarrow> classifyInput \<Rightarrow> offeringStore \<Rightarrow> classifyResult \<times> offeringStore" where
  "classifyMateriality ulid i s =
    (case findOffering (cl_offeringId i) s of
       None \<Rightarrow> (Classify_offering_not_found, s)
     | Some x \<Rightarrow>
       if o_status x \<noteq> Pre_offering \<or> o_finalOfferingPublishedAt x = None
       then (Classify_no_active_reconfirmation_window, s)
       else
         (let resetTriggered = materialityResetTriggered (cl_classification i);
              (s1, effectiveRightsEndAt, reservationsReset) =
                (if resetTriggered then (case applyReset i s of (s', e, n) \<Rightarrow> (s', Some e, n))
                 else (s, o_effectiveRightsEndAt x, 0));
              recordId = ''materiality_'' @ ulid (st_ulids s1);
              s2 = s1\<lparr>materialityRecords := materialityRecords s1 @
                     [\<lparr>mat_id = recordId, mat_offeringId = cl_offeringId i,
                       mat_changeDescription = cl_changeDescription i,
                       mat_classification = cl_classification i, mat_thresholdType = cl_thresholdType i,
                       mat_resetTriggered = resetTriggered, mat_classifiedByAccountId = cl_accountId i,
                       mat_classifiedAt = cl_classifiedAt i\<rparr>], st_ulids := Suc (st_ulids s1)\<rparr>;
              s3 = addAudit (Some (cl_accountId i)) ''offering.materiality_classified'' ''offering''
                     (cl_offeringId i)
                     [(''trace_id'', JText (cl_traceId i)),
                      (''change_description'', JText (cl_changeDescription i)),
                      (''classification'', JText (classificationText (cl_classification i))),
                      (''threshold_type'', case cl_thresholdType i of None \<Rightarrow> JNull
                         | Some t \<Rightarrow> JText (thresholdText t)),
                      (''reset_triggered'', JBool resetTriggered),
                      (''reservations_reset'', JNum (int reservationsReset))] (cl_classifiedAt i) s2
          in (Classified recordId resetTriggered effectiveRightsEndAt reservationsReset, s3)))"

subsection \<open>publishDisclosurePack\<close>

record packInput =
  pk_offeringId :: ident
  pk_accountId :: ident
  pk_documents :: "(DisclosureDocumentType \<times> string) list"
  pk_traceId :: string
  pk_publishedAt :: time

datatype packResult =
    Pack_offering_not_found | Pack_not_open
  | Pack_published (pkr_id: ident) (pkr_version: nat) (pkr_documents: "disclosureDocument list")
      (pkr_isComplete: bool) (pkr_supersededPackId: "ident option")
  | PackThrows

fun documentTypeText :: "DisclosureDocumentType \<Rightarrow> string" where
  "documentTypeText Ecsp_kiis = ''ecsp_kiis''"
| "documentTypeText Priips_kid = ''priips_kid''"
| "documentTypeText Final_offer_summary = ''final_offer_summary''"
| "documentTypeText Final_terms_sheet = ''final_terms_sheet''"
| "documentTypeText Issuer_offeror_structure_sheet = ''issuer_offeror_structure_sheet''"
| "documentTypeText Investor_rights_payout_waterfall_summary = ''investor_rights_payout_waterfall_summary''"
| "documentTypeText Risk_factors_summary = ''risk_factors_summary''"
| "documentTypeText Property_appraisal_summary = ''property_appraisal_summary''"
| "documentTypeText Fees_costs_tax_liquidity_summary = ''fees_costs_tax_liquidity_summary''"
| "documentTypeText Withdrawal_cancellation_supplement_rights_notice =
     ''withdrawal_cancellation_supplement_rights_notice''"
| "documentTypeText Full_prospectus = ''full_prospectus''"

fun newDocuments :: "(nat \<Rightarrow> string) \<Rightarrow> nat \<Rightarrow> (DisclosureDocumentType \<times> string) list
    \<Rightarrow> disclosureDocument list" where
  "newDocuments ulid n [] = []"
| "newDocuments ulid n ((t, ref) # ds) =
     \<lparr>d_id = ''document_'' @ ulid n, d_documentType = t, d_documentRef = ref,
      d_isCoreReading = isCoreReadingDocumentType t\<rparr> # newDocuments ulid (Suc n) ds"

definition supersede :: "ident \<Rightarrow> time \<Rightarrow> disclosurePack list \<Rightarrow> disclosurePack list" where
  "supersede i at = update_where (\<lambda>p. p_id p = i) (\<lambda>p. p\<lparr>p_isCurrent := False, p_supersededAt := Some at\<rparr>)"

definition publishDisclosurePack ::
  "(nat \<Rightarrow> string) \<Rightarrow> packInput \<Rightarrow> offeringStore \<Rightarrow> packResult \<times> offeringStore" where
  "publishDisclosurePack ulid i s =
    (case findOffering (pk_offeringId i) s of
       None \<Rightarrow> (Pack_offering_not_found, s)
     | Some x \<Rightarrow>
       if o_status x \<noteq> Pre_offering then (Pack_not_open, s)
       else
         (let current = currentPack (pk_offeringId i) s;
              packs = (case current of None \<Rightarrow> disclosurePacks s
                       | Some c \<Rightarrow> supersede (p_id c) (pk_publishedAt i) (disclosurePacks s));
              version = (case current of None \<Rightarrow> 0 | Some c \<Rightarrow> p_version c) + 1;
              packId = ''pack_'' @ ulid (st_ulids s);
              documents = newDocuments ulid (Suc (st_ulids s)) (pk_documents i);
              documentTypes = map fst (pk_documents i);
              isComplete = isCompleteDisclosurePack documentTypes;
              supersededPackId = map_option p_id current;
              s1 = s\<lparr>disclosurePacks := packs @ [\<lparr>p_id = packId, p_offeringId = pk_offeringId i,
                      p_version = version, p_publishedAt = pk_publishedAt i, p_supersededAt = None,
                      p_isCurrent = True, p_documents = documents\<rparr>],
                    st_ulids := st_ulids s + Suc (length (pk_documents i))\<rparr>
          in if (\<exists>p\<in>set packs. p_id p = packId \<or>
                   p_offeringId p = pk_offeringId i \<and> p_version p = version) then (PackThrows, s)
             else (Pack_published packId version documents isComplete supersededPackId,
               addAudit (Some (pk_accountId i)) ''offering.disclosure_pack_published'' ''offering''
                 (pk_offeringId i)
                 [(''trace_id'', JText (pk_traceId i)), (''disclosure_pack_id'', JText packId),
                  (''version'', JNum (int version)),
                  (''document_types'', JTexts (map documentTypeText documentTypes)),
                  (''is_complete'', JBool isComplete),
                  (''superseded_pack_id'', case supersededPackId of None \<Rightarrow> JNull | Some q \<Rightarrow> JText q)]
                 (pk_publishedAt i) s1)))"

subsection \<open>Reminders and notifications\<close>

text \<open>The platform setting is a number of hours in 1..168; \<open>None\<close> is the exception for a
  missing or malformed setting.\<close>

definition getReconfirmationReminderIntervalHours :: "int option \<Rightarrow> int option" where
  "getReconfirmationReminderIntervalHours setting =
    (case setting of None \<Rightarrow> None | Some h \<Rightarrow> if 1 \<le> h \<and> h \<le> 168 then Some h else None)"

definition auditTimes :: "string \<Rightarrow> ident \<Rightarrow> offeringStore \<Rightarrow> time list" where
  "auditTimes action rid s = map a_createdAt (filter (\<lambda>a. a_resourceType a = ''reservation'' \<and>
     a_resourceId a = rid \<and> a_action a = action) (auditLogs s))"

definition latestTime :: "time list \<Rightarrow> time option" where
  "latestTime ts = (if ts = [] then None else Some (foldr max ts (hd ts)))"

record reminderRow =
  rr_reservationId :: ident
  rr_accountId :: ident
  rr_contactEmail :: "string option"
  rr_offeringId :: ident
  rr_finalOfferingPublishedAt :: time
  rr_effectiveRightsEndAt :: time
  rr_lastReminderSentAt :: "time option"

text \<open>\<open>email\<close> reads the account's protected contact address.\<close>

definition reminderRowOf ::
  "(ident \<Rightarrow> string option) \<Rightarrow> offeringStore \<Rightarrow> reservation \<Rightarrow> reminderRow list" where
  "reminderRowOf email s r =
    (case findOffering (r_offeringId r) s of None \<Rightarrow> []
     | Some x \<Rightarrow>
       (case (o_finalOfferingPublishedAt x, o_effectiveRightsEndAt x) of
          (Some p, Some e) \<Rightarrow>
            [\<lparr>rr_reservationId = r_id r, rr_accountId = r_accountId r, rr_contactEmail = email (r_accountId r),
              rr_offeringId = r_offeringId r, rr_finalOfferingPublishedAt = p, rr_effectiveRightsEndAt = e,
              rr_lastReminderSentAt =
                latestTime (auditTimes ''offering.reconfirmation_reminder_sent'' (r_id r) s)\<rparr>]
        | _ \<Rightarrow> []))"

definition listReservationsAwaitingReconfirmationForReminders ::
  "(ident \<Rightarrow> string option) \<Rightarrow> offeringStore \<Rightarrow> reminderRow list" where
  "listReservationsAwaitingReconfirmationForReminders email s =
    concat (map (reminderRowOf email s) (filter (\<lambda>r. r_stage r = Awaiting_reconfirmation) (reservations s)))"

definition recordReconfirmationReminderSent :: "ident \<Rightarrow> string \<Rightarrow> time \<Rightarrow> offeringStore \<Rightarrow> offeringStore" where
  "recordReconfirmationReminderSent rid traceId sentAt =
     addAudit None ''offering.reconfirmation_reminder_sent'' ''reservation'' rid
       [(''trace_id'', JText traceId)] sentAt"

definition recordReconfirmationWindowOpenedNotificationSent ::
  "ident \<Rightarrow> string \<Rightarrow> time \<Rightarrow> offeringStore \<Rightarrow> offeringStore" where
  "recordReconfirmationWindowOpenedNotificationSent rid traceId sentAt =
     addAudit None ''offering.reconfirmation_window_opened_notification_sent'' ''reservation'' rid
       [(''trace_id'', JText traceId)] sentAt"

record windowOpenedRow =
  wo_reservationId :: ident
  wo_contactEmail :: "string option"
  wo_effectiveRightsEndAt :: "time option"
  wo_notificationAlreadySent :: bool

definition getReservationsForReconfirmationWindowOpenedNotification ::
  "(ident \<Rightarrow> string option) \<Rightarrow> ident list \<Rightarrow> offeringStore \<Rightarrow> windowOpenedRow list" where
  "getReservationsForReconfirmationWindowOpenedNotification email ids s =
    concat (map (\<lambda>r. case findOffering (r_offeringId r) s of None \<Rightarrow> []
       | Some x \<Rightarrow> [\<lparr>wo_reservationId = r_id r, wo_contactEmail = email (r_accountId r),
           wo_effectiveRightsEndAt = o_effectiveRightsEndAt x,
           wo_notificationAlreadySent =
             auditTimes ''offering.reconfirmation_window_opened_notification_sent'' (r_id r) s \<noteq> []\<rparr>])
      (filter (\<lambda>r. r_id r \<in> set ids) (reservations s)))"

end
