(* ===== verification/OfferingEffects.thy ===== *)
theory OfferingEffects
  imports OfferingOps
begin

text \<open>
  What the transactions of the offering repository do to each table. The loops
  over locked rows in \<open>publishFinalOfferingTerms\<close>, \<open>commitOfferingFinalization\<close> and
  \<open>classifyMateriality\<close> are shown to have the effect of one UPDATE of the selected
  reservations, with one appended money event or position per row that asks for it.
\<close>

subsection \<open>Elementary effects\<close>

lemma addAudit_simps [simp]:
  "offerings (addAudit a b c d e f s) = offerings s"
  "reservations (addAudit a b c d e f s) = reservations s"
  "moneyEvents (addAudit a b c d e f s) = moneyEvents s"
  "disclosurePacks (addAudit a b c d e f s) = disclosurePacks s"
  "materialityRecords (addAudit a b c d e f s) = materialityRecords s"
  "positionLedger (addAudit a b c d e f s) = positionLedger s"
  "pivs (addAudit a b c d e f s) = pivs s"
  "jobs (addAudit a b c d e f s) = jobs s"
  "walletRegistrations (addAudit a b c d e f s) = walletRegistrations s"
  "pivTokenIdSeq (addAudit a b c d e f s) = pivTokenIdSeq s"
  "st_ulids (addAudit a b c d e f s) = st_ulids s"
  by (simp_all add: addAudit_def)

lemma enqueue_simps [simp]:
  "offerings (enqueue j s) = offerings s" "reservations (enqueue j s) = reservations s"
  "moneyEvents (enqueue j s) = moneyEvents s" "disclosurePacks (enqueue j s) = disclosurePacks s"
  "materialityRecords (enqueue j s) = materialityRecords s"
  "positionLedger (enqueue j s) = positionLedger s" "pivs (enqueue j s) = pivs s"
  "jobs (enqueue j s) = jobs s @ [j]" "st_ulids (enqueue j s) = st_ulids s"
  "pivTokenIdSeq (enqueue j s) = pivTokenIdSeq s"
  by (simp_all add: enqueue_def)

lemma updateReservation_simps [simp]:
  "reservations (updateReservation i f s) = update_where (\<lambda>r. r_id r = i) f (reservations s)"
  "offerings (updateReservation i f s) = offerings s"
  "moneyEvents (updateReservation i f s) = moneyEvents s"
  "disclosurePacks (updateReservation i f s) = disclosurePacks s"
  "materialityRecords (updateReservation i f s) = materialityRecords s"
  "positionLedger (updateReservation i f s) = positionLedger s"
  "pivs (updateReservation i f s) = pivs s" "jobs (updateReservation i f s) = jobs s"
  "walletRegistrations (updateReservation i f s) = walletRegistrations s"
  "st_ulids (updateReservation i f s) = st_ulids s"
  by (simp_all add: updateReservation_def)

lemma updateOffering_simps [simp]:
  "offerings (updateOffering i f s) = update_where (\<lambda>x. o_id x = i) f (offerings s)"
  "reservations (updateOffering i f s) = reservations s"
  "moneyEvents (updateOffering i f s) = moneyEvents s"
  "disclosurePacks (updateOffering i f s) = disclosurePacks s"
  "materialityRecords (updateOffering i f s) = materialityRecords s"
  "positionLedger (updateOffering i f s) = positionLedger s"
  "pivs (updateOffering i f s) = pivs s" "jobs (updateOffering i f s) = jobs s"
  by (simp_all add: updateOffering_def)

lemma createMoneyEvent_simps [simp]:
  "offerings (createMoneyEvent u a b c d e f g s) = offerings s"
  "reservations (createMoneyEvent u a b c d e f g s) = reservations s"
  "disclosurePacks (createMoneyEvent u a b c d e f g s) = disclosurePacks s"
  "materialityRecords (createMoneyEvent u a b c d e f g s) = materialityRecords s"
  "positionLedger (createMoneyEvent u a b c d e f g s) = positionLedger s"
  "pivs (createMoneyEvent u a b c d e f g s) = pivs s"
  "jobs (createMoneyEvent u a b c d e f g s) = jobs s"
  "walletRegistrations (createMoneyEvent u a b c d e f g s) = walletRegistrations s"
  by (simp_all add: createMoneyEvent_def)

definition eventFor :: "ident \<Rightarrow> capitalState \<Rightarrow> int \<Rightarrow> moneyEvent \<Rightarrow> bool" where
  "eventFor rid st amount e \<longleftrightarrow> m_reservationId e = rid \<and> m_capitalState e = st \<and> m_amountEur e = amount"

lemma moneyEvents_createMoneyEvent:
  "\<exists>e. moneyEvents (createMoneyEvent u rid p ref st amount eurc at s) = moneyEvents s @ [e] \<and>
     eventFor rid st amount e \<and> m_recordedAt e = at"
  by (simp add: createMoneyEvent_def eventFor_def)

subsection \<open>The publication loop\<close>

lemma funded_case: "(case l of None \<Rightarrow> False | Some c \<Rightarrow> c \<in> set FUNDED_CAPITAL_STATES) = isReservationFunded l"
  by (simp add: isReservationFunded_def)

definition publishedRow :: "capitalState option \<Rightarrow> reservation \<Rightarrow> reservation" where
  "publishedRow l r = r\<lparr>r_stage := if isReservationFunded l then Awaiting_reconfirmation else Cancelled\<rparr>"

lemma publishStep_frame [simp]:
  "offerings (fst (publishStep u at row st)) = offerings (fst st)"
  "disclosurePacks (fst (publishStep u at row st)) = disclosurePacks (fst st)"
  "materialityRecords (fst (publishStep u at row st)) = materialityRecords (fst st)"
  "positionLedger (fst (publishStep u at row st)) = positionLedger (fst st)"
  "pivs (fst (publishStep u at row st)) = pivs (fst st)"
  "jobs (fst (publishStep u at row st)) = jobs (fst st)"
  by (simp_all add: publishStep_def Let_def split: prod.splits)

lemma publishStep_reservations:
  "reservations (fst (publishStep u at row st)) =
    update_where (\<lambda>x. r_id x = r_id (fst row)) (publishedRow (snd row)) (reservations (fst st))"
  by (simp add: publishStep_def funded_case publishedRow_def[abs_def] Let_def split: prod.splits)

lemma publishStep_counts:
  "fst (snd (publishStep u at row st)) = (if isReservationFunded (snd row)
     then fst (snd st) @ [r_id (fst row)] else fst (snd st))"
  "snd (snd (publishStep u at row st)) = (if \<not> isReservationFunded (snd row)
     then Suc (snd (snd st)) else snd (snd st))"
  by (simp_all add: publishStep_def funded_case Let_def split: prod.splits)

lemma publishStep_events:
  "\<exists>new. moneyEvents (fst (publishStep u at row st)) = moneyEvents (fst st) @ new \<and>
     (\<forall>e\<in>set new. isReservationFunded (snd row) \<and>
        eventFor (r_id (fst row)) Reconfirmation_pending (r_amountEur (fst row)) e \<and> m_recordedAt e = at)"
proof (cases "isReservationFunded (snd row)")
  case True
  then show ?thesis
    using moneyEvents_createMoneyEvent[of u "r_id (fst row)" "''internal''" None Reconfirmation_pending
        "r_amountEur (fst row)" None at "updateReservation (r_id (fst row)) (\<lambda>x. x\<lparr>r_stage := Awaiting_reconfirmation\<rparr>) (fst st)"]
    by (auto simp: publishStep_def funded_case Let_def split: prod.splits)
next
  case False
  then show ?thesis by (auto simp: publishStep_def funded_case Let_def split: prod.splits)
qed

definition publishSelected :: "ident \<Rightarrow> reservation \<Rightarrow> bool" where
  "publishSelected oid r \<longleftrightarrow> r_offeringId r = oid \<and> r_stage r = Initiated"

definition publishLoop where
  "publishLoop u at oid s = fold (publishStep u at) (publishRows oid s) (s, [], 0)"

lemma publishLoop_frame [simp]:
  "offerings (fst (publishLoop u at oid s)) = offerings s"
  "disclosurePacks (fst (publishLoop u at oid s)) = disclosurePacks s"
  "materialityRecords (fst (publishLoop u at oid s)) = materialityRecords s"
  "positionLedger (fst (publishLoop u at oid s)) = positionLedger s"
  "pivs (fst (publishLoop u at oid s)) = pivs s"
  "jobs (fst (publishLoop u at oid s)) = jobs s"
  unfolding publishLoop_def
  by (subst fold_same[where \<pi> = "\<lambda>st. offerings (fst st)"] fold_same[where \<pi> = "\<lambda>st. disclosurePacks (fst st)"]
      fold_same[where \<pi> = "\<lambda>st. materialityRecords (fst st)"] fold_same[where \<pi> = "\<lambda>st. positionLedger (fst st)"]
      fold_same[where \<pi> = "\<lambda>st. pivs (fst st)"] fold_same[where \<pi> = "\<lambda>st. jobs (fst st)"]; simp)+

lemma publishLoop_reservations:
  assumes "distinct (map r_id (reservations s))"
  shows "reservations (fst (publishLoop u at oid s)) =
    update_where (publishSelected oid) (\<lambda>r. publishedRow (latestCapitalState (r_id r) s) r) (reservations s)"
proof -
  have "reservations (fst (publishLoop u at oid s)) =
      fold (\<lambda>row. update_where (\<lambda>x. r_id x = r_id (fst row)) (publishedRow (snd row)))
        (publishRows oid s) (reservations s)"
    unfolding publishLoop_def
    by (subst fold_proj[where \<pi> = "\<lambda>st. reservations (fst st)"], rule publishStep_reservations) simp
  also have "\<dots> = fold (\<lambda>r. update_where (\<lambda>x. r_id x = r_id r) (publishedRow (latestCapitalState (r_id r) s)))
      (filter (publishSelected oid) (reservations s)) (reservations s)"
    by (simp add: publishRows_def fold_map comp_def publishSelected_def[abs_def])
  also have "\<dots> = update_where (publishSelected oid)
      (\<lambda>r. publishedRow (latestCapitalState (r_id r) s) r) (reservations s)"
    using assms by (rule fold_update_selected) (simp add: publishedRow_def)
  finally show ?thesis .
qed

lemma publishLoop_counts:
  "fst (snd (publishLoop u at oid s)) =
     map r_id (filter (\<lambda>r. publishSelected oid r \<and> fundedIn s r) (reservations s))"
  "snd (snd (publishLoop u at oid s)) =
     length (filter (\<lambda>r. publishSelected oid r \<and> \<not> fundedIn s r) (reservations s))"
proof -
  have "fst (snd (publishLoop u at oid s)) =
      map (\<lambda>row. r_id (fst row)) (filter (\<lambda>row. isReservationFunded (snd row)) (publishRows oid s))"
    unfolding publishLoop_def
    by (subst fold_proj[where \<pi> = "\<lambda>st. fst (snd st)"], rule publishStep_counts(1))
       (simp add: fold_snoc_map)
  then show "fst (snd (publishLoop u at oid s)) =
     map r_id (filter (\<lambda>r. publishSelected oid r \<and> fundedIn s r) (reservations s))"
    by (simp add: publishRows_def filter_map comp_def publishSelected_def fundedIn_def conj_commute)
  have "snd (snd (publishLoop u at oid s)) =
      length (filter (\<lambda>row. \<not> isReservationFunded (snd row)) (publishRows oid s))"
    unfolding publishLoop_def
    by (subst fold_proj[where \<pi> = "\<lambda>st. snd (snd st)"], rule publishStep_counts(2))
       (simp add: fold_count)
  then show "snd (snd (publishLoop u at oid s)) =
     length (filter (\<lambda>r. publishSelected oid r \<and> \<not> fundedIn s r) (reservations s))"
    by (simp add: publishRows_def filter_map comp_def publishSelected_def fundedIn_def conj_commute)
qed


text \<open>The money events a loop appends.\<close>

definition appendsEvents :: "(moneyEvent \<Rightarrow> bool) \<Rightarrow> offeringStore \<Rightarrow> offeringStore \<Rightarrow> bool" where
  "appendsEvents good s s' \<longleftrightarrow> (\<exists>new. moneyEvents s' = moneyEvents s @ new \<and> (\<forall>e\<in>set new. good e))"

lemma appendsEvents_refl [simp]: "appendsEvents good s s"
  by (simp add: appendsEvents_def)

lemma appendsEvents_cong: "moneyEvents s' = moneyEvents s'' \<Longrightarrow> appendsEvents good s s' = appendsEvents good s s''"
  by (simp add: appendsEvents_def)

lemma appendsEvents_trans:
  "appendsEvents good s s' \<Longrightarrow> appendsEvents good s' s'' \<Longrightarrow> appendsEvents good s s''"
  unfolding appendsEvents_def by (metis Un_iff append.assoc set_append)

lemma appendsEvents_mono: "appendsEvents P s s' \<Longrightarrow> (\<And>e. P e \<Longrightarrow> Q e) \<Longrightarrow> appendsEvents Q s s'"
  by (auto simp: appendsEvents_def)

lemma fold_appendsEvents:
  assumes "\<And>x st. x \<in> set xs \<Longrightarrow> appendsEvents good (fst st) (fst (f x st))"
  shows "appendsEvents good (fst st) (fst (fold f xs st))"
  using assms
proof (induction xs arbitrary: st)
  case (Cons x xs)
  have "appendsEvents good (fst st) (fst (f x st))" by (rule Cons.prems) simp
  moreover have "appendsEvents good (fst (f x st)) (fst (fold f xs (f x st)))"
    by (rule Cons.IH) (simp add: Cons.prems)
  ultimately show ?case by (simp add: appendsEvents_trans)
qed simp

lemma publishLoop_events:
  "appendsEvents (\<lambda>e. \<exists>r\<in>set (reservations s). publishSelected oid r \<and> fundedIn s r \<and>
     eventFor (r_id r) Reconfirmation_pending (r_amountEur r) e \<and> m_recordedAt e = at)
   s (fst (publishLoop u at oid s))"
proof -
  let ?good = "\<lambda>e. \<exists>r\<in>set (reservations s). publishSelected oid r \<and> fundedIn s r \<and>
     eventFor (r_id r) Reconfirmation_pending (r_amountEur r) e \<and> m_recordedAt e = at"
  have "appendsEvents ?good (fst st) (fst (publishStep u at row st))" if "row \<in> set (publishRows oid s)" for row st
    using publishStep_events[of u at row st] that unfolding appendsEvents_def
    by (fastforce simp: publishRows_def publishSelected_def fundedIn_def)
  then show ?thesis using fold_appendsEvents[of "publishRows oid s" ?good "publishStep u at" "(s, [], 0)"]
    by (simp add: publishLoop_def)
qed

subsection \<open>The commit loop\<close>

definition committedRow :: "time \<Rightarrow> reservation \<Rightarrow> reservation" where
  "committedRow at r = (if r_stage r = Reconfirmed
     then r\<lparr>r_stage := Finalized, r_reservationFinalizedAt := Some at\<rparr> else r\<lparr>r_stage := Lapsed\<rparr>)"

definition commitRowFor :: "time \<Rightarrow> reservation \<Rightarrow> reservation \<Rightarrow> reservation" where
  "commitRowFor at r x = (if r_stage r = Reconfirmed
     then x\<lparr>r_stage := Finalized, r_reservationFinalizedAt := Some at\<rparr> else x\<lparr>r_stage := Lapsed\<rparr>)"

definition commitSelected :: "ident \<Rightarrow> reservation \<Rightarrow> bool" where
  "commitSelected oid r \<longleftrightarrow> r_offeringId r = oid \<and> r_stage r \<in> {Awaiting_reconfirmation, Reconfirmed}"

definition commitLoop where
  "commitLoop u pivId at oid s = fold (commitStep u pivId at) (commitRows oid s) (s, 0, 0)"

lemma commitStep_frame [simp]:
  "offerings (fst (commitStep u p at r st)) = offerings (fst st)"
  "disclosurePacks (fst (commitStep u p at r st)) = disclosurePacks (fst st)"
  "materialityRecords (fst (commitStep u p at r st)) = materialityRecords (fst st)"
  "pivs (fst (commitStep u p at r st)) = pivs (fst st)"
  "jobs (fst (commitStep u p at r st)) = jobs (fst st)"
  "walletRegistrations (fst (commitStep u p at r st)) = walletRegistrations (fst st)"
  by (simp_all add: commitStep_def Let_def split: prod.splits)

lemma commitStep_reservations:
  "reservations (fst (commitStep u p at r st)) =
    update_where (\<lambda>x. r_id x = r_id r) (commitRowFor at r) (reservations (fst st))"
  by (simp add: commitStep_def commitRowFor_def[abs_def] Let_def split: prod.splits)

lemma commitStep_counts:
  "fst (snd (commitStep u p at r st)) = (if r_stage r = Reconfirmed then Suc (fst (snd st)) else fst (snd st))"
  "snd (snd (commitStep u p at r st)) = (if r_stage r \<noteq> Reconfirmed then Suc (snd (snd st)) else snd (snd st))"
  by (simp_all add: commitStep_def Let_def split: prod.splits)

definition positionOf :: "ident \<Rightarrow> reservation \<Rightarrow> position \<Rightarrow> bool" where
  "positionOf pivId r p \<longleftrightarrow> pos_reservationId p = Some (r_id r) \<and> pos_pivId p = pivId \<and>
     pos_accountId p = r_accountId r \<and> pos_costBasisEur p = fromCents (r_amountEur r) \<and>
     pos_unitCount p = fromCents (r_amountEur r)"

lemma commitStep_positions:
  "\<exists>new. positionLedger (fst (commitStep u p at r st)) = positionLedger (fst st) @ new \<and>
     list_all2 (positionOf p) (filter (\<lambda>r. r_stage r = Reconfirmed) [r]) new"
  by (auto simp: commitStep_def positionOf_def costBasisToUnitCount_def Let_def split: prod.splits)

lemma commitLoop_frame [simp]:
  "offerings (fst (commitLoop u p at oid s)) = offerings s"
  "disclosurePacks (fst (commitLoop u p at oid s)) = disclosurePacks s"
  "materialityRecords (fst (commitLoop u p at oid s)) = materialityRecords s"
  "pivs (fst (commitLoop u p at oid s)) = pivs s"
  "jobs (fst (commitLoop u p at oid s)) = jobs s"
  unfolding commitLoop_def
  by (subst fold_same[where \<pi> = "\<lambda>st. offerings (fst st)"] fold_same[where \<pi> = "\<lambda>st. disclosurePacks (fst st)"]
      fold_same[where \<pi> = "\<lambda>st. materialityRecords (fst st)"]
      fold_same[where \<pi> = "\<lambda>st. pivs (fst st)"] fold_same[where \<pi> = "\<lambda>st. jobs (fst st)"]; simp)+

lemma commitLoop_reservations:
  assumes "distinct (map r_id (reservations s))"
  shows "reservations (fst (commitLoop u p at oid s)) =
    update_where (commitSelected oid) (committedRow at) (reservations s)"
proof -
  have "reservations (fst (commitLoop u p at oid s)) =
      fold (\<lambda>r. update_where (\<lambda>x. r_id x = r_id r) (commitRowFor at r)) (commitRows oid s) (reservations s)"
    unfolding commitLoop_def
    by (subst fold_proj[where \<pi> = "\<lambda>st. reservations (fst st)"], rule commitStep_reservations) simp
  also have "\<dots> = update_where (commitSelected oid) (\<lambda>r. commitRowFor at r r) (reservations s)"
    unfolding commitRows_def commitSelected_def[abs_def] using assms
    by (rule fold_update_selected) (simp add: commitRowFor_def)
  finally show ?thesis by (simp add: commitRowFor_def committedRow_def[abs_def])
qed

lemma commitLoop_counts:
  "fst (snd (commitLoop u p at oid s)) = length (filter (\<lambda>r. r_offeringId r = oid \<and> r_stage r = Reconfirmed) (reservations s))"
  "snd (snd (commitLoop u p at oid s)) =
     length (filter (\<lambda>r. r_offeringId r = oid \<and> r_stage r = Awaiting_reconfirmation) (reservations s))"
proof -
  have "fst (snd (commitLoop u p at oid s)) = length (filter (\<lambda>r. r_stage r = Reconfirmed) (commitRows oid s))"
    unfolding commitLoop_def
    by (subst fold_proj[where \<pi> = "\<lambda>st. fst (snd st)"], rule commitStep_counts(1)) (simp add: fold_count)
  then show "fst (snd (commitLoop u p at oid s)) =
      length (filter (\<lambda>r. r_offeringId r = oid \<and> r_stage r = Reconfirmed) (reservations s))"
    by (simp add: commitRows_def) (metis (mono_tags, lifting) insertCI)
  have "snd (snd (commitLoop u p at oid s)) = length (filter (\<lambda>r. r_stage r \<noteq> Reconfirmed) (commitRows oid s))"
    unfolding commitLoop_def
    by (subst fold_proj[where \<pi> = "\<lambda>st. snd (snd st)"], rule commitStep_counts(2)) (simp add: fold_count)
  also have "filter (\<lambda>r. r_stage r \<noteq> Reconfirmed) (commitRows oid s) =
      filter (\<lambda>r. r_offeringId r = oid \<and> r_stage r = Awaiting_reconfirmation) (reservations s)"
    by (auto simp: commitRows_def intro!: filter_cong)
  finally show "snd (snd (commitLoop u p at oid s)) =
     length (filter (\<lambda>r. r_offeringId r = oid \<and> r_stage r = Awaiting_reconfirmation) (reservations s))" .
qed

lemma fold_commit_positions:
  "\<exists>new. positionLedger (fst (fold (commitStep u p at) rows st)) = positionLedger (fst st) @ new \<and>
     list_all2 (positionOf p) (filter (\<lambda>r. r_stage r = Reconfirmed) rows) new"
proof (induction rows arbitrary: st)
  case (Cons r rows)
  obtain a where a: "positionLedger (fst (commitStep u p at r st)) = positionLedger (fst st) @ a"
    "list_all2 (positionOf p) (filter (\<lambda>r. r_stage r = Reconfirmed) [r]) a"
    using commitStep_positions by blast
  obtain b where "positionLedger (fst (fold (commitStep u p at) rows (commitStep u p at r st))) =
      positionLedger (fst (commitStep u p at r st)) @ b"
    "list_all2 (positionOf p) (filter (\<lambda>r. r_stage r = Reconfirmed) rows) b"
    using Cons.IH by blast
  moreover have "list_all2 (positionOf p) (filter (\<lambda>r. r_stage r = Reconfirmed) (r # rows)) (a @ b)"
    using list_all2_appendI[OF a(2) calculation(2)] by (simp split: if_splits)
  ultimately show ?case using a(1) by (intro exI[of _ "a @ b"]) simp
qed simp


lemma commitStep_events:
  "appendsEvents (\<lambda>e. r_stage r = Reconfirmed \<and> eventFor (r_id r) Eurc_finalized (r_amountEur r) e \<and> m_recordedAt e = at)
     (fst st) (fst (commitStep u p at r st))"
  by (auto simp: appendsEvents_def commitStep_def createMoneyEvent_def eventFor_def Let_def split: prod.splits)

lemma commitLoop_events:
  "appendsEvents (\<lambda>e. \<exists>r\<in>set (reservations s). r_offeringId r = oid \<and> r_stage r = Reconfirmed \<and>
     eventFor (r_id r) Eurc_finalized (r_amountEur r) e \<and> m_recordedAt e = at)
   s (fst (commitLoop u p at oid s))"
proof -
  let ?good = "\<lambda>e. \<exists>r\<in>set (reservations s). r_offeringId r = oid \<and> r_stage r = Reconfirmed \<and>
     eventFor (r_id r) Eurc_finalized (r_amountEur r) e \<and> m_recordedAt e = at"
  have "appendsEvents ?good (fst st) (fst (commitStep u p at r st))" if "r \<in> set (commitRows oid s)" for r st
    using that by (intro appendsEvents_mono[OF commitStep_events]) (auto simp: commitRows_def)
  then show ?thesis using fold_appendsEvents[of "commitRows oid s" ?good "commitStep u p at" "(s, 0, 0)"]
    by (simp add: commitLoop_def)
qed

lemma commitLoop_positions:
  "\<exists>new. positionLedger (fst (commitLoop u p at oid s)) = positionLedger s @ new \<and>
     list_all2 (positionOf p) (filter (\<lambda>r. r_offeringId r = oid \<and> r_stage r = Reconfirmed) (reservations s)) new"
proof -
  have "filter (\<lambda>r. r_stage r = Reconfirmed) (commitRows oid s) =
      filter (\<lambda>r. r_offeringId r = oid \<and> r_stage r = Reconfirmed) (reservations s)"
    by (auto simp: commitRows_def intro!: filter_cong)
  then show ?thesis using fold_commit_positions[of u p at "commitRows oid s" "(s, 0, 0)"]
    by (simp add: commitLoop_def)
qed

subsection \<open>The materiality reset\<close>

lemma resetFold_frame [simp]:
  "offerings (fold resetStep rows s) = offerings s"
  "disclosurePacks (fold resetStep rows s) = disclosurePacks s"
  "moneyEvents (fold resetStep rows s) = moneyEvents s"
  "positionLedger (fold resetStep rows s) = positionLedger s"
  "pivs (fold resetStep rows s) = pivs s"
  "jobs (fold resetStep rows s) = jobs s"
  "materialityRecords (fold resetStep rows s) = materialityRecords s"
  by (rule fold_same; simp add: resetStep_def)+

definition resetRow :: "reservation \<Rightarrow> reservation" where
  "resetRow x = x\<lparr>r_stage := Awaiting_reconfirmation, r_reconfirmedAt := None\<rparr>"

lemma resetFold_reservations:
  assumes "distinct (map r_id (reservations s))"
  shows "reservations (fold resetStep (reconfirmedRows oid s) s) =
    update_where (\<lambda>r. r_offeringId r = oid \<and> r_stage r = Reconfirmed) resetRow (reservations s)"
proof -
  have "reservations (fold resetStep (reconfirmedRows oid s) s) =
      fold (\<lambda>r. update_where (\<lambda>x. r_id x = r_id r) resetRow) (reconfirmedRows oid s) (reservations s)"
    by (rule fold_proj) (simp add: resetStep_def resetRow_def[abs_def])
  also have "\<dots> = update_where (\<lambda>r. r_offeringId r = oid \<and> r_stage r = Reconfirmed) resetRow (reservations s)"
    unfolding reconfirmedRows_def using assms by (rule fold_update_selected) (simp add: resetRow_def)
  finally show ?thesis .
qed

end
