(* ===== verification/OfferingInvariant.thy ===== *)
theory OfferingInvariant
  imports OfferingEffects
begin

text \<open>
  Invariants of the offering store. A reservation moves only along its lifecycle
  and keeps its terms; keys are unique and amounts positive; the capacity held by
  live reservations never exceeds the target. Each transaction is split into its
  refused and its effective case, and the invariants are shown for each.
\<close>


subsection \<open>The life of a reservation\<close>

fun stageNext :: "reservationStage \<Rightarrow> reservationStage \<Rightarrow> bool" where
  "stageNext Initiated t = (t \<in> {Awaiting_reconfirmation, Cancelled, Lapsed})"
| "stageNext Awaiting_reconfirmation t = (t \<in> {Reconfirmed, Lapsed})"
| "stageNext Reconfirmed t = (t \<in> {Awaiting_reconfirmation, Finalized})"
| "stageNext Finalized t = False"
| "stageNext Lapsed t = False"
| "stageNext Cancelled t = False"

definition sameTerms :: "reservation \<Rightarrow> reservation \<Rightarrow> bool" where
  "sameTerms r r' \<longleftrightarrow> r_id r' = r_id r \<and> r_offeringId r' = r_offeringId r \<and>
     r_accountId r' = r_accountId r \<and> r_clientIdempotencyKey r' = r_clientIdempotencyKey r \<and>
     r_amountEur r' = r_amountEur r \<and> r_createdAt r' = r_createdAt r \<and>
     r_disclosurePackVersionAtReservation r' = r_disclosurePackVersionAtReservation r"

definition rowStep :: "reservation \<Rightarrow> reservation \<Rightarrow> bool" where
  "rowStep r r' \<longleftrightarrow> sameTerms r r' \<and> (r_stage r' = r_stage r \<or> stageNext (r_stage r) (r_stage r'))"

lemma rowStep_refl [simp]: "rowStep r r"
  by (simp add: rowStep_def sameTerms_def)

lemma list_all2_update_where:
  "(\<And>r. r \<in> set t \<Longrightarrow> p r \<Longrightarrow> P r (f r)) \<Longrightarrow> (\<And>r. P r r) \<Longrightarrow> list_all2 P t (update_where p f t)"
  by (induction t) auto

lemma rowStep_ids: "list_all2 rowStep t t' \<Longrightarrow> map r_id t' = map r_id t"
  by (induction rule: list_all2_induct) (auto simp: rowStep_def sameTerms_def)

lemma rowStep_holding: "rowStep r r' \<Longrightarrow> capacityHolding oid r' \<Longrightarrow> capacityHolding oid r \<and> r_amountEur r' = r_amountEur r"
  by (cases "r_stage r") (auto simp: rowStep_def sameTerms_def capacityHolding_def)

lemma rowStep_sum:
  assumes "list_all2 rowStep t t'" "\<And>r. r \<in> set t \<Longrightarrow> 0 < r_amountEur r"
  shows "sum_by (capacityHolding oid) r_amountEur t' \<le> sum_by (capacityHolding oid) r_amountEur t"
  using assms
proof (induction rule: list_all2_induct)
  case (Cons r t r' t')
  then have "sum_by (capacityHolding oid) r_amountEur t' \<le> sum_by (capacityHolding oid) r_amountEur t" by simp
  then show ?case using rowStep_holding[OF Cons(1), of oid] Cons.prems[of r] by auto
qed simp

subsection \<open>Tables\<close>

definition offeringKey :: "offering \<Rightarrow> ident \<times> ident \<times> int" where
  "offeringKey x = (o_id x, o_pivId x, o_targetRaiseEur x)"

definition tablesOk :: "offeringStore \<Rightarrow> bool" where
  "tablesOk s \<longleftrightarrow> distinct (map o_id (offerings s)) \<and> distinct (map r_id (reservations s)) \<and>
     (\<forall>x\<in>set (offerings s). 0 < o_targetRaiseEur x) \<and>
     (\<forall>r\<in>set (reservations s). 0 < r_amountEur r \<and> r_offeringId r \<in> o_id ` set (offerings s)) \<and>
     (\<forall>e\<in>set (moneyEvents s). 0 < m_amountEur e \<and> m_reservationId e \<in> r_id ` set (reservations s))"

definition capacityOk :: "offeringStore \<Rightarrow> bool" where
  "capacityOk s \<longleftrightarrow> (\<forall>x\<in>set (offerings s). reservedCapacity (o_id x) s \<le> o_targetRaiseEur x)"

definition goodEvent :: "offeringStore \<Rightarrow> moneyEvent \<Rightarrow> bool" where
  "goodEvent s e \<longleftrightarrow> 0 < m_amountEur e \<and> m_reservationId e \<in> r_id ` set (reservations s)"

text \<open>A quiet operation adds neither offerings nor reservations; it moves reservations
  along the lifecycle and may append money events.\<close>

definition quiet :: "offeringStore \<Rightarrow> offeringStore \<Rightarrow> bool" where
  "quiet s s' \<longleftrightarrow> map offeringKey (offerings s') = map offeringKey (offerings s) \<and>
     list_all2 rowStep (reservations s) (reservations s') \<and> appendsEvents (goodEvent s) s s'"

lemma quiet_refl [simp]: "quiet s s"
  by (simp add: quiet_def list_all2_refl)

lemma quiet_ids:
  assumes "quiet s s'"
  shows "map o_id (offerings s') = map o_id (offerings s)"
    "map r_id (reservations s') = map r_id (reservations s)"
proof -
  have "map fst (map offeringKey (offerings s')) = map fst (map offeringKey (offerings s))"
    using assms by (simp add: quiet_def)
  then show "map o_id (offerings s') = map o_id (offerings s)" by (simp add: offeringKey_def comp_def)
  show "map r_id (reservations s') = map r_id (reservations s)"
    using assms by (simp add: quiet_def rowStep_ids)
qed

lemma keys_in: "map k t' = map k t \<Longrightarrow> x \<in> set t' \<Longrightarrow> \<exists>y\<in>set t. k y = k x"
  by (metis image_iff image_set)

lemma rowStep_in: "list_all2 rowStep t t' \<Longrightarrow> r' \<in> set t' \<Longrightarrow> \<exists>r\<in>set t. rowStep r r'"
  by (induction rule: list_all2_induct) auto

lemma quiet_tablesOk:
  assumes "quiet s s'" "tablesOk s"
  shows "tablesOk s'"
proof -
  have off: "map offeringKey (offerings s') = map offeringKey (offerings s)"
    and row: "list_all2 rowStep (reservations s) (reservations s')"
    and ev: "appendsEvents (goodEvent s) s s'" using assms(1) by (simp_all add: quiet_def)
  have ids: "map o_id (offerings s') = map o_id (offerings s)"
    "map r_id (reservations s') = map r_id (reservations s)" using quiet_ids[OF assms(1)] .
  have oset: "o_id ` set (offerings s') = o_id ` set (offerings s)"
    and rset: "r_id ` set (reservations s') = r_id ` set (reservations s)"
    using ids by (metis image_set)+
  have "0 < o_targetRaiseEur x" if x: "x \<in> set (offerings s')" for x
    using keys_in[OF off x] assms(2) by (auto simp: offeringKey_def tablesOk_def)
  moreover have "0 < r_amountEur r \<and> r_offeringId r \<in> o_id ` set (offerings s')"
    if "r \<in> set (reservations s')" for r
    using rowStep_in[OF row that] assms(2) oset
    by (auto simp: rowStep_def sameTerms_def tablesOk_def)
  moreover have "0 < m_amountEur e \<and> m_reservationId e \<in> r_id ` set (reservations s')"
    if "e \<in> set (moneyEvents s')" for e
    using that ev assms(2) rset by (auto simp: appendsEvents_def goodEvent_def tablesOk_def)
  ultimately show ?thesis using ids assms(2) by (simp add: tablesOk_def)
qed

lemma quiet_capacityOk:
  assumes "quiet s s'" "tablesOk s" "capacityOk s"
  shows "capacityOk s'"
  unfolding capacityOk_def
proof
  fix x assume x: "x \<in> set (offerings s')"
  then obtain y where y: "y \<in> set (offerings s)" "o_id y = o_id x" "o_targetRaiseEur y = o_targetRaiseEur x"
    using assms(1) keys_in[of offeringKey "offerings s'" "offerings s" x]
    by (auto simp: quiet_def offeringKey_def)
  have "reservedCapacity (o_id x) s' \<le> reservedCapacity (o_id x) s"
    using assms(1,2) unfolding reservedCapacity_def
    by (intro rowStep_sum) (auto simp: quiet_def tablesOk_def)
  then show "reservedCapacity (o_id x) s' \<le> o_targetRaiseEur x"
    using assms(3) y by (force simp: capacityOk_def)
qed


subsection \<open>The quiet operations\<close>

lemma update_offering_key:
  "(\<And>x. offeringKey (f x) = offeringKey x) \<Longrightarrow>
    map offeringKey (update_where p f t) = map offeringKey t"
  by (rule map_update_where_id)

lemma findReservation_Some:
  assumes "tablesOk s" "findReservation i s = Some r"
  shows "r \<in> set (reservations s)" "r_id r = i" "\<And>q. q \<in> set (reservations s) \<Longrightarrow> r_id q = i \<Longrightarrow> q = r"
proof -
  show "r \<in> set (reservations s)" "r_id r = i"
    using find_Some_in[of _ "reservations s" r] assms(2) by (auto simp: findReservation_def)
  show "q = r" if "q \<in> set (reservations s)" "r_id q = i" for q
    using find_key_unique[of r_id "reservations s" i r q] assms that
    by (simp add: findReservation_def tablesOk_def)
qed

lemma findOffering_Some:
  assumes "tablesOk s" "findOffering i s = Some x"
  shows "x \<in> set (offerings s)" "o_id x = i" "\<And>y. y \<in> set (offerings s) \<Longrightarrow> o_id y = i \<Longrightarrow> y = x"
proof -
  show "x \<in> set (offerings s)" "o_id x = i"
    using find_Some_in[of _ "offerings s" x] assms(2) by (auto simp: findOffering_def)
  show "y = x" if "y \<in> set (offerings s)" "o_id y = i" for y
    using find_key_unique[of o_id "offerings s" i x y] assms that
    by (simp add: findOffering_def tablesOk_def)
qed

lemma update_one_rowStep:
  assumes "tablesOk s" "findReservation i s = Some r" "rowStep r (f r)"
  shows "list_all2 rowStep (reservations s) (update_where (\<lambda>q. r_id q = i) f (reservations s))"
proof (rule list_all2_update_where)
  fix q assume "q \<in> set (reservations s)" "r_id q = i"
  then have "q = r" using findReservation_Some(3)[OF assms(1,2)] by blast
  then show "rowStep q (f q)" using assms(3) by simp
qed simp

lemma findReservation_None: "findReservation i s = None \<longleftrightarrow> i \<notin> r_id ` set (reservations s)"
  by (auto simp: findReservation_def find_None_iff)

lemma createMoneyEvent_quiet:
  "0 < amount \<Longrightarrow> rid \<in> r_id ` set (reservations s) \<Longrightarrow>
    quiet s (createMoneyEvent ulid rid p ref st amount eurc at s)"
  using moneyEvents_createMoneyEvent[of ulid rid p ref st amount eurc at s]
  by (auto simp: quiet_def appendsEvents_def goodEvent_def eventFor_def list_all2_refl)

lemma recordMoneyEvent_quiet: "recordMoneyEvent ulid i s = Some s' \<Longrightarrow> quiet s s'"
  by (auto simp: recordMoneyEvent_def findReservation_None intro!: createMoneyEvent_quiet
      split: option.splits if_splits)

lemma expireReservation_quiet:
  assumes "tablesOk s"
  shows "quiet s (snd (expireReservation i t at s))"
proof (cases "findReservation i s")
  case (Some r)
  have "r_stage r = Initiated \<Longrightarrow> list_all2 rowStep (reservations s)
      (update_where (\<lambda>q. r_id q = i) (\<lambda>q. q\<lparr>r_stage := Lapsed\<rparr>) (reservations s))"
    using assms Some by (rule update_one_rowStep) (simp add: rowStep_def sameTerms_def)
  then show ?thesis using Some by (simp add: expireReservation_def quiet_def appendsEvents_def list_all2_refl)
qed (simp add: expireReservation_def)

lemma reconfirmReservation_quiet:
  assumes "tablesOk s"
  shows "quiet s (snd (reconfirmReservation i s))"
proof (cases "findReservation (rci_reservationId i) s")
  case (Some r)
  have "r_stage r = Awaiting_reconfirmation \<Longrightarrow> list_all2 rowStep (reservations s)
      (update_where (\<lambda>q. r_id q = rci_reservationId i)
         (\<lambda>y. y\<lparr>r_stage := Reconfirmed, r_reconfirmedAt := Some (rci_reconfirmedAt i)\<rparr>) (reservations s))"
    using assms Some by (rule update_one_rowStep) (simp add: rowStep_def sameTerms_def)
  then show ?thesis using Some
    by (simp add: reconfirmReservation_def quiet_def appendsEvents_def list_all2_refl split: option.splits)
qed (simp add: reconfirmReservation_def)

text \<open>The successful publication in terms of its loop.\<close>

definition setPublished :: "time \<Rightarrow> offering \<Rightarrow> offering" where
  "setPublished at y = y\<lparr>o_finalOfferingPublishedAt := Some at,
     o_platformRightsEndAt := Some (computeEffectiveRightsEndAt at),
     o_effectiveRightsEndAt := Some (computeEffectiveRightsEndAt at)\<rparr>"

lemma publish_cases:
  obtains (refused) "snd (publishFinalOfferingTerms ulid i s) = s"
      "\<And>e a c. fst (publishFinalOfferingTerms ulid i s) \<noteq> Published e a c"
  | (published) x where "findOffering (pi_offeringId i) s = Some x" "o_status x = Pre_offering"
      "o_finalOfferingPublishedAt x = None"
      "canPublishFinalOfferingTerms Pre_offering None (fromCents (o_targetRaiseEur x))
         (countedFundedText (pi_offeringId i) s) = Some True"
      "isCompleteDisclosurePack (currentDocumentTypes (pi_offeringId i) s)"
      "fst (publishFinalOfferingTerms ulid i s) = Published (computeEffectiveRightsEndAt (pi_publishedAt i))
         (length (fst (snd (publishLoop ulid (pi_publishedAt i) (pi_offeringId i) s))))
         (snd (snd (publishLoop ulid (pi_publishedAt i) (pi_offeringId i) s)))"
      "reservations (snd (publishFinalOfferingTerms ulid i s)) =
         reservations (fst (publishLoop ulid (pi_publishedAt i) (pi_offeringId i) s))"
      "moneyEvents (snd (publishFinalOfferingTerms ulid i s)) =
         moneyEvents (fst (publishLoop ulid (pi_publishedAt i) (pi_offeringId i) s))"
      "offerings (snd (publishFinalOfferingTerms ulid i s)) =
         update_where (\<lambda>y. o_id y = pi_offeringId i) (setPublished (pi_publishedAt i)) (offerings s)"
      "disclosurePacks (snd (publishFinalOfferingTerms ulid i s)) = disclosurePacks s"
      "positionLedger (snd (publishFinalOfferingTerms ulid i s)) = positionLedger s"
proof (cases "findOffering (pi_offeringId i) s")
  case None
  then show ?thesis by (intro refused) (simp_all add: publishFinalOfferingTerms_def)
next
  case (Some x)
  let ?can = "canPublishFinalOfferingTerms Pre_offering None (fromCents (o_targetRaiseEur x))
         (countedFundedText (pi_offeringId i) s)"
  let ?pv = "find (\<lambda>p. piv_id p = o_pivId x) (pivs s)"
  consider (a) "?pv = None" | (b) pv where "?pv = Some pv" "o_status x \<noteq> Pre_offering"
    | (c) pv where "?pv = Some pv" "o_status x = Pre_offering" "o_finalOfferingPublishedAt x \<noteq> None"
    | (d) pv where "?pv = Some pv" "o_status x = Pre_offering" "o_finalOfferingPublishedAt x = None" "?can = None"
    | (e) pv where "?pv = Some pv" "o_status x = Pre_offering" "o_finalOfferingPublishedAt x = None" "?can = Some False"
    | (f) pv where "?pv = Some pv" "o_status x = Pre_offering" "o_finalOfferingPublishedAt x = None" "?can = Some True"
        "\<not> isCompleteDisclosurePack (currentDocumentTypes (pi_offeringId i) s)"
    | (g) pv where "?pv = Some pv" "o_status x = Pre_offering" "o_finalOfferingPublishedAt x = None" "?can = Some True"
        "isCompleteDisclosurePack (currentDocumentTypes (pi_offeringId i) s)"
    by (cases ?pv; cases ?can) auto
  then show ?thesis
  proof cases
    case g
    obtain s1 aw c where l: "publishLoop ulid (pi_publishedAt i) (pi_offeringId i) s = (s1, aw, c)"
      by (metis prod.exhaust)
    have "offerings s1 = offerings s" "disclosurePacks s1 = disclosurePacks s"
      "positionLedger s1 = positionLedger s"
      using publishLoop_frame[of ulid "pi_publishedAt i" "pi_offeringId i" s] l by simp_all
    then show ?thesis using Some g l
      by (intro published[of x])
        (simp_all add: publishFinalOfferingTerms_def Let_def publishLoop_def setPublished_def[abs_def])
  qed (use Some in \<open>(intro refused; simp add: publishFinalOfferingTerms_def)+\<close>)
qed

lemma publish_quiet:
  assumes "tablesOk s"
  shows "quiet s (snd (publishFinalOfferingTerms ulid i s))"
proof (cases rule: publish_cases[of ulid i s])
  case (published x)
  let ?oid = "pi_offeringId i"
  have d: "distinct (map r_id (reservations s))" using assms by (simp add: tablesOk_def)
  have "list_all2 rowStep (reservations s) (reservations (snd (publishFinalOfferingTerms ulid i s)))"
    unfolding published(7) publishLoop_reservations[OF d]
    by (intro list_all2_update_where) (auto simp: rowStep_def sameTerms_def publishedRow_def publishSelected_def)
  moreover have "appendsEvents (goodEvent s) s (snd (publishFinalOfferingTerms ulid i s))"
    unfolding appendsEvents_cong[OF published(8)]
    using assms by (intro appendsEvents_mono[OF publishLoop_events])
      (auto simp: goodEvent_def eventFor_def tablesOk_def)
  ultimately show ?thesis
    by (simp add: quiet_def published(9) update_offering_key setPublished_def offeringKey_def)
qed (simp add: quiet_def list_all2_refl)


lemma commit_cases:
  obtains (refused) "snd (commitOfferingFinalization ulid oid t at s) = s"
      "\<And>a c. fst (commitOfferingFinalization ulid oid t at s) \<noteq> Committed a c"
  | (committed) x e p where "findOffering oid s = Some x" "o_status x = Pre_offering"
      "o_finalOfferingPublishedAt x = Some p" "o_effectiveRightsEndAt x = Some e"
      "\<not> isReconfirmationWindowOpen e at"
      "fst (commitOfferingFinalization ulid oid t at s) =
         Committed (fst (snd (commitLoop ulid (o_pivId x) at oid s))) (snd (snd (commitLoop ulid (o_pivId x) at oid s)))"
      "reservations (snd (commitOfferingFinalization ulid oid t at s)) =
         reservations (fst (commitLoop ulid (o_pivId x) at oid s))"
      "moneyEvents (snd (commitOfferingFinalization ulid oid t at s)) =
         moneyEvents (fst (commitLoop ulid (o_pivId x) at oid s))"
      "positionLedger (snd (commitOfferingFinalization ulid oid t at s)) =
         positionLedger (fst (commitLoop ulid (o_pivId x) at oid s))"
      "offerings (snd (commitOfferingFinalization ulid oid t at s)) =
         update_where (\<lambda>y. o_id y = oid) (\<lambda>y. y\<lparr>o_status := Final_offering\<rparr>) (offerings s)"
      "disclosurePacks (snd (commitOfferingFinalization ulid oid t at s)) = disclosurePacks s"
proof (cases "findOffering oid s")
  case None
  then show ?thesis by (intro refused) (simp_all add: commitOfferingFinalization_def)
next
  case (Some x)
  consider (a) "o_status x \<noteq> Pre_offering \<or> o_finalOfferingPublishedAt x = None"
    | (b) p where "o_status x = Pre_offering" "o_finalOfferingPublishedAt x = Some p" "o_effectiveRightsEndAt x = None"
    | (c) e p where "o_status x = Pre_offering" "o_finalOfferingPublishedAt x = Some p"
        "o_effectiveRightsEndAt x = Some e" "isReconfirmationWindowOpen e at"
    | (d) e p where "o_status x = Pre_offering" "o_finalOfferingPublishedAt x = Some p"
        "o_effectiveRightsEndAt x = Some e" "\<not> isReconfirmationWindowOpen e at"
    by (cases "o_finalOfferingPublishedAt x"; cases "o_effectiveRightsEndAt x") auto
  then show ?thesis
  proof cases
    case d
    obtain s1 aw c where l: "commitLoop ulid (o_pivId x) at oid s = (s1, aw, c)" by (metis prod.exhaust)
    have "offerings s1 = offerings s" "disclosurePacks s1 = disclosurePacks s"
      using commitLoop_frame[of ulid "o_pivId x" at oid s] l by simp_all
    then show ?thesis using Some d l
      by (intro committed[of x p e]) (simp_all add: commitOfferingFinalization_def commitLoop_def)
  qed (use Some in \<open>(intro refused; simp add: commitOfferingFinalization_def)+\<close>)
qed

lemma commit_quiet:
  assumes "tablesOk s"
  shows "quiet s (snd (commitOfferingFinalization ulid oid t at s))"
proof (cases rule: commit_cases[of ulid oid t at s])
  case (committed x e p)
  have d: "distinct (map r_id (reservations s))" using assms by (simp add: tablesOk_def)
  have "list_all2 rowStep (reservations s) (reservations (snd (commitOfferingFinalization ulid oid t at s)))"
    unfolding committed(7) commitLoop_reservations[OF d]
    by (intro list_all2_update_where) (auto simp: rowStep_def sameTerms_def committedRow_def commitSelected_def)
  moreover have "appendsEvents (goodEvent s) s (snd (commitOfferingFinalization ulid oid t at s))"
    unfolding appendsEvents_cong[OF committed(8)]
    using assms by (intro appendsEvents_mono[OF commitLoop_events])
      (auto simp: goodEvent_def eventFor_def tablesOk_def)
  ultimately show ?thesis by (simp add: quiet_def committed(10) update_offering_key offeringKey_def)
qed (simp add: quiet_def list_all2_refl)

definition setWindow :: "time \<Rightarrow> offering \<Rightarrow> offering" where
  "setWindow e y = y\<lparr>o_platformRightsEndAt := Some e, o_effectiveRightsEndAt := Some e\<rparr>"

lemma classify_cases:
  obtains (refused) "snd (classifyMateriality ulid i s) = s"
      "\<And>a b c d. fst (classifyMateriality ulid i s) \<noteq> Classified a b c d"
  | (recorded) x a p where "findOffering (cl_offeringId i) s = Some x" "o_status x = Pre_offering"
      "o_finalOfferingPublishedAt x = Some p" "\<not> materialityResetTriggered (cl_classification i)"
      "fst (classifyMateriality ulid i s) = Classified a False (o_effectiveRightsEndAt x) 0"
      "reservations (snd (classifyMateriality ulid i s)) = reservations s"
      "offerings (snd (classifyMateriality ulid i s)) = offerings s"
      "moneyEvents (snd (classifyMateriality ulid i s)) = moneyEvents s"
      "positionLedger (snd (classifyMateriality ulid i s)) = positionLedger s"
      "disclosurePacks (snd (classifyMateriality ulid i s)) = disclosurePacks s"
  | (reset) x a p where "findOffering (cl_offeringId i) s = Some x" "o_status x = Pre_offering"
      "o_finalOfferingPublishedAt x = Some p" "materialityResetTriggered (cl_classification i)"
      "fst (classifyMateriality ulid i s) = Classified a True
         (Some (computeEffectiveRightsEndAt (cl_classifiedAt i))) (length (reconfirmedRows (cl_offeringId i) s))"
      "reservations (snd (classifyMateriality ulid i s)) =
         reservations (fold resetStep (reconfirmedRows (cl_offeringId i) s) s)"
      "offerings (snd (classifyMateriality ulid i s)) = update_where (\<lambda>y. o_id y = cl_offeringId i)
         (setWindow (computeEffectiveRightsEndAt (cl_classifiedAt i))) (offerings s)"
      "moneyEvents (snd (classifyMateriality ulid i s)) = moneyEvents s"
      "positionLedger (snd (classifyMateriality ulid i s)) = positionLedger s"
      "disclosurePacks (snd (classifyMateriality ulid i s)) = disclosurePacks s"
proof (cases "findOffering (cl_offeringId i) s")
  case None
  then show ?thesis by (intro refused) (simp_all add: classifyMateriality_def)
next
  case (Some x)
  consider (a) "o_status x \<noteq> Pre_offering \<or> o_finalOfferingPublishedAt x = None"
    | (b) p where "o_status x = Pre_offering" "o_finalOfferingPublishedAt x = Some p"
        "\<not> materialityResetTriggered (cl_classification i)"
    | (c) p where "o_status x = Pre_offering" "o_finalOfferingPublishedAt x = Some p"
        "materialityResetTriggered (cl_classification i)" by (cases "o_finalOfferingPublishedAt x") auto
  then show ?thesis
  proof cases
    case a
    then show ?thesis using Some by (intro refused) (simp_all add: classifyMateriality_def)
  next
    case b
    then show ?thesis using Some by (intro recorded[of x]) (simp_all add: classifyMateriality_def Let_def)
  next
    case c
    then show ?thesis using Some
      by (intro reset[of x]) (simp_all add: classifyMateriality_def applyReset_def setWindow_def[abs_def] Let_def)
  qed
qed

lemma classify_quiet:
  assumes "tablesOk s"
  shows "quiet s (snd (classifyMateriality ulid i s))"
proof (cases rule: classify_cases[of ulid i s])
  case (reset x a p)
  have d: "distinct (map r_id (reservations s))" using assms by (simp add: tablesOk_def)
  have "list_all2 rowStep (reservations s) (reservations (snd (classifyMateriality ulid i s)))"
    unfolding reset(6) resetFold_reservations[OF d]
    by (intro list_all2_update_where) (auto simp: rowStep_def sameTerms_def resetRow_def)
  then show ?thesis
    by (simp add: quiet_def reset(7,8) update_offering_key offeringKey_def setWindow_def appendsEvents_def)
qed (simp_all add: quiet_def list_all2_refl appendsEvents_def)

lemma pack_frame [simp]:
  "offerings (snd (publishDisclosurePack ulid i s)) = offerings s"
  "reservations (snd (publishDisclosurePack ulid i s)) = reservations s"
  "moneyEvents (snd (publishDisclosurePack ulid i s)) = moneyEvents s"
  "positionLedger (snd (publishDisclosurePack ulid i s)) = positionLedger s"
  by (simp_all add: publishDisclosurePack_def Let_def split: option.split)

lemma pack_quiet: "quiet s (snd (publishDisclosurePack ulid i s))"
  by (simp add: quiet_def list_all2_refl appendsEvents_def)


subsection \<open>createReservation\<close>

lemma toCents_zero_text: "toCents ''0'' = Some 0"
  by code_simp

lemma toCents_sumText:
  assumes "\<And>r. r \<in> set t \<Longrightarrow> p r \<Longrightarrow> 0 \<le> g r"
  shows "toCents (sumText p g t) = Some (sum_by p g t)"
proof (cases "filter p t = []")
  case True
  then show ?thesis by (simp add: sumText_def toCents_zero_text sum_by_def)
next
  case False
  have "0 \<le> sum_by p g t" using assms by (rule sum_by_nonneg)
  then show ?thesis using False by (simp add: sumText_def cents.roundtrip)
qed

lemma toCents_reserved:
  "tablesOk s \<Longrightarrow> toCents (sumText (capacityHolding oid) r_amountEur (reservations s)) = Some (reservedCapacity oid s)"
  unfolding reservedCapacity_def by (rule toCents_sumText) (auto simp: tablesOk_def less_imp_le)

lemma createReservation_flat:
  assumes "tablesOk s" "toCents (ci_amountEur i) = Some a" "findOffering (ci_offeringId i) s = Some x"
    "o_status x = Pre_offering" "findByClientKey i s = None"
  shows "createReservation ulid i s =
    (if a > max 0 (o_targetRaiseEur x - reservedCapacity (ci_offeringId i) s)
     then (Create_capacity_exceeded, s) else insertReservation ulid i s)"
proof -
  have "0 < o_targetRaiseEur x" using findOffering_Some(1)[OF assms(1,3)] assms(1) by (simp add: tablesOk_def)
  then have "toCents (fromCents (o_targetRaiseEur x)) = Some (o_targetRaiseEur x)" by (simp add: cents.roundtrip)
  then show ?thesis
    by (simp add: createReservation_def assms(2-5) toCents_reserved[OF assms(1)] max_def)
qed

lemma insertReservation_ok:
  assumes "numericText 2 (ci_amountEur i) = Some a" "0 < a" "findReservation (ci_reservationId i) s = None"
  shows "fst (insertReservation ulid i s) = Create_created (ci_reservationId i) (ci_createdAt i)"
    "reservations (snd (insertReservation ulid i s)) = reservations s @ [newReservation i a]"
    "offerings (snd (insertReservation ulid i s)) = offerings s"
    "disclosurePacks (snd (insertReservation ulid i s)) = disclosurePacks s"
    "positionLedger (snd (insertReservation ulid i s)) = positionLedger s"
    "appendsEvents (eventFor (ci_reservationId i) Capital_initiated a) s (snd (insertReservation ulid i s))"
  using assms(2) by (simp_all add: insertReservation_def assms(1,3) appendsEvents_def createMoneyEvent_def eventFor_def)

lemma insertReservation_bad:
  assumes "numericText 2 (ci_amountEur i) = Some a" "a \<le> 0 \<or> findReservation (ci_reservationId i) s \<noteq> None"
  shows "insertReservation ulid i s = (CreateThrows, s)"
  using assms(2) by (simp add: insertReservation_def assms(1))

lemma create_cases:
  assumes "tablesOk s" "currency_pattern (ci_amountEur i)"
  obtains (unchanged) "snd (createReservation ulid i s) = s"
      "\<And>a b. fst (createReservation ulid i s) \<noteq> Create_created a b"
  | (created) x a where "findOffering (ci_offeringId i) s = Some x" "o_status x = Pre_offering"
      "findByClientKey i s = None" "toCents (ci_amountEur i) = Some a" "0 < a"
      "reservedCapacity (ci_offeringId i) s + a \<le> o_targetRaiseEur x"
      "findReservation (ci_reservationId i) s = None"
      "createReservation ulid i s = insertReservation ulid i s"
      "fst (createReservation ulid i s) = Create_created (ci_reservationId i) (ci_createdAt i)"
      "reservations (snd (createReservation ulid i s)) = reservations s @ [newReservation i a]"
      "offerings (snd (createReservation ulid i s)) = offerings s"
      "disclosurePacks (snd (createReservation ulid i s)) = disclosurePacks s"
      "positionLedger (snd (createReservation ulid i s)) = positionLedger s"
      "appendsEvents (eventFor (ci_reservationId i) Capital_initiated a) s (snd (createReservation ulid i s))"
proof -
  obtain a where a: "toCents (ci_amountEur i) = Some a" "0 \<le> a"
    using toCents_currency_pattern[OF assms(2)] by blast
  have num: "numericText 2 (ci_amountEur i) = Some a"
    using numericText_currency_pattern[OF assms(2)] a by simp
  consider (none) "findOffering (ci_offeringId i) s = None"
    | (shut) x where "findOffering (ci_offeringId i) s = Some x" "o_status x \<noteq> Pre_offering"
    | (seen) x r where "findOffering (ci_offeringId i) s = Some x" "o_status x = Pre_offering"
        "findByClientKey i s = Some r"
    | (free) x where "findOffering (ci_offeringId i) s = Some x" "o_status x = Pre_offering"
        "findByClientKey i s = None"
    by (metis option.exhaust)
  then show ?thesis
  proof cases
    case free
    note flat = createReservation_flat[OF assms(1) a(1) free, of ulid]
    consider (over) "a > max 0 (o_targetRaiseEur x - reservedCapacity (ci_offeringId i) s)"
      | (bad) "\<not> a > max 0 (o_targetRaiseEur x - reservedCapacity (ci_offeringId i) s)"
          "a \<le> 0 \<or> findReservation (ci_reservationId i) s \<noteq> None"
      | (ok) "\<not> a > max 0 (o_targetRaiseEur x - reservedCapacity (ci_offeringId i) s)"
          "0 < a" "findReservation (ci_reservationId i) s = None"
      by (meson not_less)
    then show ?thesis
    proof cases
      case over
      then show ?thesis by (intro unchanged) (simp_all add: flat)
    next
      case bad
      then show ?thesis by (intro unchanged) (simp_all add: flat insertReservation_bad[OF num bad(2)])
    next
      case ok
      have eq: "createReservation ulid i s = insertReservation ulid i s" unfolding flat by (rule if_not_P[OF ok(1)])
      have le: "reservedCapacity (ci_offeringId i) s + a \<le> o_targetRaiseEur x" using ok(1,2) by (simp add: max_def split: if_splits)
      show ?thesis
        by (rule created[of x a])
          (simp_all only: eq insertReservation_ok[OF num ok(2,3)] free a(1) le ok(2,3))
    qed
  qed (intro unchanged; simp add: createReservation_def)+
qed

lemma create_tablesOk:
  assumes "tablesOk s" "currency_pattern (ci_amountEur i)"
  shows "tablesOk (snd (createReservation ulid i s))"
using assms
proof (cases rule: create_cases[where ulid = ulid])
  case unchanged
  then show ?thesis using assms(1) by simp
next
  case (created x a)
  obtain new where new: "moneyEvents (snd (createReservation ulid i s)) = moneyEvents s @ new"
    "\<forall>e\<in>set new. eventFor (ci_reservationId i) Capital_initiated a e"
    using created(14) by (auto simp: appendsEvents_def)
  have "ci_reservationId i \<notin> r_id ` set (reservations s)" using created(7) by (simp add: findReservation_None)
  moreover have "ci_offeringId i \<in> o_id ` set (offerings s)"
    using findOffering_Some[OF assms(1) created(1)] by force
  ultimately show ?thesis using assms(1) created(5) new(2)
    by (auto simp: tablesOk_def created(10,11) new(1) newReservation_def eventFor_def)
qed

lemma create_capacityOk:
  assumes "tablesOk s" "currency_pattern (ci_amountEur i)" "capacityOk s"
  shows "capacityOk (snd (createReservation ulid i s))"
using assms(1,2)
proof (cases rule: create_cases[where ulid = ulid])
  case unchanged
  then show ?thesis using assms(3) by simp
next
  case (created x a)
  show ?thesis unfolding capacityOk_def created(11)
  proof
    fix y assume y: "y \<in> set (offerings s)"
    have "reservedCapacity (o_id y) (snd (createReservation ulid i s)) =
        reservedCapacity (o_id y) s + (if o_id y = ci_offeringId i then a else 0)"
      by (simp add: reservedCapacity_def created(10) capacityHolding_def newReservation_def)
    moreover have "o_id y = ci_offeringId i \<Longrightarrow> y = x" using findOffering_Some(3)[OF assms(1) created(1) y] .
    ultimately show "reservedCapacity (o_id y) (snd (createReservation ulid i s)) \<le> o_targetRaiseEur y"
      using assms(3) y created(6) by (auto simp: capacityOk_def)
  qed
qed


subsection \<open>openOfferingForApprovedCase\<close>

definition sameLedger :: "offeringStore \<Rightarrow> offeringStore \<Rightarrow> bool" where
  "sameLedger s s' \<longleftrightarrow> reservations s' = reservations s \<and> moneyEvents s' = moneyEvents s \<and>
     disclosurePacks s' = disclosurePacks s \<and> positionLedger s' = positionLedger s"

definition addsOffering :: "offeringStore \<Rightarrow> offeringStore \<Rightarrow> bool" where
  "addsOffering s s' \<longleftrightarrow> (\<exists>y. offerings s' = offerings s @ [y] \<and> 0 < o_targetRaiseEur y \<and>
     o_id y \<notin> o_id ` set (offerings s) \<and> o_status y = Pre_offering \<and>
     o_finalOfferingPublishedAt y = None \<and> o_effectiveRightsEndAt y = None)"

lemma findOffering_None: "findOffering i s = None \<longleftrightarrow> i \<notin> o_id ` set (offerings s)"
  by (auto simp: findOffering_def find_None_iff)

lemma createOffering_adds:
  assumes "createOffering ulid pid v dbNow s = Some (oid, s')"
  shows "addsOffering s s'" "sameLedger s s'"
  using assms
  by (auto simp: createOffering_def addsOffering_def sameLedger_def findOffering_None newOffering_def Let_def
      split: option.splits if_splits)

lemma open_cases:
  "sameLedger s (snd (openOfferingForApprovedCase ulid dbNow i s)) \<and>
    (offerings (snd (openOfferingForApprovedCase ulid dbNow i s)) = offerings s \<or>
     addsOffering s (snd (openOfferingForApprovedCase ulid dbNow i s)))"
proof (cases "find (\<lambda>p. piv_propertyId p = oi_propertyId i) (pivs s)")
  case (Some pv)
  then show ?thesis
    by (auto simp: openOfferingForApprovedCase_def sameLedger_def dest: createOffering_adds split: option.split prod.split)
next
  case None
  have frame: "sameLedger s s'" if "sameLedger (s\<lparr>pivTokenIdSeq := a, st_ulids := b, pivs := c\<rparr>) s'" for a b c s'
    using that by (simp add: sameLedger_def)
  have adds: "addsOffering s s'" if "addsOffering (s\<lparr>pivTokenIdSeq := a, st_ulids := b, pivs := c\<rparr>) s'" for a b c s'
    using that by (simp add: addsOffering_def)
  show ?thesis
  proof (cases "map_of (intakeCases s) (oi_caseId i)")
    case None2: None
    then show ?thesis using None by (simp add: openOfferingForApprovedCase_def sameLedger_def)
  next
    case (Some ipo)
    let ?pid = "''piv_'' @ ulid (st_ulids s)"
    let ?s1 = "s\<lparr>pivTokenIdSeq := Suc (pivTokenIdSeq s), st_ulids := Suc (st_ulids s),
        pivs := pivs s @ [\<lparr>piv_id = ?pid, piv_propertyId = oi_propertyId i, piv_caseId = oi_caseId i,
          piv_tokenId = Some (int_dec (int (pivTokenIdSeq s)))\<rparr>]\<rparr>"
    show ?thesis
    proof (cases "createOffering ulid ?pid (oi_ipoValueEur i) dbNow ?s1")
      case n: None
      then show ?thesis using None Some
        by (simp add: openOfferingForApprovedCase_def sameLedger_def Let_def)
    next
      case (Some res)
      obtain oid s2 where r: "res = (oid, s2)" by (cases res)
      have "sameLedger s s2" "addsOffering s s2"
        using createOffering_adds[OF Some[unfolded r]] frame adds by blast+
      then show ?thesis using None \<open>map_of (intakeCases s) (oi_caseId i) = Some ipo\<close> Some r
        by (simp add: openOfferingForApprovedCase_def sameLedger_def addsOffering_def Let_def
            split: option.split)
    qed
  qed
qed

lemma open_tablesOk:
  assumes "tablesOk s"
  shows "tablesOk (snd (openOfferingForApprovedCase ulid now i s))"
  using open_cases[of s ulid now i] assms
  by (auto simp: tablesOk_def sameLedger_def addsOffering_def)

lemma reservedCapacity_fresh:
  "tablesOk s \<Longrightarrow> oid \<notin> o_id ` set (offerings s) \<Longrightarrow> reservedCapacity oid s = 0"
proof -
  assume a: "tablesOk s" "oid \<notin> o_id ` set (offerings s)"
  then have "filter (capacityHolding oid) (reservations s) = []"
    by (auto simp: filter_empty_conv capacityHolding_def tablesOk_def)
  then show ?thesis by (simp add: reservedCapacity_def sum_by_def)
qed

lemma open_capacityOk:
  assumes "tablesOk s" "capacityOk s"
  shows "capacityOk (snd (openOfferingForApprovedCase ulid now i s))"
  using open_cases[of s ulid now i] assms reservedCapacity_fresh[OF assms(1)]
  by (auto simp: capacityOk_def sameLedger_def addsOffering_def reservedCapacity_def)

subsection \<open>Publication and stages\<close>

definition offeringOk :: "offering \<Rightarrow> bool" where
  "offeringOk x \<longleftrightarrow> (o_finalOfferingPublishedAt x = None \<longleftrightarrow> o_effectiveRightsEndAt x = None) \<and>
     o_status x \<noteq> Closed \<and> (o_status x = Final_offering \<longrightarrow> o_finalOfferingPublishedAt x \<noteq> None)"

definition rowOk :: "reservation \<Rightarrow> bool" where
  "rowOk r \<longleftrightarrow> (r_reconfirmedAt r \<noteq> None \<longleftrightarrow> r_stage r \<in> {Reconfirmed, Finalized}) \<and>
     (r_reservationFinalizedAt r \<noteq> None \<longleftrightarrow> r_stage r = Finalized)"

definition stageFits :: "offering \<Rightarrow> reservation \<Rightarrow> bool" where
  "stageFits x r \<longleftrightarrow>
     (r_stage r \<in> {Awaiting_reconfirmation, Reconfirmed} \<longrightarrow>
        o_status x = Pre_offering \<and> o_finalOfferingPublishedAt x \<noteq> None) \<and>
     (r_stage r = Finalized \<longrightarrow> o_status x = Final_offering)"

definition lifecycleOk :: "offeringStore \<Rightarrow> bool" where
  "lifecycleOk s \<longleftrightarrow> (\<forall>x\<in>set (offerings s). offeringOk x) \<and> (\<forall>r\<in>set (reservations s). rowOk r) \<and>
     (\<forall>r\<in>set (reservations s). \<forall>x\<in>set (offerings s). o_id x = r_offeringId r \<longrightarrow> stageFits x r)"

lemma lifecycle_update:
  assumes "lifecycleOk s"
    and off: "offerings s' = update_where (\<lambda>y. o_id y = oid) f (offerings s)"
    and res: "reservations s' = update_where q g (reservations s)"
    and keep: "\<And>y. o_id (f y) = o_id y" "\<And>r. r_offeringId (g r) = r_offeringId r"
    and okf: "\<And>y. y \<in> set (offerings s) \<Longrightarrow> o_id y = oid \<Longrightarrow> offeringOk y \<Longrightarrow> offeringOk (f y)"
    and okg: "\<And>r. r \<in> set (reservations s) \<Longrightarrow> q r \<Longrightarrow> rowOk r \<Longrightarrow> rowOk (g r)"
    and fit: "\<And>r x. r \<in> set (reservations s) \<Longrightarrow> x \<in> set (offerings s) \<Longrightarrow> o_id x = r_offeringId r \<Longrightarrow>
        stageFits x r \<Longrightarrow> stageFits (if o_id x = oid then f x else x) (if q r then g r else r)"
  shows "lifecycleOk s'"
proof -
  have "offeringOk x" if "x \<in> set (offerings s')" for x
    using that assms(1) okf unfolding off by (auto simp: set_update_where lifecycleOk_def)
  moreover have "rowOk r" if "r \<in> set (reservations s')" for r
    using that assms(1) okg unfolding res by (auto simp: set_update_where lifecycleOk_def)
  moreover have "stageFits x' r'"
    if h: "r' \<in> set (reservations s')" "x' \<in> set (offerings s')" "o_id x' = r_offeringId r'" for r' x'
  proof -
    obtain r where r: "r \<in> set (reservations s)" "r' = (if q r then g r else r)"
      using h(1) unfolding res update_where_def by auto
    obtain x where x: "x \<in> set (offerings s)" "x' = (if o_id x = oid then f x else x)"
      using h(2) unfolding off update_where_def by auto
    have "o_id x = r_offeringId r" using h(3) r(2) x(2) keep by (simp split: if_splits)
    then show ?thesis using fit[OF r(1) x(1)] assms(1) r x by (simp add: lifecycleOk_def)
  qed
  ultimately show ?thesis by (simp add: lifecycleOk_def)
qed

lemma lifecycle_same:
  "lifecycleOk s \<Longrightarrow> offerings s' = offerings s \<Longrightarrow> reservations s' = reservations s \<Longrightarrow> lifecycleOk s'"
  by (simp add: lifecycleOk_def)

lemma update_where_triv: "update_where (\<lambda>y. o_id y = oid) (\<lambda>y. y) t = t"
  by (induction t) auto

lemma open_lifecycleOk:
  assumes "tablesOk s" "lifecycleOk s"
  shows "lifecycleOk (snd (openOfferingForApprovedCase ulid now i s))"
  using open_cases[of s ulid now i] assms
  by (auto simp: lifecycleOk_def sameLedger_def addsOffering_def offeringOk_def tablesOk_def)

lemma create_lifecycleOk:
  assumes "tablesOk s" "currency_pattern (ci_amountEur i)" "lifecycleOk s"
  shows "lifecycleOk (snd (createReservation ulid i s))"
  using assms(1,2)
proof (cases rule: create_cases[where ulid = ulid])
  case unchanged
  then show ?thesis using assms(3) by simp
next
  case (created x a)
  then show ?thesis using assms(3)
    by (auto simp: lifecycleOk_def newReservation_def rowOk_def stageFits_def)
qed

lemma recordMoneyEvent_frame:
  "recordMoneyEvent ulid i s = Some s' \<Longrightarrow> offerings s' = offerings s \<and> reservations s' = reservations s \<and>
     disclosurePacks s' = disclosurePacks s \<and> positionLedger s' = positionLedger s"
  by (auto simp: recordMoneyEvent_def split: option.splits if_splits)

lemma expire_cases:
  assumes "tablesOk s"
  obtains (refused) "expireReservation i t at s = (False, s)"
  | (lapsed) r where "findReservation i s = Some r" "r_stage r = Initiated" "\<not> fundedIn s r"
      "fst (expireReservation i t at s)"
      "reservations (snd (expireReservation i t at s)) =
         update_where (\<lambda>q. r_id q = i) (\<lambda>q. q\<lparr>r_stage := Lapsed\<rparr>) (reservations s)"
      "offerings (snd (expireReservation i t at s)) = offerings s"
      "disclosurePacks (snd (expireReservation i t at s)) = disclosurePacks s"
      "positionLedger (snd (expireReservation i t at s)) = positionLedger s"
      "moneyEvents (snd (expireReservation i t at s)) = moneyEvents s"
proof (cases "findReservation i s")
  case None
  then show ?thesis by (intro refused) (simp add: expireReservation_def)
next
  case (Some r)
  have id: "r_id r = i" using findReservation_Some(2)[OF assms Some] .
  show ?thesis
  proof (cases "r_stage r \<noteq> Initiated \<or> fundedIn s r")
    case True
    then show ?thesis using Some id by (intro refused) (auto simp: expireReservation_def fundedIn_def)
  next
    case False
    then show ?thesis using Some id by (intro lapsed[of r]) (simp_all add: expireReservation_def fundedIn_def)
  qed
qed

lemma expire_lifecycleOk:
  assumes "tablesOk s" "lifecycleOk s"
  shows "lifecycleOk (snd (expireReservation i t at s))"
  using assms(1)
proof (cases rule: expire_cases[of s i t at])
  case (lapsed r)
  have one: "q = r" if "q \<in> set (reservations s)" "r_id q = i" for q
    using findReservation_Some(3)[OF assms(1) lapsed(1)] that by blast
  show ?thesis
  proof (rule lifecycle_update[OF assms(2) _ lapsed(5), of undefined "\<lambda>y. y"])
    show "offerings (snd (expireReservation i t at s)) = update_where (\<lambda>y. o_id y = undefined) (\<lambda>y. y) (offerings s)"
      by (simp add: lapsed(6) update_where_triv)
    fix q assume "q \<in> set (reservations s)" "r_id q = i" "rowOk q"
    then show "rowOk (q\<lparr>r_stage := Lapsed\<rparr>)" using one[of q] lapsed(2) by (simp add: rowOk_def)
  qed (auto simp: stageFits_def)
qed (use assms in simp)


lemma reconfirm_cases:
  assumes "tablesOk s"
  obtains (refused) "snd (reconfirmReservation i s) = s" "\<And>a. fst (reconfirmReservation i s) \<noteq> ReconfirmedAt a"
  | (reconfirmed) r x e where "findReservation (rci_reservationId i) s = Some r" "r_accountId r = rci_accountId i"
      "r_stage r = Awaiting_reconfirmation" "findOffering (r_offeringId r) s = Some x"
      "o_effectiveRightsEndAt x = Some e" "isReconfirmationWindowOpen e (rci_reconfirmedAt i)"
      "isCompleteDisclosurePack (currentDocumentTypes (r_offeringId r) s)"
      "fst (reconfirmReservation i s) = ReconfirmedAt (rci_reconfirmedAt i)"
      "reservations (snd (reconfirmReservation i s)) = update_where (\<lambda>q. r_id q = rci_reservationId i)
         (\<lambda>y. y\<lparr>r_stage := Reconfirmed, r_reconfirmedAt := Some (rci_reconfirmedAt i)\<rparr>) (reservations s)"
      "offerings (snd (reconfirmReservation i s)) = offerings s"
      "disclosurePacks (snd (reconfirmReservation i s)) = disclosurePacks s"
      "positionLedger (snd (reconfirmReservation i s)) = positionLedger s"
      "moneyEvents (snd (reconfirmReservation i s)) = moneyEvents s"
proof -
  consider (a) "findReservation (rci_reservationId i) s = None"
    | (b) r where "findReservation (rci_reservationId i) s = Some r"
        "r_accountId r \<noteq> rci_accountId i \<or> r_stage r \<noteq> Awaiting_reconfirmation \<or> findOffering (r_offeringId r) s = None"
    | (c) r x where "findReservation (rci_reservationId i) s = Some r" "r_accountId r = rci_accountId i"
        "r_stage r = Awaiting_reconfirmation" "findOffering (r_offeringId r) s = Some x" "o_effectiveRightsEndAt x = None"
    | (d) r x e where "findReservation (rci_reservationId i) s = Some r" "r_accountId r = rci_accountId i"
        "r_stage r = Awaiting_reconfirmation" "findOffering (r_offeringId r) s = Some x" "o_effectiveRightsEndAt x = Some e"
        "\<not> isReconfirmationWindowOpen e (rci_reconfirmedAt i) \<or>
         \<not> isCompleteDisclosurePack (currentDocumentTypes (r_offeringId r) s)"
    | (e) r x e where "findReservation (rci_reservationId i) s = Some r" "r_accountId r = rci_accountId i"
        "r_stage r = Awaiting_reconfirmation" "findOffering (r_offeringId r) s = Some x" "o_effectiveRightsEndAt x = Some e"
        "isReconfirmationWindowOpen e (rci_reconfirmedAt i)"
        "isCompleteDisclosurePack (currentDocumentTypes (r_offeringId r) s)"
    by (metis option.exhaust)
  then show ?thesis
  proof cases
    case b
    then show ?thesis by (intro refused) (auto simp: reconfirmReservation_def)
  next
    case d
    then show ?thesis by (intro refused) (auto simp: reconfirmReservation_def)
  next
    case (e r x e)
    then show ?thesis by (intro reconfirmed[of r x e]) (simp_all add: reconfirmReservation_def)
  qed (intro refused; simp add: reconfirmReservation_def)+
qed

lemma reconfirm_lifecycleOk:
  assumes "tablesOk s" "lifecycleOk s"
  shows "lifecycleOk (snd (reconfirmReservation i s))"
  using assms(1)
proof (cases rule: reconfirm_cases[of s i])
  case (reconfirmed r x e)
  have one: "q = r" if "q \<in> set (reservations s)" "r_id q = rci_reservationId i" for q
    using findReservation_Some(3)[OF assms(1) reconfirmed(1)] that by blast
  show ?thesis
  proof (rule lifecycle_update[OF assms(2) _ reconfirmed(9), of undefined "\<lambda>y. y"])
    show "offerings (snd (reconfirmReservation i s)) = update_where (\<lambda>y. o_id y = undefined) (\<lambda>y. y) (offerings s)"
      by (simp add: reconfirmed(10) update_where_triv)
    fix q assume "q \<in> set (reservations s)" "r_id q = rci_reservationId i" "rowOk q"
    then show "rowOk (q\<lparr>r_stage := Reconfirmed, r_reconfirmedAt := Some (rci_reconfirmedAt i)\<rparr>)"
      using one[of q] reconfirmed(3) by (simp add: rowOk_def)
  next
    fix q y assume q: "q \<in> set (reservations s)" and fits: "stageFits y q"
    show "stageFits (if o_id y = undefined then y else y) (if r_id q = rci_reservationId i then
        q\<lparr>r_stage := Reconfirmed, r_reconfirmedAt := Some (rci_reconfirmedAt i)\<rparr> else q)"
      using fits one[OF q] reconfirmed(3) by (auto simp: stageFits_def)
  qed simp_all
qed (use assms in simp)

lemma publish_lifecycleOk:
  assumes "tablesOk s" "lifecycleOk s"
  shows "lifecycleOk (snd (publishFinalOfferingTerms ulid i s))"
proof (cases rule: publish_cases[of ulid i s])
  case (published x)
  have d: "distinct (map r_id (reservations s))" using assms by (simp add: tablesOk_def)
  have x: "y = x" if "y \<in> set (offerings s)" "o_id y = pi_offeringId i" for y
    using findOffering_Some(3)[OF assms(1) published(1)] that by blast
  show ?thesis
  proof (rule lifecycle_update[OF assms(2) published(9) published(7)[unfolded publishLoop_reservations[OF d]]])
    fix y assume "y \<in> set (offerings s)" "o_id y = pi_offeringId i" "offeringOk y"
    then show "offeringOk (setPublished (pi_publishedAt i) y)" by (simp add: setPublished_def offeringOk_def)
  next
    fix r y assume y: "y \<in> set (offerings s)" and id: "o_id y = r_offeringId r" and fits: "stageFits y r"
    then show "stageFits (if o_id y = pi_offeringId i then setPublished (pi_publishedAt i) y else y)
      (if publishSelected (pi_offeringId i) r then publishedRow (latestCapitalState (r_id r) s) r else r)"
      using x[OF y] published(2) by (auto simp: stageFits_def setPublished_def publishSelected_def publishedRow_def)
  qed (simp_all add: setPublished_def publishedRow_def publishSelected_def rowOk_def)
qed (use assms in simp)

lemma commit_lifecycleOk:
  assumes "tablesOk s" "lifecycleOk s"
  shows "lifecycleOk (snd (commitOfferingFinalization ulid oid t at s))"
proof (cases rule: commit_cases[of ulid oid t at s])
  case (committed x e p)
  have d: "distinct (map r_id (reservations s))" using assms by (simp add: tablesOk_def)
  have x: "y = x" if "y \<in> set (offerings s)" "o_id y = oid" for y
    using findOffering_Some(3)[OF assms(1) committed(1)] that by blast
  show ?thesis
  proof (rule lifecycle_update[OF assms(2) committed(10) committed(7)[unfolded commitLoop_reservations[OF d]]])
    fix y assume "y \<in> set (offerings s)" "o_id y = oid" "offeringOk y"
    then show "offeringOk (y\<lparr>o_status := Final_offering\<rparr>)" using x[of y] committed(3) by (simp add: offeringOk_def)
  next
    fix r assume "commitSelected oid r" "rowOk r"
    then show "rowOk (committedRow at r)" by (auto simp: commitSelected_def committedRow_def rowOk_def)
  next
    fix r y assume "y \<in> set (offerings s)" "o_id y = r_offeringId r" "stageFits y r"
    then show "stageFits (if o_id y = oid then y\<lparr>o_status := Final_offering\<rparr> else y)
      (if commitSelected oid r then committedRow at r else r)"
      by (auto simp: stageFits_def commitSelected_def committedRow_def)
  qed (simp_all add: committedRow_def)
qed (use assms in simp)

lemma classify_lifecycleOk:
  assumes "tablesOk s" "lifecycleOk s"
  shows "lifecycleOk (snd (classifyMateriality ulid i s))"
proof (cases rule: classify_cases[of ulid i s])
  case refused
  then show ?thesis using assms by simp
next
  case (recorded x a p)
  then show ?thesis using assms lifecycle_same by blast
next
  case (reset x a p)
  have d: "distinct (map r_id (reservations s))" using assms by (simp add: tablesOk_def)
  have x: "y = x" if "y \<in> set (offerings s)" "o_id y = cl_offeringId i" for y
    using findOffering_Some(3)[OF assms(1) reset(1)] that by blast
  show ?thesis
  proof (rule lifecycle_update[OF assms(2) reset(7) reset(6)[unfolded resetFold_reservations[OF d]]])
    fix y assume "y \<in> set (offerings s)" "o_id y = cl_offeringId i" "offeringOk y"
    then show "offeringOk (setWindow (computeEffectiveRightsEndAt (cl_classifiedAt i)) y)"
      using x[of y] reset(3) by (simp add: offeringOk_def setWindow_def)
  next
    fix r y assume "stageFits y r"
    then show "stageFits (if o_id y = cl_offeringId i then setWindow (computeEffectiveRightsEndAt (cl_classifiedAt i)) y else y)
      (if r_offeringId r = cl_offeringId i \<and> r_stage r = Reconfirmed then resetRow r else r)"
      by (auto simp: stageFits_def setWindow_def resetRow_def)
  qed (auto simp: setWindow_def resetRow_def rowOk_def)
qed


subsection \<open>Positions\<close>

definition isFinalized :: "reservation \<Rightarrow> bool" where
  "isFinalized r \<longleftrightarrow> r_stage r = Finalized"

definition finalizedIds :: "offeringStore \<Rightarrow> ident list" where
  "finalizedIds s = map r_id (filter isFinalized (reservations s))"

text \<open>Exactly one position per finalized reservation, for the account and amount reserved.\<close>

definition positionsOk :: "offeringStore \<Rightarrow> bool" where
  "positionsOk s \<longleftrightarrow> distinct (map pos_reservationId (positionLedger s)) \<and>
     set (map pos_reservationId (positionLedger s)) = Some ` set (finalizedIds s) \<and>
     (\<forall>p\<in>set (positionLedger s). \<forall>r\<in>set (reservations s). pos_reservationId p = Some (r_id r) \<longrightarrow>
        pos_accountId p = r_accountId r \<and> pos_costBasisEur p = fromCents (r_amountEur r) \<and>
        pos_unitCount p = fromCents (r_amountEur r))"

lemma positions_update:
  assumes "positionsOk s" "positionLedger s' = positionLedger s"
    and res: "reservations s' = update_where q g (reservations s)"
    and keep: "\<And>r. r_id (g r) = r_id r \<and> r_accountId (g r) = r_accountId r \<and> r_amountEur (g r) = r_amountEur r"
    and notfin: "\<And>r. r \<in> set (reservations s) \<Longrightarrow> q r \<Longrightarrow> \<not> isFinalized r \<and> \<not> isFinalized (g r)"
  shows "positionsOk s'"
proof -
  have "filter isFinalized (update_where q g t) = filter isFinalized t" if "set t \<subseteq> set (reservations s)" for t
    using that notfin by (induction t) auto
  then have "finalizedIds s' = finalizedIds s" by (simp add: finalizedIds_def res)
  moreover have "pos_accountId p = r_accountId r \<and> pos_costBasisEur p = fromCents (r_amountEur r) \<and>
      pos_unitCount p = fromCents (r_amountEur r)"
    if "p \<in> set (positionLedger s)" "r \<in> set (reservations s')" "pos_reservationId p = Some (r_id r)" for p r
    using that assms(1) keep unfolding res by (auto simp: set_update_where positionsOk_def)
  ultimately show ?thesis using assms(1,2) by (simp add: positionsOk_def)
qed

lemma positions_same:
  "positionsOk s \<Longrightarrow> positionLedger s' = positionLedger s \<Longrightarrow> reservations s' = reservations s \<Longrightarrow> positionsOk s'"
  by (simp add: positionsOk_def finalizedIds_def)

lemma position_reservation:
  assumes "positionsOk s" "p \<in> set (positionLedger s)"
  obtains r where "r \<in> set (reservations s)" "isFinalized r" "pos_reservationId p = Some (r_id r)"
proof -
  have "pos_reservationId p \<in> Some ` set (finalizedIds s)"
    using assms by (metis image_eqI positionsOk_def set_map)
  then show ?thesis using that by (auto simp: finalizedIds_def)
qed

lemma create_positionsOk:
  assumes "tablesOk s" "currency_pattern (ci_amountEur i)" "positionsOk s"
  shows "positionsOk (snd (createReservation ulid i s))"
  using assms(1,2)
proof (cases rule: create_cases[where ulid = ulid])
  case unchanged
  then show ?thesis using assms(3) by simp
next
  case (created x a)
  have "finalizedIds (snd (createReservation ulid i s)) = finalizedIds s"
    by (simp add: finalizedIds_def created(10) newReservation_def isFinalized_def)
  moreover have "pos_reservationId p \<noteq> Some (ci_reservationId i)" if "p \<in> set (positionLedger s)" for p
    by (rule position_reservation[OF assms(3) that])
      (metis created(7) findReservation_None image_eqI option.inject)
  ultimately show ?thesis using assms(3)
    by (auto simp: positionsOk_def created(10,13) newReservation_def)
qed

lemma expire_positionsOk:
  assumes "tablesOk s" "positionsOk s"
  shows "positionsOk (snd (expireReservation i t at s))"
  using assms(1)
proof (cases rule: expire_cases[of s i t at])
  case (lapsed r)
  show ?thesis
    using findReservation_Some(3)[OF assms(1) lapsed(1)] lapsed(2)
    by (intro positions_update[OF assms(2) lapsed(8) lapsed(5)]) (fastforce simp: isFinalized_def)+
qed (use assms in simp)

lemma reconfirm_positionsOk:
  assumes "tablesOk s" "positionsOk s"
  shows "positionsOk (snd (reconfirmReservation i s))"
  using assms(1)
proof (cases rule: reconfirm_cases[of s i])
  case (reconfirmed r x e)
  show ?thesis
    using findReservation_Some(3)[OF assms(1) reconfirmed(1)] reconfirmed(3)
    by (intro positions_update[OF assms(2) reconfirmed(12) reconfirmed(9)]) (fastforce simp: isFinalized_def)+
qed (use assms in simp)

lemma publish_positionsOk:
  assumes "tablesOk s" "positionsOk s"
  shows "positionsOk (snd (publishFinalOfferingTerms ulid i s))"
proof (cases rule: publish_cases[of ulid i s])
  case (published x)
  have d: "distinct (map r_id (reservations s))" using assms by (simp add: tablesOk_def)
  show ?thesis
    by (intro positions_update[OF assms(2) published(11) published(7)[unfolded publishLoop_reservations[OF d]]])
      (auto simp: isFinalized_def publishSelected_def publishedRow_def)
qed (use assms in simp)

lemma classify_positionsOk:
  assumes "tablesOk s" "positionsOk s"
  shows "positionsOk (snd (classifyMateriality ulid i s))"
proof (cases rule: classify_cases[of ulid i s])
  case refused
  then show ?thesis using assms by simp
next
  case (recorded x a p)
  then show ?thesis using assms positions_same by blast
next
  case (reset x a p)
  have d: "distinct (map r_id (reservations s))" using assms by (simp add: tablesOk_def)
  show ?thesis
    by (intro positions_update[OF assms(2) reset(9) reset(6)[unfolded resetFold_reservations[OF d]]])
      (auto simp: isFinalized_def resetRow_def)
qed

lemma positionOf_ids: "list_all2 (positionOf p) rs ps \<Longrightarrow> map pos_reservationId ps = map (Some \<circ> r_id) rs"
  by (induction rule: list_all2_induct) (auto simp: positionOf_def)

lemma positionOf_in: "list_all2 (positionOf p) rs ps \<Longrightarrow> q \<in> set ps \<Longrightarrow> \<exists>r\<in>set rs. positionOf p r q"
  by (induction rule: list_all2_induct) auto

lemma committed_ids:
  "r_id ` set (filter isFinalized (update_where (commitSelected oid) (committedRow at) t)) =
     r_id ` set (filter isFinalized t) \<union> r_id ` set (filter (\<lambda>r. r_offeringId r = oid \<and> r_stage r = Reconfirmed) t)"
proof (induction t)
  case (Cons r t)
  then show ?case
    by (cases "r_stage r") (simp_all add: isFinalized_def committedRow_def commitSelected_def insert_commute)
qed simp

lemma distinct_Some_filter: "distinct (map k t) \<Longrightarrow> distinct (map (Some \<circ> k) (filter p t))"
  using distinct_map_filter[of k t p] by (simp add: distinct_map comp_inj_on)

lemma commit_positionsOk:
  assumes "tablesOk s" "positionsOk s"
  shows "positionsOk (snd (commitOfferingFinalization ulid oid t at s))"
proof (cases rule: commit_cases[of ulid oid t at s])
  case (committed x e pub)
  let ?s' = "snd (commitOfferingFinalization ulid oid t at s)"
  let ?rec = "\<lambda>r. r_offeringId r = oid \<and> r_stage r = Reconfirmed"
  have d: "distinct (map r_id (reservations s))" using assms by (simp add: tablesOk_def)
  have res: "reservations ?s' = update_where (commitSelected oid) (committedRow at) (reservations s)"
    using committed(7) commitLoop_reservations[OF d] by simp
  obtain new where new: "positionLedger ?s' = positionLedger s @ new"
      "list_all2 (positionOf (o_pivId x)) (filter ?rec (reservations s)) new"
    using commitLoop_positions[of ulid "o_pivId x" at oid s] committed(9) by metis
  note ids = positionOf_ids[OF new(2)]
  have fin: "set (finalizedIds ?s') = set (finalizedIds s) \<union> r_id ` set (filter ?rec (reservations s))"
    unfolding finalizedIds_def res set_map by (rule committed_ids)
  have disj: "r_id r \<notin> set (finalizedIds s)" if "r \<in> set (reservations s)" "?rec r" for r
    using that d by (auto simp: finalizedIds_def isFinalized_def distinct_map inj_on_def)
  have dn: "distinct (map pos_reservationId new)" unfolding ids using d by (rule distinct_Some_filter)
  have setnew: "pos_reservationId ` set new = Some ` r_id ` set (filter ?rec (reservations s))"
    using arg_cong[OF ids, of set] by (simp add: image_comp)
  have old: "pos_reservationId ` set (positionLedger s) = Some ` set (finalizedIds s)"
    using assms(2) by (simp add: positionsOk_def)
  have "distinct (map pos_reservationId (positionLedger ?s'))"
    using assms(2) dn disj unfolding new(1) map_append distinct_append set_map setnew old
    by (auto simp: positionsOk_def)
  moreover have "set (map pos_reservationId (positionLedger ?s')) = Some ` set (finalizedIds ?s')"
    unfolding new(1) map_append set_append set_map setnew old fin image_Un ..
  moreover have "pos_accountId p = r_accountId r \<and> pos_costBasisEur p = fromCents (r_amountEur r) \<and>
      pos_unitCount p = fromCents (r_amountEur r)"
    if h: "p \<in> set (positionLedger ?s')" "r \<in> set (reservations ?s')" "pos_reservationId p = Some (r_id r)" for p r
  proof -
    obtain r0 where r0: "r0 \<in> set (reservations s)" "r_id r = r_id r0" "r_accountId r = r_accountId r0"
      "r_amountEur r = r_amountEur r0"
      using h(2) unfolding res by (auto simp: set_update_where committedRow_def)
    consider "p \<in> set (positionLedger s)" | "p \<in> set new" using h(1) new(1) by auto
    then show ?thesis
    proof cases
      case 1
      then show ?thesis using assms(2) h(3) r0 by (simp add: positionsOk_def)
    next
      case 2
      then obtain r1 where r1: "r1 \<in> set (reservations s)" "positionOf (o_pivId x) r1 p"
        using positionOf_in[OF new(2)] by auto
      then have "r1 = r0" using d h(3) r0 by (auto simp: positionOf_def distinct_map inj_on_def)
      then show ?thesis using r1 r0 by (simp add: positionOf_def)
    qed
  qed
  ultimately show ?thesis by (simp add: positionsOk_def)
qed (use assms in simp)


subsection \<open>Disclosure packs\<close>

definition packsOf :: "ident \<Rightarrow> offeringStore \<Rightarrow> disclosurePack list" where
  "packsOf oid s = filter (\<lambda>p. p_offeringId p = oid) (disclosurePacks s)"

text \<open>The versions of an offering's packs are 1, 2, 3, ... and only the last one is current.\<close>

definition packChain :: "disclosurePack list \<Rightarrow> bool" where
  "packChain ps \<longleftrightarrow> map p_version ps = [1..<Suc (length ps)] \<and>
     (\<forall>p\<in>set (butlast ps). \<not> p_isCurrent p) \<and>
     (ps \<noteq> [] \<longrightarrow> p_isCurrent (last ps) \<and> p_supersededAt (last ps) = None)"

definition packsOk :: "offeringStore \<Rightarrow> bool" where
  "packsOk s \<longleftrightarrow> distinct (map p_id (disclosurePacks s)) \<and> (\<forall>oid. packChain (packsOf oid s))"

lemma packChain_current:
  assumes "packChain ps" "\<And>p. p \<in> set ps \<Longrightarrow> p_offeringId p = oid"
  shows "filter (isCurrentPackOf oid) ps = (if ps = [] then [] else [last ps])"
proof (cases ps rule: rev_cases)
  case (snoc qs l)
  then have "filter (isCurrentPackOf oid) qs = []"
    using assms(1) by (auto simp: packChain_def isCurrentPackOf_def filter_empty_conv)
  then show ?thesis using snoc assms by (simp add: packChain_def isCurrentPackOf_def)
qed simp

lemma filter_current: "filter (isCurrentPackOf oid) (disclosurePacks s) = filter (isCurrentPackOf oid) (packsOf oid s)"
  unfolding packsOf_def filter_filter by (rule filter_cong) (auto simp: isCurrentPackOf_def)

lemma currentPack_last:
  assumes "packsOk s"
  shows "currentPack oid s = (if packsOf oid s = [] then None else Some (last (packsOf oid s)))"
proof -
  have "filter (isCurrentPackOf oid) (packsOf oid s) =
      (if packsOf oid s = [] then [] else [last (packsOf oid s)])"
    using assms by (intro packChain_current) (auto simp: packsOk_def packsOf_def)
  then show ?thesis by (simp add: currentPack_def filter_current split: if_splits)
qed

lemma packChain_version:
  assumes "packChain ps" "ps \<noteq> []"
  shows "p_version (last ps) = length ps"
proof -
  have "last (map p_version ps) = last [1..<Suc (length ps)]" using assms by (simp add: packChain_def)
  then show ?thesis using assms(2) by (simp add: last_map Suc_le_eq)
qed

lemma packChain_versions: "packChain ps \<Longrightarrow> p \<in> set ps \<Longrightarrow> p_version p \<le> length ps"
  unfolding packChain_def by (metis atLeastLessThan_iff image_eqI less_Suc_eq_le set_map set_upt)

lemma supersede_other: "filter (\<lambda>p. p_offeringId p = oid) (supersede i at ps) =
    supersede i at (filter (\<lambda>p. p_offeringId p = oid) ps)"
  by (induction ps) (auto simp: supersede_def)

lemma supersede_ids [simp]: "map p_id (supersede i at ps) = map p_id ps"
  unfolding supersede_def by (rule map_update_where_id) simp

lemma supersede_absent: "i \<notin> p_id ` set ps \<Longrightarrow> supersede i at ps = ps"
  unfolding supersede_def by (rule update_where_none) auto

lemma supersede_last:
  assumes "packChain (qs @ [l])" "distinct (map p_id (qs @ [l]))"
  shows "supersede (p_id l) at (qs @ [l]) = qs @ [l\<lparr>p_isCurrent := False, p_supersededAt := Some at\<rparr>]"
proof -
  have "supersede (p_id l) at qs = qs" using assms(2) by (intro supersede_absent) simp
  then show ?thesis by (simp add: supersede_def update_where_def)
qed

lemma packChain_snoc:
  assumes "packChain (qs @ [l])" "p_version n = Suc (Suc (length qs))" "p_isCurrent n" "p_supersededAt n = None"
  shows "packChain (qs @ [l\<lparr>p_isCurrent := False, p_supersededAt := Some at\<rparr>] @ [n])"
  using assms by (auto simp: packChain_def butlast_append)

text \<open>The effective case of \<open>publishDisclosurePack\<close>.\<close>

definition newPack :: "(nat \<Rightarrow> string) \<Rightarrow> packInput \<Rightarrow> offeringStore \<Rightarrow> disclosurePack" where
  "newPack ulid i s = \<lparr>p_id = ''pack_'' @ ulid (st_ulids s), p_offeringId = pk_offeringId i,
     p_version = (case currentPack (pk_offeringId i) s of None \<Rightarrow> 0 | Some c \<Rightarrow> p_version c) + 1,
     p_publishedAt = pk_publishedAt i, p_supersededAt = None, p_isCurrent = True,
     p_documents = newDocuments ulid (Suc (st_ulids s)) (pk_documents i)\<rparr>"

definition supersededPacks :: "packInput \<Rightarrow> offeringStore \<Rightarrow> disclosurePack list" where
  "supersededPacks i s = (case currentPack (pk_offeringId i) s of None \<Rightarrow> disclosurePacks s
     | Some c \<Rightarrow> supersede (p_id c) (pk_publishedAt i) (disclosurePacks s))"

lemma pack_cases:
  obtains (refused) "snd (publishDisclosurePack ulid i s) = s"
      "\<And>a b c d e. fst (publishDisclosurePack ulid i s) \<noteq> Pack_published a b c d e"
  | (published) x where "findOffering (pk_offeringId i) s = Some x" "o_status x = Pre_offering"
      "p_id (newPack ulid i s) \<notin> p_id ` set (disclosurePacks s)"
      "fst (publishDisclosurePack ulid i s) = Pack_published (p_id (newPack ulid i s)) (p_version (newPack ulid i s))
         (p_documents (newPack ulid i s)) (isCompleteDisclosurePack (map fst (pk_documents i)))
         (map_option p_id (currentPack (pk_offeringId i) s))"
      "disclosurePacks (snd (publishDisclosurePack ulid i s)) = supersededPacks i s @ [newPack ulid i s]"
proof -
  have ids: "p_id ` set (supersededPacks i s) = p_id ` set (disclosurePacks s)"
  proof -
    have "map p_id (supersededPacks i s) = map p_id (disclosurePacks s)"
      by (simp add: supersededPacks_def split: option.split)
    then show ?thesis by (metis image_set)
  qed
  consider (a) "findOffering (pk_offeringId i) s = None"
    | (b) x where "findOffering (pk_offeringId i) s = Some x" "o_status x \<noteq> Pre_offering"
    | (c) x where "findOffering (pk_offeringId i) s = Some x" "o_status x = Pre_offering"
    by (metis option.exhaust)
  then show ?thesis
  proof cases
    case c
    let ?clash = "\<exists>p\<in>set (supersededPacks i s). p_id p = p_id (newPack ulid i s) \<or>
        p_offeringId p = pk_offeringId i \<and> p_version p = p_version (newPack ulid i s)"
    have eq: "publishDisclosurePack ulid i s = (if ?clash then (PackThrows, s) else
        (Pack_published (p_id (newPack ulid i s)) (p_version (newPack ulid i s)) (p_documents (newPack ulid i s))
           (isCompleteDisclosurePack (map fst (pk_documents i))) (map_option p_id (currentPack (pk_offeringId i) s)),
         snd (publishDisclosurePack ulid i s)))"
      by (auto simp: publishDisclosurePack_def c newPack_def supersededPacks_def Let_def)
    show ?thesis
    proof (cases ?clash)
      case True
      then have "publishDisclosurePack ulid i s = (PackThrows, s)" using eq by simp
      then show ?thesis by (intro refused) simp_all
    next
      case False
      have "p_id (newPack ulid i s) \<notin> p_id ` set (disclosurePacks s)" using False ids by (metis image_iff)
      moreover have "disclosurePacks (snd (publishDisclosurePack ulid i s)) = supersededPacks i s @ [newPack ulid i s]"
        using False by (auto simp: publishDisclosurePack_def c newPack_def supersededPacks_def Let_def)
      moreover have "fst (publishDisclosurePack ulid i s) = Pack_published (p_id (newPack ulid i s)) (p_version (newPack ulid i s))
         (p_documents (newPack ulid i s)) (isCompleteDisclosurePack (map fst (pk_documents i)))
         (map_option p_id (currentPack (pk_offeringId i) s))"
        using False by (subst eq) (simp only: if_False fst_conv)
      ultimately show ?thesis using c by (intro published[of x])
    qed
  qed (intro refused; simp add: publishDisclosurePack_def)+
qed


lemma pack_packsOk:
  assumes "packsOk s"
  shows "packsOk (snd (publishDisclosurePack ulid i s))"
proof (cases rule: pack_cases[of ulid i s])
  case (published x)
  let ?s' = "snd (publishDisclosurePack ulid i s)" and ?oid = "pk_offeringId i" and ?n = "newPack ulid i s"
  have nn: "p_offeringId ?n = ?oid" "p_isCurrent ?n" "p_supersededAt ?n = None" by (simp_all add: newPack_def)
  have ids: "map p_id (supersededPacks i s) = map p_id (disclosurePacks s)"
    by (simp add: supersededPacks_def split: option.split)
  have "distinct (map p_id (disclosurePacks ?s'))"
    using assms published(3) ids unfolding published(5) by (simp add: packsOk_def)
  moreover have "packChain (packsOf oid ?s')" for oid
  proof (cases "oid = ?oid")
    case False
    have "filter (\<lambda>p. p_offeringId p = oid) (supersededPacks i s) = packsOf oid s"
    proof (cases "packsOf ?oid s" rule: rev_cases)
      case Nil
      then show ?thesis using assms by (simp add: supersededPacks_def currentPack_last packsOf_def)
    next
      case (snoc qs l)
      have "l \<in> set (packsOf ?oid s)" using snoc by simp
      then have l: "l \<in> set (disclosurePacks s)" "p_offeringId l = ?oid" by (simp_all add: packsOf_def)
      have "p_id l \<notin> p_id ` set (packsOf oid s)"
        using assms l False by (auto simp: packsOk_def packsOf_def distinct_map inj_on_def)
      then show ?thesis using snoc assms
        by (simp add: supersededPacks_def currentPack_last supersede_other supersede_absent flip: packsOf_def)
    qed
    then show ?thesis using assms False nn(1) unfolding packsOf_def published(5) by (simp add: packsOk_def packsOf_def)
  next
    case True
    show ?thesis
    proof (cases "packsOf ?oid s" rule: rev_cases)
      case Nil
      then have "packsOf oid ?s' = [?n]" "p_version ?n = 1"
        using assms True nn(1) by (simp_all add: packsOf_def published(5) supersededPacks_def currentPack_last newPack_def)
      then show ?thesis using nn by (simp add: packChain_def)
    next
      case (snoc qs l)
      have ch: "packChain (qs @ [l])" using assms snoc by (metis packsOk_def)
      have dist: "distinct (map p_id (qs @ [l]))"
        using assms snoc by (metis packsOk_def packsOf_def distinct_map_filter)
      have cur: "currentPack ?oid s = Some l" using assms snoc by (simp add: currentPack_last)
      have v: "p_version ?n = Suc (Suc (length qs))"
        using packChain_version[OF ch] cur by (simp add: newPack_def)
      have "packsOf oid ?s' = supersede (p_id l) (pk_publishedAt i) (qs @ [l]) @ [?n]"
        using True nn(1) snoc cur unfolding packsOf_def published(5) supersededPacks_def
        by (simp add: supersede_other)
      then show ?thesis
        using supersede_last[OF ch dist] packChain_snoc[OF ch v nn(2,3)] by simp
    qed
  qed
  ultimately show ?thesis by (simp add: packsOk_def)
qed (use assms in simp)

end
