(* ===== verification/OfferingRuns.thy ===== *)
theory OfferingRuns
  imports OfferingInvariant
begin

text \<open>
  Runs of the offering repository: sequences of committed transactions from an
  empty store, the invariant of every reachable store, and the properties of the
  offering lifecycle that follow.
\<close>

subsection \<open>Runs\<close>

text \<open>One committed transaction. The amount of a new reservation has passed the request
  schema. Rows of other modules (intake cases, wallet registrations) change freely.\<close>

inductive offeringStep :: "(nat \<Rightarrow> string) \<Rightarrow> offeringStore \<Rightarrow> offeringStore \<Rightarrow> bool" for ulid where
  openOffering: "offeringStep ulid s (snd (openOfferingForApprovedCase ulid now i s))"
| create: "currency_pattern (ci_amountEur i) \<Longrightarrow> offeringStep ulid s (snd (createReservation ulid i s))"
| money: "recordMoneyEvent ulid i s = Some s' \<Longrightarrow> offeringStep ulid s s'"
| expire: "offeringStep ulid s (snd (expireReservation i t at s))"
| publish: "offeringStep ulid s (snd (publishFinalOfferingTerms ulid i s))"
| reconfirm: "offeringStep ulid s (snd (reconfirmReservation i s))"
| commit: "offeringStep ulid s (snd (commitOfferingFinalization ulid oid t at s))"
| classify: "offeringStep ulid s (snd (classifyMateriality ulid i s))"
| pack: "offeringStep ulid s (snd (publishDisclosurePack ulid i s))"
| reminder: "offeringStep ulid s (recordReconfirmationReminderSent rid t at s)"
| notified: "offeringStep ulid s (recordReconfirmationWindowOpenedNotificationSent rid t at s)"
| environment: "offeringStep ulid s (s\<lparr>intakeCases := ic, walletRegistrations := wr\<rparr>)"

definition reachable :: "(nat \<Rightarrow> string) \<Rightarrow> offeringStore \<Rightarrow> bool" where
  "reachable ulid s \<longleftrightarrow> (offeringStep ulid)\<^sup>*\<^sup>* emptyStore s"

definition storeOk :: "offeringStore \<Rightarrow> bool" where
  "storeOk s \<longleftrightarrow> tablesOk s \<and> capacityOk s \<and> lifecycleOk s \<and> positionsOk s \<and> packsOk s"

lemma storeOk_empty: "storeOk emptyStore"
  by (simp add: storeOk_def tablesOk_def capacityOk_def lifecycleOk_def positionsOk_def packsOk_def
      packChain_def packsOf_def finalizedIds_def emptyStore_def)

lemma packsOk_same: "packsOk s \<Longrightarrow> disclosurePacks s' = disclosurePacks s \<Longrightarrow> packsOk s'"
  by (simp add: packsOk_def packsOf_def)

lemma storeOk_same_ledger:
  "storeOk s \<Longrightarrow> offerings s' = offerings s \<Longrightarrow> reservations s' = reservations s \<Longrightarrow>
    moneyEvents s' = moneyEvents s \<Longrightarrow> positionLedger s' = positionLedger s \<Longrightarrow>
    disclosurePacks s' = disclosurePacks s \<Longrightarrow> storeOk s'"
  by (simp add: storeOk_def tablesOk_def capacityOk_def reservedCapacity_def lifecycleOk_def positionsOk_def
      finalizedIds_def packsOk_def packsOf_def)

lemma publish_packs [simp]: "disclosurePacks (snd (publishFinalOfferingTerms ulid i s)) = disclosurePacks s"
  by (rule publish_cases[of ulid i s]) simp_all

lemma commit_packs [simp]: "disclosurePacks (snd (commitOfferingFinalization ulid oid t at s)) = disclosurePacks s"
  by (rule commit_cases[of ulid oid t at s]) simp_all

lemma classify_packs [simp]: "disclosurePacks (snd (classifyMateriality ulid i s)) = disclosurePacks s"
  by (rule classify_cases[of ulid i s]) simp_all

lemma expire_packs [simp]: "disclosurePacks (snd (expireReservation i t at s)) = disclosurePacks s"
  by (simp add: expireReservation_def split: option.split)

lemma reconfirm_packs [simp]: "disclosurePacks (snd (reconfirmReservation i s)) = disclosurePacks s"
  by (simp add: reconfirmReservation_def split: option.split)

lemma create_packs [simp]: "disclosurePacks (snd (createReservation ulid i s)) = disclosurePacks s"
  by (simp add: createReservation_def insertReservation_def Let_def split: option.split)

lemma pack_storeOk: "storeOk s \<Longrightarrow> storeOk (snd (publishDisclosurePack ulid i s))"
  using pack_packsOk[of s ulid i] quiet_tablesOk[OF pack_quiet[of s ulid i]]
    quiet_capacityOk[OF pack_quiet[of s ulid i]] lifecycle_same[of s "snd (publishDisclosurePack ulid i s)"]
    positions_same[of s "snd (publishDisclosurePack ulid i s)"]
  by (simp add: storeOk_def)

lemma open_storeOk:
  assumes "storeOk s"
  shows "storeOk (snd (openOfferingForApprovedCase ulid now i s))"
proof -
  have "sameLedger s (snd (openOfferingForApprovedCase ulid now i s))" using open_cases by blast
  then have "positionsOk (snd (openOfferingForApprovedCase ulid now i s))"
    "packsOk (snd (openOfferingForApprovedCase ulid now i s))"
    using assms positions_same packsOk_same unfolding storeOk_def sameLedger_def by blast+
  then show ?thesis using assms
    by (simp add: storeOk_def open_tablesOk open_capacityOk open_lifecycleOk)
qed

lemma money_storeOk:
  assumes "recordMoneyEvent ulid i s = Some s'" "storeOk s"
  shows "storeOk s'"
  using assms recordMoneyEvent_frame[OF assms(1)] quiet_tablesOk[OF recordMoneyEvent_quiet[OF assms(1)]]
    quiet_capacityOk[OF recordMoneyEvent_quiet[OF assms(1)]] lifecycle_same[of s s'] positions_same[of s s']
    packsOk_same[of s s']
  by (simp add: storeOk_def)

lemma quiet_storeOk:
  "storeOk s \<Longrightarrow> quiet s s' \<Longrightarrow> lifecycleOk s' \<Longrightarrow> positionsOk s' \<Longrightarrow> disclosurePacks s' = disclosurePacks s \<Longrightarrow> storeOk s'"
  using quiet_tablesOk quiet_capacityOk packsOk_same unfolding storeOk_def by blast

lemma step_storeOk: "offeringStep ulid s s' \<Longrightarrow> storeOk s \<Longrightarrow> storeOk s'"
proof (induction rule: offeringStep.induct)
  case (create i s)
  then show ?case using packsOk_same[of s "snd (createReservation ulid i s)"]
    by (simp add: storeOk_def create_tablesOk create_capacityOk create_lifecycleOk create_positionsOk)
next
  case (expire s i t at)
  show ?case
    by (rule quiet_storeOk[OF expire]) (use expire in \<open>simp_all add: storeOk_def expireReservation_quiet expire_lifecycleOk expire_positionsOk\<close>)
next
  case (publish s i)
  show ?case
    by (rule quiet_storeOk[OF publish]) (use publish in \<open>simp_all add: storeOk_def publish_quiet publish_lifecycleOk publish_positionsOk\<close>)
next
  case (reconfirm s i)
  show ?case
    by (rule quiet_storeOk[OF reconfirm]) (use reconfirm in \<open>simp_all add: storeOk_def reconfirmReservation_quiet reconfirm_lifecycleOk reconfirm_positionsOk\<close>)
next
  case (commit s oid t at)
  show ?case
    by (rule quiet_storeOk[OF commit]) (use commit in \<open>simp_all add: storeOk_def commit_quiet commit_lifecycleOk commit_positionsOk\<close>)
next
  case (classify s i)
  show ?case
    by (rule quiet_storeOk[OF classify]) (use classify in \<open>simp_all add: storeOk_def classify_quiet classify_lifecycleOk classify_positionsOk\<close>)
next
  case (reminder s rid t at)
  then show ?case by (rule storeOk_same_ledger[of s]) (simp_all add: recordReconfirmationReminderSent_def)
next
  case (notified s rid t at)
  then show ?case
    by (rule storeOk_same_ledger[of s]) (simp_all add: recordReconfirmationWindowOpenedNotificationSent_def)
next
  case (environment s ic wr)
  then show ?case by (rule storeOk_same_ledger[of s]) simp_all
next
  case (money i s s')
  then show ?case by (rule money_storeOk)
qed (simp_all add: open_storeOk pack_storeOk)

interpretation offering: invariant_system "offeringStep ulid" emptyStore storeOk for ulid
  by unfold_locales (simp_all add: storeOk_empty step_storeOk)

lemma reachable_storeOk: "reachable ulid s \<Longrightarrow> storeOk s"
  unfolding reachable_def by (rule offering.reach_inv)

lemma reachable_empty [simp]: "reachable ulid emptyStore"
  by (simp add: reachable_def)

lemma reachable_step: "reachable ulid s \<Longrightarrow> offeringStep ulid s s' \<Longrightarrow> reachable ulid s'"
  unfolding reachable_def by (rule rtranclp.rtrancl_into_rtrancl)

end
