(* ===== verification/OfferingReads.thy ===== *)
theory OfferingReads
  imports OfferingRuns "HOL-Library.Product_Lexorder"
begin

text \<open>
  The read side of the offering module: \<open>getInvestorDetail\<close>, \<open>listPublic\<close> and
  \<open>getAccessibleDocument\<close> of the repository, and the services that answer reads
  (\<open>GetInvestorOfferingService\<close>, \<open>ListPublicOfferingsService\<close>,
  \<open>DownloadDisclosureDocumentService\<close>). Rows of other modules (accounts, KYC, intake)
  and the document store are arguments.
\<close>

subsection \<open>The investor read model\<close>

record accountRow =
  acc_status :: string
  acc_loginMethods :: "string list"
  acc_wallet :: "(string \<times> time option) option"
  acc_cooldowns :: "time option list"

record pivDetail =
  pd_legalName :: "string option"
  pd_jurisdiction :: "string option"
  pd_registrationNo :: "string option"
  pd_structurePattern :: string
  pd_incorporatedAt :: "time option"
  pd_ipoEndAt :: "time option"
  pd_appraisalValueOpinionEur :: "int option"
  pd_propertyId :: ident
  pd_propertyType :: string
  pd_countryCode :: string
  pd_city :: "string option"
  pd_addressLine :: "string option"
  pd_ownerDeclaredValueEur :: int

text \<open>The rows the read model joins from other modules; the KYC snapshot is the pair of
  eligibility state and renewal date.\<close>

record investorContext =
  ctx_account :: "ident \<Rightarrow> accountRow option"
  ctx_kyc :: "ident \<Rightarrow> (string \<times> time option) option"
  ctx_piv :: "ident \<Rightarrow> pivDetail"

record accountReadiness =
  ar_status :: accountStatus
  ar_loginMethods :: "loginMethod list"
  ar_kycEligibilityState :: "string option"
  ar_kycRenewalDueAt :: "time option"
  ar_walletProvisioned :: bool
  ar_walletAddress :: "string option"
  ar_payoutWalletRegistered :: bool
  ar_recoveryCooldownEndsAt :: "time option"

record investorDetail =
  id_offering :: offering
  id_minimumRaiseEur :: string
  id_targetRaiseEur :: string
  id_piv :: pivDetail
  id_ownerDeclaredValueEur :: string
  id_appraisalValueOpinionEur :: "string option"
  id_currentDisclosurePack :: "disclosurePack option"
  id_materialityRecords :: "materialityRecord list"
  id_reservedCapacityEur :: string
  id_fundedEur :: string
  id_readiness :: accountReadiness

definition asAccountStatus :: "string \<Rightarrow> accountStatus option" where
  "asAccountStatus v = (if v = ''active'' then Some Active
     else if v = ''recovery_review'' then Some Recovery_review
     else if v = ''suspended_restricted'' then Some Suspended_restricted else None)"

definition asLoginMethod :: "string \<Rightarrow> loginMethod option" where
  "asLoginMethod v = (if v = ''google'' then Some Google else if v = ''apple'' then Some Apple
     else if v = ''passkey'' then Some Passkey else if v = ''device_key'' then Some Device_key else None)"

fun asLoginMethods :: "string list \<Rightarrow> loginMethod list option" where
  "asLoginMethods [] = Some []"
| "asLoginMethods (v # vs) = (case asLoginMethod v of None \<Rightarrow> None
     | Some m \<Rightarrow> (case asLoginMethods vs of None \<Rightarrow> None | Some ms \<Rightarrow> Some (m # ms)))"

definition somes :: "'a option list \<Rightarrow> 'a list" where
  "somes xs = concat (map (\<lambda>x. case x of None \<Rightarrow> [] | Some v \<Rightarrow> [v]) xs)"

definition toReadiness :: "accountRow \<Rightarrow> (string \<times> time option) option \<Rightarrow> accountReadiness option" where
  "toReadiness a kyc = (case asAccountStatus (acc_status a) of None \<Rightarrow> None
     | Some st \<Rightarrow> (case asLoginMethods (acc_loginMethods a) of None \<Rightarrow> None
       | Some lms \<Rightarrow> Some \<lparr>ar_status = st, ar_loginMethods = lms,
           ar_kycEligibilityState = map_option fst kyc,
           ar_kycRenewalDueAt = (case kyc of None \<Rightarrow> None | Some (_, d) \<Rightarrow> d),
           ar_walletProvisioned = (acc_wallet a \<noteq> None),
           ar_walletAddress = map_option fst (acc_wallet a),
           ar_payoutWalletRegistered = (case acc_wallet a of None \<Rightarrow> False | Some (_, r) \<Rightarrow> r \<noteq> None),
           ar_recoveryCooldownEndsAt = latestTime (somes (acc_cooldowns a))\<rparr>))"

text \<open>Documents in the order \<open>isCoreReading\<close> descending, type and identifier ascending; the
  change log newest first.\<close>

definition orderedPack :: "disclosurePack \<Rightarrow> disclosurePack" where
  "orderedPack p = p\<lparr>p_documents := sort_key (\<lambda>d. (\<not> d_isCoreReading d, documentTypeText (d_documentType d), d_id d))
     (p_documents p)\<rparr>"

definition changeLog :: "ident \<Rightarrow> offeringStore \<Rightarrow> materialityRecord list" where
  "changeLog oid s = rev (sort_key (\<lambda>r. (mat_classifiedAt r, mat_id r))
     (filter (\<lambda>r. mat_offeringId r = oid) (materialityRecords s)))"

definition liveFundedText :: "ident \<Rightarrow> offeringStore \<Rightarrow> string" where
  "liveFundedText oid s = sumText (\<lambda>r. capacityHolding oid r \<and> fundedIn s r) (latestAmount s) (reservations s)"

text \<open>The outer option is an exception; \<open>Some None\<close> is the \<open>null\<close> for a missing offering or account.\<close>

definition getInvestorDetail ::
  "investorContext \<Rightarrow> ident \<Rightarrow> ident \<Rightarrow> offeringStore \<Rightarrow> investorDetail option option" where
  "getInvestorDetail ctx offeringId accountId s =
    (case (findOffering offeringId s, ctx_account ctx accountId) of
       (Some x, Some account) \<Rightarrow>
         (let piv = ctx_piv ctx (o_pivId x) in
          if pd_propertyType piv \<noteq> ''residential'' then None
          else case (toReadiness account (ctx_kyc ctx accountId),
                     normalizeCurrency (sumText (capacityHolding offeringId) r_amountEur (reservations s)),
                     normalizeCurrency (liveFundedText offeringId s)) of
            (Some readiness, Some reserved, Some funded) \<Rightarrow>
              Some (Some \<lparr>id_offering = x, id_minimumRaiseEur = fromCents (o_minimumRaiseEur x),
                id_targetRaiseEur = fromCents (o_targetRaiseEur x), id_piv = piv,
                id_ownerDeclaredValueEur = fromCents (pd_ownerDeclaredValueEur piv),
                id_appraisalValueOpinionEur = map_option fromCents (pd_appraisalValueOpinionEur piv),
                id_currentDisclosurePack = map_option orderedPack (currentPack offeringId s),
                id_materialityRecords = changeLog offeringId s,
                id_reservedCapacityEur = reserved, id_fundedEur = funded, id_readiness = readiness\<rparr>)
          | _ \<Rightarrow> None)
     | _ \<Rightarrow> Some None)"

definition getAccessibleDocument ::
  "ident \<Rightarrow> ident \<Rightarrow> ident \<Rightarrow> offeringStore \<Rightarrow> (string \<times> DisclosureDocumentType \<times> nat) option" where
  "getAccessibleDocument accountId offeringId documentId s =
    (case concat (map (\<lambda>p. map (\<lambda>d. (d_documentRef d, d_documentType d, p_version p))
            (filter (\<lambda>d. d_id d = documentId) (p_documents p)))
          (filter (\<lambda>p. p_offeringId p = offeringId \<and>
             (p_isCurrent p \<and> p_supersededAt p = None \<or>
              (\<exists>r\<in>set (reservations s). r_offeringId r = p_offeringId p \<and> r_accountId r = accountId \<and>
                 r_disclosurePackVersionAtReservation r = Some (int_dec (int (p_version p))))))
           (disclosurePacks s))) of [] \<Rightarrow> None | d # _ \<Rightarrow> Some d)"


subsection \<open>GetInvestorOfferingService\<close>

definition blockerInputOf :: "bool \<Rightarrow> time \<Rightarrow> string \<Rightarrow> investorDetail \<Rightarrow> blockerInput" where
  "blockerInputOf rail now remaining d = (let x = id_offering d; a = id_readiness d in
    \<lparr>bi_now = now, bi_fundingRailAvailable = rail, bi_offeringStatus = o_status x,
     bi_finalTermsPublished = (o_finalOfferingPublishedAt x \<noteq> None),
     bi_hasDisclosurePack = (case id_currentDisclosurePack d of None \<Rightarrow> False | Some p \<Rightarrow> p_documents p \<noteq> []),
     bi_remainingCapacityEur = remaining, bi_accountStatus = ar_status a,
     bi_kycEligibilityState = ar_kycEligibilityState a, bi_kycRenewalDueAt = ar_kycRenewalDueAt a,
     bi_loginMethods = ar_loginMethods a, bi_walletProvisioned = ar_walletProvisioned a,
     bi_recoveryCooldownEndsAt = ar_recoveryCooldownEndsAt a\<rparr>)"

text \<open>Strings hold code points below 256, which UTF-8 writes in one or two bytes.\<close>

definition percentByte :: "int \<Rightarrow> string" where
  "percentByte b = (let hex = ''0123456789ABCDEF'' in [CHR ''%'', hex ! nat (b div 16), hex ! nat (b mod 16)])"

definition uriUnreserved :: "char \<Rightarrow> bool" where
  "uriUnreserved c \<longleftrightarrow> ascii_alnum c \<or> c \<in> set ''-_.!~*()'' \<or> c = CHR 0x27"

definition encodeURIComponent :: "string \<Rightarrow> string" where
  "encodeURIComponent s = concat (map (\<lambda>c. if uriUnreserved c then [c]
     else let u = code_unit c in if u < 128 then percentByte u
       else percentByte (192 + u div 64) @ percentByte (128 + u mod 64)) s)"

record termsJson =
  minimum_raise_eur :: string
  target_raise_eur :: string
  ipo_end_at :: "string option"
  final_offering_published_at :: "string option"
  platform_rights_end_at :: "string option"
  effective_rights_end_at :: "string option"

record progressJson =
  reserved_capacity_eur :: string
  funded_eur :: string
  remaining_capacity_eur :: string

record issuerJson =
  issuer_piv_id :: ident
  legal_name :: "string option"
  jurisdiction :: "string option"
  registration_number :: "string option"
  structure_pattern :: string
  incorporated_at :: "string option"

record propertyJson =
  property_id :: ident
  property_type :: string
  country_code :: string
  city :: "string option"
  address_line :: "string option"
  owner_declared_value_eur :: string
  appraisal_value_opinion_eur :: "string option"

record documentJson =
  document_id :: ident
  document_type :: DisclosureDocumentType
  download_path :: string
  is_core_reading :: bool

record packJson =
  disclosure_pack_id :: ident
  pack_version :: nat
  pack_published_at :: string
  pack_documents :: "documentJson list"

record changeJson =
  materiality_record_id :: ident
  change_description :: string
  change_classification :: MaterialityClassification
  reconfirmation_reset :: bool
  classified_at :: string

record readinessJson =
  investment_eligible :: bool
  payment_account_ready :: bool
  payout_account_verified :: bool

record investorOfferingJson =
  offering_id :: ident
  offering_status :: offeringStatus
  offering_terms :: termsJson
  offering_progress :: progressJson
  offering_issuer :: issuerJson
  offering_property :: propertyJson
  current_disclosure_pack :: "packJson option"
  change_log :: "changeJson list"
  offering_readiness :: readinessJson
  reservation_available :: bool
  reservation_blockers :: "ReservationBlocker list"

definition offeringNotFound :: app_error where
  "offeringNotFound = AppError ''offering.not_found'' 404 []"

definition packToJson :: "ident \<Rightarrow> disclosurePack \<Rightarrow> packJson" where
  "packToJson oid p = \<lparr>disclosure_pack_id = p_id p, pack_version = p_version p,
     pack_published_at = toISOString (p_publishedAt p),
     pack_documents = map (\<lambda>d. \<lparr>document_id = d_id d, document_type = d_documentType d,
       download_path = ''/v1/offerings/'' @ encodeURIComponent oid @ ''/documents/'' @
         encodeURIComponent (d_id d) @ ''/download'', is_core_reading = d_isCoreReading d\<rparr>) (p_documents p)\<rparr>"

definition changeToJson :: "materialityRecord \<Rightarrow> changeJson" where
  "changeToJson r = \<lparr>materiality_record_id = mat_id r, change_description = mat_changeDescription r,
     change_classification = mat_classification r, reconfirmation_reset = mat_resetTriggered r,
     classified_at = toISOString (mat_classifiedAt r)\<rparr>"

definition investorOfferingToJson :: "bool \<Rightarrow> time \<Rightarrow> string \<Rightarrow> investorDetail \<Rightarrow> investorOfferingJson" where
  "investorOfferingToJson rail now remaining d =
    (let x = id_offering d; piv = id_piv d; a = id_readiness d;
         kycCurrent = isKycCurrent (ar_kycEligibilityState a) (ar_kycRenewalDueAt a) now;
         loginMethodsComplete = isLoginMethodsComplete (ar_loginMethods a);
         blockers = computeReservationBlockers (blockerInputOf rail now remaining d)
     in \<lparr>offering_id = o_id x, offering_status = o_status x,
      offering_terms = \<lparr>minimum_raise_eur = id_minimumRaiseEur d, target_raise_eur = id_targetRaiseEur d,
        ipo_end_at = map_option toISOString (pd_ipoEndAt piv),
        final_offering_published_at = map_option toISOString (o_finalOfferingPublishedAt x),
        platform_rights_end_at = map_option toISOString (o_platformRightsEndAt x),
        effective_rights_end_at = map_option toISOString (o_effectiveRightsEndAt x)\<rparr>,
      offering_progress = \<lparr>reserved_capacity_eur = id_reservedCapacityEur d, funded_eur = id_fundedEur d,
        remaining_capacity_eur = remaining\<rparr>,
      offering_issuer = \<lparr>issuer_piv_id = o_pivId x, legal_name = pd_legalName piv,
        jurisdiction = pd_jurisdiction piv, registration_number = pd_registrationNo piv,
        structure_pattern = pd_structurePattern piv,
        incorporated_at = map_option toISOString (pd_incorporatedAt piv)\<rparr>,
      offering_property = \<lparr>property_id = pd_propertyId piv, property_type = pd_propertyType piv,
        country_code = pd_countryCode piv, city = pd_city piv, address_line = pd_addressLine piv,
        owner_declared_value_eur = id_ownerDeclaredValueEur d,
        appraisal_value_opinion_eur = id_appraisalValueOpinionEur d\<rparr>,
      current_disclosure_pack = map_option (packToJson (o_id x)) (id_currentDisclosurePack d),
      change_log = map changeToJson (id_materialityRecords d),
      offering_readiness = \<lparr>investment_eligible =
          isInvestmentEligible (ar_status a) kycCurrent loginMethodsComplete,
        payment_account_ready = ar_walletProvisioned a,
        payout_account_verified = ar_payoutWalletRegistered a\<rparr>,
      reservation_available = (blockers = []), reservation_blockers = blockers\<rparr>)"

definition getInvestorOffering ::
  "bool \<Rightarrow> investorContext \<Rightarrow> time \<Rightarrow> ident \<Rightarrow> ident \<Rightarrow> offeringStore \<Rightarrow> investorOfferingJson result" where
  "getInvestorOffering rail ctx now offeringId accountId s =
    (case getInvestorDetail ctx offeringId accountId s of
       None \<Rightarrow> Inl OtherError
     | Some None \<Rightarrow> Inl offeringNotFound
     | Some (Some d) \<Rightarrow>
       (case subtractCurrencyFloorZero (id_targetRaiseEur d) (id_reservedCapacityEur d) of
          None \<Rightarrow> Inl OtherError
        | Some remaining \<Rightarrow> Inr (investorOfferingToJson rail now remaining d)))"

subsection \<open>ListPublicOfferingsService\<close>

type_synonym cursor = "time \<times> ident"

record publicRow =
  pu_id :: ident
  pu_status :: offeringStatus
  pu_targetRaiseEur :: string
  pu_createdAt :: time
  pu_ipoEndAt :: "time option"
  pu_propertyType :: string
  pu_countryCode :: string
  pu_city :: "string option"

definition offeringCursor :: "offering \<Rightarrow> cursor" where
  "offeringCursor x = (o_createdAt x, o_id x)"

definition publicOfferings :: "offeringStore \<Rightarrow> offering list" where
  "publicOfferings s = rev (sort_key offeringCursor (filter (\<lambda>x. isPublicOfferingStatus (o_status x)) (offerings s)))"

definition publicRowOf :: "investorContext \<Rightarrow> offering \<Rightarrow> publicRow" where
  "publicRowOf ctx x = (let piv = ctx_piv ctx (o_pivId x) in
     \<lparr>pu_id = o_id x, pu_status = o_status x, pu_targetRaiseEur = fromCents (o_targetRaiseEur x),
      pu_createdAt = o_createdAt x, pu_ipoEndAt = pd_ipoEndAt piv,
      pu_propertyType = pd_propertyType piv, pu_countryCode = pd_countryCode piv,
      pu_city = pd_city piv\<rparr>)"

definition listPublic :: "investorContext \<Rightarrow> nat \<Rightarrow> cursor option \<Rightarrow> offeringStore \<Rightarrow> publicRow list option" where
  "listPublic ctx limit after s =
    (let rows = take limit (filter (\<lambda>x. case after of None \<Rightarrow> True
         | Some (at, i) \<Rightarrow> o_createdAt x < at \<or> o_createdAt x = at \<and> o_id x < i) (publicOfferings s))
     in if list_all (\<lambda>x. isPublicOfferingStatus (o_status x) \<and>
             pd_propertyType (ctx_piv ctx (o_pivId x)) = ''residential'') rows
        then Some (map (publicRowOf ctx) rows) else None)"

record publicJson =
  po_id :: ident
  po_status :: offeringStatus
  po_target_raise_eur :: string
  po_ipo_end_at :: "string option"
  po_property_type :: string
  po_country_code :: string
  po_city :: "string option"

definition publicToJson :: "publicRow \<Rightarrow> publicJson" where
  "publicToJson row = \<lparr>po_id = pu_id row, po_status = pu_status row, po_target_raise_eur = pu_targetRaiseEur row,
     po_ipo_end_at = map_option toISOString (pu_ipoEndAt row), po_property_type = pu_propertyType row,
     po_country_code = pu_countryCode row, po_city = pu_city row\<rparr>"

text \<open>The page and the position the next cursor encodes; the query's cursor is the decoded one.\<close>

definition listPublicOfferings ::
  "investorContext \<Rightarrow> nat \<Rightarrow> cursor option \<Rightarrow> offeringStore \<Rightarrow> (publicJson list \<times> cursor option) option" where
  "listPublicOfferings ctx limit after s =
    (case listPublic ctx (limit + 1) after s of None \<Rightarrow> None
     | Some rows \<Rightarrow>
       (let hasNextPage = length rows > limit;
            pageRows = (if hasNextPage then take limit rows else rows)
        in Some (map publicToJson pageRows, if hasNextPage \<and> pageRows \<noteq> []
             then Some (pu_createdAt (last pageRows), pu_id (last pageRows)) else None)))"

text \<open>A client that follows the cursors, for at most \<open>n\<close> pages.\<close>

fun allPages :: "investorContext \<Rightarrow> nat \<Rightarrow> nat \<Rightarrow> cursor option \<Rightarrow> offeringStore \<Rightarrow> publicJson list option" where
  "allPages ctx limit 0 after s = None"
| "allPages ctx limit (Suc n) after s =
    (case listPublicOfferings ctx limit after s of None \<Rightarrow> None
     | Some (rows, None) \<Rightarrow> Some rows
     | Some (rows, Some c) \<Rightarrow> map_option (\<lambda>rest. rows @ rest) (allPages ctx limit n (Some c) s))"

subsection \<open>DownloadDisclosureDocumentService\<close>

definition fileNameChar :: "char \<Rightarrow> bool" where
  "fileNameChar c \<longleftrightarrow> ascii_alnum c \<or> c \<in> set ''._-''"

text \<open>Every maximal run of other characters becomes one hyphen.\<close>

fun replaceRuns :: "bool \<Rightarrow> string \<Rightarrow> string" where
  "replaceRuns inRun [] = []"
| "replaceRuns inRun (c # cs) = (if fileNameChar c then c # replaceRuns False cs
     else if inRun then replaceRuns True cs else CHR ''-'' # replaceRuns True cs)"

definition stripHyphens :: "string \<Rightarrow> string" where
  "stripHyphens s = rev (dropWhile (\<lambda>c. c = CHR ''-'') (rev (dropWhile (\<lambda>c. c = CHR ''-'') s)))"

text \<open>On ASCII text, which every document type is, NFKD normalisation is the identity.\<close>

definition toSafeFileName :: "string \<Rightarrow> string" where
  "toSafeFileName v = (let normalized = take 100 (stripHyphens (replaceRuns False v))
     in if normalized = [] then ''disclosure-document'' else normalized)"

text \<open>The document store answers with the content and an optional file name.\<close>

definition downloadDisclosureDocument ::
  "(string \<Rightarrow> ('c \<times> string option) option) \<Rightarrow> ident \<Rightarrow> ident \<Rightarrow> ident \<Rightarrow> offeringStore \<Rightarrow> ('c \<times> string) result" where
  "downloadDisclosureDocument store accountId offeringId documentId s =
    (case getAccessibleDocument accountId offeringId documentId s of
       None \<Rightarrow> Inl (AppError ''offering.document_not_found'' 404 [])
     | Some (ref, type, version) \<Rightarrow>
       (case store ref of
          None \<Rightarrow> Inl (AppError ''offering.document_storage_inconsistent'' 503 [])
        | Some (content, name) \<Rightarrow> Inr (content, case name of Some n \<Rightarrow> n
            | None \<Rightarrow> toSafeFileName (documentTypeText type) @ ''-v'' @ int_dec (int version))))"

subsection \<open>Paging\<close>

definition afterCursor :: "cursor option \<Rightarrow> offering \<Rightarrow> bool" where
  "afterCursor after x \<longleftrightarrow> (case after of None \<Rightarrow> True | Some c \<Rightarrow> offeringCursor x < c)"

lemma afterCursor_eq:
  "(case after of None \<Rightarrow> True | Some (at, i) \<Rightarrow> o_createdAt x < at \<or> o_createdAt x = at \<and> o_id x < i) =
    afterCursor after x"
  by (auto simp: afterCursor_def offeringCursor_def less_prod_def split: option.split)

lemma publicOfferings_desc:
  assumes "distinct (map o_id (offerings s))"
  shows "sorted_wrt (\<lambda>x y. offeringCursor y < offeringCursor x) (publicOfferings s)"
proof -
  have inj: "inj_on offeringCursor (set (offerings s))"
    using assms by (auto simp: inj_on_def offeringCursor_def distinct_map)
  let ?p = "filter (\<lambda>x. isPublicOfferingStatus (o_status x)) (offerings s)"
  have "distinct (map offeringCursor (sort_key offeringCursor ?p))"
    using assms inj by (auto simp: distinct_map inj_on_def intro: distinct_filter)
  then have "sorted_wrt (<) (map offeringCursor (sort_key offeringCursor ?p))"
    by (simp add: strict_sorted_iff)
  then show ?thesis by (simp add: publicOfferings_def sorted_wrt_rev sorted_wrt_map)
qed

lemma filter_after:
  assumes "sorted_wrt (\<lambda>x y. offeringCursor y < offeringCursor x) (xs @ y # ys)"
  shows "filter (afterCursor (Some (offeringCursor y))) (xs @ y # ys) = ys"
proof -
  have "\<not> afterCursor (Some (offeringCursor y)) x" if "x \<in> set (xs @ [y])" for x
    using assms that by (auto simp: sorted_wrt_append afterCursor_def order_less_not_sym)
  moreover have "afterCursor (Some (offeringCursor y)) x" if "x \<in> set ys" for x
    using assms that by (auto simp: sorted_wrt_append afterCursor_def)
  ultimately show ?thesis by (simp add: filter_id_conv filter_empty_conv)
qed

definition publicPage :: "investorContext \<Rightarrow> offering list \<Rightarrow> publicJson list" where
  "publicPage ctx xs = map (\<lambda>x. publicToJson (publicRowOf ctx x)) xs"

definition allResidential :: "investorContext \<Rightarrow> offeringStore \<Rightarrow> bool" where
  "allResidential ctx s \<longleftrightarrow> list_all (\<lambda>x. pd_propertyType (ctx_piv ctx (o_pivId x)) = ''residential'') (offerings s)"

lemma listPublicOfferings_page:
  assumes "allResidential ctx s" "filter (afterCursor after) (publicOfferings s) = page @ rest"
    "length page = limit \<or> rest = []" "length page \<le> limit" "0 < limit"
  shows "listPublicOfferings ctx limit after s =
    Some (publicPage ctx page, if rest = [] then None else Some (offeringCursor (last page)))"
proof -
  have good: "isPublicOfferingStatus (o_status x) \<and> pd_propertyType (ctx_piv ctx (o_pivId x)) = ''residential''"
    if "x \<in> set (publicOfferings s)" for x
    using that assms(1) by (auto simp: publicOfferings_def allResidential_def list_all_iff)
  have sub: "set (page @ rest) \<subseteq> set (publicOfferings s)" using assms(2) by (metis filter_is_subset)
  have rows: "listPublic ctx (limit + 1) after s = Some (map (publicRowOf ctx) (take (limit + 1) (page @ rest)))"
    using good sub assms(2) set_take_subset[of "limit + 1" "page @ rest"]
    unfolding listPublic_def afterCursor_eq Let_def
    by (auto simp: list_all_iff subset_iff)
  show ?thesis
  proof (cases "rest = []")
    case True
    then show ?thesis using rows assms(4) by (simp add: listPublicOfferings_def publicPage_def)
  next
    case False
    then have l: "length page = limit" using assms(3) by simp
    have "page \<noteq> []" using l assms(5) by auto
    moreover have "take (limit + 1) (page @ rest) = page @ [hd rest]"
      using l False by (simp add: take_Suc)
    ultimately show ?thesis using rows l False
      by (simp add: listPublicOfferings_def Let_def last_map publicPage_def publicRowOf_def offeringCursor_def)
  qed
qed

lemma allPages_from:
  assumes "allResidential ctx s" "sorted_wrt (\<lambda>x y. offeringCursor y < offeringCursor x) (publicOfferings s)"
    "0 < limit"
  shows "publicOfferings s = before @ todo \<Longrightarrow>
    filter (afterCursor after) (publicOfferings s) = todo \<Longrightarrow> length todo < n \<Longrightarrow>
    allPages ctx limit n after s = Some (publicPage ctx todo)"
proof (induction n arbitrary: before todo after)
  case 0
  then show ?case by simp
next
  case (Suc n)
  let ?page = "take limit todo" and ?rest = "drop limit todo"
  have page: "listPublicOfferings ctx limit after s =
    Some (publicPage ctx ?page, if ?rest = [] then None else Some (offeringCursor (last ?page)))"
    using assms(1,3) Suc.prems(2) by (intro listPublicOfferings_page) auto
  show ?case
  proof (cases "?rest = []")
    case True
    then show ?thesis using page by (simp add: publicPage_def)
  next
    case False
    then have ne: "?page \<noteq> []" using assms(3) by auto
    have split: "publicOfferings s = (before @ butlast ?page) @ last ?page # ?rest"
      using Suc.prems(1) ne by (metis append_Cons append_Nil append_assoc append_butlast_last_id append_take_drop_id)
    have after: "filter (afterCursor (Some (offeringCursor (last ?page)))) (publicOfferings s) = ?rest"
      using filter_after assms(2) unfolding split by blast
    have "allPages ctx limit n (Some (offeringCursor (last ?page))) s = Some (publicPage ctx ?rest)"
      using Suc.IH[of "before @ ?page" ?rest] Suc.prems(1,3) after assms(3) False by auto
    then show ?thesis using page False
      by (simp add: publicPage_def flip: map_append)
  qed
qed

end
