(* ===== verification/OfferingServices.thy ===== *)
theory OfferingServices
  imports OfferingReads
begin

text \<open>
  The application services of the offering module that write
  (\<open>modules/offering/application\<close>): a service returns an error or a response together
  with the store it leaves. Coinbase's onramp client and the e-mail sender are
  arguments; a client call that fails is an error value.
\<close>

subsection \<open>CreateReservationService\<close>

record reservationConfig =
  cfg_fundingRailAvailable :: bool
  cfg_blockchain :: string
  cfg_buildRedirectUrl :: "ident \<Rightarrow> string"
  cfg_expiryMinutes :: int

text \<open>The options' defaults.\<close>

definition defaultReservationConfig :: reservationConfig where
  "defaultReservationConfig = \<lparr>cfg_fundingRailAvailable = False, cfg_blockchain = ''base'',
     cfg_buildRedirectUrl = (\<lambda>i. ''https://app.vistablox.io/reservations/'' @ i), cfg_expiryMinutes = 15\<rparr>"

text \<open>A session is a token and a channel identifier.\<close>

record onrampClient =
  createOnrampSessionToken :: "string \<Rightarrow> string \<Rightarrow> (string \<times> string) result"
  buildOnrampUrl :: "string \<Rightarrow> ident \<Rightarrow> string \<Rightarrow> string"

record reservationRequest =
  rq_offeringId :: ident
  rq_accountId :: ident
  rq_amountEur :: string
  rq_clientIdempotencyKey :: "string option"
  rq_traceId :: string

record reservationJson =
  rj_reservation_id :: ident
  rj_offering_id :: ident
  rj_amount_eur :: string
  rj_status :: string
  rj_expires_at :: string
  rj_onramp_url :: string
  rj_channel_id :: string

fun blockerText :: "ReservationBlocker \<Rightarrow> string" where
  "blockerText Account_restricted = ''account_restricted''"
| "blockerText Kyc_not_eligible = ''kyc_not_eligible''"
| "blockerText Kyc_renewal_due = ''kyc_renewal_due''"
| "blockerText Login_methods_incomplete = ''login_methods_incomplete''"
| "blockerText Payment_account_not_ready = ''payment_account_not_ready''"
| "blockerText Disclosure_pack_unavailable = ''disclosure_pack_unavailable''"
| "blockerText Offering_not_open = ''offering_not_open''"
| "blockerText Capacity_exhausted = ''capacity_exhausted''"
| "blockerText Funding_rail_unavailable = ''funding_rail_unavailable''"
| "blockerText Recovery_cooldown_active = ''recovery_cooldown_active''"

definition reservationNotAvailableError :: "ReservationBlocker list \<Rightarrow> app_error" where
  "reservationNotAvailableError blockers = AppError ''offering.reservation_not_available'' 409
     (map (\<lambda>b. (''reservation'', blockerText b)) blockers)"

definition amountExceedsCapacityError :: app_error where
  "amountExceedsCapacityError = AppError ''offering.reservation_amount_exceeds_capacity'' 422
     [(''amount_eur'', ''exceeds_remaining_capacity'')]"

definition idempotencyKeyReusedError :: app_error where
  "idempotencyKeyReusedError = AppError ''offering.idempotency_key_reused'' 409 []"

definition reservationReplayUnavailableError :: app_error where
  "reservationReplayUnavailableError = AppError ''offering.reservation_replay_unavailable'' 409 []"

text \<open>The first half of \<open>execute\<close>: the advisory read and the checks on it. It yields the
  wallet address and the version of the disclosure pack shown to the investor.\<close>

definition reservationGate ::
  "reservationConfig \<Rightarrow> investorContext \<Rightarrow> time \<Rightarrow> reservationRequest \<Rightarrow> offeringStore \<Rightarrow> (string \<times> string option) result" where
  "reservationGate cfg ctx now req s =
    (case getInvestorDetail ctx (rq_offeringId req) (rq_accountId req) s of
       None \<Rightarrow> Inl OtherError
     | Some None \<Rightarrow> Inl offeringNotFound
     | Some (Some d) \<Rightarrow>
       (case subtractCurrencyFloorZero (id_targetRaiseEur d) (id_reservedCapacityEur d) of
          None \<Rightarrow> Inl OtherError
        | Some remaining \<Rightarrow>
          (let blockers = computeReservationBlockers (blockerInputOf (cfg_fundingRailAvailable cfg) now remaining d)
           in if blockers \<noteq> [] then Inl (reservationNotAvailableError blockers)
              else (case (toCents (rq_amountEur req), toCents remaining) of
                (Some amount, Some left) \<Rightarrow>
                  if amount > left then Inl amountExceedsCapacityError
                  else (case ar_walletAddress (id_readiness d) of
                     None \<Rightarrow> Inl (reservationNotAvailableError [Payment_account_not_ready])
                   | Some wallet \<Rightarrow> Inr (wallet,
                       map_option (\<lambda>p. int_dec (int (p_version p))) (id_currentDisclosurePack d)))
              | _ \<Rightarrow> Inl OtherError))))"

definition assertReplayable :: "int \<Rightarrow> replayState \<Rightarrow> time \<Rightarrow> string \<Rightarrow> time \<Rightarrow> app_error option" where
  "assertReplayable expiryMinutes replay createdAt requestedAmountEur now =
    (case (toCents (rs_amountEur replay), toCents requestedAmountEur) of
       (Some stored, Some requested) \<Rightarrow>
         if stored \<noteq> requested then Some idempotencyKeyReusedError
         else if rs_reservationStage replay \<noteq> Initiated \<or>
                 isReservationFunded (rs_latestCapitalState replay) \<or>
                 isReservationExpired createdAt now expiryMinutes
         then Some reservationReplayUnavailableError
         else None
     | _ \<Rightarrow> Some OtherError)"

definition coinbaseEvent :: "ident \<Rightarrow> string option \<Rightarrow> capitalState \<Rightarrow> string \<Rightarrow> string option \<Rightarrow> time \<Rightarrow> advanceInput" where
  "coinbaseEvent rid ref state amount eurc at = \<lparr>ai_reservationId = rid, ai_provider = ''coinbase_cdp'',
     ai_providerReference = ref, ai_capitalState = state, ai_amountEur = amount, ai_amountEurc = eurc,
     ai_recordedAt = at\<rparr>"

text \<open>The onramp session and the money event; \<open>later\<close> is the clock's second reading.\<close>

definition startPayment ::
  "(nat \<Rightarrow> string) \<Rightarrow> reservationConfig \<Rightarrow> onrampClient \<Rightarrow> time \<Rightarrow> reservationRequest \<Rightarrow> string \<Rightarrow> bool
    \<Rightarrow> ident \<Rightarrow> time \<Rightarrow> offeringStore \<Rightarrow> reservationJson result \<times> offeringStore" where
  "startPayment ulid cfg client later req wallet reused rid createdAt s =
    (case createOnrampSessionToken client wallet (cfg_blockchain cfg) of
       Inl e \<Rightarrow>
         if reused then (Inl e, s)
         else (case recordMoneyEvent ulid (coinbaseEvent rid None Purchase_failed (rq_amountEur req) None later) s of
                 None \<Rightarrow> (Inl OtherError, s) | Some s' \<Rightarrow> (Inl e, s'))
     | Inr (token, channelId) \<Rightarrow>
         (case recordMoneyEvent ulid
                 (coinbaseEvent rid (Some channelId) Eurc_purchase_pending (rq_amountEur req) None later) s of
            None \<Rightarrow> (Inl OtherError, s)
          | Some s' \<Rightarrow>
            (Inr \<lparr>rj_reservation_id = rid, rj_offering_id = rq_offeringId req, rj_amount_eur = rq_amountEur req,
               rj_status = ''initiated'',
               rj_expires_at = toISOString (createdAt + cfg_expiryMinutes cfg * 60000),
               rj_onramp_url = buildOnrampUrl client token rid (cfg_buildRedirectUrl cfg rid),
               rj_channel_id = channelId\<rparr>, s')))"

text \<open>The second half of \<open>execute\<close>, which may run after other transactions have committed.\<close>

definition createAfterGate ::
  "(nat \<Rightarrow> string) \<Rightarrow> reservationConfig \<Rightarrow> onrampClient \<Rightarrow> ident \<Rightarrow> time \<Rightarrow> time \<Rightarrow> reservationRequest
    \<Rightarrow> string \<times> string option \<Rightarrow> offeringStore \<Rightarrow> reservationJson result \<times> offeringStore" where
  "createAfterGate ulid cfg client candidate now later req gate s =
    (let (created, s') = createReservation ulid
       \<lparr>ci_reservationId = candidate, ci_offeringId = rq_offeringId req, ci_accountId = rq_accountId req,
        ci_clientIdempotencyKey = rq_clientIdempotencyKey req, ci_amountEur = rq_amountEur req,
        ci_disclosurePackVersionAtReservation = snd gate, ci_traceId = rq_traceId req, ci_createdAt = now\<rparr> s
     in case created of
       Create_offering_not_open \<Rightarrow> (Inl (reservationNotAvailableError [Offering_not_open]), s')
     | Create_capacity_exceeded \<Rightarrow> (Inl amountExceedsCapacityError, s')
     | CreateThrows \<Rightarrow> (Inl OtherError, s')
     | Create_reused rid createdAt replay \<Rightarrow>
         (case assertReplayable (cfg_expiryMinutes cfg) replay createdAt (rq_amountEur req) now of
            Some e \<Rightarrow> (Inl e, s')
          | None \<Rightarrow> startPayment ulid cfg client later req (fst gate) True rid createdAt s')
     | Create_created rid createdAt \<Rightarrow>
         startPayment ulid cfg client later req (fst gate) False rid createdAt s')"

definition createReservationService ::
  "(nat \<Rightarrow> string) \<Rightarrow> reservationConfig \<Rightarrow> onrampClient \<Rightarrow> investorContext \<Rightarrow> ident \<Rightarrow> time \<Rightarrow> time
    \<Rightarrow> reservationRequest \<Rightarrow> offeringStore \<Rightarrow> reservationJson result \<times> offeringStore" where
  "createReservationService ulid cfg client ctx candidate now later req s =
    (case reservationGate cfg ctx now req s of
       Inl e \<Rightarrow> (Inl e, s)
     | Inr gate \<Rightarrow> createAfterGate ulid cfg client candidate now later req gate s)"

subsection \<open>PollOnrampTransactionsService\<close>

datatype OnrampTransactionStatus = Onramp_created | Onramp_in_progress | Onramp_success | Onramp_failed

record OnrampTransactionSummary =
  tx_transactionId :: string
  tx_status :: OnrampTransactionStatus
  tx_walletAddress :: string
  tx_purchaseCurrency :: string
  tx_purchaseAmountValue :: string
  tx_paymentTotalCurrency :: string
  tx_paymentTotalValue :: string
  tx_txHash :: "string option"
  tx_createdAt :: time
  tx_completedAt :: "time option"

definition onrampTransactionStatuses :: "string \<Rightarrow> OnrampTransactionStatus option" where
  "onrampTransactionStatuses t = map_of
    [(''ONRAMP_TRANSACTION_STATUS_CREATED'', Onramp_created),
     (''ONRAMP_TRANSACTION_STATUS_IN_PROGRESS'', Onramp_in_progress),
     (''ONRAMP_TRANSACTION_STATUS_SUCCESS'', Onramp_success),
     (''ONRAMP_TRANSACTION_STATUS_FAILED'', Onramp_failed)] t"

datatype TransactionOutcome =
    Outcome_success OnrampTransactionSummary
  | Outcome_failed OnrampTransactionSummary
  | Outcome_pending

definition resolveOutcome :: "OnrampTransactionSummary list \<Rightarrow> TransactionOutcome" where
  "resolveOutcome txs = (case find (\<lambda>t. tx_status t = Onramp_success) txs of
       Some t \<Rightarrow> Outcome_success t
     | None \<Rightarrow>
       if list_ex (\<lambda>t. tx_status t = Onramp_created \<or> tx_status t = Onramp_in_progress) txs then Outcome_pending
       else (case find (\<lambda>t. tx_status t = Onramp_failed) txs of
               Some t \<Rightarrow> Outcome_failed t | None \<Rightarrow> Outcome_pending))"

definition isPurchaseCovering :: "OnrampTransactionSummary \<Rightarrow> string \<Rightarrow> bool option" where
  "isPurchaseCovering t reservedAmountEur =
    (if tx_purchaseCurrency t \<noteq> ''EURC'' then Some False
     else case (toEurcMicros (tx_purchaseAmountValue t), toEurcMicros reservedAmountEur) of
       (Some creditedMicros, Some reserved) \<Rightarrow>
         (let minimumMicros = (reserved * 9) sdiv 10
          in Some (creditedMicros > 0 \<and> creditedMicros \<ge> minimumMicros))
     | _ \<Rightarrow> None)"

text \<open>The body of the loop: whether it acted, and the store; \<open>None\<close> is an exception.\<close>

definition pollReservation ::
  "(nat \<Rightarrow> string) \<Rightarrow> (ident \<Rightarrow> OnrampTransactionSummary list option) \<Rightarrow> time \<Rightarrow> pendingRow
    \<Rightarrow> offeringStore \<Rightarrow> (bool \<times> offeringStore) option" where
  "pollReservation ulid listBuyTransactions now row s =
    (case listBuyTransactions (pr_reservationId row) of None \<Rightarrow> None
     | Some txs \<Rightarrow>
       (case resolveOutcome txs of
          Outcome_pending \<Rightarrow> Some (False, s)
        | Outcome_failed t \<Rightarrow>
            map_option (Pair True) (recordMoneyEvent ulid (coinbaseEvent (pr_reservationId row)
              (Some (tx_transactionId t)) Purchase_failed (pr_amountEur row) None now) s)
        | Outcome_success t \<Rightarrow>
            (case isPurchaseCovering t (pr_amountEur row) of None \<Rightarrow> None
             | Some funded \<Rightarrow>
                map_option (Pair True) (recordMoneyEvent ulid (coinbaseEvent (pr_reservationId row)
                  (Some (tx_transactionId t)) (if funded then Eurc_reserved else Purchase_failed)
                  (pr_amountEur row) (if funded then Some (tx_purchaseAmountValue t) else None) now) s))))"

text \<open>A job's loop over the listed rows. The flag tells whether it ran to the end or an
  exception left it; transactions committed before that stay.\<close>

fun jobLoop :: "('r \<Rightarrow> 's \<Rightarrow> (bool \<times> 's) option) \<Rightarrow> 'r list \<Rightarrow> 's \<times> nat \<Rightarrow> bool \<times> 's \<times> nat" where
  "jobLoop body [] (s, acted) = (True, s, acted)"
| "jobLoop body (r # rs) (s, acted) = (case body r s of None \<Rightarrow> (False, s, acted)
     | Some (did, s') \<Rightarrow> jobLoop body rs (s', if did then Suc acted else acted))"

text \<open>\<open>JobRunSummary\<close>: the rows checked and acted on; \<open>None\<close> when the run throws.\<close>

definition runJob :: "('r \<Rightarrow> 's \<Rightarrow> (bool \<times> 's) option) \<Rightarrow> 'r list \<Rightarrow> 's \<Rightarrow> (nat \<times> nat) option \<times> 's" where
  "runJob body rows s = (case jobLoop body rows (s, 0) of (done, s', acted) \<Rightarrow>
     (if done then Some (length rows, acted) else None, s'))"

definition pollOnrampTransactions ::
  "(nat \<Rightarrow> string) \<Rightarrow> (ident \<Rightarrow> OnrampTransactionSummary list option) \<Rightarrow> time \<Rightarrow> offeringStore
    \<Rightarrow> (nat \<times> nat) option \<times> offeringStore" where
  "pollOnrampTransactions ulid listBuyTransactions now s =
    runJob (pollReservation ulid listBuyTransactions now) (listPendingPurchaseReservationsForTimers s) s"

subsection \<open>ExpireUnfundedReservationsService and CommitOfferingFinalizationService\<close>

text \<open>Each job is the loop of its body over the rows it lists.\<close>

definition expireRow :: "int \<Rightarrow> string \<Rightarrow> time \<Rightarrow> timerRow \<Rightarrow> offeringStore \<Rightarrow> (bool \<times> offeringStore) option" where
  "expireRow expiryMinutes traceId now row s =
    (if \<not> isReservationExpired (t_createdAt row) now expiryMinutes then Some (False, s)
     else if isReservationFunded (t_latestCapitalState row) then Some (False, s)
     else Some (expireReservation (t_reservationId row) traceId now s))"

definition expireUnfundedReservations ::
  "int \<Rightarrow> string \<Rightarrow> time \<Rightarrow> offeringStore \<Rightarrow> (nat \<times> nat) option \<times> offeringStore" where
  "expireUnfundedReservations expiryMinutes traceId now s =
    runJob (expireRow expiryMinutes traceId now) (listInitiatedReservationsForTimers s) s"

definition commitRow :: "(nat \<Rightarrow> string) \<Rightarrow> string \<Rightarrow> time \<Rightarrow> ident \<times> time \<Rightarrow> offeringStore
    \<Rightarrow> (bool \<times> offeringStore) option" where
  "commitRow ulid traceId now row s =
    (if isReconfirmationWindowOpen (snd row) now then Some (False, s)
     else (case commitOfferingFinalization ulid (fst row) traceId now s of
             (Committed _ _, s') \<Rightarrow> Some (True, s') | (_, s') \<Rightarrow> Some (False, s')))"

definition commitOfferingFinalizations ::
  "(nat \<Rightarrow> string) \<Rightarrow> string \<Rightarrow> time \<Rightarrow> offeringStore \<Rightarrow> (nat \<times> nat) option \<times> offeringStore" where
  "commitOfferingFinalizations ulid traceId now s =
    runJob (commitRow ulid traceId now) (listOfferingsPendingFinalizationCommit s) s"

subsection \<open>Reminder and notification jobs\<close>

text \<open>The state of these jobs is the store and the e-mails sent, each with its address and
  the end of the window. \<open>send\<close> tells whether the provider accepts a message.\<close>

type_synonym mail = "string \<times> time option"

type_synonym mailState = "offeringStore \<times> mail list"

definition sendMail :: "(mail \<Rightarrow> bool) \<Rightarrow> (offeringStore \<Rightarrow> offeringStore) \<Rightarrow> string option \<Rightarrow> time option
    \<Rightarrow> mailState \<Rightarrow> (bool \<times> mailState) option" where
  "sendMail send record contactEmail end st = (case contactEmail of
       None \<Rightarrow> Some (False, st)
     | Some to \<Rightarrow> if \<not> send (to, end) then None
         else Some (True, record (fst st), snd st @ [(to, end)]))"

definition remindRow :: "(mail \<Rightarrow> bool) \<Rightarrow> int \<Rightarrow> string \<Rightarrow> time \<Rightarrow> reminderRow \<Rightarrow> mailState
    \<Rightarrow> (bool \<times> mailState) option" where
  "remindRow send intervalHours traceId now row st =
    (if \<not> isReconfirmationReminderDue intervalHours (rr_lastReminderSentAt row)
           (rr_finalOfferingPublishedAt row) (rr_effectiveRightsEndAt row) now
     then Some (False, st)
     else sendMail send (recordReconfirmationReminderSent (rr_reservationId row) traceId now)
            (rr_contactEmail row) (Some (rr_effectiveRightsEndAt row)) st)"

definition sendReconfirmationReminders ::
  "(mail \<Rightarrow> bool) \<Rightarrow> (ident \<Rightarrow> string option) \<Rightarrow> int option \<Rightarrow> string \<Rightarrow> time \<Rightarrow> mailState
    \<Rightarrow> (nat \<times> nat) option \<times> mailState" where
  "sendReconfirmationReminders send email setting traceId now st =
    (case getReconfirmationReminderIntervalHours setting of None \<Rightarrow> (None, st)
     | Some intervalHours \<Rightarrow> runJob (remindRow send intervalHours traceId now)
         (listReservationsAwaitingReconfirmationForReminders email (fst st)) st)"

definition notifyRow :: "(mail \<Rightarrow> bool) \<Rightarrow> string \<Rightarrow> time \<Rightarrow> windowOpenedRow \<Rightarrow> mailState
    \<Rightarrow> (bool \<times> mailState) option" where
  "notifyRow send traceId now row st =
    (if wo_notificationAlreadySent row then Some (False, st)
     else sendMail send (recordReconfirmationWindowOpenedNotificationSent (wo_reservationId row) traceId now)
            (wo_contactEmail row) (wo_effectiveRightsEndAt row) st)"

definition notifyReconfirmationWindowOpened ::
  "(mail \<Rightarrow> bool) \<Rightarrow> (ident \<Rightarrow> string option) \<Rightarrow> ident list \<Rightarrow> string \<Rightarrow> time \<Rightarrow> mailState
    \<Rightarrow> (nat \<times> nat) option \<times> mailState" where
  "notifyReconfirmationWindowOpened send email reservationIds traceId now st =
    runJob (notifyRow send traceId now)
      (getReservationsForReconfirmationWindowOpenedNotification email reservationIds (fst st)) st"

subsection \<open>FinalizeOfferingService, ReconfirmReservationService\<close>

record finalizeJson =
  fin_offering_id :: ident
  fin_final_offering_published_at :: string
  fin_effective_rights_end_at :: string
  fin_reservations_awaiting_reconfirmation :: nat
  fin_reservations_cancelled :: nat

definition finalizeOffering ::
  "(nat \<Rightarrow> string) \<Rightarrow> publishInput \<Rightarrow> offeringStore \<Rightarrow> finalizeJson result \<times> offeringStore" where
  "finalizeOffering ulid i s = (case publishFinalOfferingTerms ulid i s of
     (Publish_offering_not_found, s') \<Rightarrow> (Inl offeringNotFound, s')
   | (Publish_not_open, s') \<Rightarrow> (Inl (AppError ''offering.finalization_not_available'' 409 []), s')
   | (Publish_already_published, s') \<Rightarrow> (Inl (AppError ''offering.finalization_not_available'' 409 []), s')
   | (Publish_target_not_reached, s') \<Rightarrow>
       (Inl (AppError ''offering.finalization_target_not_reached'' 409 []), s')
   | (Publish_disclosure_pack_incomplete, s') \<Rightarrow>
       (Inl (AppError ''offering.finalization_disclosure_pack_incomplete'' 409 []), s')
   | (PublishThrows, s') \<Rightarrow> (Inl OtherError, s')
   | (Published end awaiting cancelled, s') \<Rightarrow>
       (Inr \<lparr>fin_offering_id = pi_offeringId i,
          fin_final_offering_published_at = toISOString (pi_publishedAt i),
          fin_effective_rights_end_at = toISOString end,
          fin_reservations_awaiting_reconfirmation = awaiting, fin_reservations_cancelled = cancelled\<rparr>, s'))"

record reconfirmJson =
  rec_reservation_id :: ident
  rec_status :: string
  rec_reconfirmed_at :: string

definition reconfirmReservationService ::
  "reconfirmInput \<Rightarrow> offeringStore \<Rightarrow> reconfirmJson result \<times> offeringStore" where
  "reconfirmReservationService i s = (case reconfirmReservation i s of
     (Reconfirm_not_found, s') \<Rightarrow> (Inl (AppError ''offering.reservation_not_found'' 404 []), s')
   | (Reconfirm_not_awaiting_reconfirmation, s') \<Rightarrow>
       (Inl (AppError ''offering.reservation_not_awaiting_reconfirmation'' 409 []), s')
   | (Reconfirm_window_closed, s') \<Rightarrow> (Inl (AppError ''offering.reconfirmation_window_closed'' 409 []), s')
   | (Reconfirm_disclosure_pack_incomplete, s') \<Rightarrow>
       (Inl (AppError ''offering.reconfirmation_disclosure_pack_incomplete'' 409 []), s')
   | (ReconfirmThrows, s') \<Rightarrow> (Inl OtherError, s')
   | (ReconfirmedAt at, s') \<Rightarrow> (Inr \<lparr>rec_reservation_id = rci_reservationId i, rec_status = ''reconfirmed'',
       rec_reconfirmed_at = toISOString at\<rparr>, s'))"

subsection \<open>ClassifyMaterialityService, PublishDisclosurePackService\<close>

text \<open>What the request schemas check beyond the types of the fields.\<close>

definition classifyBodyOk :: "classifyInput \<Rightarrow> bool" where
  "classifyBodyOk i \<longleftrightarrow> (cl_thresholdType i \<noteq> None \<longrightarrow> cl_classification i = Reviewed_material)"

definition packBodyOk :: "packInput \<Rightarrow> bool" where
  "packBodyOk i \<longleftrightarrow> 1 \<le> length (pk_documents i) \<and> length (pk_documents i) \<le> length disclosureDocumentTypes \<and>
     distinct (map fst (pk_documents i))"

record classifyJson =
  cj_materiality_record_id :: ident
  cj_offering_id :: ident
  cj_classification :: MaterialityClassification
  cj_threshold_type :: "MaterialityThresholdType option"
  cj_reset_triggered :: bool
  cj_classified_at :: string
  cj_effective_rights_end_at :: "string option"
  cj_reservations_reset :: nat

definition classifyMaterialityService ::
  "(nat \<Rightarrow> string) \<Rightarrow> classifyInput \<Rightarrow> offeringStore \<Rightarrow> classifyJson result \<times> offeringStore" where
  "classifyMaterialityService ulid i s = (case classifyMateriality ulid i s of
     (Classify_offering_not_found, s') \<Rightarrow> (Inl offeringNotFound, s')
   | (Classify_no_active_reconfirmation_window, s') \<Rightarrow>
       (Inl (AppError ''offering.materiality_classification_not_available'' 409 []), s')
   | (Classified rid reset end n, s') \<Rightarrow>
       (Inr \<lparr>cj_materiality_record_id = rid, cj_offering_id = cl_offeringId i,
          cj_classification = cl_classification i, cj_threshold_type = cl_thresholdType i,
          cj_reset_triggered = reset, cj_classified_at = toISOString (cl_classifiedAt i),
          cj_effective_rights_end_at = map_option toISOString end, cj_reservations_reset = n\<rparr>, s'))"

record publishPackJson =
  ppj_disclosure_pack_id :: ident
  ppj_offering_id :: ident
  ppj_version :: nat
  ppj_published_at :: string
  ppj_documents :: "(ident \<times> DisclosureDocumentType \<times> bool) list"
  ppj_is_complete :: bool
  ppj_superseded_pack_id :: "ident option"

definition publishDisclosurePackService ::
  "(nat \<Rightarrow> string) \<Rightarrow> packInput \<Rightarrow> offeringStore \<Rightarrow> publishPackJson result \<times> offeringStore" where
  "publishDisclosurePackService ulid i s = (case publishDisclosurePack ulid i s of
     (Pack_offering_not_found, s') \<Rightarrow> (Inl offeringNotFound, s')
   | (Pack_not_open, s') \<Rightarrow> (Inl (AppError ''offering.disclosure_pack_not_available'' 409 []), s')
   | (PackThrows, s') \<Rightarrow> (Inl OtherError, s')
   | (Pack_published pid version documents complete superseded, s') \<Rightarrow>
       (Inr \<lparr>ppj_disclosure_pack_id = pid, ppj_offering_id = pk_offeringId i, ppj_version = version,
          ppj_published_at = toISOString (pk_publishedAt i),
          ppj_documents = map (\<lambda>d. (d_id d, d_documentType d, d_isCoreReading d)) documents,
          ppj_is_complete = complete, ppj_superseded_pack_id = superseded\<rparr>, s'))"

end
