(* ===== verification/OfferingServiceFacts.thy ===== *)
theory OfferingServiceFacts
  imports OfferingServices
begin

text \<open>
  Facts about the services: the loop of a job keeps what its body keeps; every
  service and every job moves between reachable stores; the exact effect of the
  expiry and finalization jobs; what the gate of a reservation checks.
\<close>

subsection \<open>Jobs\<close>

text \<open>What the body of a job keeps on every listed row, the whole run keeps, also one that
  ends with an exception.\<close>

locale job_body =
  fixes body :: "'r \<Rightarrow> 's \<Rightarrow> (bool \<times> 's) option" and rows :: "'r list" and inv :: "'s \<Rightarrow> bool"
  assumes body_keeps: "r \<in> set rows \<Longrightarrow> inv s \<Longrightarrow> body r s = Some (d, s') \<Longrightarrow> inv s'"
begin

lemma loop_keeps: "set rs \<subseteq> set rows \<Longrightarrow> inv s \<Longrightarrow> inv (fst (snd (jobLoop body rs (s, n))))"
proof (induction rs arbitrary: s n)
  case (Cons r rs)
  show ?case
  proof (cases "body r s")
    case (Some p)
    obtain d s' where p: "p = (d, s')" by force
    have "inv s'" using body_keeps Cons.prems Some p by auto
    then show ?thesis using Cons Some p by simp
  qed (use Cons.prems in simp)
qed simp

lemma run_keeps: "inv s \<Longrightarrow> inv (snd (runJob body rows s))"
  using loop_keeps[of rows s 0] by (auto simp: runJob_def split: prod.split)

end

text \<open>A body that never throws and acts on the rows that satisfy \<open>due\<close>, one after the other.\<close>

lemma jobLoop_fold:
  assumes "\<And>xs r ys. rs = xs @ r # ys \<Longrightarrow>
    body (row r) (fold step (filter due xs) s) =
      Some (due r, if due r then step r (fold step (filter due xs) s) else fold step (filter due xs) s)"
  shows "jobLoop body (map row rs) (s, n) = (True, fold step (filter due rs) s, n + length (filter due rs))"
  using assms
proof (induction rs arbitrary: s n)
  case (Cons r rs)
  have first: "body (row r) s = Some (due r, if due r then step r s else s)" using Cons.prems[of "[]" r rs] by simp
  have "jobLoop body (map row rs) (s', m) = (True, fold step (filter due rs) s', m + length (filter due rs))"
    if "s' = (if due r then step r s else s)" for s' m
  proof (rule Cons.IH)
    fix xs q ys assume "rs = xs @ q # ys"
    then show "body (row q) (fold step (filter due xs) s') =
      Some (due q, if due q then step q (fold step (filter due xs) s') else fold step (filter due xs) s')"
      using Cons.prems[of "r # xs" q ys] that by (cases "due r") simp_all
  qed
  then show ?case using first by simp
qed simp

subsection \<open>The expiry job\<close>

definition lapseDue :: "int \<Rightarrow> time \<Rightarrow> offeringStore \<Rightarrow> reservation \<Rightarrow> bool" where
  "lapseDue expiryMinutes now s r \<longleftrightarrow> isReservationExpired (r_createdAt r) now expiryMinutes \<and> \<not> fundedIn s r"

definition lapseStep :: "string \<Rightarrow> time \<Rightarrow> reservation \<Rightarrow> offeringStore \<Rightarrow> offeringStore" where
  "lapseStep traceId now r s = addAudit None ''offering.reservation_lapsed'' ''reservation'' (r_id r)
     [(''trace_id'', JText traceId), (''previous_stage'', JText ''initiated''),
      (''new_stage'', JText ''lapsed'')] now (updateReservation (r_id r) (\<lambda>q. q\<lparr>r_stage := Lapsed\<rparr>) s)"

lemma lapseStep_simps [simp]:
  "reservations (lapseStep t now r s) = update_where (\<lambda>q. r_id q = r_id r) (\<lambda>q. q\<lparr>r_stage := Lapsed\<rparr>) (reservations s)"
  "moneyEvents (lapseStep t now r s) = moneyEvents s"
  "offerings (lapseStep t now r s) = offerings s"
  "positionLedger (lapseStep t now r s) = positionLedger s"
  by (simp_all add: lapseStep_def)

lemma lapseFold_simps [simp]:
  "moneyEvents (fold (lapseStep t now) rs s) = moneyEvents s"
  "offerings (fold (lapseStep t now) rs s) = offerings s"
  "positionLedger (fold (lapseStep t now) rs s) = positionLedger s"
  by (intro fold_same; simp)+

lemma lapseFold_reservations:
  "reservations (fold (lapseStep t now) rs s) =
    fold (\<lambda>r. update_where (\<lambda>q. r_id q = r_id r) (\<lambda>q. q\<lparr>r_stage := Lapsed\<rparr>)) rs (reservations s)"
  by (intro fold_proj) simp

lemma latestCapitalState_cong: "moneyEvents s' = moneyEvents s \<Longrightarrow> latestCapitalState i s' = latestCapitalState i s"
  by (simp add: latestCapitalState_def latestMoney_def)

lemma find_after_other_updates:
  assumes "r_id r \<notin> r_id ` set rs" "find (\<lambda>q. r_id q = r_id r) t = Some r"
  shows "find (\<lambda>q. r_id q = r_id r)
    (fold (\<lambda>r. update_where (\<lambda>q. r_id q = r_id r) (\<lambda>q. q\<lparr>r_stage := Lapsed\<rparr>)) rs t) = Some r"
  using assms
proof (induction rs arbitrary: t)
  case (Cons a rs)
  have "find (\<lambda>q. r_id q = r_id r) (update_where (\<lambda>q. r_id q = r_id a) (\<lambda>q. q\<lparr>r_stage := Lapsed\<rparr>) t) = Some r"
    using Cons.prems by (induction t) (auto split: if_splits)
  then show ?case using Cons by simp
qed simp

lemma expire_job_loop:
  assumes "tablesOk s"
  shows "expireUnfundedReservations m t now s =
    (Some (length (filter (\<lambda>r. r_stage r = Initiated) (reservations s)),
           length (filter (lapseDue m now s) (filter (\<lambda>r. r_stage r = Initiated) (reservations s)))),
     fold (lapseStep t now) (filter (lapseDue m now s) (filter (\<lambda>r. r_stage r = Initiated) (reservations s))) s)"
proof -
  let ?rs = "filter (\<lambda>r. r_stage r = Initiated) (reservations s)"
  let ?row = "\<lambda>r. \<lparr>t_reservationId = r_id r, t_offeringId = r_offeringId r, t_accountId = r_accountId r,
              t_createdAt = r_createdAt r, t_latestCapitalState = latestCapitalState (r_id r) s\<rparr>"
  let ?body = "expireRow m t now"
  have dist: "distinct (map r_id ?rs)" using assms by (simp add: tablesOk_def distinct_map_filter)
  have loop: "jobLoop ?body (map ?row ?rs) (s, 0) =
    (True, fold (lapseStep t now) (filter (lapseDue m now s) ?rs) s, 0 + length (filter (lapseDue m now s) ?rs))"
  proof (rule jobLoop_fold)
    fix xs r ys assume split: "?rs = xs @ r # ys"
    let ?s = "fold (lapseStep t now) (filter (lapseDue m now s) xs) s"
    have "r \<in> set ?rs" unfolding split by simp
    then have r: "r \<in> set (reservations s)" "r_stage r = Initiated" by simp_all
    have "distinct (map r_id (xs @ r # ys))" using dist split by metis
    then have "r_id r \<notin> r_id ` set (filter (lapseDue m now s) xs)" by auto
    moreover have "find (\<lambda>q. r_id q = r_id r) (reservations s) = Some r"
      using assms r(1) by (intro find_key_distinct) (simp_all add: tablesOk_def)
    ultimately have "findReservation (r_id r) ?s = Some r"
      unfolding findReservation_def lapseFold_reservations by (rule find_after_other_updates)
    moreover have "latestCapitalState (r_id r) ?s = latestCapitalState (r_id r) s"
      by (rule latestCapitalState_cong) simp
    ultimately show "?body (?row r) ?s =
      Some (lapseDue m now s r, if lapseDue m now s r then lapseStep t now r ?s else ?s)"
      using r(2) by (auto simp: expireRow_def expireReservation_def lapseDue_def fundedIn_def lapseStep_def)
  qed
  show ?thesis
    unfolding expireUnfundedReservations_def listInitiatedReservationsForTimers_def runJob_def loop by simp
qed

lemma expire_job_rows:
  assumes "tablesOk s"
  shows "reservations (snd (expireUnfundedReservations m t now s)) =
    update_where (\<lambda>r. r_stage r = Initiated \<and> lapseDue m now s r) (\<lambda>r. r\<lparr>r_stage := Lapsed\<rparr>) (reservations s)"
proof -
  have d: "distinct (map r_id (reservations s))" using assms by (simp add: tablesOk_def)
  show ?thesis
    using fold_update_selected[OF d, of "\<lambda>r q. q\<lparr>r_stage := Lapsed\<rparr>" "\<lambda>r. lapseDue m now s r \<and> r_stage r = Initiated"]
    by (simp add: expire_job_loop[OF assms] lapseFold_reservations conj_commute)
qed

subsection \<open>The finalization job\<close>

definition commitDue :: "time \<Rightarrow> offering \<Rightarrow> bool" where
  "commitDue now x \<longleftrightarrow> (case o_effectiveRightsEndAt x of None \<Rightarrow> False
     | Some e \<Rightarrow> \<not> isReconfirmationWindowOpen e now)"

definition commitPending :: "offering \<Rightarrow> bool" where
  "commitPending x \<longleftrightarrow> o_status x = Pre_offering \<and> o_finalOfferingPublishedAt x \<noteq> None \<and> o_effectiveRightsEndAt x \<noteq> None"

lemma commit_pending_rows:
  "listOfferingsPendingFinalizationCommit s = map (\<lambda>x. (o_id x, the (o_effectiveRightsEndAt x)))
     (filter commitPending (offerings s))"
  unfolding listOfferingsPendingFinalizationCommit_def filter_filter
  by (intro arg_cong[of _ _ "map _"] filter_cong) (auto simp: commitPending_def)

lemma commit_runs:
  assumes "findOffering (o_id x) s = Some x" "commitPending x" "commitDue at x"
  shows "\<exists>a c. fst (commitOfferingFinalization ulid (o_id x) t at s) = Committed a c"
    "offerings (snd (commitOfferingFinalization ulid (o_id x) t at s)) =
      update_where (\<lambda>y. o_id y = o_id x) (\<lambda>y. y\<lparr>o_status := Final_offering\<rparr>) (offerings s)"
proof -
  obtain e p where e: "o_effectiveRightsEndAt x = Some e" "o_finalOfferingPublishedAt x = Some p"
      "o_status x = Pre_offering" "\<not> isReconfirmationWindowOpen e at"
    using assms(2,3) by (auto simp: commitPending_def commitDue_def)
  then have c: "\<exists>a c. fst (commitOfferingFinalization ulid (o_id x) t at s) = Committed a c"
    using assms(1) by (simp add: commitOfferingFinalization_def split: prod.split)
  then show "\<exists>a c. fst (commitOfferingFinalization ulid (o_id x) t at s) = Committed a c" .
  show "offerings (snd (commitOfferingFinalization ulid (o_id x) t at s)) =
      update_where (\<lambda>y. o_id y = o_id x) (\<lambda>y. y\<lparr>o_status := Final_offering\<rparr>) (offerings s)"
    using c by (cases rule: commit_cases[of ulid "o_id x" t at s]) auto
qed

lemma find_offering_other:
  assumes "o_id x \<notin> o_id ` set xs" "find (\<lambda>y. o_id y = o_id x) ys = Some x"
  shows "find (\<lambda>y. o_id y = o_id x)
    (fold (\<lambda>z. update_where (\<lambda>y. o_id y = o_id z) (\<lambda>y. y\<lparr>o_status := Final_offering\<rparr>)) xs ys) = Some x"
  using assms
proof (induction xs arbitrary: ys)
  case (Cons a xs)
  have "find (\<lambda>y. o_id y = o_id x) (update_where (\<lambda>y. o_id y = o_id a) (\<lambda>y. y\<lparr>o_status := Final_offering\<rparr>) ys) = Some x"
    using Cons.prems by (induction ys) (auto split: if_splits)
  then show ?case using Cons by simp
qed simp

lemma commit_job_loop:
  assumes "distinct (map o_id xs)" "list_all commitPending xs"
    "\<And>x. x \<in> set xs \<Longrightarrow> findOffering (o_id x) s = Some x"
  shows "\<exists>s'. jobLoop (commitRow ulid t now)
     (map (\<lambda>x. (o_id x, the (o_effectiveRightsEndAt x))) xs) (s, n) =
     (True, s', n + length (filter (commitDue now) xs)) \<and>
    offerings s' = fold (\<lambda>x. update_where (\<lambda>y. o_id y = o_id x) (\<lambda>y. y\<lparr>o_status := Final_offering\<rparr>))
      (filter (commitDue now) xs) (offerings s)"
  using assms
proof (induction xs arbitrary: s n)
  case (Cons x xs)
  obtain e where e: "o_effectiveRightsEndAt x = Some e" using Cons.prems(2) by (auto simp: commitPending_def)
  show ?case
  proof (cases "isReconfirmationWindowOpen e now")
    case True
    then have "\<not> commitDue now x" by (simp add: commitDue_def e)
    then show ?thesis using Cons.IH[of s n] Cons.prems True e by (simp add: commitRow_def)
  next
    case False
    then have due: "commitDue now x" by (simp add: commitDue_def e)
    let ?s = "snd (commitOfferingFinalization ulid (o_id x) t now s)"
    have fx: "findOffering (o_id x) s = Some x" using Cons.prems(3) by simp
    have px: "commitPending x" using Cons.prems(2) by simp
    obtain a c where r: "fst (commitOfferingFinalization ulid (o_id x) t now s) = Committed a c"
      using commit_runs(1)[OF fx px due] by blast
    have o: "offerings ?s = update_where (\<lambda>y. o_id y = o_id x) (\<lambda>y. y\<lparr>o_status := Final_offering\<rparr>) (offerings s)"
      by (rule commit_runs(2)[OF fx px due])
    have "findOffering (o_id y) ?s = Some y" if y: "y \<in> set xs" for y
    proof -
      have "o_id y \<noteq> o_id x" using Cons.prems(1) y by (metis distinct.simps(2) imageI list.simps(9) list.set_map)
      then show ?thesis
        using find_offering_other[of y "[x]" "offerings s"] Cons.prems(3)[of y] y o
        by (simp add: findOffering_def)
    qed
    then obtain s' where s': "jobLoop (commitRow ulid t now)
     (map (\<lambda>x. (o_id x, the (o_effectiveRightsEndAt x))) xs) (?s, Suc n) =
     (True, s', Suc n + length (filter (commitDue now) xs))"
      "offerings s' = fold (\<lambda>x. update_where (\<lambda>y. o_id y = o_id x) (\<lambda>y. y\<lparr>o_status := Final_offering\<rparr>))
      (filter (commitDue now) xs) (offerings ?s)"
      using Cons.IH[of ?s "Suc n"] Cons.prems by auto
    have "commitRow ulid t now (o_id x, e) s = Some (True, ?s)"
      using r False by (auto simp: commitRow_def split: prod.split)
    then show ?thesis using s' e due o by simp
  qed
qed simp

lemma commit_job_rows:
  assumes "tablesOk s"
  shows "offerings (snd (commitOfferingFinalizations ulid t now s)) =
      update_where (\<lambda>x. commitPending x \<and> commitDue now x) (\<lambda>x. x\<lparr>o_status := Final_offering\<rparr>) (offerings s)"
    "fst (commitOfferingFinalizations ulid t now s) = Some (count_by commitPending (offerings s),
      count_by (\<lambda>x. commitPending x \<and> commitDue now x) (offerings s))"
proof -
  have d: "distinct (map o_id (offerings s))" using assms by (simp add: tablesOk_def)
  obtain s' where s': "jobLoop (commitRow ulid t now)
     (listOfferingsPendingFinalizationCommit s) (s, 0) =
     (True, s', 0 + length (filter (commitDue now) (filter commitPending (offerings s))))"
    "offerings s' = fold (\<lambda>x. update_where (\<lambda>y. o_id y = o_id x) (\<lambda>y. y\<lparr>o_status := Final_offering\<rparr>))
      (filter (commitDue now) (filter commitPending (offerings s))) (offerings s)"
    unfolding commit_pending_rows
    using commit_job_loop[of "filter commitPending (offerings s)" s ulid t now 0] d
    by (auto simp: list_all_iff distinct_map_filter findOffering_def find_key_distinct)
  show "offerings (snd (commitOfferingFinalizations ulid t now s)) =
      update_where (\<lambda>x. commitPending x \<and> commitDue now x) (\<lambda>x. x\<lparr>o_status := Final_offering\<rparr>) (offerings s)"
    unfolding commitOfferingFinalizations_def runJob_def s'(1)
    using fold_update_selected[OF d, of "\<lambda>r q. q\<lparr>o_status := Final_offering\<rparr>" "\<lambda>x. commitDue now x \<and> commitPending x"]
    by (simp add: s'(2) conj_commute)
  show "fst (commitOfferingFinalizations ulid t now s) = Some (count_by commitPending (offerings s),
      count_by (\<lambda>x. commitPending x \<and> commitDue now x) (offerings s))"
    unfolding commitOfferingFinalizations_def runJob_def s'(1)
    by (simp add: commit_pending_rows count_by_def conj_commute)
qed

subsection \<open>Services run on reachable stores\<close>

lemma money_reachable: "reachable ulid s \<Longrightarrow> recordMoneyEvent ulid i s = Some s' \<Longrightarrow> reachable ulid s'"
  by (rule reachable_step) (auto intro: offeringStep.money)

lemma expire_reachable: "reachable ulid s \<Longrightarrow> expireReservation i t at s = (b, s') \<Longrightarrow> reachable ulid s'"
  using reachable_step[OF _ offeringStep.expire[of ulid s i t at]] by simp

lemma commit_reachable:
  "reachable ulid s \<Longrightarrow> commitOfferingFinalization ulid i t at s = (b, s') \<Longrightarrow> reachable ulid s'"
  using reachable_step[OF _ offeringStep.commit[of ulid s i t at]] by simp

lemma create_reachable:
  "reachable ulid s \<Longrightarrow> currency_pattern (ci_amountEur i) \<Longrightarrow> createReservation ulid i s = (b, s') \<Longrightarrow> reachable ulid s'"
  using reachable_step[OF _ offeringStep.create[of i ulid s]] by simp

lemma startPayment_reachable:
  "reachable ulid s \<Longrightarrow> reachable ulid (snd (startPayment ulid cfg client later req w reused rid at s))"
  by (auto simp: startPayment_def intro: money_reachable split: sum.split option.split)

lemma create_service_reachable:
  assumes "reachable ulid s" "currency_pattern (rq_amountEur req)"
  shows "reachable ulid (snd (createReservationService ulid cfg client ctx candidate now later req s))"
proof (cases "reservationGate cfg ctx now req s")
  case (Inr gate)
  let ?i = "\<lparr>ci_reservationId = candidate, ci_offeringId = rq_offeringId req, ci_accountId = rq_accountId req,
        ci_clientIdempotencyKey = rq_clientIdempotencyKey req, ci_amountEur = rq_amountEur req,
        ci_disclosurePackVersionAtReservation = snd gate, ci_traceId = rq_traceId req, ci_createdAt = now\<rparr>"
  obtain c s' where c: "createReservation ulid ?i s = (c, s')" by force
  have "reachable ulid s'" using create_reachable[OF assms(1) _ c] assms(2) by simp
  then show ?thesis using Inr
    by (auto simp: createReservationService_def createAfterGate_def c intro: startPayment_reachable
        split: createResult.split option.split)
qed (use assms in \<open>simp add: createReservationService_def\<close>)

lemma pollReservation_reachable:
  "reachable ulid s \<Longrightarrow> pollReservation ulid lbt now row s = Some (d, s') \<Longrightarrow> reachable ulid s'"
  by (auto simp: pollReservation_def intro: money_reachable
      split: option.splits TransactionOutcome.splits)

interpretation poll_reach: job_body "pollReservation ulid lbt now" rows "reachable ulid" for ulid lbt now rows
  by unfold_locales (rule pollReservation_reachable)

lemma poll_reachable: "reachable ulid s \<Longrightarrow> reachable ulid (snd (pollOnrampTransactions ulid lbt now s))"
  unfolding pollOnrampTransactions_def by (rule poll_reach.run_keeps)

interpretation expire_reach: job_body "expireRow m t now" rows "reachable ulid" for m t now rows ulid
  by unfold_locales (auto simp: expireRow_def intro: expire_reachable split: if_splits)

lemma expire_job_reachable: "reachable ulid s \<Longrightarrow> reachable ulid (snd (expireUnfundedReservations m t now s))"
  unfolding expireUnfundedReservations_def by (rule expire_reach.run_keeps)

interpretation commit_reach: job_body "commitRow ulid t now" rows "reachable ulid" for ulid t now rows
  by unfold_locales
    (auto simp: commitRow_def intro: commit_reachable split: if_splits commitResult.splits prod.splits)

lemma commit_job_reachable: "reachable ulid s \<Longrightarrow> reachable ulid (snd (commitOfferingFinalizations ulid t now s))"
  unfolding commitOfferingFinalizations_def by (rule commit_reach.run_keeps)

lemma service_stores [simp]:
  "snd (finalizeOffering ulid pinput s) = snd (publishFinalOfferingTerms ulid pinput s)"
  "snd (reconfirmReservationService rinput s) = snd (reconfirmReservation rinput s)"
  "snd (classifyMaterialityService ulid cinput s) = snd (classifyMateriality ulid cinput s)"
  "snd (publishDisclosurePackService ulid dinput s) = snd (publishDisclosurePack ulid dinput s)"
  by (auto simp: finalizeOffering_def reconfirmReservationService_def classifyMaterialityService_def
      publishDisclosurePackService_def split: prod.split publishResult.split reconfirmResult.split
      classifyResult.split packResult.split)

lemma operations_reachable:
  assumes "reachable ulid s"
  shows "reachable ulid (snd (finalizeOffering ulid pinput s))"
    "reachable ulid (snd (reconfirmReservationService rinput s))"
    "reachable ulid (snd (classifyMaterialityService ulid cinput s))"
    "reachable ulid (snd (publishDisclosurePackService ulid dinput s))"
  using reachable_step[OF assms offeringStep.publish[of ulid s pinput]]
    reachable_step[OF assms offeringStep.reconfirm[of ulid s rinput]]
    reachable_step[OF assms offeringStep.classify[of ulid s cinput]]
    reachable_step[OF assms offeringStep.pack[of ulid s dinput]]
  by simp_all

lemma sendMail_Some:
  "sendMail send record to end st = Some (d, st') \<Longrightarrow>
    st' = st \<or> (\<exists>a. to = Some a \<and> send (a, end) \<and> st' = (record (fst st), snd st @ [(a, end)]))"
  by (auto simp: sendMail_def split: option.splits if_splits)

lemma sent_reachable:
  assumes "reachable ulid s"
  shows "reachable ulid (recordReconfirmationReminderSent rid t at s)"
    "reachable ulid (recordReconfirmationWindowOpenedNotificationSent rid t at s)"
  using reachable_step[OF assms offeringStep.reminder] reachable_step[OF assms offeringStep.notified] .

interpretation reminder_reach: job_body "remindRow send h t now" rows "\<lambda>st. reachable ulid (fst st)"
  for send h t now rows ulid
  by unfold_locales
    (auto simp: remindRow_def intro: sent_reachable split: if_splits dest!: sendMail_Some)

lemma reminders_reachable:
  "reachable ulid (fst st) \<Longrightarrow> reachable ulid (fst (snd (sendReconfirmationReminders send email setting t now st)))"
  unfolding sendReconfirmationReminders_def
  using reminder_reach.run_keeps by (auto split: option.split)

interpretation notify_reach: job_body "notifyRow send t now" rows "\<lambda>st. reachable ulid (fst st)"
  for send t now rows ulid
  by unfold_locales
    (auto simp: notifyRow_def intro: sent_reachable split: if_splits dest!: sendMail_Some)

lemma notify_reachable:
  "reachable ulid (fst st) \<Longrightarrow> reachable ulid (fst (snd (notifyReconfirmationWindowOpened send email ids t now st)))"
  unfolding notifyReconfirmationWindowOpened_def by (rule notify_reach.run_keeps)

subsection \<open>The gate\<close>

text \<open>On a reachable store the aggregates read as exact numbers of cents.\<close>

lemma detail_remaining:
  assumes "tablesOk s" "capacityOk s" "getInvestorDetail ctx oid acc s = Some (Some d)"
  obtains x a where "findOffering oid s = Some x" "ctx_account ctx acc = Some a"
    "id_offering d = x" "toReadiness a (ctx_kyc ctx acc) = Some (id_readiness d)"
    "id_currentDisclosurePack d = map_option orderedPack (currentPack oid s)"
    "id_reservedCapacityEur d = fromCents (reservedCapacity oid s)"
    "reservedCapacity oid s \<le> o_targetRaiseEur x" "0 \<le> reservedCapacity oid s"
    "subtractCurrencyFloorZero (id_targetRaiseEur d) (id_reservedCapacityEur d) =
      Some (fromCents (o_targetRaiseEur x - reservedCapacity oid s))"
proof -
  obtain x a where x: "findOffering oid s = Some x" "ctx_account ctx acc = Some a"
    using assms(3) by (auto simp: getInvestorDetail_def split: option.splits)
  have xin: "x \<in> set (offerings s)" "o_id x = oid" using x(1) find_Some_in
    by (fastforce simp: findOffering_def)+
  have nonneg: "0 \<le> reservedCapacity oid s"
    using assms(1) unfolding reservedCapacity_def by (intro sum_by_nonneg) (auto simp: tablesOk_def less_imp_le)
  have le: "reservedCapacity oid s \<le> o_targetRaiseEur x" using assms(2) xin by (auto simp: capacityOk_def)
  have reserved: "normalizeCurrency (sumText (capacityHolding oid) r_amountEur (reservations s)) =
      Some (fromCents (reservedCapacity oid s))"
    using toCents_reserved[OF assms(1)] by (simp add: normalizeCurrency_eq)
  have d: "id_offering d = x" "toReadiness a (ctx_kyc ctx acc) = Some (id_readiness d)"
    "id_currentDisclosurePack d = map_option orderedPack (currentPack oid s)"
    "id_reservedCapacityEur d = fromCents (reservedCapacity oid s)"
    "id_targetRaiseEur d = fromCents (o_targetRaiseEur x)"
    using assms(3) x reserved by (auto simp: getInvestorDetail_def Let_def split: option.splits if_splits)
  have "subtractCurrencyFloorZero (id_targetRaiseEur d) (id_reservedCapacityEur d) =
      Some (fromCents (o_targetRaiseEur x - reservedCapacity oid s))"
    using subtractCurrencyFloorZero_fromCents[of "o_targetRaiseEur x" "reservedCapacity oid s"] nonneg le d
    by (simp add: max_def)
  then show ?thesis using that x d nonneg le by blast
qed

lemma documents_orderedPack [simp]: "p_documents (orderedPack p) = [] \<longleftrightarrow> p_documents p = []"
  by (simp add: orderedPack_def flip: length_0_conv)

lemma asLoginMethods_set:
  "asLoginMethods vs = Some ms \<Longrightarrow> m \<in> set ms \<longleftrightarrow> (\<exists>v\<in>set vs. asLoginMethod v = Some m)"
  by (induction vs arbitrary: ms) (auto split: option.splits)

lemma asLoginMethod_Some:
  "asLoginMethod v = Some Google \<longleftrightarrow> v = ''google''" "asLoginMethod v = Some Apple \<longleftrightarrow> v = ''apple''"
  "asLoginMethod v = Some Device_key \<longleftrightarrow> v = ''device_key''"
  by (auto simp: asLoginMethod_def)

lemma latestTime_ge: "latestTime ts = Some e \<Longrightarrow> t \<in> set ts \<Longrightarrow> t \<le> e"
proof -
  have "t \<in> set ts \<Longrightarrow> t \<le> foldr max ts b" for b by (induction ts) (auto simp: le_max_iff_disj)
  then show "latestTime ts = Some e \<Longrightarrow> t \<in> set ts \<Longrightarrow> t \<le> e" by (auto simp: latestTime_def split: if_splits)
qed

lemma latestTime_None [simp]: "latestTime ts = None \<longleftrightarrow> ts = []"
  by (simp add: latestTime_def)

lemma set_somes [simp]: "v \<in> set (somes xs) \<longleftrightarrow> Some v \<in> set xs"
  by (auto simp: somes_def split: option.splits)

text \<open>Who may reserve: the conditions of the gate in terms of the rows.\<close>

definition mayReserve :: "bool \<Rightarrow> investorContext \<Rightarrow> time \<Rightarrow> ident \<Rightarrow> ident \<Rightarrow> offeringStore \<Rightarrow> bool" where
  "mayReserve rail ctx now oid acc s \<longleftrightarrow> rail \<and>
    (case findOffering oid s of None \<Rightarrow> False
     | Some x \<Rightarrow> o_status x = Pre_offering \<and> o_finalOfferingPublishedAt x = None \<and>
         reservedCapacity oid s < o_targetRaiseEur x) \<and>
    (case currentPack oid s of None \<Rightarrow> False | Some p \<Rightarrow> p_documents p \<noteq> []) \<and>
    (case ctx_account ctx acc of None \<Rightarrow> False
     | Some a \<Rightarrow> acc_status a = ''active'' \<and> acc_wallet a \<noteq> None \<and>
         ''device_key'' \<in> set (acc_loginMethods a) \<and>
         (''google'' \<in> set (acc_loginMethods a) \<or> ''apple'' \<in> set (acc_loginMethods a)) \<and>
         (\<forall>e. Some e \<in> set (acc_cooldowns a) \<longrightarrow> e \<le> now)) \<and>
    (case ctx_kyc ctx acc of None \<Rightarrow> False
     | Some (st, renewal) \<Rightarrow> st = ''eligible'' \<and> (case renewal of None \<Rightarrow> False | Some d \<Rightarrow> now < d))"

lemma readiness_complete:
  assumes "toReadiness a kyc = Some r"
  shows "isLoginMethodsComplete (ar_loginMethods r) \<longleftrightarrow> ''device_key'' \<in> set (acc_loginMethods a) \<and>
      (''google'' \<in> set (acc_loginMethods a) \<or> ''apple'' \<in> set (acc_loginMethods a))"
    "ar_status r = Active \<longleftrightarrow> acc_status a = ''active''"
    "ar_walletProvisioned r \<longleftrightarrow> acc_wallet a \<noteq> None" "ar_walletAddress r = map_option fst (acc_wallet a)"
    "isKycCurrent (ar_kycEligibilityState r) (ar_kycRenewalDueAt r) now \<longleftrightarrow>
      (case kyc of None \<Rightarrow> False
       | Some (st, renewal) \<Rightarrow> st = ''eligible'' \<and> (case renewal of None \<Rightarrow> False | Some d \<Rightarrow> now < d))"
    "ar_recoveryCooldownEndsAt r = latestTime (somes (acc_cooldowns a))"
proof -
  obtain st lms where st: "asAccountStatus (acc_status a) = Some st" "asLoginMethods (acc_loginMethods a) = Some lms"
    using assms by (auto simp: toReadiness_def split: option.splits)
  have r: "r = \<lparr>ar_status = st, ar_loginMethods = lms,
           ar_kycEligibilityState = map_option fst kyc,
           ar_kycRenewalDueAt = (case kyc of None \<Rightarrow> None | Some (_, d) \<Rightarrow> d),
           ar_walletProvisioned = (acc_wallet a \<noteq> None),
           ar_walletAddress = map_option fst (acc_wallet a),
           ar_payoutWalletRegistered = (case acc_wallet a of None \<Rightarrow> False | Some (_, r) \<Rightarrow> r \<noteq> None),
           ar_recoveryCooldownEndsAt = latestTime (somes (acc_cooldowns a))\<rparr>"
    using assms st by (simp add: toReadiness_def)
  show "isLoginMethodsComplete (ar_loginMethods r) \<longleftrightarrow> ''device_key'' \<in> set (acc_loginMethods a) \<and>
      (''google'' \<in> set (acc_loginMethods a) \<or> ''apple'' \<in> set (acc_loginMethods a))"
    by (simp add: r isLoginMethodsComplete_def asLoginMethods_set[OF st(2)] asLoginMethod_Some)
  show "ar_status r = Active \<longleftrightarrow> acc_status a = ''active''"
    using st(1) by (auto simp: r asAccountStatus_def split: if_splits)
  show "isKycCurrent (ar_kycEligibilityState r) (ar_kycRenewalDueAt r) now \<longleftrightarrow>
      (case kyc of None \<Rightarrow> False
       | Some (st, renewal) \<Rightarrow> st = ''eligible'' \<and> (case renewal of None \<Rightarrow> False | Some d \<Rightarrow> now < d))"
    by (auto simp: r isKycCurrent_def split: option.split)
qed (use assms in \<open>auto simp: toReadiness_def split: option.splits\<close>)

lemma cooldown_over:
  "(\<forall>e. latestTime (somes cs) = Some e \<longrightarrow> e \<le> now) \<longleftrightarrow> (\<forall>e. Some e \<in> set cs \<longrightarrow> e \<le> now)"
proof -
  have "Some e \<in> set cs" if "latestTime (somes cs) = Some e" for e
  proof -
    have sel: "foldr max ts b \<in> insert b (set ts)" for ts :: "time list" and b
      by (induction ts) (auto simp: max_def)
    have "e \<in> set (somes cs)"
      using that sel[of "somes cs" "hd (somes cs)"] hd_in_set[of "somes cs"]
      by (auto simp: latestTime_def simp del: set_somes hd_in_set split: if_splits)
    then show ?thesis by simp
  qed
  moreover have "e \<le> now" if "\<And>l. latestTime (somes cs) = Some l \<Longrightarrow> l \<le> now" "Some e \<in> set cs" for e
  proof -
    have el: "e \<in> set (somes cs)" using that(2) by simp
    then obtain l where "latestTime (somes cs) = Some l"
      by (cases "latestTime (somes cs)") (auto simp del: set_somes)
    then show ?thesis using latestTime_ge[of "somes cs" l e] el that(1) by fastforce
  qed
  ultimately show ?thesis by blast
qed

text \<open>The blockers are empty exactly when the rows allow a reservation.\<close>

lemma gate_blockers:
  assumes "tablesOk s" "capacityOk s" "getInvestorDetail ctx oid acc s = Some (Some d)"
    "subtractCurrencyFloorZero (id_targetRaiseEur d) (id_reservedCapacityEur d) = Some remaining"
  shows "computeReservationBlockers (blockerInputOf rail now remaining d) = [] \<longleftrightarrow> mayReserve rail ctx now oid acc s"
  using assms(1-3)
proof (rule detail_remaining)
  fix x a
  assume d: "findOffering oid s = Some x" "ctx_account ctx acc = Some a"
    "id_offering d = x" "toReadiness a (ctx_kyc ctx acc) = Some (id_readiness d)"
    "id_currentDisclosurePack d = map_option orderedPack (currentPack oid s)"
    "id_reservedCapacityEur d = fromCents (reservedCapacity oid s)"
    "reservedCapacity oid s \<le> o_targetRaiseEur x" "0 \<le> reservedCapacity oid s"
    "subtractCurrencyFloorZero (id_targetRaiseEur d) (id_reservedCapacityEur d) =
      Some (fromCents (o_targetRaiseEur x - reservedCapacity oid s))"
  have rem: "remaining = fromCents (o_targetRaiseEur x - reservedCapacity oid s)" using assms(4) d(9) by simp
  have zero: "remaining \<noteq> ''0.00'' \<longleftrightarrow> reservedCapacity oid s < o_targetRaiseEur x"
    using fromCents_eq_zero_iff[of "o_targetRaiseEur x - reservedCapacity oid s"] d(7) by (auto simp: rem)
  have pack: "(case id_currentDisclosurePack d of None \<Rightarrow> False | Some p \<Rightarrow> p_documents p \<noteq> []) =
      (case currentPack oid s of None \<Rightarrow> False | Some p \<Rightarrow> p_documents p \<noteq> [])"
    by (simp add: d(5) split: option.split)
  show ?thesis
    unfolding computeReservationBlockers_Nil mayReserve_def d(1,2)
    by (simp add: blockerInputOf_def Let_def d(3) zero pack isInvestmentEligible_def
        readiness_complete[OF d(4)] cooldown_over) blast
qed

lemma gate_passes:
  assumes "tablesOk s" "capacityOk s" "reservationGate cfg ctx now req s = Inr gate"
  shows "mayReserve (cfg_fundingRailAvailable cfg) ctx now (rq_offeringId req) (rq_accountId req) s"
    "\<exists>amount x. toCents (rq_amountEur req) = Some amount \<and> findOffering (rq_offeringId req) s = Some x \<and>
      reservedCapacity (rq_offeringId req) s + amount \<le> o_targetRaiseEur x"
proof -
  obtain d where d: "getInvestorDetail ctx (rq_offeringId req) (rq_accountId req) s = Some (Some d)"
    using assms(3) by (auto simp: reservationGate_def split: option.splits)
  obtain x where x: "findOffering (rq_offeringId req) s = Some x"
    "reservedCapacity (rq_offeringId req) s \<le> o_targetRaiseEur x"
    "subtractCurrencyFloorZero (id_targetRaiseEur d) (id_reservedCapacityEur d) =
      Some (fromCents (o_targetRaiseEur x - reservedCapacity (rq_offeringId req) s))"
    using detail_remaining[OF assms(1,2) d] by metis
  let ?rem = "fromCents (o_targetRaiseEur x - reservedCapacity (rq_offeringId req) s)"
  have "computeReservationBlockers (blockerInputOf (cfg_fundingRailAvailable cfg) now ?rem d) = []"
    using assms(3) d x(3) by (auto simp: reservationGate_def Let_def split: if_splits)
  then show "mayReserve (cfg_fundingRailAvailable cfg) ctx now (rq_offeringId req) (rq_accountId req) s"
    using gate_blockers[OF assms(1,2) d x(3)] by blast
  have "toCents ?rem = Some (o_targetRaiseEur x - reservedCapacity (rq_offeringId req) s)"
    using x(2) by (intro cents.roundtrip) simp
  then show "\<exists>amount x. toCents (rq_amountEur req) = Some amount \<and> findOffering (rq_offeringId req) s = Some x \<and>
      reservedCapacity (rq_offeringId req) s + amount \<le> o_targetRaiseEur x"
    using assms(3) d x(1,3) by (auto simp: reservationGate_def Let_def split: if_splits option.splits)
qed

subsection \<open>What a successful reservation request leaves\<close>

lemma latest_fresh:
  assumes "tablesOk s" "findReservation i s = None"
  shows "latestCapitalState i s = None"
proof -
  have "filter (\<lambda>e. m_reservationId e = i) (moneyEvents s) = []"
    using assms by (auto simp: tablesOk_def findReservation_None filter_empty_conv)
  then show ?thesis by (simp add: latestCapitalState_def latestMoney_def)
qed

lemma recordMoneyEvent_appends:
  assumes "recordMoneyEvent ulid i s = Some s'"
  shows "reservations s' = reservations s \<and> (\<exists>e. moneyEvents s' = moneyEvents s @ [e] \<and>
    m_reservationId e = ai_reservationId i \<and> m_capitalState e = ai_capitalState i \<and>
    m_providerReference e = ai_providerReference i \<and> m_recordedAt e = ai_recordedAt i \<and>
    numericText 2 (ai_amountEur i) = Some (m_amountEur e))"
  using assms by (auto simp: recordMoneyEvent_def createMoneyEvent_def split: option.splits if_splits)

lemma startPayment_ok:
  assumes "startPayment ulid cfg client later req w reused rid at s = (Inr j, s')"
  shows "rj_reservation_id j = rid \<and> reservations s' = reservations s \<and>
    (\<exists>e. moneyEvents s' = moneyEvents s @ [e] \<and> m_reservationId e = rid \<and>
      m_capitalState e = Eurc_purchase_pending \<and> m_providerReference e = Some (rj_channel_id j))"
proof -
  obtain token ch where tk: "createOnrampSessionToken client w (cfg_blockchain cfg) = Inr (token, ch)"
    using assms by (auto simp: startPayment_def split: sum.splits option.splits if_splits)
  let ?i = "coinbaseEvent rid (Some ch) Eurc_purchase_pending (rq_amountEur req) None later"
  have m: "recordMoneyEvent ulid ?i s = Some s'" "rj_reservation_id j = rid" "rj_channel_id j = ch"
    using assms tk by (auto simp: startPayment_def split: option.splits)
  show ?thesis using recordMoneyEvent_appends[OF m(1)] m(2,3) by (auto simp: coinbaseEvent_def)
qed

lemma insert_not_reused: "fst (insertReservation ulid i s) \<noteq> Create_reused a b c"
  by (simp add: insertReservation_def split: option.split)

lemma create_reused:
  assumes "tablesOk s" "createReservation ulid i s = (Create_reused rid at rep, s')"
  shows "s' = s \<and> (\<exists>r. findReservation rid s = Some r \<and> r_createdAt r = at \<and>
    r_offeringId r = ci_offeringId i \<and> r_accountId r = ci_accountId i \<and>
    toCents (rs_amountEur rep) = Some (r_amountEur r) \<and> rs_reservationStage rep = r_stage r \<and>
    rs_latestCapitalState rep = latestCapitalState rid s)"
proof -
  obtain x where x: "findOffering (ci_offeringId i) s = Some x" "o_status x = Pre_offering"
    using assms(2) by (simp add: createReservation_def split: option.splits if_splits)
  have "findByClientKey i s \<noteq> None"
  proof
    assume "findByClientKey i s = None"
    then have "fst (createReservation ulid i s) \<noteq> Create_reused rid at rep"
      using x insert_not_reused by (simp add: createReservation_def Let_def split: option.split)
    then show False using assms(2) by simp
  qed
  then obtain r where r': "findByClientKey i s = Some r" by blast
  then obtain k where k: "find (keyMatches i k) (reservations s) = Some r"
    by (auto simp: findByClientKey_def split: option.splits)
  have kr: "find (keyMatches i k) (reservations s) = Some r" "s' = s" "rid = r_id r" "at = r_createdAt r"
    "rep = \<lparr>rs_amountEur = fromCents (r_amountEur r), rs_reservationStage = r_stage r,
             rs_latestCapitalState = latestCapitalState (r_id r) s\<rparr>"
    using assms(2) x r' k by (auto simp: createReservation_def)
  have r: "r \<in> set (reservations s)" "keyMatches i k r" using find_Some_in[OF kr(1)] by blast+
  have "findReservation rid s = Some r"
    using assms(1) r(1) kr(3) by (auto simp: findReservation_def tablesOk_def find_key_distinct)
  moreover have "0 < r_amountEur r" using assms(1) r(1) by (simp add: tablesOk_def)
  ultimately show ?thesis using kr r(2) by (auto simp: keyMatches_def cents.roundtrip)
qed

definition payableBy :: "int \<Rightarrow> time \<Rightarrow> reservationRequest \<Rightarrow> offeringStore \<Rightarrow> reservation \<Rightarrow> bool" where
  "payableBy expiryMinutes now req s r \<longleftrightarrow> r_offeringId r = rq_offeringId req \<and>
     r_accountId r = rq_accountId req \<and> toCents (rq_amountEur req) = Some (r_amountEur r) \<and>
     r_stage r = Initiated \<and> \<not> fundedIn s r \<and> \<not> isReservationExpired (r_createdAt r) now expiryMinutes"

lemma create_after_gate_ok:
  assumes "tablesOk s" "currency_pattern (rq_amountEur req)" "0 \<le> cfg_expiryMinutes cfg"
    "createAfterGate ulid cfg client candidate now later req gate s = (Inr j, s')"
  shows "\<exists>r e es. findReservation (rj_reservation_id j) s' = Some r \<and>
    payableBy (cfg_expiryMinutes cfg) now req s r \<and> moneyEvents s' = es @ [e] \<and> m_reservationId e = r_id r \<and>
    m_capitalState e = Eurc_purchase_pending \<and> m_providerReference e = Some (rj_channel_id j)"
proof -
  let ?i = "\<lparr>ci_reservationId = candidate, ci_offeringId = rq_offeringId req, ci_accountId = rq_accountId req,
        ci_clientIdempotencyKey = rq_clientIdempotencyKey req, ci_amountEur = rq_amountEur req,
        ci_disclosurePackVersionAtReservation = snd gate, ci_traceId = rq_traceId req, ci_createdAt = now\<rparr>"
  obtain c s1 where c: "createReservation ulid ?i s = (c, s1)" by force
  consider (reused) rid at rep where "c = Create_reused rid at rep"
      "assertReplayable (cfg_expiryMinutes cfg) rep at (rq_amountEur req) now = None"
      "startPayment ulid cfg client later req (fst gate) True rid at s1 = (Inr j, s')"
    | (new) rid at where "c = Create_created rid at"
      "startPayment ulid cfg client later req (fst gate) False rid at s1 = (Inr j, s')"
    using assms(4) by (cases c) (auto simp: createAfterGate_def c split: option.splits)
  then show ?thesis
  proof cases
    case reused
    obtain r where r: "s1 = s" "findReservation rid s = Some r" "r_createdAt r = at"
      "r_offeringId r = rq_offeringId req" "r_accountId r = rq_accountId req"
      "toCents (rs_amountEur rep) = Some (r_amountEur r)" "rs_reservationStage rep = r_stage r"
      "rs_latestCapitalState rep = latestCapitalState rid s"
      using create_reused[OF assms(1)] c reused(1) by fastforce
    have id: "r_id r = rid" using findReservation_Some(2)[OF assms(1) r(2)] .
    have "payableBy (cfg_expiryMinutes cfg) now req s r"
      using reused(2) r id
      by (auto simp: assertReplayable_def payableBy_def fundedIn_def split: option.splits if_splits)
    then show ?thesis using startPayment_ok[OF reused(3)] r(1,2) id by (auto simp: findReservation_def)
  next
    case new
    have pat: "currency_pattern (ci_amountEur ?i)" using assms(2) by simp
    show ?thesis using assms(1) pat
    proof (cases rule: create_cases[where ulid = ulid])
      case unchanged
      then show ?thesis using unchanged(2)[of rid at] c new(1) by simp
    next
      case (created x a)
      have id: "rid = candidate" using created(9) c new(1) by simp
      have res: "reservations s1 = reservations s @ [newReservation ?i a]" using created(10) c by simp
      have "findReservation candidate s = None" using created(7) by simp
      then have found: "findReservation candidate s1 = Some (newReservation ?i a)"
        by (simp add: findReservation_def res find_append newReservation_def)
      have "latestCapitalState candidate s = None" using latest_fresh[OF assms(1)] created(7) by simp
      then have "payableBy (cfg_expiryMinutes cfg) now req s (newReservation ?i a)"
        using created(4) assms(3)
        by (simp add: payableBy_def newReservation_def fundedIn_def isReservationFunded_def isReservationExpired_def)
      then show ?thesis using startPayment_ok[OF new(2)] found id
        by (auto simp: findReservation_def newReservation_def)
    qed
  qed
qed

subsection \<open>Jobs that send mail\<close>

text \<open>The audit times a send leaves.\<close>

lemma auditTimes_addAudit [simp]:
  "auditTimes a rid (addAudit actor act ''reservation'' k ch at s) =
    auditTimes a rid s @ (if act = a \<and> k = rid then [at] else [])"
  by (simp add: auditTimes_def addAudit_def)

text \<open>A job that, for each row it does not skip, sends a message and records it in the audit
  log under the row's key.\<close>

locale mail_job =
  fixes body :: "'r \<Rightarrow> mailState \<Rightarrow> (bool \<times> mailState) option"
    and skip :: "'r \<Rightarrow> bool" and key :: "'r \<Rightarrow> ident" and contact :: "'r \<Rightarrow> string option"
    and until :: "'r \<Rightarrow> time option" and action :: string and send :: "mail \<Rightarrow> bool"
    and traceId :: string and now :: time
  assumes body_def: "body row st = (if skip row then Some (False, st)
    else sendMail send (addAudit None action ''reservation'' (key row) [(''trace_id'', JText traceId)] now)
      (contact row) (until row) st)"
begin

definition sent :: "'r \<Rightarrow> string \<Rightarrow> mailState \<Rightarrow> mailState" where
  "sent r to st = (addAudit None action ''reservation'' (key r) [(''trace_id'', JText traceId)] now (fst st),
     snd st @ [(to, until r)])"

lemma sent_simps [simp]:
  "reservations (fst (sent r to st)) = reservations (fst st)"
  "offerings (fst (sent r to st)) = offerings (fst st)"
  "auditTimes action rid (fst (sent r to st)) =
    auditTimes action rid (fst st) @ (if key r = rid then [now] else [])"
  by (simp_all add: sent_def)

lemma run_Cons:
  "jobLoop body (r # rows) (st, n) =
    (if skip r then jobLoop body rows (st, n)
     else case contact r of None \<Rightarrow> jobLoop body rows (st, n)
       | Some to \<Rightarrow> if send (to, until r) then jobLoop body rows (sent r to st, Suc n) else (False, st, n))"
  by (simp add: body_def sendMail_def sent_def split: option.split)

lemma loop_frame:
  "reservations (fst (fst (snd (jobLoop body rows (st, n))))) = reservations (fst st) \<and>
   offerings (fst (fst (snd (jobLoop body rows (st, n))))) = offerings (fst st)"
proof (induction rows arbitrary: st n)
  case (Cons r rows)
  have "reservations (fst (fst (snd (jobLoop body rows (sent r to st, Suc n))))) = reservations (fst st) \<and>
    offerings (fst (fst (snd (jobLoop body rows (sent r to st, Suc n))))) = offerings (fst st)" for to
    using Cons.IH[of "sent r to st" "Suc n"] by simp
  then show ?case unfolding run_Cons using Cons.IH[of st n] by (simp split: option.split)
qed simp

lemma loop_times:
  "\<exists>m. auditTimes action rid (fst (fst (snd (jobLoop body rows (st, n))))) =
    auditTimes action rid (fst st) @ replicate m now"
proof (induction rows arbitrary: st n)
  case Nil
  show ?case by (rule exI[of _ 0]) simp
next
  case (Cons r rows)
  have "\<exists>m. auditTimes action rid (fst (fst (snd (jobLoop body rows (sent r to st, Suc n))))) =
      auditTimes action rid (fst st) @ replicate m now" for to
  proof -
    obtain m where "auditTimes action rid (fst (fst (snd (jobLoop body rows (sent r to st, Suc n))))) =
      auditTimes action rid (fst (sent r to st)) @ replicate m now" using Cons.IH[of "sent r to st" "Suc n"] by blast
    then show ?thesis by (intro exI[of _ "if key r = rid then Suc m else m"]) simp
  qed
  moreover have "\<exists>m. auditTimes action rid (fst st) = auditTimes action rid (fst st) @ replicate m now"
    by (rule exI[of _ 0]) simp
  ultimately show ?case unfolding run_Cons using Cons.IH[of st n] by (simp split: option.split)
qed

lemma loop_mono:
  "set (auditTimes action rid (fst st)) \<subseteq> set (auditTimes action rid (fst (fst (snd (jobLoop body rows (st, n))))))"
proof -
  obtain m where "auditTimes action rid (fst (fst (snd (jobLoop body rows (st, n))))) =
    auditTimes action rid (fst st) @ replicate m now" using loop_times by blast
  then show ?thesis by simp
qed

text \<open>A run that ends marks every row it had to serve.\<close>

lemma loop_marks:
  "fst (jobLoop body rows (st, n)) \<Longrightarrow> row \<in> set rows \<Longrightarrow> \<not> skip row \<Longrightarrow> contact row \<noteq> None \<Longrightarrow>
    now \<in> set (auditTimes action (key row) (fst (fst (snd (jobLoop body rows (st, n))))))"
proof (induction rows arbitrary: st n)
  case (Cons r rows)
  show ?case
  proof (cases "skip r \<or> contact r = None")
    case True
    then have "jobLoop body (r # rows) (st, n) = jobLoop body rows (st, n)" unfolding run_Cons by auto
    moreover have "row \<in> set rows" using Cons.prems True by auto
    ultimately show ?thesis using Cons.IH[of st n] Cons.prems by simp
  next
    case False
    then obtain to where to: "contact r = Some to" "\<not> skip r" by auto
    then have run: "jobLoop body (r # rows) (st, n) = jobLoop body rows (sent r to st, Suc n)"
      using Cons.prems(1) unfolding run_Cons by (simp split: if_splits)
    show ?thesis
    proof (cases "row = r")
      case True
      then show ?thesis using loop_mono[of "key r" "sent r to st" rows "Suc n"] unfolding run by simp
    next
      case False
      then have "row \<in> set rows" using Cons.prems(2) by simp
      then show ?thesis using Cons.IH[of "sent r to st" "Suc n"] Cons.prems unfolding run by simp
    qed
  qed
qed simp

end

interpretation remind_mail: mail_job "remindRow send h t now"
  "\<lambda>row. \<not> isReconfirmationReminderDue h (rr_lastReminderSentAt row) (rr_finalOfferingPublishedAt row)
     (rr_effectiveRightsEndAt row) now"
  rr_reservationId rr_contactEmail "\<lambda>row. Some (rr_effectiveRightsEndAt row)"
  "''offering.reconfirmation_reminder_sent''" send t now for send h t now
  by unfold_locales (simp add: remindRow_def recordReconfirmationReminderSent_def)

interpretation notify_mail: mail_job "notifyRow send t now" wo_notificationAlreadySent
  wo_reservationId wo_contactEmail wo_effectiveRightsEndAt
  "''offering.reconfirmation_window_opened_notification_sent''" send t now for send t now
  by unfold_locales (simp add: notifyRow_def recordReconfirmationWindowOpenedNotificationSent_def)

lemma jobLoop_idle: "(\<And>r. r \<in> set rs \<Longrightarrow> body r s = Some (False, s)) \<Longrightarrow> jobLoop body rs (s, n) = (True, s, n)"
  by (induction rs) auto

end
