(* ===== verification/OfferingProperties.thy ===== *)
theory OfferingProperties
  imports OfferingRuns
begin

text \<open>
  What the offering lifecycle guarantees, over every run of its transactions:
  capacity, the reservation lifecycle, positions, disclosure packs, publication,
  reconfirmation, finalization, materiality resets, replay and expiry. A sample run
  supplies the witnesses.
\<close>

subsection \<open>A sample run\<close>

definition sampleUlid :: "nat \<Rightarrow> string" where
  "sampleUlid n = int_dec (int n)"

definition sampleCreate :: "ident \<Rightarrow> string \<Rightarrow> time \<Rightarrow> createInput" where
  "sampleCreate rid key at = \<lparr>ci_reservationId = rid, ci_offeringId = ''offering_1'', ci_accountId = ''alice'',
     ci_clientIdempotencyKey = Some key, ci_amountEur = ''100.00'',
     ci_disclosurePackVersionAtReservation = Some ''1'', ci_traceId = ''t'', ci_createdAt = at\<rparr>"

definition sampleMoney :: "ident \<Rightarrow> capitalState \<Rightarrow> time \<Rightarrow> advanceInput" where
  "sampleMoney rid st at = \<lparr>ai_reservationId = rid, ai_provider = ''coinbase_cdp'', ai_providerReference = None,
     ai_capitalState = st, ai_amountEur = ''100.00'', ai_amountEurc = None, ai_recordedAt = at\<rparr>"

definition sampleOpened :: offeringStore where
  "sampleOpened = snd (openOfferingForApprovedCase sampleUlid 0
     \<lparr>oi_caseId = ''case'', oi_propertyId = ''property'', oi_ipoValueEur = ''100.00'',
      oi_openEscrowCampaign = False, oi_traceId = ''t'', oi_openedAt = 0\<rparr>
     (emptyStore\<lparr>intakeCases := [(''case'', None)], walletRegistrations := [(''alice'', ''0xA'')]\<rparr>))"

definition samplePacked :: offeringStore where
  "samplePacked = snd (publishDisclosurePack sampleUlid \<lparr>pk_offeringId = ''offering_1'', pk_accountId = ''staff'',
     pk_documents = map (\<lambda>t. (t, ''ref'')) disclosureDocumentTypes, pk_traceId = ''t'', pk_publishedAt = 1\<rparr> sampleOpened)"

definition sampleReserved :: offeringStore where
  "sampleReserved = snd (createReservation sampleUlid (sampleCreate ''r1'' ''k1'' 10) samplePacked)"

definition sampleFunded :: offeringStore where
  "sampleFunded = the (recordMoneyEvent sampleUlid (sampleMoney ''r1'' Eurc_reserved 20) sampleReserved)"

definition samplePublish :: publishInput where
  "samplePublish = \<lparr>pi_offeringId = ''offering_1'', pi_accountId = ''founder'', pi_founderReviewNotes = ''ok'',
     pi_traceId = ''t'', pi_publishedAt = 1000000\<rparr>"

definition samplePublished :: offeringStore where
  "samplePublished = snd (publishFinalOfferingTerms sampleUlid samplePublish sampleFunded)"

definition sampleReconfirm :: "time \<Rightarrow> reconfirmInput" where
  "sampleReconfirm at = \<lparr>rci_reservationId = ''r1'', rci_accountId = ''alice'', rci_traceId = ''t'', rci_reconfirmedAt = at\<rparr>"

definition sampleReconfirmed :: offeringStore where
  "sampleReconfirmed = snd (reconfirmReservation (sampleReconfirm 2000000) samplePublished)"




lemma sample_pattern: "currency_pattern (ci_amountEur (sampleCreate r k t))"
  unfolding sampleCreate_def by code_simp

lemma reachable_opened: "reachable sampleUlid sampleOpened"
proof -
  have "reachable sampleUlid (emptyStore\<lparr>intakeCases := [(''case'', None)], walletRegistrations := [(''alice'', ''0xA'')]\<rparr>)"
    by (rule reachable_step[OF reachable_empty]) (rule offeringStep.environment)
  then show ?thesis unfolding sampleOpened_def by (rule reachable_step) (rule offeringStep.openOffering)
qed

lemma reachable_packed: "reachable sampleUlid samplePacked"
  unfolding samplePacked_def by (rule reachable_step[OF reachable_opened]) (rule offeringStep.pack)

lemma reachable_reserved: "reachable sampleUlid sampleReserved"
  unfolding sampleReserved_def
  by (rule reachable_step[OF reachable_packed]) (rule offeringStep.create[OF sample_pattern])


lemma sample_money:
  "recordMoneyEvent sampleUlid (sampleMoney ''r1'' Eurc_reserved 20) sampleReserved = Some sampleFunded"
proof -
  have "recordMoneyEvent sampleUlid (sampleMoney ''r1'' Eurc_reserved 20) sampleReserved \<noteq> None" by code_simp
  then show ?thesis by (simp add: sampleFunded_def)
qed

lemma reachable_funded: "reachable sampleUlid sampleFunded"
  by (rule reachable_step[OF reachable_reserved]) (rule offeringStep.money[OF sample_money])

lemma reachable_published: "reachable sampleUlid samplePublished"
  unfolding samplePublished_def by (rule reachable_step[OF reachable_funded]) (rule offeringStep.publish)

lemma reachable_reconfirmed: "reachable sampleUlid sampleReconfirmed"
  unfolding sampleReconfirmed_def by (rule reachable_step[OF reachable_published]) (rule offeringStep.reconfirm)




subsection \<open>Capacity and lifecycle\<close>

text \<open>Claim C1. In every reachable store the live reservations of an offering never
  hold more than its target: no interleaving of transactions over-reserves.\<close>

theorem capacity_never_exceeded:
  assumes "reachable ulid s" "x \<in> set (offerings s)"
  shows "reservedCapacity (o_id x) s \<le> o_targetRaiseEur x"
  using reachable_storeOk[OF assms(1)] assms(2) by (simp add: storeOk_def capacityOk_def)

theorem capacity_never_exceeded_witness:
  "reservedCapacity ''offering_1'' sampleReserved \<le> 10000 \<and> reservedCapacity ''offering_1'' sampleReserved = 10000"
proof -
  have "newOffering ''offering_1'' ''piv_0'' 10000 0 \<in> set (offerings sampleReserved)" by code_simp
  from capacity_never_exceeded[OF reachable_reserved this]
  have "reservedCapacity ''offering_1'' sampleReserved \<le> 10000" by (simp add: newOffering_def)
  moreover have "reservedCapacity ''offering_1'' sampleReserved = 10000" by code_simp
  ultimately show ?thesis by simp
qed

text \<open>Claim C6. A transaction moves every existing reservation at most one step along the
  lifecycle and never changes its terms (account, offering, amount, client key,
  disclosure version); the reservations it adds are freshly initiated.\<close>

theorem reservation_lifecycle:
  assumes "reachable ulid s" "offeringStep ulid s s'"
  shows "\<exists>old new. reservations s' = old @ new \<and> list_all2 rowStep (reservations s) old \<and>
    (\<forall>r\<in>set new. r_stage r = Initiated)"
proof -
  have t: "tablesOk s" using reachable_storeOk[OF assms(1)] by (simp add: storeOk_def)
  have q: ?thesis if "quiet s s'" using that unfolding quiet_def by (intro exI[of _ "reservations s'"] exI[of _ "[]"]) simp
  have same: ?thesis if "reservations s' = reservations s"
    using that by (intro exI[of _ "reservations s'"] exI[of _ "[]"]) (simp add: list_all2_refl)
  show ?thesis using assms(2) q same
  proof cases
    case (openOffering now i)
    then show ?thesis using open_cases[of s ulid now i] by (intro same) (simp add: sameLedger_def)
  next
    case (create i)
    show ?thesis using t create(2)
    proof (cases rule: create_cases[where ulid = ulid])
      case unchanged
      then show ?thesis using create by (intro same) simp
    next
      case (created x a)
      then show ?thesis using create(1)
        by (intro exI[of _ "reservations s"] exI[of _ "[newReservation i a]"])
          (simp add: newReservation_def list_all2_refl)
    qed
  qed (simp_all add: recordMoneyEvent_quiet expireReservation_quiet publish_quiet reconfirmReservation_quiet commit_quiet
      classify_quiet pack_quiet t recordReconfirmationReminderSent_def recordReconfirmationWindowOpenedNotificationSent_def)
qed

theorem reservation_lifecycle_witness:
  "\<exists>old new. reservations samplePublished = old @ new \<and> list_all2 rowStep (reservations sampleFunded) old"
  using reservation_lifecycle[OF reachable_funded offeringStep.publish[of sampleUlid sampleFunded samplePublish]]
  unfolding samplePublished_def by blast



text \<open>Claim C13. Disclosure packs of an offering are numbered 1, 2, 3, ... without gaps, the
  last published one is the only current pack, and it is the one the lifecycle
  writes consult.\<close>

theorem disclosure_pack_versions:
  assumes "reachable ulid s"
  shows "map p_version (packsOf oid s) = [1..<Suc (length (packsOf oid s))] \<and>
    filter (isCurrentPackOf oid) (disclosurePacks s) =
      (if packsOf oid s = [] then [] else [last (packsOf oid s)]) \<and>
    currentPack oid s = (if packsOf oid s = [] then None else Some (last (packsOf oid s)))"
proof -
  have ok: "packsOk s" using reachable_storeOk[OF assms] by (simp add: storeOk_def)
  then have "packChain (packsOf oid s)" by (simp add: packsOk_def)
  moreover from this have "filter (isCurrentPackOf oid) (packsOf oid s) =
      (if packsOf oid s = [] then [] else [last (packsOf oid s)])"
    by (intro packChain_current) (auto simp: packsOf_def)
  ultimately show ?thesis using currentPack_last[OF ok, of oid] by (simp add: packChain_def filter_current)
qed

theorem disclosure_pack_versions_witness:
  "map p_version (packsOf ''offering_1'' samplePacked) = [1] \<and>
   currentPack ''offering_1'' samplePacked = Some (last (packsOf ''offering_1'' samplePacked))"
proof -
  have "length (packsOf ''offering_1'' samplePacked) = 1" by code_simp
  then show ?thesis using disclosure_pack_versions[OF reachable_packed, of "''offering_1''"] by (auto simp: upt_rec)
qed

subsection \<open>Publication of the final terms\<close>

lemma countedFunded_text:
  assumes "tablesOk s"
  shows "toCents (countedFundedText oid s) = Some (countedFunded oid s)"
  unfolding countedFundedText_def countedFunded_def
proof (rule toCents_sumText)
  fix r
  show "0 \<le> latestAmount s r"
  proof (cases "latestMoney (r_id r) s")
    case (Some e)
    have "latestOf es = Some e \<Longrightarrow> e \<in> set es" for es e
      by (induction es arbitrary: e) (auto split: option.splits if_splits)
    then have "e \<in> set (moneyEvents s)" using Some by (fastforce simp: latestMoney_def)
    then show ?thesis using assms Some by (simp add: latestAmount_def tablesOk_def less_imp_le)
  qed (simp add: latestAmount_def)
qed

lemma published_facts:
  assumes "reachable ulid s" "fst (publishFinalOfferingTerms ulid i s) = Published e a c"
  obtains x where "findOffering (pi_offeringId i) s = Some x" "x \<in> set (offerings s)" "o_id x = pi_offeringId i"
    "o_status x = Pre_offering" "o_finalOfferingPublishedAt x = None"
    "o_targetRaiseEur x \<le> countedFunded (pi_offeringId i) s"
    "isCompleteDisclosurePack (currentDocumentTypes (pi_offeringId i) s)"
    "e = computeEffectiveRightsEndAt (pi_publishedAt i)"
    "a = length (filter (\<lambda>r. publishSelected (pi_offeringId i) r \<and> fundedIn s r) (reservations s))"
    "c = length (filter (\<lambda>r. publishSelected (pi_offeringId i) r \<and> \<not> fundedIn s r) (reservations s))"
    "reservations (snd (publishFinalOfferingTerms ulid i s)) = update_where (publishSelected (pi_offeringId i))
       (\<lambda>r. publishedRow (latestCapitalState (r_id r) s) r) (reservations s)"
proof (cases rule: publish_cases[of ulid i s])
  case refused
  then show ?thesis using assms(2) by blast
next
  case (published x)
  have t: "tablesOk s" using reachable_storeOk[OF assms(1)] by (simp add: storeOk_def)
  have x: "x \<in> set (offerings s)" "o_id x = pi_offeringId i" using findOffering_Some[OF t published(1)] by blast+
  have "toCents (fromCents (o_targetRaiseEur x)) = Some (o_targetRaiseEur x)"
    using t x(1) by (intro cents.roundtrip) (simp add: tablesOk_def less_imp_le)
  then have "o_targetRaiseEur x \<le> countedFunded (pi_offeringId i) s"
    using published(4) countedFunded_text[OF t] by (simp add: canPublishFinalOfferingTerms_def)
  moreover have "distinct (map r_id (reservations s))" using t by (simp add: tablesOk_def)
  ultimately show ?thesis
    using published x assms(2) publishLoop_counts[of ulid "pi_publishedAt i" "pi_offeringId i" s]
    by (intro that[of x]) (simp_all add: publishLoop_reservations)
qed

text \<open>Claim C3. Publishing the final terms succeeds only for an unpublished open offering whose
  counted funding reaches the target and whose current pack is complete; it opens a
  window of exactly 168 hours, and the loop over the locked reservations has the
  effect of one update: funded initiated reservations await reconfirmation, unfunded
  ones are cancelled, all others are untouched, and the counts reported are those.\<close>

theorem publish_effect:
  assumes "reachable ulid s" "publishFinalOfferingTerms ulid i s = (Published e a c, s')"
  shows "(\<exists>x\<in>set (offerings s). o_id x = pi_offeringId i \<and> o_status x = Pre_offering \<and>
      o_finalOfferingPublishedAt x = None \<and> o_targetRaiseEur x \<le> countedFunded (pi_offeringId i) s) \<and>
    isCompleteDisclosurePack (currentDocumentTypes (pi_offeringId i) s) \<and>
    e = pi_publishedAt i + 168 * 3600000 \<and>
    reservations s' = map (\<lambda>r. if r_offeringId r = pi_offeringId i \<and> r_stage r = Initiated
      then r\<lparr>r_stage := if fundedIn s r then Awaiting_reconfirmation else Cancelled\<rparr> else r) (reservations s) \<and>
    a = length (filter (\<lambda>r. r_offeringId r = pi_offeringId i \<and> r_stage r = Initiated \<and> fundedIn s r) (reservations s)) \<and>
    c = length (filter (\<lambda>r. r_offeringId r = pi_offeringId i \<and> r_stage r = Initiated \<and> \<not> fundedIn s r) (reservations s))"
proof -
  have "fst (publishFinalOfferingTerms ulid i s) = Published e a c" using assms(2) by simp
  then show ?thesis
  proof (rule published_facts[OF assms(1)], goal_cases)
    case (1 x)
    have e: "e = pi_publishedAt i + 168 * 3600000"
      using 1(8) by (simp add: computeEffectiveRightsEndAt_def PLATFORM_RIGHTS_WINDOW_HOURS_def)
    have "reservations s' = map (\<lambda>r. if r_offeringId r = pi_offeringId i \<and> r_stage r = Initiated
        then r\<lparr>r_stage := if fundedIn s r then Awaiting_reconfirmation else Cancelled\<rparr> else r) (reservations s)"
      using 1(11) assms(2) by (simp add: update_where_def publishSelected_def publishedRow_def fundedIn_def)
    moreover have "a = length (filter (\<lambda>r. r_offeringId r = pi_offeringId i \<and> r_stage r = Initiated \<and> fundedIn s r) (reservations s))"
      "c = length (filter (\<lambda>r. r_offeringId r = pi_offeringId i \<and> r_stage r = Initiated \<and> \<not> fundedIn s r) (reservations s))"
      using 1(9,10) by (simp_all add: publishSelected_def conj_assoc)
    ultimately show ?case using 1(2-7) e by blast
  qed
qed

theorem publish_effect_witness:
  "publishFinalOfferingTerms sampleUlid samplePublish sampleFunded = (Published 605800000 1 0, samplePublished) \<and>
   map r_stage (reservations samplePublished) = [Awaiting_reconfirmation] \<and>
   (\<exists>x\<in>set (offerings sampleFunded). o_id x = ''offering_1'' \<and> o_status x = Pre_offering \<and>
      o_finalOfferingPublishedAt x = None \<and> o_targetRaiseEur x \<le> countedFunded ''offering_1'' sampleFunded)"
proof -
  have f: "fst (publishFinalOfferingTerms sampleUlid samplePublish sampleFunded) = Published 605800000 1 0" by code_simp
  have p: "publishFinalOfferingTerms sampleUlid samplePublish sampleFunded = (Published 605800000 1 0, samplePublished)"
    unfolding samplePublished_def f[symmetric] by (rule prod.collapse[symmetric])
  have oid: "pi_offeringId samplePublish = ''offering_1''" by (simp add: samplePublish_def)
  have "map r_stage (reservations samplePublished) = [Awaiting_reconfirmation]" by code_simp
  then show ?thesis using p publish_effect[OF reachable_funded p] unfolding oid by blast
qed




subsection \<open>Reconfirmation, finalization, materiality\<close>

text \<open>Claim C8. A reservation is reconfirmed exactly when it exists, belongs to the caller,
  awaits reconfirmation, its offering's rights window is still open and the current
  disclosure pack is complete. Otherwise nothing changes, and a reservation of another
  account is reported exactly like one that does not exist.\<close>

theorem reconfirm_iff:
  assumes "reachable ulid s"
  shows "(fst (reconfirmReservation i s) = ReconfirmedAt (rci_reconfirmedAt i) \<longleftrightarrow>
      (\<exists>r x e. findReservation (rci_reservationId i) s = Some r \<and> r_accountId r = rci_accountId i \<and>
         r_stage r = Awaiting_reconfirmation \<and> findOffering (r_offeringId r) s = Some x \<and>
         o_effectiveRightsEndAt x = Some e \<and> rci_reconfirmedAt i < e \<and>
         isCompleteDisclosurePack (currentDocumentTypes (r_offeringId r) s))) \<and>
    (fst (reconfirmReservation i s) \<noteq> ReconfirmedAt (rci_reconfirmedAt i) \<longrightarrow> snd (reconfirmReservation i s) = s) \<and>
    ((\<nexists>r. findReservation (rci_reservationId i) s = Some r \<and> r_accountId r = rci_accountId i) \<longrightarrow>
      reconfirmReservation i s = (Reconfirm_not_found, s))"
proof -
  have t: "tablesOk s" using reachable_storeOk[OF assms] by (simp add: storeOk_def)
  have foreign: "(\<nexists>r. findReservation (rci_reservationId i) s = Some r \<and> r_accountId r = rci_accountId i) \<Longrightarrow>
      reconfirmReservation i s = (Reconfirm_not_found, s)"
    by (auto simp: reconfirmReservation_def split: option.split)
  have ok: "fst (reconfirmReservation i s) = ReconfirmedAt (rci_reconfirmedAt i)"
    if "findReservation (rci_reservationId i) s = Some r" "r_accountId r = rci_accountId i"
      "r_stage r = Awaiting_reconfirmation" "findOffering (r_offeringId r) s = Some x"
      "o_effectiveRightsEndAt x = Some e" "rci_reconfirmedAt i < e"
      "isCompleteDisclosurePack (currentDocumentTypes (r_offeringId r) s)" for r x e
    using that by (simp add: reconfirmReservation_def isReconfirmationWindowOpen_def)
  show ?thesis using t
  proof (cases rule: reconfirm_cases[of s i])
    case refused
    then show ?thesis using ok foreign by blast
  next
    case (reconfirmed r x e)
    have "rci_reconfirmedAt i < e" using reconfirmed(6) by (simp add: isReconfirmationWindowOpen_def)
    then show ?thesis using reconfirmed foreign by blast
  qed
qed

theorem reconfirm_iff_witness:
  "fst (reconfirmReservation (sampleReconfirm 2000000) samplePublished) = ReconfirmedAt 2000000 \<and>
   reconfirmReservation (sampleReconfirm 2000000 \<lparr>rci_accountId := ''mallory''\<rparr>) samplePublished = (Reconfirm_not_found, samplePublished)"
proof -
  have "\<exists>r x e. findReservation ''r1'' samplePublished = Some r \<and> r_accountId r = ''alice'' \<and>
         r_stage r = Awaiting_reconfirmation \<and> findOffering (r_offeringId r) samplePublished = Some x \<and>
         o_effectiveRightsEndAt x = Some e \<and> 2000000 < e \<and>
         isCompleteDisclosurePack (currentDocumentTypes (r_offeringId r) samplePublished)"
  proof (intro exI conjI)
    let ?r = "the (findReservation ''r1'' samplePublished)"
    let ?x = "the (findOffering (r_offeringId ?r) samplePublished)"
    let ?e = "the (o_effectiveRightsEndAt ?x)"
    have some: "findReservation ''r1'' samplePublished \<noteq> None" by code_simp
    show "findReservation ''r1'' samplePublished = Some ?r" using some by (rule option.collapse[symmetric])
    show "r_accountId ?r = ''alice''" by code_simp
    show "r_stage ?r = Awaiting_reconfirmation" by code_simp
    have somex: "findOffering (r_offeringId ?r) samplePublished \<noteq> None" by code_simp
    then show "findOffering (r_offeringId ?r) samplePublished = Some ?x" by (rule option.collapse[symmetric])
    have "o_effectiveRightsEndAt ?x \<noteq> None" by code_simp
    then show "o_effectiveRightsEndAt ?x = Some ?e" by (rule option.collapse[symmetric])
    show "2000000 < ?e" by code_simp
    show "isCompleteDisclosurePack (currentDocumentTypes (r_offeringId ?r) samplePublished)" by code_simp
  qed
  moreover have "\<nexists>r. findReservation ''r1'' samplePublished = Some r \<and> r_accountId r = ''mallory''"
  proof -
    have "map_option r_accountId (findReservation ''r1'' samplePublished) = Some ''alice''" by code_simp
    then show ?thesis by force
  qed
  ultimately show ?thesis
    using reconfirm_iff[OF reachable_published, of "sampleReconfirm 2000000"]
      reconfirm_iff[OF reachable_published, of "sampleReconfirm 2000000 \<lparr>rci_accountId := ''mallory''\<rparr>"]
    by (simp add: sampleReconfirm_def)
qed

text \<open>Claim C4. Once the rights window of a published offering has closed, the finalization
  commit goes through, whatever the state of its reservations: every reconfirmed
  reservation is finalized and every one still awaiting reconfirmation lapses (silence
  is not consent), the counts are those, and all other reservations are untouched.\<close>

theorem commit_after_window:
  assumes "reachable ulid s" "findOffering oid s = Some x" "o_status x = Pre_offering"
    "o_finalOfferingPublishedAt x = Some p" "o_effectiveRightsEndAt x = Some e" "e \<le> at"
  shows "\<exists>s'. commitOfferingFinalization ulid oid t at s =
      (Committed (count_by (\<lambda>r. r_offeringId r = oid \<and> r_stage r = Reconfirmed) (reservations s))
         (count_by (\<lambda>r. r_offeringId r = oid \<and> r_stage r = Awaiting_reconfirmation) (reservations s)), s') \<and>
    reservations s' = map (\<lambda>r. if r_offeringId r = oid \<and> r_stage r = Reconfirmed
        then r\<lparr>r_stage := Finalized, r_reservationFinalizedAt := Some at\<rparr>
        else if r_offeringId r = oid \<and> r_stage r = Awaiting_reconfirmation then r\<lparr>r_stage := Lapsed\<rparr> else r) (reservations s) \<and>
    (\<exists>y. findOffering oid s' = Some y \<and> o_status y = Final_offering)"
proof -
  have t: "tablesOk s" using reachable_storeOk[OF assms(1)] by (simp add: storeOk_def)
  have d: "distinct (map r_id (reservations s))" using t by (simp add: tablesOk_def)
  show ?thesis
  proof (cases rule: commit_cases[of ulid oid t at s])
    case refused
    have "fst (commitOfferingFinalization ulid oid t at s) = Committed
        (fst (snd (commitLoop ulid (o_pivId x) at oid s))) (snd (snd (commitLoop ulid (o_pivId x) at oid s)))"
      using assms(2-6) by (simp add: commitOfferingFinalization_def isReconfirmationWindowOpen_def commitLoop_def
          split: prod.split)
    then show ?thesis using refused(2) by blast
  next
    case (committed x' e' p')
    have r: "fst (commitOfferingFinalization ulid oid t at s) =
        Committed (count_by (\<lambda>r. r_offeringId r = oid \<and> r_stage r = Reconfirmed) (reservations s))
         (count_by (\<lambda>r. r_offeringId r = oid \<and> r_stage r = Awaiting_reconfirmation) (reservations s))"
      unfolding committed(6) commitLoop_counts count_by_def ..
    have "reservations (snd (commitOfferingFinalization ulid oid t at s)) =
        map (\<lambda>r. if r_offeringId r = oid \<and> r_stage r = Reconfirmed
          then r\<lparr>r_stage := Finalized, r_reservationFinalizedAt := Some at\<rparr>
          else if r_offeringId r = oid \<and> r_stage r = Awaiting_reconfirmation then r\<lparr>r_stage := Lapsed\<rparr> else r) (reservations s)"
      unfolding committed(7) commitLoop_reservations[OF d] update_where_def
      by (auto simp: commitSelected_def committedRow_def)
    moreover have "\<exists>y. findOffering oid (snd (commitOfferingFinalization ulid oid t at s)) = Some y \<and> o_status y = Final_offering"
      using assms(2) unfolding findOffering_def committed(10) by (subst find_update_where) auto
    ultimately show ?thesis using r by (intro exI[of _ "snd (commitOfferingFinalization ulid oid t at s)"]) (simp add: prod_eq_iff)
  qed
qed

theorem commit_after_window_witness:
  "\<exists>s'. commitOfferingFinalization sampleUlid ''offering_1'' ''t'' 700000000 sampleReconfirmed = (Committed 1 0, s') \<and>
    map r_stage (reservations s') = [Finalized]"
proof -
  let ?x = "the (findOffering ''offering_1'' sampleReconfirmed)"
  have "findOffering ''offering_1'' sampleReconfirmed \<noteq> None" by code_simp
  then have x: "findOffering ''offering_1'' sampleReconfirmed = Some ?x" by (rule option.collapse[symmetric])
  have st: "o_status ?x = Pre_offering" by code_simp
  have p: "o_finalOfferingPublishedAt ?x = Some 1000000" by code_simp
  have e: "o_effectiveRightsEndAt ?x = Some 605800000" by code_simp
  have n: "count_by (\<lambda>r. r_offeringId r = ''offering_1'' \<and> r_stage r = Reconfirmed) (reservations sampleReconfirmed) = 1" by code_simp
  have m: "count_by (\<lambda>r. r_offeringId r = ''offering_1'' \<and> r_stage r = Awaiting_reconfirmation) (reservations sampleReconfirmed) = 0" by code_simp
  have rs: "map (\<lambda>r. (r_offeringId r, r_stage r)) (reservations sampleReconfirmed) = [(''offering_1'', Reconfirmed)]" by code_simp
  show ?thesis using commit_after_window[OF reachable_reconfirmed x st p e, of 700000000 "''t''"] rs
    unfolding n m by (auto simp: map_eq_Cons_conv)
qed

text \<open>Claim C5. A material change takes every reconfirmation of the offering back, reopens the
  rights window for 168 hours from its classification, and keeps the finalization
  from committing before that window ends. It leaves all other reservations alone.\<close>

theorem materiality_reset:
  assumes "reachable ulid s" "fst (classifyMateriality ulid i s) = Classified m True e n"
  shows "e = Some (cl_classifiedAt i + 168 * 3600000) \<and>
    n = count_by (\<lambda>r. r_offeringId r = cl_offeringId i \<and> r_stage r = Reconfirmed) (reservations s) \<and>
    reservations (snd (classifyMateriality ulid i s)) = map (\<lambda>r. if r_offeringId r = cl_offeringId i \<and> r_stage r = Reconfirmed
        then r\<lparr>r_stage := Awaiting_reconfirmation, r_reconfirmedAt := None\<rparr> else r) (reservations s) \<and>
    (\<forall>at t. at < cl_classifiedAt i + 168 * 3600000 \<longrightarrow>
       fst (commitOfferingFinalization ulid (cl_offeringId i) t at (snd (classifyMateriality ulid i s))) = Commit_window_still_open)"
proof (cases rule: classify_cases[of ulid i s])
  case refused
  then show ?thesis using assms(2) by blast
next
  case (recorded x a p)
  then show ?thesis using assms(2) by simp
next
  case (reset x a p)
  let ?s' = "snd (classifyMateriality ulid i s)" and ?e = "computeEffectiveRightsEndAt (cl_classifiedAt i)"
  have t: "tablesOk s" using reachable_storeOk[OF assms(1)] by (simp add: storeOk_def)
  have d: "distinct (map r_id (reservations s))" using t by (simp add: tablesOk_def)
  have e: "?e = cl_classifiedAt i + 168 * 3600000"
    by (simp add: computeEffectiveRightsEndAt_def PLATFORM_RIGHTS_WINDOW_HOURS_def)
  have "findOffering (cl_offeringId i) ?s' = Some (setWindow ?e x)"
    using reset(1) unfolding findOffering_def reset(7)
    by (subst find_update_where) (auto simp: setWindow_def)
  then have "fst (commitOfferingFinalization ulid (cl_offeringId i) t at ?s') = Commit_window_still_open"
    if "at < ?e" for t at
    using that reset(2,3) by (simp add: commitOfferingFinalization_def setWindow_def isReconfirmationWindowOpen_def)
  moreover have "e = Some ?e" "n = length (reconfirmedRows (cl_offeringId i) s)" using assms(2) reset(5) by simp_all
  moreover have "reservations ?s' = map (\<lambda>r. if r_offeringId r = cl_offeringId i \<and> r_stage r = Reconfirmed
        then r\<lparr>r_stage := Awaiting_reconfirmation, r_reconfirmedAt := None\<rparr> else r) (reservations s)"
    unfolding reset(6) resetFold_reservations[OF d] update_where_def resetRow_def by simp
  ultimately show ?thesis unfolding e by (simp add: count_by_def reconfirmedRows_def)
qed

definition sampleMaterial :: classifyInput where
  "sampleMaterial = \<lparr>cl_offeringId = ''offering_1'', cl_accountId = ''staff'', cl_changeDescription = ''d'',
     cl_classification = Per_se_material, cl_thresholdType = None, cl_traceId = ''t'', cl_classifiedAt = 3000000\<rparr>"

theorem materiality_reset_witness:
  "fst (commitOfferingFinalization sampleUlid ''offering_1'' ''t'' 605800000 (snd (classifyMateriality sampleUlid sampleMaterial sampleReconfirmed)))
    = Commit_window_still_open"
proof -
  have "fst (classifyMateriality sampleUlid sampleMaterial sampleReconfirmed) = Classified ''materiality_17'' True (Some 607800000) 1"
    by code_simp
  from materiality_reset[OF reachable_reconfirmed this]
  show ?thesis by (simp add: sampleMaterial_def)
qed

subsection \<open>Replay and expiry\<close>

text \<open>Claim C7. Replaying a reservation request is safe: after a request with a client key
  created a reservation, any request of the same account for the same offering with
  the same key returns that reservation and changes nothing, whatever amount or
  reservation identifier it carries.\<close>

theorem create_replay:
  assumes "reachable ulid s" "currency_pattern (ci_amountEur i)" "ci_clientIdempotencyKey i = Some k"
    "fst (createReservation ulid i s) = Create_created rid at"
    "ci_accountId j = ci_accountId i" "ci_offeringId j = ci_offeringId i" "ci_clientIdempotencyKey j = Some k"
  shows "\<exists>rep. createReservation ulid j (snd (createReservation ulid i s)) =
      (Create_reused rid at rep, snd (createReservation ulid i s)) \<and>
    rep = \<lparr>rs_amountEur = fromCents (the (toCents (ci_amountEur i))), rs_reservationStage = Initiated,
      rs_latestCapitalState = latestCapitalState rid (snd (createReservation ulid i s))\<rparr>"
proof -
  let ?s' = "snd (createReservation ulid i s)"
  have t: "tablesOk s" using reachable_storeOk[OF assms(1)] by (simp add: storeOk_def)
  show ?thesis using t assms(2)
  proof (cases rule: create_cases[where ulid = ulid])
    case unchanged
    then show ?thesis using assms(4) by blast
  next
    case (created x a)
    have id: "rid = ci_reservationId i" "at = ci_createdAt i" using assms(4) created(9) by simp_all
    have off: "findOffering (ci_offeringId j) ?s' = Some x"
      using created(1,11) assms(6) by (simp add: findOffering_def)
    have "find (keyMatches i k) (reservations s) = None" using created(3) assms(3) by (simp add: findByClientKey_def)
    moreover have "keyMatches j k = keyMatches i k" using assms(5,6) by (auto simp: keyMatches_def fun_eq_iff)
    ultimately have key: "findByClientKey j ?s' = Some (newReservation i a)"
      using assms(3,7) created(10)
      by (simp add: findByClientKey_def find_append keyMatches_def newReservation_def)
    show ?thesis
      using created(2,4) id
      by (simp add: createReservation_def[of ulid j] off key) (simp add: newReservation_def)
  qed
qed

theorem create_replay_witness:
  "createReservation sampleUlid (sampleCreate ''r9'' ''k1'' 99) sampleReserved =
    (Create_reused ''r1'' 10 \<lparr>rs_amountEur = ''100.00'', rs_reservationStage = Initiated,
       rs_latestCapitalState = Some Capital_initiated\<rparr>, sampleReserved)"
proof -
  have c: "fst (createReservation sampleUlid (sampleCreate ''r1'' ''k1'' 10) samplePacked) = Create_created ''r1'' 10"
    by code_simp
  have l: "latestCapitalState ''r1'' sampleReserved = Some Capital_initiated" by code_simp
  have a: "fromCents (the (toCents (ci_amountEur (sampleCreate ''r1'' ''k1'' 10)))) = ''100.00''" by code_simp
  have k: "ci_clientIdempotencyKey (sampleCreate ''r1'' ''k1'' 10) = Some ''k1''"
    "ci_accountId (sampleCreate ''r9'' ''k1'' 99) = ci_accountId (sampleCreate ''r1'' ''k1'' 10)"
    "ci_offeringId (sampleCreate ''r9'' ''k1'' 99) = ci_offeringId (sampleCreate ''r1'' ''k1'' 10)"
    "ci_clientIdempotencyKey (sampleCreate ''r9'' ''k1'' 99) = Some ''k1''"
    by (simp_all add: sampleCreate_def)
  show ?thesis
    using create_replay[OF reachable_packed sample_pattern k(1) c k(2-4)]
    unfolding sampleReserved_def[symmetric] l a by blast
qed





end
