(* ===== verification/OfferingServiceProperties.thy ===== *)
theory OfferingServiceProperties
  imports OfferingServiceFacts OfferingProperties
begin

text \<open>
  What the offering services guarantee on top of the transactions: who may
  reserve, what a reservation request leaves, when a purchase counts as funding,
  what the scheduled jobs do and that their repetition does nothing, and that the
  public listing pages through every offering exactly once.
\<close>

subsection \<open>Purchases\<close>

text \<open>A money event that a transaction of the onramp backs: a success in EURC, referenced by
  the event, that credits at least nine tenths of the reserved amount.\<close>

definition backedBy :: "(ident \<Rightarrow> OnrampTransactionSummary list option) \<Rightarrow> offeringStore \<Rightarrow> moneyEvent \<Rightarrow> bool" where
  "backedBy lbt s e \<longleftrightarrow> (\<exists>r\<in>set (reservations s). \<exists>txs. \<exists>t\<in>set txs. \<exists>c. r_id r = m_reservationId e \<and> r_stage r = Initiated \<and>
     m_amountEur e = r_amountEur r \<and> lbt (r_id r) = Some txs \<and> tx_status t = Onramp_success \<and>
     tx_purchaseCurrency t = ''EURC'' \<and> m_providerReference e = Some (tx_transactionId t) \<and>
     toEurcMicros (tx_purchaseAmountValue t) = Some c \<and> 9 * (r_amountEur r * 10000) \<le> 10 * c)"

definition pollEventOk :: "(ident \<Rightarrow> OnrampTransactionSummary list option) \<Rightarrow> offeringStore \<Rightarrow> moneyEvent \<Rightarrow> bool" where
  "pollEventOk lbt s e \<longleftrightarrow> m_capitalState e = Purchase_failed \<or> m_capitalState e = Eurc_reserved \<and> backedBy lbt s e"

lemma resolveOutcome_success: "resolveOutcome txs = Outcome_success t \<Longrightarrow> t \<in> set txs \<and> tx_status t = Onramp_success"
  by (auto simp: resolveOutcome_def dest: find_Some_in split: option.splits if_splits)

lemma isPurchaseCovering_True:
  assumes "isPurchaseCovering t (fromCents a) = Some True" "0 \<le> a"
  shows "tx_purchaseCurrency t = ''EURC'' \<and>
    (\<exists>c. toEurcMicros (tx_purchaseAmountValue t) = Some c \<and> 9 * (a * 10000) \<le> 10 * c)"
proof -
  have "(90000 * a) sdiv 10 = 9000 * a" using assms(2) by (simp add: sdiv_nonneg)
  then show ?thesis using assms
    by (auto simp: isPurchaseCovering_def toEurcMicros_fromCents Let_def split: if_splits option.splits)
qed

lemma pollReservation_event:
  assumes "tablesOk s0" "row \<in> set (listPendingPurchaseReservationsForTimers s0)"
    "pollReservation ulid lbt now row s = Some (d, s')"
  shows "reservations s' = reservations s \<and> (moneyEvents s' = moneyEvents s \<or>
    (\<exists>e. moneyEvents s' = moneyEvents s @ [e] \<and> pollEventOk lbt s0 e))"
proof -
  obtain r where r: "r \<in> set (reservations s0)" "r_stage r = Initiated" "pr_reservationId row = r_id r"
      "pr_amountEur row = fromCents (r_amountEur r)"
    using assms(2) by (auto simp: listPendingPurchaseReservationsForTimers_def)
  have pos: "0 \<le> r_amountEur r" using assms(1) r(1) by (auto simp: tablesOk_def less_imp_le)
  obtain txs where txs: "lbt (r_id r) = Some txs" using assms(3) r(3)
    by (auto simp: pollReservation_def split: option.splits)
  show ?thesis
  proof (cases "resolveOutcome txs")
    case (Outcome_success t)
    obtain funded where f: "isPurchaseCovering t (fromCents (r_amountEur r)) = Some funded"
      using assms(3) r txs Outcome_success by (auto simp: pollReservation_def split: option.splits)
    let ?i = "coinbaseEvent (r_id r) (Some (tx_transactionId t)) (if funded then Eurc_reserved else Purchase_failed)
                  (fromCents (r_amountEur r)) (if funded then Some (tx_purchaseAmountValue t) else None) now"
    have m: "recordMoneyEvent ulid ?i s = Some s'"
      using assms(3) r txs Outcome_success f by (auto simp: pollReservation_def split: option.splits)
    obtain e where e: "reservations s' = reservations s" "moneyEvents s' = moneyEvents s @ [e]"
      "m_reservationId e = r_id r" "m_capitalState e = (if funded then Eurc_reserved else Purchase_failed)"
      "m_providerReference e = Some (tx_transactionId t)" "m_amountEur e = r_amountEur r"
      using recordMoneyEvent_appends[OF m] pos by (auto simp: coinbaseEvent_def numericText_fromCents)
    have "pollEventOk lbt s0 e"
    proof (cases funded)
      case True
      then have "isPurchaseCovering t (fromCents (r_amountEur r)) = Some True" using f by simp
      then obtain c where c: "tx_purchaseCurrency t = ''EURC''"
          "toEurcMicros (tx_purchaseAmountValue t) = Some c" "9 * (r_amountEur r * 10000) \<le> 10 * c"
        using isPurchaseCovering_True pos by blast
      have "backedBy lbt s0 e" unfolding backedBy_def
        using r(1,2) e txs c resolveOutcome_success[OF Outcome_success] by metis
      then show ?thesis using e(4) True by (simp add: pollEventOk_def)
    qed (use e in \<open>simp add: pollEventOk_def\<close>)
    then show ?thesis using e by blast
  next
    case (Outcome_failed t)
    let ?i = "coinbaseEvent (r_id r) (Some (tx_transactionId t)) Purchase_failed (fromCents (r_amountEur r)) None now"
    have m: "recordMoneyEvent ulid ?i s = Some s'"
      using assms(3) r txs Outcome_failed by (auto simp: pollReservation_def split: option.splits)
    then show ?thesis using recordMoneyEvent_appends[OF m] by (auto simp: coinbaseEvent_def pollEventOk_def)
  next
    case Outcome_pending
    then show ?thesis using assms(3) r txs by (auto simp: pollReservation_def)
  qed
qed

text \<open>The rows of the job are those it listed at the start.\<close>

definition pollInv :: "(ident \<Rightarrow> OnrampTransactionSummary list option) \<Rightarrow> offeringStore \<Rightarrow> offeringStore \<Rightarrow> bool" where
  "pollInv lbt s0 s \<longleftrightarrow> reservations s = reservations s0 \<and>
     (\<exists>es. moneyEvents s = moneyEvents s0 @ es \<and> list_all (pollEventOk lbt s0) es)"

lemma pollInv_step:
  assumes "tablesOk s0" "row \<in> set (listPendingPurchaseReservationsForTimers s0)" "pollInv lbt s0 s"
    "pollReservation ulid lbt now row s = Some (d, s')"
  shows "pollInv lbt s0 s'"
proof -
  obtain es where es: "moneyEvents s = moneyEvents s0 @ es" "list_all (pollEventOk lbt s0) es"
    "reservations s = reservations s0" using assms(3) by (auto simp: pollInv_def)
  from pollReservation_event[OF assms(1,2,4)] show ?thesis
  proof (elim conjE disjE exE)
    fix e assume e: "reservations s' = reservations s" "moneyEvents s' = moneyEvents s @ [e]" "pollEventOk lbt s0 e"
    have "moneyEvents s' = moneyEvents s0 @ (es @ [e])" "list_all (pollEventOk lbt s0) (es @ [e])"
      using e es by simp_all
    then show ?thesis using e(1) es(3) unfolding pollInv_def by metis
  qed (use es in \<open>simp add: pollInv_def\<close>)
qed

subsection \<open>Repeated mail jobs\<close>

lemma reminder_later:
  assumes "1 \<le> h" "\<not> isReconfirmationReminderDue h (latestTime ts) p e now \<or> m \<noteq> 0"
  shows "\<not> isReconfirmationReminderDue h (latestTime (ts @ replicate m now)) p e now"
proof (cases "m = 0")
  case False
  then have now: "now \<in> set (ts @ replicate m now)" by simp
  then obtain l where l: "latestTime (ts @ replicate m now) = Some l"
    by (cases "latestTime (ts @ replicate m now)") auto
  have "now \<le> l" using latestTime_ge[OF l now] .
  then show ?thesis using assms(1) by (simp add: l isReconfirmationReminderDue_def Let_def)
qed (use assms(2) in simp)

lemma reminder_rows:
  assumes "row' \<in> set (listReservationsAwaitingReconfirmationForReminders email s')"
    "reservations s' = reservations s" "offerings s' = offerings s"
  obtains row where "row \<in> set (listReservationsAwaitingReconfirmationForReminders email s)"
    "rr_reservationId row = rr_reservationId row'" "rr_contactEmail row = rr_contactEmail row'"
    "rr_finalOfferingPublishedAt row = rr_finalOfferingPublishedAt row'"
    "rr_effectiveRightsEndAt row = rr_effectiveRightsEndAt row'"
    "rr_lastReminderSentAt row =
      latestTime (auditTimes ''offering.reconfirmation_reminder_sent'' (rr_reservationId row) s)"
    "rr_lastReminderSentAt row' =
      latestTime (auditTimes ''offering.reconfirmation_reminder_sent'' (rr_reservationId row) s')"
proof -
  obtain r where r: "r \<in> set (reservations s)" "r_stage r = Awaiting_reconfirmation" "row' \<in> set (reminderRowOf email s' r)"
    using assms(1,2) by (auto simp: listReservationsAwaitingReconfirmationForReminders_def)
  then obtain x where x': "findOffering (r_offeringId r) s' = Some x"
    by (cases "findOffering (r_offeringId r) s'") (simp_all add: reminderRowOf_def)
  then obtain p e where x: "findOffering (r_offeringId r) s = Some x" "o_finalOfferingPublishedAt x = Some p"
      "o_effectiveRightsEndAt x = Some e"
    using r(3) assms(3) by (cases "o_finalOfferingPublishedAt x"; cases "o_effectiveRightsEndAt x")
      (simp_all add: reminderRowOf_def findOffering_def)
  define row where "row = hd (reminderRowOf email s r)"
  have "row \<in> set (reminderRowOf email s r)" using x by (simp add: row_def reminderRowOf_def)
  then have "row \<in> set (listReservationsAwaitingReconfirmationForReminders email s)"
    using r(1,2) by (auto simp: listReservationsAwaitingReconfirmationForReminders_def)
  then show ?thesis using r(3) x x' by (intro that[of row]) (simp_all add: row_def reminderRowOf_def)
qed

lemma reminders_again:
  assumes "1 \<le> h" "listReservationsAwaitingReconfirmationForReminders email (fst st) = rows"
    "jobLoop (remindRow send h t now) rows (st, 0) = (True, st', n)"
    "row' \<in> set (listReservationsAwaitingReconfirmationForReminders email (fst st'))"
  shows "remindRow send' h t' now row' st'' = Some (False, st'')"
proof -
  have fr: "reservations (fst st') = reservations (fst st)" "offerings (fst st') = offerings (fst st)"
    using remind_mail.loop_frame[of send h t now rows st 0] assms(3) by simp_all
  obtain row where row: "row \<in> set rows"
    "rr_reservationId row = rr_reservationId row'" "rr_contactEmail row = rr_contactEmail row'"
    "rr_finalOfferingPublishedAt row = rr_finalOfferingPublishedAt row'"
    "rr_effectiveRightsEndAt row = rr_effectiveRightsEndAt row'"
    "rr_lastReminderSentAt row =
      latestTime (auditTimes ''offering.reconfirmation_reminder_sent'' (rr_reservationId row) (fst st))"
    "rr_lastReminderSentAt row' =
      latestTime (auditTimes ''offering.reconfirmation_reminder_sent'' (rr_reservationId row) (fst st'))"
    using reminder_rows[OF assms(4) fr] assms(2) by metis
  let ?due = "isReconfirmationReminderDue h (rr_lastReminderSentAt row) (rr_finalOfferingPublishedAt row)
     (rr_effectiveRightsEndAt row) now"
  let ?due' = "isReconfirmationReminderDue h (rr_lastReminderSentAt row') (rr_finalOfferingPublishedAt row)
     (rr_effectiveRightsEndAt row) now"
  obtain m where m: "auditTimes ''offering.reconfirmation_reminder_sent'' (rr_reservationId row) (fst st') =
      auditTimes ''offering.reconfirmation_reminder_sent'' (rr_reservationId row) (fst st) @ replicate m now"
    using remind_mail.loop_times[of "rr_reservationId row" send h t now rows st 0] assms(3) by auto
  have "\<not> ?due'" if "\<not> ?due \<or> m \<noteq> 0"
    using reminder_later[OF assms(1), of "auditTimes ''offering.reconfirmation_reminder_sent'' (rr_reservationId row) (fst st)"]
      that row(6,7) m by metis
  moreover have "\<not> ?due'" if "?due" "rr_contactEmail row \<noteq> None"
  proof -
    have "now \<in> set (auditTimes ''offering.reconfirmation_reminder_sent'' (rr_reservationId row) (fst st'))"
      using remind_mail.loop_marks[of send h t now rows st 0 row] row(1) that assms(3) by simp
    moreover from this have "rr_lastReminderSentAt row' \<noteq> None" unfolding row(7) latestTime_None by auto
    then obtain l where "rr_lastReminderSentAt row' = Some l" by blast
    ultimately have l: "rr_lastReminderSentAt row' = Some l" "now \<le> l" using latestTime_ge row(7) by metis+
    then show ?thesis using assms(1) by (simp add: isReconfirmationReminderDue_def Let_def)
  qed
  ultimately show ?thesis
    using row(3-5) by (cases "rr_contactEmail row'") (auto simp: remindRow_def sendMail_def)
qed

text \<open>Claim C20. Reminders do not repeat: when the reminder job has run to its end, running it
  again at the same time, with any sender and trace, sends no message and changes
  nothing.\<close>

theorem reminders_idempotent:
  assumes "sendReconfirmationReminders send email setting t now st = (Some summary, st')"
  shows "\<exists>checked. sendReconfirmationReminders send' email setting t' now st' = (Some (checked, 0), st')"
proof -
  obtain h where h: "getReconfirmationReminderIntervalHours setting = Some h"
    using assms by (auto simp: sendReconfirmationReminders_def split: option.splits)
  then have h1: "1 \<le> h" by (auto simp: getReconfirmationReminderIntervalHours_def split: option.splits if_splits)
  let ?rows = "listReservationsAwaitingReconfirmationForReminders email (fst st)"
  obtain n where run: "jobLoop (remindRow send h t now) ?rows (st, 0) = (True, st', n)"
    using assms h by (auto simp: sendReconfirmationReminders_def runJob_def split: prod.splits if_splits)
  have "jobLoop (remindRow send' h t' now) (listReservationsAwaitingReconfirmationForReminders email (fst st')) (st', 0) =
      (True, st', 0)"
    by (rule jobLoop_idle) (rule reminders_again[OF h1 refl run])
  then show ?thesis by (simp add: sendReconfirmationReminders_def h runJob_def)
qed

lemma sample_reminder_run:
  "\<exists>n. sendReconfirmationReminders (\<lambda>_. True) Some (Some 24) ''t'' 100000000 (samplePublished, []) =
    (Some (1, 1), (fst (snd (sendReconfirmationReminders (\<lambda>_. True) Some (Some 24) ''t'' 100000000 (samplePublished, []))),
      [(''alice'', Some n)]))"
proof -
  have "fst (sendReconfirmationReminders (\<lambda>_. True) Some (Some 24) ''t'' 100000000 (samplePublished, [])) = Some (1, 1)"
    by code_simp
  moreover have "snd (snd (sendReconfirmationReminders (\<lambda>_. True) Some (Some 24) ''t'' 100000000 (samplePublished, []))) =
      [(''alice'', Some 605800000)]" by code_simp
  ultimately show ?thesis by (metis prod.collapse)
qed

theorem reminders_idempotent_witness:
  "\<exists>st' m. sendReconfirmationReminders (\<lambda>_. True) Some (Some 24) ''t'' 100000000 (samplePublished, []) = (Some (1, 1), st') \<and>
    snd st' = [m] \<and>
    (\<exists>checked. sendReconfirmationReminders (\<lambda>_. True) Some (Some 24) ''t2'' 100000000 st' = (Some (checked, 0), st'))"
proof -
  obtain n where run: "sendReconfirmationReminders (\<lambda>_. True) Some (Some 24) ''t'' 100000000 (samplePublished, []) =
    (Some (1, 1), (fst (snd (sendReconfirmationReminders (\<lambda>_. True) Some (Some 24) ''t'' 100000000 (samplePublished, []))),
      [(''alice'', Some n)]))" using sample_reminder_run by blast
  show ?thesis using run reminders_idempotent[OF run] by fastforce
qed



subsection \<open>Reservation requests\<close>

definition sampleContext :: investorContext where
  "sampleContext = \<lparr>ctx_account = (\<lambda>i. if i = ''alice'' then Some \<lparr>acc_status = ''active'',
       acc_loginMethods = [''google'', ''device_key''], acc_wallet = Some (''0xA'', Some 1), acc_cooldowns = [Some 5]\<rparr> else None),
     ctx_kyc = (\<lambda>i. Some (''eligible'', Some 999999999999)),
     ctx_piv = (\<lambda>i. \<lparr>pd_legalName = None, pd_jurisdiction = None, pd_registrationNo = None,
       pd_structurePattern = ''spv'', pd_incorporatedAt = None, pd_ipoEndAt = None, pd_appraisalValueOpinionEur = None,
       pd_propertyId = ''property'', pd_propertyType = ''residential'', pd_countryCode = ''EE'', pd_city = None,
       pd_addressLine = None, pd_ownerDeclaredValueEur = 100000\<rparr>)\<rparr>"

definition sampleConfig :: reservationConfig where
  "sampleConfig = defaultReservationConfig\<lparr>cfg_fundingRailAvailable := True\<rparr>"

definition sampleClient :: onrampClient where
  "sampleClient = \<lparr>createOnrampSessionToken = (\<lambda>w b. Inr (''token'', ''channel'')),
     buildOnrampUrl = (\<lambda>t p r. ''https://pay.coinbase.com/buy?sessionToken='' @ t)\<rparr>"

definition sampleRequest :: reservationRequest where
  "sampleRequest = \<lparr>rq_offeringId = ''offering_1'', rq_accountId = ''alice'', rq_amountEur = ''100.00'',
     rq_clientIdempotencyKey = Some ''k1'', rq_traceId = ''t''\<rparr>"

lemma sample_request_ok:
  "\<exists>j. fst (createReservationService sampleUlid sampleConfig sampleClient sampleContext ''r1'' 10 11
     sampleRequest samplePacked) = Inr j \<and> rj_reservation_id j = ''r1'' \<and> rj_channel_id j = ''channel''"
proof -
  have "case fst (createReservationService sampleUlid sampleConfig sampleClient sampleContext ''r1'' 10 11
     sampleRequest samplePacked) of Inl e \<Rightarrow> False | Inr j \<Rightarrow> rj_reservation_id j = ''r1'' \<and> rj_channel_id j = ''channel''"
    by code_simp
  then show ?thesis by (simp split: sum.splits)
qed

text \<open>Claim C14. A reservation needs everything the policy asks for: if a request changes the store or
  succeeds, then, in the store it read, the funding rail is on, the offering is open,
  unpublished and not full, a current pack with documents exists, the account is
  active, holds a wallet, a social login and a device key, is past every recovery
  cooldown and has a current KYC eligibility, and the amount fits the remaining
  capacity.\<close>

theorem reservation_needs_eligibility:
  assumes "reachable ulid s"
    "createReservationService ulid cfg client ctx candidate now later req s = (result, s')"
    "s' \<noteq> s \<or> (\<exists>j. result = Inr j)"
  shows "mayReserve (cfg_fundingRailAvailable cfg) ctx now (rq_offeringId req) (rq_accountId req) s \<and>
    (\<exists>amount x. toCents (rq_amountEur req) = Some amount \<and> findOffering (rq_offeringId req) s = Some x \<and>
      reservedCapacity (rq_offeringId req) s + amount \<le> o_targetRaiseEur x)"
proof -
  have ok: "tablesOk s" "capacityOk s" using reachable_storeOk[OF assms(1)] by (simp_all add: storeOk_def)
  obtain gate where "reservationGate cfg ctx now req s = Inr gate"
    using assms(2,3) by (cases "reservationGate cfg ctx now req s") (auto simp: createReservationService_def)
  then show ?thesis using gate_passes[OF ok] by blast
qed

theorem reservation_needs_eligibility_witness:
  "mayReserve True sampleContext 10 ''offering_1'' ''alice'' samplePacked"
proof -
  let ?r = "createReservationService sampleUlid sampleConfig sampleClient sampleContext ''r1'' 10 11 sampleRequest samplePacked"
  have "\<exists>j. fst ?r = Inr j" using sample_request_ok by blast
  then have "mayReserve (cfg_fundingRailAvailable sampleConfig) sampleContext 10 (rq_offeringId sampleRequest)
      (rq_accountId sampleRequest) samplePacked"
    using reservation_needs_eligibility[OF reachable_packed prod.collapse[symmetric]] by blast
  then show ?thesis by (simp add: sampleConfig_def sampleRequest_def)
qed

text \<open>Claim C15. A successful request hands out a payment session for the right reservation, also when
  other transactions commit between its read and its write, and also on a replay: the
  reservation it names is stored, belongs to the account and the offering, has the
  requested amount, is initiated, unfunded and not expired, and the last money event
  is the pending purchase of that reservation with the session's channel.\<close>

theorem reservation_request_outcome:
  assumes "reachable ulid s" "currency_pattern (rq_amountEur req)" "0 \<le> cfg_expiryMinutes cfg"
    "createAfterGate ulid cfg client candidate now later req gate s = (Inr j, s')"
  shows "\<exists>r e es. findReservation (rj_reservation_id j) s' = Some r \<and>
    payableBy (cfg_expiryMinutes cfg) now req s r \<and> moneyEvents s' = es @ [e] \<and> m_reservationId e = r_id r \<and>
    m_capitalState e = Eurc_purchase_pending \<and> m_providerReference e = Some (rj_channel_id j)"
proof -
  have "tablesOk s" using reachable_storeOk[OF assms(1)] by (simp add: storeOk_def)
  then show ?thesis by (rule create_after_gate_ok[OF _ assms(2-4)])
qed

theorem reservation_request_outcome_witness:
  "\<exists>r s'. findReservation ''r1'' s' = Some r \<and> payableBy 15 10 sampleRequest samplePacked r"
proof -
  let ?r = "createReservationService sampleUlid sampleConfig sampleClient sampleContext ''r1'' 10 11 sampleRequest samplePacked"
  let ?a = "createAfterGate sampleUlid sampleConfig sampleClient ''r1'' 10 11 sampleRequest (''0xA'', Some ''1'') samplePacked"
  have g: "case reservationGate sampleConfig sampleContext 10 sampleRequest samplePacked of
      Inl e \<Rightarrow> False | Inr g \<Rightarrow> g = (''0xA'', Some ''1'')" by code_simp
  then have "?r = ?a" by (simp add: createReservationService_def split: sum.splits)
  then obtain j where j: "fst ?a = Inr j" "rj_reservation_id j = ''r1''" using sample_request_ok by auto
  have p: "currency_pattern (rq_amountEur sampleRequest)" "0 \<le> cfg_expiryMinutes sampleConfig"
    "cfg_expiryMinutes sampleConfig = 15" by code_simp+
  have "?a = (Inr j, snd ?a)" using j(1) by (metis prod.collapse)
  from reservation_request_outcome[OF reachable_packed p(1,2) this] show ?thesis
    unfolding j(2) p(3) by blast
qed



subsection \<open>Scheduled jobs\<close>

interpretation poll_events: job_body "pollReservation ulid lbt now"
  "if tablesOk s0 then listPendingPurchaseReservationsForTimers s0 else []" "pollInv lbt s0" for ulid lbt now s0
  by unfold_locales (auto intro: pollInv_step split: if_splits)

text \<open>Claim C17. The purchase poll never invents funding: it changes no reservation, and every money
  event it adds is a failed purchase, or marks the reserved EURC of a reservation that
  was initiated and for which the onramp reports a successful EURC purchase, referenced
  by the event, crediting at least nine tenths of the reserved amount.\<close>

theorem poll_funding_backed:
  assumes "reachable ulid s"
  shows "reservations (snd (pollOnrampTransactions ulid lbt now s)) = reservations s \<and>
    (\<exists>es. moneyEvents (snd (pollOnrampTransactions ulid lbt now s)) = moneyEvents s @ es \<and>
      list_all (\<lambda>e. m_capitalState e = Purchase_failed \<or> m_capitalState e = Eurc_reserved \<and> backedBy lbt s e) es)"
proof -
  have ok: "tablesOk s" using reachable_storeOk[OF assms] by (simp add: storeOk_def)
  have "pollInv lbt s s" by (simp add: pollInv_def)
  then have "pollInv lbt s (snd (runJob (pollReservation ulid lbt now)
      (if tablesOk s then listPendingPurchaseReservationsForTimers s else []) s))" by (rule poll_events.run_keeps)
  then have "pollInv lbt s (snd (pollOnrampTransactions ulid lbt now s))"
    using ok by (simp add: pollOnrampTransactions_def)
  then show ?thesis unfolding pollInv_def pollEventOk_def .
qed

definition samplePending :: offeringStore where
  "samplePending = the (recordMoneyEvent sampleUlid (sampleMoney ''r1'' Eurc_purchase_pending 20) sampleReserved)"

definition sampleTransactions :: "ident \<Rightarrow> OnrampTransactionSummary list option" where
  "sampleTransactions i = Some [\<lparr>tx_transactionId = ''tx1'', tx_status = Onramp_success, tx_walletAddress = ''0xA'',
     tx_purchaseCurrency = ''EURC'', tx_purchaseAmountValue = ''97.5'', tx_paymentTotalCurrency = ''EUR'',
     tx_paymentTotalValue = ''100.00'', tx_txHash = None, tx_createdAt = 20, tx_completedAt = Some 25\<rparr>]"

lemma reachable_pending: "reachable sampleUlid samplePending"
proof -
  have "recordMoneyEvent sampleUlid (sampleMoney ''r1'' Eurc_purchase_pending 20) sampleReserved \<noteq> None" by code_simp
  then have "recordMoneyEvent sampleUlid (sampleMoney ''r1'' Eurc_purchase_pending 20) sampleReserved = Some samplePending"
    by (simp add: samplePending_def)
  then show ?thesis by (intro reachable_step[OF reachable_reserved] offeringStep.money)
qed

theorem poll_funding_backed_witness:
  "fst (pollOnrampTransactions sampleUlid sampleTransactions 30 samplePending) = Some (1, 1) \<and>
   latestCapitalState ''r1'' (snd (pollOnrampTransactions sampleUlid sampleTransactions 30 samplePending)) = Some Eurc_reserved \<and>
   reservations (snd (pollOnrampTransactions sampleUlid sampleTransactions 30 samplePending)) = reservations samplePending"
proof -
  have "fst (pollOnrampTransactions sampleUlid sampleTransactions 30 samplePending) = Some (1, 1)"
    "latestCapitalState ''r1'' (snd (pollOnrampTransactions sampleUlid sampleTransactions 30 samplePending)) = Some Eurc_reserved"
    by code_simp+
  then show ?thesis using poll_funding_backed[OF reachable_pending, of sampleTransactions 30] by blast
qed

text \<open>Claim C18. The expiry job lapses exactly the initiated reservations that are past their expiry
  and not funded, in one run, and reports how many there were; it changes no other
  reservation, no money event, offering or position.\<close>

theorem expire_job_effect:
  assumes "reachable ulid s"
  shows "reservations (snd (expireUnfundedReservations m t now s)) =
      map (\<lambda>r. if r_stage r = Initiated \<and> isReservationExpired (r_createdAt r) now m \<and> \<not> fundedIn s r
            then r\<lparr>r_stage := Lapsed\<rparr> else r) (reservations s) \<and>
    fst (expireUnfundedReservations m t now s) =
      Some (count_by (\<lambda>r. r_stage r = Initiated) (reservations s),
            count_by (\<lambda>r. r_stage r = Initiated \<and> isReservationExpired (r_createdAt r) now m \<and> \<not> fundedIn s r)
              (reservations s)) \<and>
    moneyEvents (snd (expireUnfundedReservations m t now s)) = moneyEvents s \<and>
    offerings (snd (expireUnfundedReservations m t now s)) = offerings s \<and>
    positionLedger (snd (expireUnfundedReservations m t now s)) = positionLedger s"
proof -
  have ok: "tablesOk s" using reachable_storeOk[OF assms] by (simp add: storeOk_def)
  have "reservations (snd (expireUnfundedReservations m t now s)) =
      map (\<lambda>r. if r_stage r = Initiated \<and> isReservationExpired (r_createdAt r) now m \<and> \<not> fundedIn s r
            then r\<lparr>r_stage := Lapsed\<rparr> else r) (reservations s)"
    by (simp add: expire_job_rows[OF ok] update_where_def lapseDue_def)
  moreover have "fst (expireUnfundedReservations m t now s) =
      Some (count_by (\<lambda>r. r_stage r = Initiated) (reservations s),
            count_by (\<lambda>r. r_stage r = Initiated \<and> isReservationExpired (r_createdAt r) now m \<and> \<not> fundedIn s r)
              (reservations s))"
    by (simp add: expire_job_loop[OF ok] count_by_def lapseDue_def conj_ac)
  moreover have "moneyEvents (snd (expireUnfundedReservations m t now s)) = moneyEvents s"
    "offerings (snd (expireUnfundedReservations m t now s)) = offerings s"
    "positionLedger (snd (expireUnfundedReservations m t now s)) = positionLedger s"
    by (simp_all add: expire_job_loop[OF ok])
  ultimately show ?thesis by blast
qed

theorem expire_job_effect_witness:
  "map r_stage (reservations (snd (expireUnfundedReservations 15 ''t'' 2000000 samplePending))) = [Lapsed] \<and>
   map r_stage (reservations (snd (expireUnfundedReservations 15 ''t'' 2000000 sampleFunded))) = [Initiated] \<and>
   moneyEvents (snd (expireUnfundedReservations 15 ''t'' 2000000 samplePending)) = moneyEvents samplePending"
proof -
  have "map r_stage (map (\<lambda>r. if r_stage r = Initiated \<and> isReservationExpired (r_createdAt r) 2000000 15 \<and> \<not> fundedIn samplePending r
            then r\<lparr>r_stage := Lapsed\<rparr> else r) (reservations samplePending)) = [Lapsed]"
    "map r_stage (map (\<lambda>r. if r_stage r = Initiated \<and> isReservationExpired (r_createdAt r) 2000000 15 \<and> \<not> fundedIn sampleFunded r
            then r\<lparr>r_stage := Lapsed\<rparr> else r) (reservations sampleFunded)) = [Initiated]"
    by code_simp+
  then show ?thesis
    using expire_job_effect[OF reachable_pending, of 15 "''t''" 2000000]
      expire_job_effect[OF reachable_funded, of 15 "''t''" 2000000] by metis
qed

text \<open>Claim C19. One run of the finalization job closes every published offering whose reconfirmation
  window is over, and no other: those become final offerings, the rest keep their
  row, and the job reports how many it closed.\<close>

theorem commit_job_effect:
  assumes "reachable ulid s"
  shows "offerings (snd (commitOfferingFinalizations ulid t now s)) =
      map (\<lambda>x. if commitPending x \<and> commitDue now x then x\<lparr>o_status := Final_offering\<rparr> else x) (offerings s) \<and>
    fst (commitOfferingFinalizations ulid t now s) =
      Some (count_by commitPending (offerings s), count_by (\<lambda>x. commitPending x \<and> commitDue now x) (offerings s))"
proof -
  have ok: "tablesOk s" using reachable_storeOk[OF assms] by (simp add: storeOk_def)
  show ?thesis using commit_job_rows[OF ok] by (simp add: update_where_def)
qed

theorem commit_job_effect_witness:
  "map o_status (offerings (snd (commitOfferingFinalizations sampleUlid ''t'' 700000000 sampleReconfirmed))) = [Final_offering] \<and>
   fst (commitOfferingFinalizations sampleUlid ''t'' 2000001 sampleReconfirmed) = Some (1, 0)"
proof -
  have "map o_status (map (\<lambda>x. if commitPending x \<and> commitDue 700000000 x then x\<lparr>o_status := Final_offering\<rparr> else x)
      (offerings sampleReconfirmed)) = [Final_offering]"
    "count_by commitPending (offerings sampleReconfirmed) = 1"
    "count_by (\<lambda>x. commitPending x \<and> commitDue 2000001 x) (offerings sampleReconfirmed) = 0" by code_simp+
  then show ?thesis
    using commit_job_effect[OF reachable_reconfirmed, of "''t''" 700000000]
      commit_job_effect[OF reachable_reconfirmed, of "''t''" 2000001] by metis
qed

subsection \<open>Reads\<close>

text \<open>Claim C22. Following the cursors of the public listing visits every public offering exactly once,
  newest first, whatever the page size, and ends after at most as many pages as there
  are offerings.\<close>

theorem public_paging:
  assumes "reachable ulid s" "allResidential ctx s" "0 < limit"
  shows "allPages ctx limit (Suc (length (offerings s))) None s = Some (publicPage ctx (publicOfferings s)) \<and>
    distinct (publicOfferings s) \<and>
    set (publicOfferings s) = {x \<in> set (offerings s). isPublicOfferingStatus (o_status x)}"
proof -
  have d: "distinct (map o_id (offerings s))"
    using reachable_storeOk[OF assms(1)] by (simp add: storeOk_def tablesOk_def)
  have all: "filter (afterCursor None) (publicOfferings s) = publicOfferings s" by (simp add: afterCursor_def)
  have "length (publicOfferings s) < Suc (length (offerings s))"
    by (simp add: publicOfferings_def less_Suc_eq_le)
  then have "allPages ctx limit (Suc (length (offerings s))) None s = Some (publicPage ctx (publicOfferings s))"
    using allPages_from[OF assms(2) publicOfferings_desc[OF d] assms(3), of "[]" "publicOfferings s" None] all
    by (simp del: allPages.simps)
  moreover have "distinct (publicOfferings s)" using d by (auto simp: publicOfferings_def distinct_map)
  ultimately show ?thesis by (auto simp: publicOfferings_def)
qed

theorem public_paging_witness:
  "allPages sampleContext 1 2 None samplePacked = Some (publicPage sampleContext (publicOfferings samplePacked)) \<and>
    map o_id (publicOfferings samplePacked) = [''offering_1'']"
proof -
  have r: "allResidential sampleContext samplePacked" "length (offerings samplePacked) = 1"
    "map o_id (publicOfferings samplePacked) = [''offering_1'']" by code_simp+
  show ?thesis using public_paging[OF reachable_packed r(1), of 1] r(2,3) by (simp add: numeral_2_eq_2)
qed

text \<open>Claim C23. The investor's view of an offering agrees with the rows: the offering is shown as open
  to a reservation exactly when the account may reserve, and the remaining and the
  reserved amounts add up to the target.\<close>

theorem investor_view:
  assumes "reachable ulid s" "getInvestorOffering rail ctx now oid acc s = Inr j"
  shows "(reservation_available j \<longleftrightarrow> mayReserve rail ctx now oid acc s) \<and>
    (\<exists>x. findOffering oid s = Some x \<and>
      toCents (reserved_capacity_eur (offering_progress j)) = Some (reservedCapacity oid s) \<and>
      toCents (remaining_capacity_eur (offering_progress j)) = Some (o_targetRaiseEur x - reservedCapacity oid s))"
proof -
  have ok: "tablesOk s" "capacityOk s" using reachable_storeOk[OF assms(1)] by (simp_all add: storeOk_def)
  obtain d remaining where d: "getInvestorDetail ctx oid acc s = Some (Some d)"
    "subtractCurrencyFloorZero (id_targetRaiseEur d) (id_reservedCapacityEur d) = Some remaining"
    "j = investorOfferingToJson rail now remaining d"
    using assms(2) by (auto simp: getInvestorOffering_def split: option.splits)
  obtain x where x: "findOffering oid s = Some x" "id_reservedCapacityEur d = fromCents (reservedCapacity oid s)"
    "reservedCapacity oid s \<le> o_targetRaiseEur x" "0 \<le> reservedCapacity oid s"
    "remaining = fromCents (o_targetRaiseEur x - reservedCapacity oid s)"
    using detail_remaining[OF ok d(1)] d(2) by (metis option.inject)
  have "toCents (reserved_capacity_eur (offering_progress j)) = Some (reservedCapacity oid s)"
    "toCents (remaining_capacity_eur (offering_progress j)) = Some (o_targetRaiseEur x - reservedCapacity oid s)"
    using x(2-5) by (simp_all add: d(3) investorOfferingToJson_def Let_def cents.roundtrip)
  moreover have "reservation_available j \<longleftrightarrow> mayReserve rail ctx now oid acc s"
    using gate_blockers[OF ok d(1,2)] by (simp add: d(3) investorOfferingToJson_def Let_def)
  ultimately show ?thesis using x(1) by blast
qed

theorem investor_view_witness:
  "\<exists>j. getInvestorOffering True sampleContext 10 ''offering_1'' ''alice'' samplePacked = Inr j \<and>
    reservation_available j \<and> mayReserve True sampleContext 10 ''offering_1'' ''alice'' samplePacked"
proof -
  have "case getInvestorOffering True sampleContext 10 ''offering_1'' ''alice'' samplePacked of
      Inl e \<Rightarrow> False | Inr j \<Rightarrow> reservation_available j" by code_simp
  then obtain j where j: "getInvestorOffering True sampleContext 10 ''offering_1'' ''alice'' samplePacked = Inr j"
    "reservation_available j" by (auto split: sum.splits)
  then show ?thesis using investor_view[OF reachable_packed j(1)] by blast
qed



end
