(* ===== verification/Rental.thy ===== *)
theory Rental
  imports Currency
begin

text \<open>
  Operating distributions (\<open>modules/rental\<close>): the six-decimal arithmetic of
  \<open>operating-distribution.policy.ts\<close>, the tables behind
  \<open>PrismaOperatingDistributionRepository\<close>, the service that turns one period's rent into
  pro-rata entries and the sweep over the collections that have none yet. Period
  bounds are the days the DATE columns keep; amounts of a NUMERIC column with \<open>k\<close>
  fraction digits are integers scaled by \<open>10 ^ k\<close>.
\<close>

subsection \<open>Arithmetic (operating-distribution.policy.ts)\<close>

definition MICROS_PER_UNIT :: int where
  "MICROS_PER_UNIT = 1000000"

text \<open>\<open>None\<close> is an exception: more than six fraction digits, or no number.\<close>

definition toMicros :: "string \<Rightarrow> int option" where
  "toMicros value = (let negative = (value \<noteq> [] \<and> hd value = CHR ''-'');
      unsigned = (if negative then tl value else value);
      (whole, fraction) = split_dot unsigned []
    in if length fraction > 6 then None
       else case (BigInt whole, BigInt (padEnd 6 CHR ''0'' fraction)) of
         (Some w, Some f) \<Rightarrow> (let micros = w * MICROS_PER_UNIT + f in Some (if negative then - micros else micros))
       | _ \<Rightarrow> None)"

definition fromMicros :: "int \<Rightarrow> string" where
  "fromMicros value = (let negative = value < 0;
      absValue = (if negative then - value else value);
      whole = absValue sdiv MICROS_PER_UNIT;
      fraction = padStart 6 CHR ''0'' (int_dec (absValue smod MICROS_PER_UNIT))
    in (if negative then ''-'' else []) @ int_dec whole @ ''.'' @ fraction)"

record distributionDeductions =
  dd_grossRentEur :: string
  dd_managementFeeEur :: string
  dd_otherExpensesEur :: string
  dd_reserveHoldbackEur :: string

definition computeDistributableNet :: "distributionDeductions \<Rightarrow> string option" where
  "computeDistributableNet i =
    (case (toMicros (dd_grossRentEur i), toMicros (dd_managementFeeEur i),
           toMicros (dd_otherExpensesEur i), toMicros (dd_reserveHoldbackEur i)) of
       (Some gross, Some fee, Some expenses, Some reserve) \<Rightarrow>
         (let net = gross - fee - expenses - reserve;
              floored = (if net > 0 then net else 0);
              wholeCents = floored sdiv 10000;
              euros = wholeCents sdiv 100;
              cents = padStart 2 CHR ''0'' (int_dec (wholeCents smod 100))
          in Some (int_dec euros @ ''.'' @ cents))
     | _ \<Rightarrow> None)"

definition computeAmountPerUnit :: "string \<Rightarrow> string \<Rightarrow> string option" where
  "computeAmountPerUnit distributableNetEur totalUnits =
    (case toMicros totalUnits of None \<Rightarrow> None
     | Some totalUnitsMicros \<Rightarrow>
       if totalUnitsMicros \<le> 0 then None
       else (case toMicros distributableNetEur of None \<Rightarrow> None
         | Some net \<Rightarrow> (let scaledNet = net * MICROS_PER_UNIT
             in Some (fromMicros (scaledNet sdiv totalUnitsMicros)))))"

definition computeEntryAmount :: "string \<Rightarrow> string \<Rightarrow> string option" where
  "computeEntryAmount unitCount amountPerUnitEur =
    (case (toMicros unitCount, toMicros amountPerUnitEur) of
       (Some units, Some perUnit) \<Rightarrow> Some (fromMicros ((units * perUnit) sdiv MICROS_PER_UNIT))
     | _ \<Rightarrow> None)"

subsection \<open>Tables\<close>

record rentCollection =
  rc_id :: ident
  rc_pivId :: ident
  rc_periodStart :: int
  rc_periodEnd :: int
  rc_grossRentCollectedEur :: int
  rc_recordedBy :: ident
  rc_notes :: "string option"

record distributionEntry =
  de_id :: ident
  de_positionId :: ident
  de_unitCountAtRecordDate :: int
  de_amountEurc :: int
  de_destinationWalletAddress :: string

record operatingDistribution =
  od_id :: ident
  od_pivId :: ident
  od_rentCollectionId :: ident
  od_periodStart :: int
  od_periodEnd :: int
  od_recordDate :: int
  od_grossRentEur :: int
  od_managementFeeEur :: int
  od_otherExpensesEur :: int
  od_reserveHoldbackEur :: int
  od_distributableNetEur :: int
  od_totalUnitsAtRecordDate :: int
  od_amountPerUnitEur :: int
  od_status :: string
  od_entries :: "distributionEntry list"

record ledgerPosition =
  lp_id :: ident
  lp_pivId :: ident
  lp_unitCount :: int
  lp_positionStatus :: string
  lp_holderWalletAddress :: "string option"

text \<open>\<open>knownPivs\<close> and \<open>knownAccounts\<close> are the targets of the foreign keys.\<close>

record rentalStore =
  rentCollections :: "rentCollection list"
  distributions :: "operatingDistribution list"
  ledgerPositions :: "ledgerPosition list"
  knownPivs :: "ident list"
  knownAccounts :: "ident list"
  rental_ulids :: nat

text \<open>\<open>Decimal.toString()\<close> of a NUMERIC value: no trailing zeros, no point for an integer. The
  columns' ranges stay below the exponential notation.\<close>

definition decimalText :: "nat \<Rightarrow> int \<Rightarrow> string" where
  "decimalText k v = (let a = \<bar>v\<bar>; whole = a div 10 ^ k;
      fraction = rev (dropWhile (\<lambda>c. c = CHR ''0'') (rev (padStart k CHR ''0'' (digits (a mod 10 ^ k)))))
    in (if v < 0 then ''-'' else []) @ digits whole @ (if fraction = [] then [] else CHR ''.'' # fraction))"

subsection \<open>Repository (prisma-operating-distribution.repository.ts)\<close>

record rentCollectionRecord =
  rcr_id :: ident
  rcr_pivId :: ident
  rcr_periodStart :: int
  rcr_periodEnd :: int
  rcr_grossRentCollectedEur :: string
  rcr_recordedBy :: ident

definition toRentCollectionRecord :: "rentCollection \<Rightarrow> rentCollectionRecord" where
  "toRentCollectionRecord r = \<lparr>rcr_id = rc_id r, rcr_pivId = rc_pivId r, rcr_periodStart = rc_periodStart r,
     rcr_periodEnd = rc_periodEnd r,
     rcr_grossRentCollectedEur = decimalText 2 (rc_grossRentCollectedEur r), rcr_recordedBy = rc_recordedBy r\<rparr>"

definition listRentCollectionsAwaitingDistribution :: "rentalStore \<Rightarrow> rentCollectionRecord list" where
  "listRentCollectionsAwaitingDistribution s = map toRentCollectionRecord
     (filter (\<lambda>r. \<not> (\<exists>d\<in>set (distributions s). od_rentCollectionId d = rc_id r)) (rentCollections s))"

definition samePeriodRent :: "ident \<Rightarrow> int \<Rightarrow> int \<Rightarrow> rentCollection \<Rightarrow> bool" where
  "samePeriodRent pivId start end r \<longleftrightarrow> rc_pivId r = pivId \<and> rc_periodStart r = start \<and> rc_periodEnd r = end"

definition samePeriodDistribution :: "ident \<Rightarrow> int \<Rightarrow> int \<Rightarrow> operatingDistribution \<Rightarrow> bool" where
  "samePeriodDistribution pivId start end d \<longleftrightarrow> od_pivId d = pivId \<and> od_periodStart d = start \<and> od_periodEnd d = end"

definition findRentCollection :: "ident \<Rightarrow> int \<Rightarrow> int \<Rightarrow> rentalStore \<Rightarrow> rentCollectionRecord option" where
  "findRentCollection pivId start end s =
    map_option toRentCollectionRecord (find (samePeriodRent pivId start end) (rentCollections s))"

record existingDistribution =
  ed_id :: ident
  ed_distributableNetEur :: string
  ed_amountPerUnitEur :: string
  ed_entryCount :: nat

definition findDistribution :: "ident \<Rightarrow> int \<Rightarrow> int \<Rightarrow> rentalStore \<Rightarrow> existingDistribution option" where
  "findDistribution pivId start end s =
    map_option (\<lambda>d. \<lparr>ed_id = od_id d, ed_distributableNetEur = decimalText 2 (od_distributableNetEur d),
        ed_amountPerUnitEur = decimalText 6 (od_amountPerUnitEur d), ed_entryCount = length (od_entries d)\<rparr>)
      (find (samePeriodDistribution pivId start end) (distributions s))"

record recordRentInput =
  rri_pivId :: ident
  rri_periodStart :: int
  rri_periodEnd :: int
  rri_grossRentCollectedEur :: string
  rri_recordedBy :: ident
  rri_notes :: "string option"

text \<open>\<open>None\<close>: a violated key, or an amount that is no number.\<close>

definition recordRentCollection ::
  "(nat \<Rightarrow> string) \<Rightarrow> recordRentInput \<Rightarrow> rentalStore \<Rightarrow> (rentCollectionRecord \<times> rentalStore) option" where
  "recordRentCollection ulid i s =
    (case numericText 2 (rri_grossRentCollectedEur i) of None \<Rightarrow> None
     | Some gross \<Rightarrow>
       (let row = \<lparr>rc_id = ''rntcol_'' @ ulid (rental_ulids s), rc_pivId = rri_pivId i,
              rc_periodStart = rri_periodStart i, rc_periodEnd = rri_periodEnd i,
              rc_grossRentCollectedEur = gross, rc_recordedBy = rri_recordedBy i, rc_notes = rri_notes i\<rparr>
        in if list_ex (\<lambda>r. rc_id r = rc_id row \<or>
                samePeriodRent (rri_pivId i) (rri_periodStart i) (rri_periodEnd i) r) (rentCollections s) \<or>
              rri_pivId i \<notin> set (knownPivs s) \<or> rri_recordedBy i \<notin> set (knownAccounts s)
           then None
           else Some (toRentCollectionRecord row,
             s\<lparr>rentCollections := rentCollections s @ [row], rental_ulids := Suc (rental_ulids s)\<rparr>)))"

record positionHolder =
  ph_positionId :: ident
  ph_unitCount :: string
  ph_walletAddress :: "string option"

definition listActivePositionHolders :: "ident \<Rightarrow> rentalStore \<Rightarrow> positionHolder list" where
  "listActivePositionHolders pivId s =
    map (\<lambda>p. \<lparr>ph_positionId = lp_id p, ph_unitCount = decimalText 6 (lp_unitCount p),
              ph_walletAddress = lp_holderWalletAddress p\<rparr>)
      (filter (\<lambda>p. lp_pivId p = pivId \<and> lp_positionStatus p = ''active'') (ledgerPositions s))"

record entryInput =
  ei_positionId :: ident
  ei_unitCountAtRecordDate :: string
  ei_amountEurc :: string
  ei_destinationWalletAddress :: string

record createDistributionInput =
  cdi_pivId :: ident
  cdi_rentCollectionId :: ident
  cdi_periodStart :: int
  cdi_periodEnd :: int
  cdi_recordDate :: int
  cdi_grossRentEur :: string
  cdi_managementFeeEur :: string
  cdi_otherExpensesEur :: string
  cdi_reserveHoldbackEur :: string
  cdi_distributableNetEur :: string
  cdi_totalUnitsAtRecordDate :: string
  cdi_amountPerUnitEur :: string
  cdi_entries :: "entryInput list"

fun newEntries :: "(nat \<Rightarrow> string) \<Rightarrow> nat \<Rightarrow> entryInput list \<Rightarrow> distributionEntry list option" where
  "newEntries ulid n [] = Some []"
| "newEntries ulid n (e # es) =
    (case (numericText 6 (ei_unitCountAtRecordDate e), numericText 6 (ei_amountEurc e), newEntries ulid (Suc n) es) of
       (Some units, Some amount, Some rest) \<Rightarrow>
         Some (\<lparr>de_id = ''opdistentry_'' @ ulid n, de_positionId = ei_positionId e,
           de_unitCountAtRecordDate = units, de_amountEurc = amount,
           de_destinationWalletAddress = ei_destinationWalletAddress e\<rparr> # rest)
     | _ \<Rightarrow> None)"

definition newDistribution :: "(nat \<Rightarrow> string) \<Rightarrow> createDistributionInput \<Rightarrow> nat \<Rightarrow> operatingDistribution option" where
  "newDistribution ulid i n =
    (case (numericText 2 (cdi_grossRentEur i), numericText 2 (cdi_managementFeeEur i),
           numericText 2 (cdi_otherExpensesEur i), numericText 2 (cdi_reserveHoldbackEur i)) of
       (Some gross, Some fee, Some expenses, Some reserve) \<Rightarrow>
         (case (numericText 2 (cdi_distributableNetEur i), numericText 6 (cdi_totalUnitsAtRecordDate i),
                numericText 6 (cdi_amountPerUnitEur i), newEntries ulid (Suc n) (cdi_entries i)) of
            (Some net, Some units, Some perUnit, Some entries) \<Rightarrow>
              Some \<lparr>od_id = ''opdist_'' @ ulid n, od_pivId = cdi_pivId i,
                od_rentCollectionId = cdi_rentCollectionId i, od_periodStart = cdi_periodStart i,
                od_periodEnd = cdi_periodEnd i, od_recordDate = cdi_recordDate i, od_grossRentEur = gross,
                od_managementFeeEur = fee, od_otherExpensesEur = expenses, od_reserveHoldbackEur = reserve,
                od_distributableNetEur = net, od_totalUnitsAtRecordDate = units, od_amountPerUnitEur = perUnit,
                od_status = ''calculated'', od_entries = entries\<rparr>
          | _ \<Rightarrow> None)
     | _ \<Rightarrow> None)"

text \<open>One transaction: the distribution and all its entries, or nothing.\<close>

definition createOperatingDistribution ::
  "(nat \<Rightarrow> string) \<Rightarrow> createDistributionInput \<Rightarrow> rentalStore \<Rightarrow> (ident \<times> rentalStore) option" where
  "createOperatingDistribution ulid i s =
    (case newDistribution ulid i (rental_ulids s) of None \<Rightarrow> None
     | Some d \<Rightarrow>
       if list_ex (\<lambda>x. od_id x = od_id d \<or> od_rentCollectionId x = od_rentCollectionId d \<or>
            samePeriodDistribution (od_pivId d) (od_periodStart d) (od_periodEnd d) x) (distributions s) \<or>
          \<not> list_ex (\<lambda>r. rc_id r = od_rentCollectionId d) (rentCollections s) \<or>
          od_pivId d \<notin> set (knownPivs s) \<or> \<not> distinct (map de_positionId (od_entries d))
       then None
       else Some (od_id d, s\<lparr>distributions := distributions s @ [d],
              rental_ulids := Suc (rental_ulids s + length (od_entries d))\<rparr>))"

subsection \<open>CalculateOperatingDistributionService\<close>

definition toMicroUnits :: "string \<Rightarrow> int option" where
  "toMicroUnits value = (let (whole, fraction) = split_dot value [] in
     case (BigInt whole, BigInt (take 6 (padEnd 6 CHR ''0'' fraction))) of
       (Some w, Some f) \<Rightarrow> Some (w * MICROS_PER_UNIT + f) | _ \<Rightarrow> None)"

definition fromMicroUnits :: "int \<Rightarrow> string" where
  "fromMicroUnits value = int_dec (value sdiv MICROS_PER_UNIT) @ ''.'' @
     padStart 6 CHR ''0'' (int_dec (value smod MICROS_PER_UNIT))"

record calculateInput =
  calc_pivId :: ident
  calc_periodStart :: int
  calc_periodEnd :: int
  calc_grossRentCollectedEur :: string
  calc_managementFeeEur :: string
  calc_otherExpensesEur :: string
  calc_reserveHoldbackEur :: string
  calc_recordedBy :: ident
  calc_notes :: "string option"

record calculateResult =
  cdr_operatingDistributionId :: ident
  cdr_distributableNetEur :: string
  cdr_amountPerUnitEur :: string
  cdr_entriesCreated :: nat
  cdr_skippedNoWalletPositionIds :: "ident list"
  cdr_alreadyCalculated :: bool

definition ensureRentCollection ::
  "(nat \<Rightarrow> string) \<Rightarrow> calculateInput \<Rightarrow> rentalStore \<Rightarrow> (rentCollectionRecord \<times> rentalStore) option" where
  "ensureRentCollection ulid i s =
    (case findRentCollection (calc_pivId i) (calc_periodStart i) (calc_periodEnd i) s of
       Some r \<Rightarrow> Some (r, s)
     | None \<Rightarrow> recordRentCollection ulid \<lparr>rri_pivId = calc_pivId i, rri_periodStart = calc_periodStart i,
         rri_periodEnd = calc_periodEnd i, rri_grossRentCollectedEur = calc_grossRentCollectedEur i,
         rri_recordedBy = calc_recordedBy i, rri_notes = calc_notes i\<rparr> s)"

fun sumMicroUnits :: "positionHolder list \<Rightarrow> int option" where
  "sumMicroUnits [] = Some 0"
| "sumMicroUnits (h # hs) = (case (toMicroUnits (ph_unitCount h), sumMicroUnits hs) of
     (Some u, Some rest) \<Rightarrow> Some (u + rest) | _ \<Rightarrow> None)"

fun buildEntries :: "string \<Rightarrow> positionHolder list \<Rightarrow> entryInput list option" where
  "buildEntries amountPerUnitEur [] = Some []"
| "buildEntries amountPerUnitEur (h # hs) =
    (case ph_walletAddress h of
       None \<Rightarrow> buildEntries amountPerUnitEur hs
     | Some wallet \<Rightarrow>
       (case (computeEntryAmount (ph_unitCount h) amountPerUnitEur, buildEntries amountPerUnitEur hs) of
          (Some amount, Some rest) \<Rightarrow>
            Some (\<lparr>ei_positionId = ph_positionId h, ei_unitCountAtRecordDate = ph_unitCount h,
              ei_amountEurc = amount, ei_destinationWalletAddress = wallet\<rparr> # rest)
        | _ \<Rightarrow> None))"

text \<open>The figures of a period: the net amount, the total of the units, the amount per unit and
  the entries.\<close>

definition distributionFigures ::
  "calculateInput \<Rightarrow> positionHolder list \<Rightarrow> (string \<times> int \<times> string \<times> entryInput list) option" where
  "distributionFigures i holders =
    (case computeDistributableNet \<lparr>dd_grossRentEur = calc_grossRentCollectedEur i,
        dd_managementFeeEur = calc_managementFeeEur i, dd_otherExpensesEur = calc_otherExpensesEur i,
        dd_reserveHoldbackEur = calc_reserveHoldbackEur i\<rparr> of None \<Rightarrow> None
     | Some net \<Rightarrow>
       (case sumMicroUnits holders of None \<Rightarrow> None
        | Some totalUnits \<Rightarrow>
          (case (if totalUnits > 0 then computeAmountPerUnit net (fromMicroUnits totalUnits)
                 else Some ''0.000000'') of None \<Rightarrow> None
           | Some perUnit \<Rightarrow>
             map_option (\<lambda>entries. (net, totalUnits, perUnit, entries))
               (if totalUnits > 0 then buildEntries perUnit holders else Some []))))"

definition skippedHolders :: "int \<Rightarrow> positionHolder list \<Rightarrow> ident list" where
  "skippedHolders totalUnits holders =
    (if totalUnits > 0 then map ph_positionId (filter (\<lambda>h. ph_walletAddress h = None) holders) else [])"

definition calculateOperatingDistribution ::
  "(nat \<Rightarrow> string) \<Rightarrow> calculateInput \<Rightarrow> rentalStore \<Rightarrow> calculateResult result \<times> rentalStore" where
  "calculateOperatingDistribution ulid i s =
    (case findDistribution (calc_pivId i) (calc_periodStart i) (calc_periodEnd i) s of
       Some d \<Rightarrow> (Inr \<lparr>cdr_operatingDistributionId = ed_id d, cdr_distributableNetEur = ed_distributableNetEur d,
         cdr_amountPerUnitEur = ed_amountPerUnitEur d, cdr_entriesCreated = ed_entryCount d,
         cdr_skippedNoWalletPositionIds = [], cdr_alreadyCalculated = True\<rparr>, s)
     | None \<Rightarrow>
       (case ensureRentCollection ulid i s of None \<Rightarrow> (Inl OtherError, s)
        | Some (rentCollection, s1) \<Rightarrow>
          (let holders = listActivePositionHolders (calc_pivId i) s1 in
           case distributionFigures i holders of None \<Rightarrow> (Inl OtherError, s1)
           | Some (net, totalUnits, perUnit, entries) \<Rightarrow>
             (case createOperatingDistribution ulid
                \<lparr>cdi_pivId = calc_pivId i, cdi_rentCollectionId = rcr_id rentCollection,
                 cdi_periodStart = calc_periodStart i, cdi_periodEnd = calc_periodEnd i,
                 cdi_recordDate = calc_periodEnd i, cdi_grossRentEur = calc_grossRentCollectedEur i,
                 cdi_managementFeeEur = calc_managementFeeEur i,
                 cdi_otherExpensesEur = calc_otherExpensesEur i,
                 cdi_reserveHoldbackEur = calc_reserveHoldbackEur i, cdi_distributableNetEur = net,
                 cdi_totalUnitsAtRecordDate = fromMicroUnits totalUnits, cdi_amountPerUnitEur = perUnit,
                 cdi_entries = entries\<rparr> s1 of
                None \<Rightarrow> (Inl OtherError, s1)
              | Some (did, s2) \<Rightarrow>
                (Inr \<lparr>cdr_operatingDistributionId = did, cdr_distributableNetEur = net,
                   cdr_amountPerUnitEur = perUnit, cdr_entriesCreated = length entries,
                   cdr_skippedNoWalletPositionIds = skippedHolders totalUnits holders,
                   cdr_alreadyCalculated = False\<rparr>, s2)))))"

subsection \<open>RunOperatingDistributionSweepService\<close>

definition sweepInput :: "rentCollectionRecord \<Rightarrow> calculateInput" where
  "sweepInput r = \<lparr>calc_pivId = rcr_pivId r, calc_periodStart = rcr_periodStart r,
     calc_periodEnd = rcr_periodEnd r, calc_grossRentCollectedEur = rcr_grossRentCollectedEur r,
     calc_managementFeeEur = ''0.00'', calc_otherExpensesEur = ''0.00'', calc_reserveHoldbackEur = ''0.00'',
     calc_recordedBy = rcr_recordedBy r, calc_notes = None\<rparr>"

text \<open>The loop: an exception of one calculation ends the run; what was written stays.\<close>

fun sweepLoop :: "(nat \<Rightarrow> string) \<Rightarrow> rentCollectionRecord list \<Rightarrow> rentalStore \<times> nat \<Rightarrow> bool \<times> rentalStore \<times> nat" where
  "sweepLoop ulid [] (s, acted) = (True, s, acted)"
| "sweepLoop ulid (r # rs) (s, acted) =
    (case calculateOperatingDistribution ulid (sweepInput r) s of
       (Inl e, s') \<Rightarrow> (False, s', acted)
     | (Inr res, s') \<Rightarrow> sweepLoop ulid rs (s', if cdr_alreadyCalculated res then acted else Suc acted))"

definition runOperatingDistributionSweep ::
  "(nat \<Rightarrow> string) \<Rightarrow> rentalStore \<Rightarrow> (nat \<times> nat) option \<times> rentalStore" where
  "runOperatingDistributionSweep ulid s =
    (let pending = listRentCollectionsAwaitingDistribution s in
     case sweepLoop ulid pending (s, 0) of (done, s', acted) \<Rightarrow>
       (if done then Some (length pending, acted) else None, s'))"

end
