(* ===== verification/RentalFacts.thy ===== *)
theory RentalFacts
  imports Rental
begin

text \<open>
  Facts about operating distributions: every reader of a decimal text agrees on the
  texts the database and the code print, the figures of a period are the exact
  integer quotients, and the invariant of the rental tables.
\<close>

subsection \<open>Readers of decimal text\<close>

text \<open>What the readers share: a text of digits, with a fraction of at most \<open>k\<close> digits or none,
  reads as the number scaled by \<open>10 ^ k\<close>.\<close>

definition decimal :: "string \<Rightarrow> string \<Rightarrow> string" where
  "decimal a f = a @ (if f = [] then [] else CHR ''.'' # f)"

locale decimal_reader =
  fixes read :: "string \<Rightarrow> int option" and k :: nat
  assumes read_decimal: "\<lbrakk>digit_string a; list_all is_digit f; length f \<le> k;
      parse_radix 10 a 0 = Some m; parse_radix 10 (padEnd k CHR ''0'' f) 0 = Some n\<rbrakk>
    \<Longrightarrow> read (decimal a f) = Some (m * 10 ^ k + n)"
begin

lemma read_scaled:
  assumes "0 \<le> w" "list_all is_digit f" "length f \<le> j" "j \<le> k"
    "parse_radix 10 (padEnd j CHR ''0'' f) 0 = Some n"
  shows "read (decimal (digits w) f) = Some ((w * 10 ^ j + n) * 10 ^ (k - j))"
proof -
  have z: "parse_radix 10 (replicate (k - j) CHR ''0'') 0 = Some 0"
    using parse_radix_zeros[of 10 "k - j" "[]"] by simp
  have "padEnd k CHR ''0'' f = padEnd j CHR ''0'' f @ replicate (k - j) CHR ''0''"
    using assms(3,4) by (simp add: padEnd_def flip: replicate_add)
  then have "parse_radix 10 (padEnd k CHR ''0'' f) 0 = Some (n * 10 ^ (k - j))"
    using parse_radix_scale[OF assms(5) z] by simp
  then have "read (decimal (digits w) f) = Some (w * 10 ^ k + n * 10 ^ (k - j))"
    using read_decimal[of "digits w" f w] assms by simp
  moreover have "(10::int) ^ k = 10 ^ j * 10 ^ (k - j)" using assms(4) by (simp flip: power_add)
  ultimately show ?thesis by (simp add: algebra_simps)
qed

lemma read_fraction:
  assumes "0 \<le> v" "0 < j" "j \<le> k" "list_all is_digit f" "length f \<le> j"
    "padEnd j CHR ''0'' f = padStart j CHR ''0'' (digits (v mod 10 ^ j))"
  shows "read (decimal (digits (v div 10 ^ j)) f) = Some (v * 10 ^ (k - j))"
proof -
  have "0 \<le> v div 10 ^ j" using assms(1) by (simp add: pos_imp_zdiv_nonneg_iff)
  moreover have "parse_radix 10 (padEnd j CHR ''0'' f) 0 = Some (v mod 10 ^ j)" unfolding assms(6) by simp
  ultimately have "read (decimal (digits (v div 10 ^ j)) f) = Some ((v div 10 ^ j * 10 ^ j + v mod 10 ^ j) * 10 ^ (k - j))"
    using read_scaled assms(3-5) by blast
  then show ?thesis by (simp only: div_mult_mod_eq)
qed

end

lemma split_dot_decimal:
  assumes "list_all is_digit a" "list_all is_digit f"
  shows "split_dot (decimal a f) [] = (a, f)"
  using assms by (cases "f = []") (simp_all add: decimal_def)

lemma hd_decimal: "digit_string a \<Longrightarrow> decimal a f \<noteq> [] \<and> hd (decimal a f) \<noteq> CHR ''-''"
  by (cases a) (auto simp: decimal_def digit_string_def is_digit_not)

lemma digit_string_padEnd:
  assumes "list_all is_digit f" "0 < k"
  shows "digit_string (padEnd k CHR ''0'' f)"
  using assms by (cases "f = []") (auto simp: digit_string_def padEnd_def list_all_iff)

interpretation micros: decimal_reader toMicros 6
proof
  fix a f m n
  assume h: "digit_string a" "list_all is_digit f" "length f \<le> 6" "parse_radix 10 a 0 = Some m"
    "parse_radix 10 (padEnd 6 CHR ''0'' f) 0 = Some n"
  then show "toMicros (decimal a f) = Some (m * 10 ^ 6 + n)"
    using hd_decimal[OF h(1), of f] split_dot_decimal[of a f] digit_string_padEnd[OF h(2), of 6]
    by (simp add: toMicros_def digit_string_def MICROS_PER_UNIT_def)
qed

interpretation units: decimal_reader toMicroUnits 6
proof
  fix a f m n
  assume h: "digit_string a" "list_all is_digit f" "length f \<le> 6" "parse_radix 10 a 0 = Some m"
    "parse_radix 10 (padEnd 6 CHR ''0'' f) 0 = Some n"
  have "take 6 (padEnd 6 CHR ''0'' f) = padEnd 6 CHR ''0'' f" using h(3) by (simp add: padEnd_def)
  then show "toMicroUnits (decimal a f) = Some (m * 10 ^ 6 + n)"
    using h split_dot_decimal[of a f] digit_string_padEnd[OF h(2), of 6]
    by (simp add: toMicroUnits_def digit_string_def MICROS_PER_UNIT_def)
qed

interpretation numeric: decimal_reader "numericText k" k for k
proof
  fix a f m n
  assume h: "digit_string a" "list_all is_digit f" "length f \<le> k" "parse_radix 10 a 0 = Some m"
    "parse_radix 10 (padEnd k CHR ''0'' f) 0 = Some n"
  have l: "take k (padEnd k CHR ''0'' f) = padEnd k CHR ''0'' f" "length (padEnd k CHR ''0'' f) = k"
    using h(3) by (simp_all add: padEnd_def)
  show "numericText k (decimal a f) = Some (m * 10 ^ k + n)"
    using h hd_decimal[OF h(1), of f] split_dot_decimal[of a f] parse_radix_scale[OF h(4,5)] l
    by (simp add: numericText_def digit_string_def)
qed

subsection \<open>Printed texts\<close>

definition stripZeros :: "string \<Rightarrow> string" where
  "stripZeros f = rev (dropWhile (\<lambda>c. c = CHR ''0'') (rev f))"

lemma padEnd_stripZeros: "padEnd (length f) CHR ''0'' (stripZeros f) = f"
proof -
  let ?z = "takeWhile (\<lambda>c. c = CHR ''0'') (rev f)"
  have z: "rev ?z = replicate (length ?z) CHR ''0''"
    by (intro replicate_eqI) (auto dest: set_takeWhileD)
  have f: "f = stripZeros f @ rev ?z"
    unfolding stripZeros_def by (simp flip: rev_append)
  have "length f - length (stripZeros f) = length ?z"
    using arg_cong[OF f, of length] by simp
  then have "padEnd (length f) CHR ''0'' (stripZeros f) = stripZeros f @ rev ?z"
    by (simp only: padEnd_def z)
  then show ?thesis using f by simp
qed

lemma stripZeros_digits: "list_all is_digit f \<Longrightarrow> list_all is_digit (stripZeros f)"
  unfolding stripZeros_def by (auto simp: list_all_iff dest: set_dropWhileD)

lemma length_stripZeros: "length (stripZeros f) \<le> length f"
  unfolding stripZeros_def by (metis length_dropWhile_le length_rev)

lemma decimalText_decimal:
  assumes "0 \<le> v"
  shows "decimalText k v = decimal (digits (v div 10 ^ k)) (stripZeros (padStart k CHR ''0'' (digits (v mod 10 ^ k))))"
  using assms by (simp add: decimalText_def decimal_def stripZeros_def Let_def)

lemma padStart_digits: "0 < j \<Longrightarrow> length (padStart j CHR ''0'' (digits (v mod 10 ^ j))) = j"
  by (simp add: length_digits_le)

context decimal_reader
begin

lemma read_decimalText:
  assumes "0 \<le> v" "0 < j" "j \<le> k"
  shows "read (decimalText j v) = Some (v * 10 ^ (k - j))"
proof -
  let ?f = "padStart j CHR ''0'' (digits (v mod 10 ^ j))"
  have "read (decimal (digits (v div 10 ^ j)) (stripZeros ?f)) = Some (v * 10 ^ (k - j))"
    using assms padEnd_stripZeros[of ?f] length_stripZeros[of ?f] stripZeros_digits[of ?f] padStart_digits[OF assms(2), of v]
    by (intro read_fraction) simp_all
  then show ?thesis by (simp add: decimalText_decimal[OF assms(1)])
qed

lemma read_fixed:
  assumes "0 \<le> v" "0 < j" "j \<le> k"
  shows "read (digits (v div 10 ^ j) @ CHR ''.'' # padStart j CHR ''0'' (digits (v mod 10 ^ j))) = Some (v * 10 ^ (k - j))"
proof -
  let ?f = "padStart j CHR ''0'' (digits (v mod 10 ^ j))"
  have "?f \<noteq> []" using padStart_digits[OF assms(2), of v] assms(2) by auto
  moreover have "read (decimal (digits (v div 10 ^ j)) ?f) = Some (v * 10 ^ (k - j))"
    using assms padStart_digits[OF assms(2), of v] by (intro read_fraction) simp_all
  ultimately show ?thesis by (simp add: decimal_def)
qed

lemma read_fromCents: "0 \<le> v \<Longrightarrow> 2 \<le> k \<Longrightarrow> read (fromCents v) = Some (v * 10 ^ (k - 2))"
  using read_fixed[of v 2] cents.print_digits[of v] by simp

end

lemma fromMicros_digits:
  "0 \<le> v \<Longrightarrow> fromMicros v = digits (v div 10 ^ 6) @ CHR ''.'' # padStart 6 CHR ''0'' (digits (v mod 10 ^ 6))"
  by (simp add: fromMicros_def MICROS_PER_UNIT_def Let_def int_dec_nonneg sdiv_nonneg smod_nonneg pos_imp_zdiv_nonneg_iff)

lemma fromMicroUnits_eq: "0 \<le> v \<Longrightarrow> fromMicroUnits v = fromMicros v"
  by (simp add: fromMicroUnits_def fromMicros_def)

text \<open>The texts that pass between the code and the database, read back.\<close>

lemmas micros_read =
  micros.read_decimalText[of _ 6, simplified] micros.read_decimalText[of _ 2, simplified]
  micros.read_fromCents[simplified]

lemma toMicros_fromMicros: "0 \<le> v \<Longrightarrow> toMicros (fromMicros v) = Some v"
  using micros.read_fixed[of v 6] fromMicros_digits[of v] by simp

lemma toMicroUnits_fromMicroUnits: "0 \<le> v \<Longrightarrow> toMicroUnits (fromMicroUnits v) = Some v"
  using units.read_fixed[of v 6] fromMicros_digits[of v] by (simp add: fromMicroUnits_eq)

lemma numericText_fromMicros: "0 \<le> v \<Longrightarrow> numericText 6 (fromMicros v) = Some v"
  using numeric.read_fixed[of v 6 6] fromMicros_digits[of v] by simp

lemma toMicros_currency:
  assumes "toCents t = Some v" "currency_pattern t"
  shows "toMicros t = Some (v * 10000)"
proof -
  obtain a f where t: "t = a @ CHR ''.'' # f" "digit_string a" "digit_string f" "length f = 2"
    using assms(2) by (rule currency_patternE)
  obtain m n where mn: "parse_radix 10 a 0 = Some m" "parse_radix 10 f 0 = Some n"
    using t parse_radix_digits[of a 0] parse_radix_digits[of f 0] by (auto simp: digit_string_def)
  have "v = m * 100 + n" using cents.parse_digits[OF t(2-4) mn] assms(1) t(1) by simp
  moreover have "parse_radix 10 ''0000'' 0 = Some 0" by code_simp
  then have "parse_radix 10 (padEnd 6 CHR ''0'' f) 0 = Some (n * 10000)"
    using parse_radix_scale[OF mn(2)] t(4) by (simp add: padEnd_def eval_nat_numeral)
  then have "toMicros (decimal a f) = Some (m * 10 ^ 6 + n * 10000)"
    using micros.read_decimal t mn by (simp add: digit_string_def)
  moreover have "decimal a f = t" using t by (auto simp: decimal_def)
  ultimately show ?thesis by simp
qed

subsection \<open>The figures of a period\<close>

definition activePositions :: "ident \<Rightarrow> rentalStore \<Rightarrow> ledgerPosition list" where
  "activePositions pivId s = filter (\<lambda>p. lp_pivId p = pivId \<and> lp_positionStatus p = ''active'') (ledgerPositions s)"

definition unitsOk :: "rentalStore \<Rightarrow> bool" where
  "unitsOk s \<longleftrightarrow> list_all (\<lambda>p. 0 \<le> lp_unitCount p) (ledgerPositions s)"

definition holderOf :: "ledgerPosition \<Rightarrow> positionHolder" where
  "holderOf p = \<lparr>ph_positionId = lp_id p, ph_unitCount = decimalText 6 (lp_unitCount p),
     ph_walletAddress = lp_holderWalletAddress p\<rparr>"

lemma listActivePositionHolders_eq: "listActivePositionHolders pivId s = map holderOf (activePositions pivId s)"
  by (simp add: listActivePositionHolders_def activePositions_def holderOf_def)

lemma activePositions_units: "unitsOk s \<Longrightarrow> p \<in> set (activePositions pivId s) \<Longrightarrow> 0 \<le> lp_unitCount p"
  by (auto simp: unitsOk_def activePositions_def list_all_iff)

definition totalUnitsOf :: "ledgerPosition list \<Rightarrow> int" where
  "totalUnitsOf ps = sum_list (map lp_unitCount ps)"

lemma sumMicroUnits_eq:
  "(\<And>p. p \<in> set ps \<Longrightarrow> 0 \<le> lp_unitCount p) \<Longrightarrow> sumMicroUnits (map holderOf ps) = Some (totalUnitsOf ps)"
  by (induction ps) (simp_all add: holderOf_def totalUnitsOf_def units.read_decimalText)

text \<open>A text that every reader takes for a number of cents.\<close>

definition centsText :: "string \<Rightarrow> int \<Rightarrow> bool" where
  "centsText t v \<longleftrightarrow> toMicros t = Some (v * 10000) \<and> numericText 2 t = Some v"

lemma centsText_pattern: "currency_pattern t \<Longrightarrow> \<exists>v\<ge>0. toCents t = Some v \<and> centsText t v"
  using toCents_currency_pattern[of t] toMicros_currency[of t] numericText_currency_pattern[of t]
  by (auto simp: centsText_def)

lemma centsText_decimalText: "0 \<le> v \<Longrightarrow> centsText (decimalText 2 v) v"
  by (simp add: centsText_def micros_read numeric.read_decimalText)

lemma centsText_fromCents: "0 \<le> v \<Longrightarrow> centsText (fromCents v) v"
  by (simp add: centsText_def micros_read numericText_fromCents)

lemma centsText_zero: "centsText ''0.00'' 0"
  using centsText_fromCents[of 0] by (simp add: fromCents_zero)

lemma computeDistributableNet_eq:
  assumes "centsText g vg" "centsText f vf" "centsText e ve" "centsText r vr"
  shows "computeDistributableNet \<lparr>dd_grossRentEur = g, dd_managementFeeEur = f, dd_otherExpensesEur = e,
    dd_reserveHoldbackEur = r\<rparr> = Some (fromCents (max 0 (vg - vf - ve - vr)))"
proof -
  let ?n = "vg - vf - ve - vr"
  have "(if 0 < vg * 10000 - vf * 10000 - ve * 10000 - vr * 10000
      then vg * 10000 - vf * 10000 - ve * 10000 - vr * 10000 else 0) = max 0 ?n * 10000"
    by (simp add: max_def)
  moreover have "(max 0 ?n * 10000) sdiv 10000 = max 0 ?n" by (simp add: sdiv_nonneg)
  ultimately show ?thesis
    using assms by (simp add: centsText_def computeDistributableNet_def fromCents_def Let_def)
qed

lemma computeAmountPerUnit_eq:
  "0 \<le> n \<Longrightarrow> 0 < t \<Longrightarrow> computeAmountPerUnit (fromCents n) (fromMicroUnits t) =
    Some (fromMicros (n * 10000 * 1000000 div t))"
  by (simp add: computeAmountPerUnit_def fromMicroUnits_eq toMicros_fromMicros micros_read sdiv_nonneg
      MICROS_PER_UNIT_def)

lemma computeEntryAmount_eq:
  "0 \<le> u \<Longrightarrow> 0 \<le> q \<Longrightarrow> computeEntryAmount (decimalText 6 u) (fromMicros q) = Some (fromMicros (u * q div 1000000))"
  by (simp add: computeEntryAmount_def toMicros_fromMicros micros_read sdiv_nonneg MICROS_PER_UNIT_def)

definition paid :: "ledgerPosition list \<Rightarrow> ledgerPosition list" where
  "paid ps = filter (\<lambda>p. lp_holderWalletAddress p \<noteq> None) ps"

definition entryOf :: "int \<Rightarrow> ledgerPosition \<Rightarrow> entryInput" where
  "entryOf q p = \<lparr>ei_positionId = lp_id p, ei_unitCountAtRecordDate = decimalText 6 (lp_unitCount p),
     ei_amountEurc = fromMicros (lp_unitCount p * q div 1000000),
     ei_destinationWalletAddress = the (lp_holderWalletAddress p)\<rparr>"

lemma entryOf_simps [simp]:
  "ei_positionId (entryOf q p) = lp_id p"
  "ei_unitCountAtRecordDate (entryOf q p) = decimalText 6 (lp_unitCount p)"
  "ei_amountEurc (entryOf q p) = fromMicros (lp_unitCount p * q div 1000000)"
  "ei_destinationWalletAddress (entryOf q p) = the (lp_holderWalletAddress p)"
  by (simp_all add: entryOf_def)

lemma buildEntries_eq:
  "(\<And>p. p \<in> set ps \<Longrightarrow> 0 \<le> lp_unitCount p) \<Longrightarrow> 0 \<le> q \<Longrightarrow>
    buildEntries (fromMicros q) (map holderOf ps) = Some (map (entryOf q) (paid ps))"
  by (induction ps) (auto simp: holderOf_def entryOf_def paid_def computeEntryAmount_eq)

text \<open>What is stored of an entry.\<close>

definition entryFor :: "int \<Rightarrow> ledgerPosition \<Rightarrow> distributionEntry \<Rightarrow> bool" where
  "entryFor q p e \<longleftrightarrow> de_positionId e = lp_id p \<and> de_unitCountAtRecordDate e = lp_unitCount p \<and>
     de_amountEurc e = lp_unitCount p * q div 1000000 \<and> Some (de_destinationWalletAddress e) = lp_holderWalletAddress p"

lemma newEntries_eq:
  assumes "\<And>p. p \<in> set ps \<Longrightarrow> 0 \<le> lp_unitCount p \<and> lp_holderWalletAddress p \<noteq> None" "0 \<le> q"
  shows "\<exists>es. newEntries ulid n (map (entryOf q) ps) = Some es \<and> list_all2 (entryFor q) ps es"
  using assms(1)
proof (induction ps arbitrary: n)
  case (Cons p ps)
  obtain es where es: "newEntries ulid (Suc n) (map (entryOf q) ps) = Some es" "list_all2 (entryFor q) ps es"
    using Cons.IH[of "Suc n"] Cons.prems by auto
  have p: "0 \<le> lp_unitCount p" "lp_holderWalletAddress p \<noteq> None" using Cons.prems by auto
  have "0 \<le> lp_unitCount p * q div 1000000" using p(1) assms(2) by (simp add: pos_imp_zdiv_nonneg_iff)
  moreover define e where "e = \<lparr>de_id = ''opdistentry_'' @ ulid n, de_positionId = lp_id p,
    de_unitCountAtRecordDate = lp_unitCount p, de_amountEurc = lp_unitCount p * q div 1000000,
    de_destinationWalletAddress = the (lp_holderWalletAddress p)\<rparr>"
  ultimately have "newEntries ulid n (map (entryOf q) (p # ps)) = Some (e # es)"
    using es(1) p(1) by (simp add: numericText_fromMicros numeric.read_decimalText)
  moreover have "entryFor q p e" using p(2) by (auto simp: entryFor_def e_def)
  ultimately show ?case using es(2) by blast
qed simp

subsection \<open>Pro-rata bounds\<close>

text \<open>The amount per unit is \<open>q = n div t\<close>; an entry is \<open>u * q div d\<close>.\<close>

lemma div_between:
  fixes x t :: int
  assumes "0 < t"
  shows "x div t * t \<le> x" "x < (x div t + 1) * t"
  using pos_mod_bound[OF assms, of x] pos_mod_sign[OF assms, of x] div_mult_mod_eq[of x t]
  unfolding distrib_right by linarith+

lemma entry_sum_le:
  assumes "\<And>u. u \<in> set us \<Longrightarrow> 0 \<le> u" "0 \<le> (q::int)" "0 < d"
  shows "sum_list (map (\<lambda>u. u * q div d) us) * d \<le> sum_list us * q"
  using assms(1)
proof (induction us)
  case (Cons u us)
  have "u * q div d * d \<le> u * q" using div_between(1)[OF assms(3)] .
  then show ?case using Cons by (simp add: algebra_simps)
qed simp

lemma share_bounds:
  fixes n t u d :: int
  assumes "0 \<le> n" "0 < t" "0 \<le> u" "0 < d"
  shows "u * (n * d div t) div d * t \<le> u * n" "d * (u * n) < t * (d * (u * (n * d div t) div d + 1) + u)"
proof -
  let ?q = "n * d div t"
  let ?a = "u * ?q div d"
  have q: "?q * t \<le> n * d" "n * d < (?q + 1) * t"
    using div_between[OF assms(2)] by blast+
  have a: "?a * d \<le> u * ?q" "u * ?q < (?a + 1) * d"
    using div_between[OF assms(4)] by blast+
  have "?a * t * d = ?a * d * t" by simp
  also have "\<dots> \<le> u * ?q * t" using a(1) assms(2) by (simp add: mult_right_mono)
  also have "\<dots> = u * (?q * t)" by simp
  also have "\<dots> \<le> u * (n * d)" using q(1) assms(3) by (rule mult_left_mono)
  finally have "?a * t * d \<le> u * n * d" by (simp add: mult.assoc)
  then show "?a * t \<le> u * n" using assms(4) by (metis mult_le_cancel_right_pos)
  have "d * (u * n) = u * (n * d)" by (simp add: algebra_simps)
  also have "\<dots> \<le> u * ((?q + 1) * t)" using q(2) assms(3) by (intro mult_left_mono) simp_all
  also have "\<dots> = t * (u * ?q + u)" by (simp add: algebra_simps)
  also have "\<dots> < t * ((?a + 1) * d + u)" using a(2) assms(2) by simp
  also have "\<dots> = t * (d * (?a + 1) + u)" by (simp add: algebra_simps)
  finally show "d * (u * n) < t * (d * (?a + 1) + u)" .
qed

subsection \<open>What a calculation stores\<close>

definition periodNet :: "int \<Rightarrow> int \<Rightarrow> int \<Rightarrow> int \<Rightarrow> int" where
  "periodNet gross fee expenses reserve = max 0 (gross - fee - expenses - reserve)"

text \<open>The amount per unit, in micros of a euro per unit, for \<open>n\<close> cents and \<open>t\<close> micro-units.\<close>

definition perUnit :: "int \<Rightarrow> int \<Rightarrow> int" where
  "perUnit n t = (if t > 0 then n * 10000 * 1000000 div t else 0)"

definition payees :: "ledgerPosition list \<Rightarrow> ledgerPosition list" where
  "payees ps = (if totalUnitsOf ps > 0 then paid ps else [])"

lemma perUnit_nonneg: "0 \<le> n \<Longrightarrow> 0 \<le> perUnit n t"
  by (simp add: perUnit_def pos_imp_zdiv_nonneg_iff)

lemma fromMicros_zero: "fromMicros 0 = ''0.000000''"
  by code_simp

lemma figures_eq:
  assumes "centsText (calc_grossRentCollectedEur i) g" "centsText (calc_managementFeeEur i) f"
    "centsText (calc_otherExpensesEur i) e" "centsText (calc_reserveHoldbackEur i) r"
    "\<And>p. p \<in> set ps \<Longrightarrow> 0 \<le> lp_unitCount p"
  shows "distributionFigures i (map holderOf ps) =
    Some (fromCents (periodNet g f e r), totalUnitsOf ps, fromMicros (perUnit (periodNet g f e r) (totalUnitsOf ps)),
      map (entryOf (perUnit (periodNet g f e r) (totalUnitsOf ps))) (payees ps))"
proof -
  have net: "0 \<le> periodNet g f e r" by (simp add: periodNet_def)
  have q: "0 \<le> perUnit (periodNet g f e r) (totalUnitsOf ps)" using net by (rule perUnit_nonneg)
  show ?thesis
    using net q computeDistributableNet_eq[OF assms(1-4)] sumMicroUnits_eq[of ps, OF assms(5)]
      buildEntries_eq[of ps, OF assms(5) q] computeAmountPerUnit_eq[OF net, of "totalUnitsOf ps"]
    by (auto simp: distributionFigures_def periodNet_def[symmetric] payees_def perUnit_def fromMicros_zero)
qed

definition distributionFor ::
  "calculateInput \<Rightarrow> int \<Rightarrow> int \<Rightarrow> int \<Rightarrow> int \<Rightarrow> ledgerPosition list \<Rightarrow> operatingDistribution \<Rightarrow> bool" where
  "distributionFor i g f e r ps d \<longleftrightarrow>
     samePeriodDistribution (calc_pivId i) (calc_periodStart i) (calc_periodEnd i) d \<and>
     od_grossRentEur d = g \<and> od_managementFeeEur d = f \<and> od_otherExpensesEur d = e \<and> od_reserveHoldbackEur d = r \<and>
     od_distributableNetEur d = periodNet g f e r \<and> od_totalUnitsAtRecordDate d = totalUnitsOf ps \<and>
     od_amountPerUnitEur d = perUnit (periodNet g f e r) (totalUnitsOf ps) \<and> od_status d = ''calculated'' \<and>
     list_all2 (entryFor (perUnit (periodNet g f e r) (totalUnitsOf ps))) (payees ps) (od_entries d)"

definition figuresInput :: "calculateInput \<Rightarrow> ident \<Rightarrow> string \<Rightarrow> int \<Rightarrow> string \<Rightarrow> entryInput list \<Rightarrow> createDistributionInput" where
  "figuresInput i rid net totalUnits per entries =
    \<lparr>cdi_pivId = calc_pivId i, cdi_rentCollectionId = rid,
     cdi_periodStart = calc_periodStart i, cdi_periodEnd = calc_periodEnd i,
     cdi_recordDate = calc_periodEnd i, cdi_grossRentEur = calc_grossRentCollectedEur i,
     cdi_managementFeeEur = calc_managementFeeEur i,
     cdi_otherExpensesEur = calc_otherExpensesEur i,
     cdi_reserveHoldbackEur = calc_reserveHoldbackEur i, cdi_distributableNetEur = net,
     cdi_totalUnitsAtRecordDate = fromMicroUnits totalUnits, cdi_amountPerUnitEur = per,
     cdi_entries = entries\<rparr>"

lemma newDistribution_eq:
  assumes "centsText (calc_grossRentCollectedEur i) g" "centsText (calc_managementFeeEur i) f"
    "centsText (calc_otherExpensesEur i) e" "centsText (calc_reserveHoldbackEur i) r"
    "\<And>p. p \<in> set ps \<Longrightarrow> 0 \<le> lp_unitCount p"
  shows "\<exists>d. newDistribution ulid (figuresInput i rid (fromCents (periodNet g f e r)) (totalUnitsOf ps)
      (fromMicros (perUnit (periodNet g f e r) (totalUnitsOf ps)))
      (map (entryOf (perUnit (periodNet g f e r) (totalUnitsOf ps))) (payees ps))) n = Some d \<and>
    distributionFor i g f e r ps d \<and> od_id d = ''opdist_'' @ ulid n \<and> od_rentCollectionId d = rid"
proof -
  let ?net = "periodNet g f e r"
  let ?q = "perUnit ?net (totalUnitsOf ps)"
  have net: "0 \<le> ?net" by (simp add: periodNet_def)
  have t: "0 \<le> totalUnitsOf ps" unfolding totalUnitsOf_def using assms(5) by (intro sum_list_nonneg) auto
  have q: "0 \<le> ?q" using net by (rule perUnit_nonneg)
  obtain es where es: "newEntries ulid (Suc n) (map (entryOf ?q) (payees ps)) = Some es"
    "list_all2 (entryFor ?q) (payees ps) es"
    using newEntries_eq[of "payees ps" ?q ulid "Suc n"] assms(5) q by (auto simp: payees_def paid_def)
  show ?thesis
    using assms(1-4) centsText_fromCents[OF net] t q es
    by (auto simp: newDistribution_def figuresInput_def centsText_def fromMicroUnits_eq numericText_fromMicros
        distributionFor_def samePeriodDistribution_def)
qed

end
