(* ===== verification/RentalRuns.thy ===== *)
theory RentalRuns
  imports RentalFacts
begin

text \<open>
  Runs of the rental module: the invariant of its tables, what a calculation adds, and
  that the sweep distributes every collection on its work list.
\<close>

subsection \<open>The invariant of the tables\<close>

definition rentPeriod :: "rentCollection \<Rightarrow> ident \<times> int \<times> int" where
  "rentPeriod r = (rc_pivId r, rc_periodStart r, rc_periodEnd r)"

definition distributionOf :: "rentalStore \<Rightarrow> operatingDistribution \<Rightarrow> bool" where
  "distributionOf s d \<longleftrightarrow> (\<exists>r\<in>set (rentCollections s). rc_id r = od_rentCollectionId d \<and>
     rentPeriod r = (od_pivId d, od_periodStart d, od_periodEnd d))"

text \<open>The identifiers come from the first \<open>n\<close> draws.\<close>

definition minted :: "(nat \<Rightarrow> string) \<Rightarrow> string \<Rightarrow> nat \<Rightarrow> ident \<Rightarrow> bool" where
  "minted ulid prefix n x \<longleftrightarrow> (\<exists>m<n. x = prefix @ ulid m)"

lemma minted_mono: "minted ulid p n x \<Longrightarrow> n \<le> m \<Longrightarrow> minted ulid p m x"
  unfolding minted_def by (blast intro: less_le_trans)

lemma minted_next [simp]: "minted ulid p (Suc (n + k)) (p @ ulid n)"
  unfolding minted_def by (intro exI[of _ n]) simp

lemma minted_fresh: "inj ulid \<Longrightarrow> minted ulid p n x \<Longrightarrow> x \<noteq> p @ ulid n"
  by (auto simp: minted_def inj_def)

definition rentalOk :: "(nat \<Rightarrow> string) \<Rightarrow> rentalStore \<Rightarrow> bool" where
  "rentalOk ulid s \<longleftrightarrow> distinct (map rc_id (rentCollections s)) \<and> distinct (map rentPeriod (rentCollections s)) \<and>
     (\<forall>r\<in>set (rentCollections s). 0 \<le> rc_grossRentCollectedEur r \<and> rc_pivId r \<in> set (knownPivs s) \<and>
        minted ulid ''rntcol_'' (rental_ulids s) (rc_id r)) \<and>
     (\<forall>d\<in>set (distributions s). distributionOf s d \<and> minted ulid ''opdist_'' (rental_ulids s) (od_id d)) \<and>
     distinct (map od_rentCollectionId (distributions s)) \<and>
     unitsOk s \<and> distinct (map lp_id (ledgerPositions s))"

definition emptyRental :: rentalStore where
  "emptyRental = \<lparr>rentCollections = [], distributions = [], ledgerPositions = [], knownPivs = [],
     knownAccounts = [], rental_ulids = 0\<rparr>"

text \<open>The inputs of a calculation are amounts with two decimals.\<close>

definition calculateInputOk :: "calculateInput \<Rightarrow> bool" where
  "calculateInputOk i \<longleftrightarrow> currency_pattern (calc_grossRentCollectedEur i) \<and> currency_pattern (calc_managementFeeEur i) \<and>
     currency_pattern (calc_otherExpensesEur i) \<and> currency_pattern (calc_reserveHoldbackEur i)"

text \<open>The settlement module changes the positions; vehicles and accounts are only added.\<close>

inductive rentalStep :: "(nat \<Rightarrow> string) \<Rightarrow> rentalStore \<Rightarrow> rentalStore \<Rightarrow> bool" for ulid where
  record_rent: "currency_pattern (rri_grossRentCollectedEur i) \<Longrightarrow> recordRentCollection ulid i s = Some (r, s') \<Longrightarrow>
    rentalStep ulid s s'"
| calculate: "calculateInputOk i \<Longrightarrow> rentalStep ulid s (snd (calculateOperatingDistribution ulid i s))"
| sweep: "rentalStep ulid s (snd (runOperatingDistributionSweep ulid s))"
| environment: "list_all (\<lambda>p. 0 \<le> lp_unitCount p) ps \<Longrightarrow> distinct (map lp_id ps) \<Longrightarrow>
    set (knownPivs s) \<subseteq> set pivs \<Longrightarrow>
    rentalStep ulid s (s\<lparr>ledgerPositions := ps, knownPivs := pivs, knownAccounts := accounts\<rparr>)"

definition rentalReachable :: "(nat \<Rightarrow> string) \<Rightarrow> rentalStore \<Rightarrow> bool" where
  "rentalReachable ulid s \<longleftrightarrow> (rentalStep ulid)\<^sup>*\<^sup>* emptyRental s"

lemma find_rent:
  assumes "rentalOk ulid s" "r \<in> set (rentCollections s)"
  shows "find (samePeriodRent (rc_pivId r) (rc_periodStart r) (rc_periodEnd r)) (rentCollections s) = Some r"
proof -
  have "samePeriodRent (rc_pivId r) (rc_periodStart r) (rc_periodEnd r) = (\<lambda>x. rentPeriod x = rentPeriod r)"
    by (auto simp: samePeriodRent_def rentPeriod_def fun_eq_iff)
  then show ?thesis using find_key_distinct[of rentPeriod "rentCollections s" r] assms by (simp add: rentalOk_def)
qed

lemma find_rent_Some:
  "find (samePeriodRent a b c) t = Some r \<Longrightarrow> r \<in> set t \<and> rentPeriod r = (a, b, c)"
  by (auto dest!: find_Some_in simp: samePeriodRent_def rentPeriod_def)

lemma record_rent_ok:
  assumes "rentalOk ulid s" "currency_pattern (rri_grossRentCollectedEur i)"
    "recordRentCollection ulid i s = Some (rec, s')"
  shows "rentalOk ulid s' \<and> distributions s' = distributions s \<and> ledgerPositions s' = ledgerPositions s \<and>
    (\<exists>r\<in>set (rentCollections s'). rec = toRentCollectionRecord r \<and>
       rentPeriod r = (rri_pivId i, rri_periodStart i, rri_periodEnd i))"
proof -
  obtain g where g: "numericText 2 (rri_grossRentCollectedEur i) = Some g" "0 \<le> g"
    using centsText_pattern[OF assms(2)] by (auto simp: centsText_def)
  define row where "row = \<lparr>rc_id = ''rntcol_'' @ ulid (rental_ulids s), rc_pivId = rri_pivId i,
      rc_periodStart = rri_periodStart i, rc_periodEnd = rri_periodEnd i,
      rc_grossRentCollectedEur = g, rc_recordedBy = rri_recordedBy i, rc_notes = rri_notes i\<rparr>"
  have s': "s' = s\<lparr>rentCollections := rentCollections s @ [row], rental_ulids := Suc (rental_ulids s)\<rparr>"
    "rec = toRentCollectionRecord row" "rri_pivId i \<in> set (knownPivs s)"
    "\<not> list_ex (\<lambda>r. rc_id r = rc_id row \<or> samePeriodRent (rri_pivId i) (rri_periodStart i) (rri_periodEnd i) r) (rentCollections s)"
    using assms(3) g(1) by (auto simp: recordRentCollection_def row_def Let_def split: if_splits)
  have new: "rc_id row \<notin> rc_id ` set (rentCollections s)" "rentPeriod row \<notin> rentPeriod ` set (rentCollections s)"
    using s'(4) by (auto simp: list_ex_iff samePeriodRent_def rentPeriod_def row_def)
  have "distributionOf s' d" if "distributionOf s d" for d using that by (auto simp: distributionOf_def s'(1))
  moreover have "minted ulid p (rental_ulids s') x" if "minted ulid p (rental_ulids s) x" for p x
    using that by (rule minted_mono) (simp add: s'(1))
  moreover have "minted ulid ''rntcol_'' (rental_ulids s') (rc_id row)"
    using minted_next[of ulid "''rntcol_''" "rental_ulids s" 0] by (simp add: s'(1) row_def)
  ultimately have "rentalOk ulid s'" using assms(1) new g(2) s'(3) unfolding rentalOk_def
    by (auto simp: s'(1) unitsOk_def row_def)
  then show ?thesis using s'(1,2) by (auto simp: rentPeriod_def row_def)
qed

lemma ensure_ok:
  assumes "rentalOk ulid s" "currency_pattern (calc_grossRentCollectedEur i) \<or>
      findRentCollection (calc_pivId i) (calc_periodStart i) (calc_periodEnd i) s \<noteq> None"
    "ensureRentCollection ulid i s = Some (rec, s1)"
  shows "rentalOk ulid s1 \<and> distributions s1 = distributions s \<and> ledgerPositions s1 = ledgerPositions s \<and>
    (findRentCollection (calc_pivId i) (calc_periodStart i) (calc_periodEnd i) s \<noteq> None \<longrightarrow> s1 = s) \<and>
    (\<exists>r\<in>set (rentCollections s1). rec = toRentCollectionRecord r \<and>
       rentPeriod r = (calc_pivId i, calc_periodStart i, calc_periodEnd i))"
proof (cases "findRentCollection (calc_pivId i) (calc_periodStart i) (calc_periodEnd i) s")
  case None
  let ?i = "\<lparr>rri_pivId = calc_pivId i, rri_periodStart = calc_periodStart i,
         rri_periodEnd = calc_periodEnd i, rri_grossRentCollectedEur = calc_grossRentCollectedEur i,
         rri_recordedBy = calc_recordedBy i, rri_notes = calc_notes i\<rparr>"
  have r: "recordRentCollection ulid ?i s = Some (rec, s1)" using assms(3) None by (simp add: ensureRentCollection_def)
  from record_rent_ok[OF assms(1) _ r] show ?thesis using assms(2) None by simp
next
  case (Some r)
  then have eq: "rec = r" "s1 = s" using assms(3) by (simp_all add: ensureRentCollection_def)
  obtain z where "find (samePeriodRent (calc_pivId i) (calc_periodStart i) (calc_periodEnd i)) (rentCollections s) = Some z"
    "r = toRentCollectionRecord z" using Some by (auto simp: findRentCollection_def)
  then show ?thesis using find_rent_Some[of _ _ _ "rentCollections s" z] assms(1) eq by blast
qed

text \<open>A calculation finds the period's distribution, fails, or adds one.\<close>

lemma calculate_cases:
  obtains (existing) d where "find (samePeriodDistribution (calc_pivId i) (calc_periodStart i) (calc_periodEnd i))
        (distributions s) = Some d"
      "calculateOperatingDistribution ulid i s = (Inr \<lparr>cdr_operatingDistributionId = od_id d,
         cdr_distributableNetEur = decimalText 2 (od_distributableNetEur d),
         cdr_amountPerUnitEur = decimalText 6 (od_amountPerUnitEur d), cdr_entriesCreated = length (od_entries d),
         cdr_skippedNoWalletPositionIds = [], cdr_alreadyCalculated = True\<rparr>, s)"
  | (norent) "find (samePeriodDistribution (calc_pivId i) (calc_periodStart i) (calc_periodEnd i)) (distributions s) = None"
      "ensureRentCollection ulid i s = None" "calculateOperatingDistribution ulid i s = (Inl OtherError, s)"
  | (failed) rec s1 where
      "find (samePeriodDistribution (calc_pivId i) (calc_periodStart i) (calc_periodEnd i)) (distributions s) = None"
      "ensureRentCollection ulid i s = Some (rec, s1)"
      "distributionFigures i (listActivePositionHolders (calc_pivId i) s1) = None"
      "calculateOperatingDistribution ulid i s = (Inl OtherError, s1)"
  | (refused) rec s1 net t per es where
      "find (samePeriodDistribution (calc_pivId i) (calc_periodStart i) (calc_periodEnd i)) (distributions s) = None"
      "ensureRentCollection ulid i s = Some (rec, s1)"
      "distributionFigures i (listActivePositionHolders (calc_pivId i) s1) = Some (net, t, per, es)"
      "createOperatingDistribution ulid (figuresInput i (rcr_id rec) net t per es) s1 = None"
      "calculateOperatingDistribution ulid i s = (Inl OtherError, s1)"
  | (created) rec s1 net t per es did s2 where
      "find (samePeriodDistribution (calc_pivId i) (calc_periodStart i) (calc_periodEnd i)) (distributions s) = None"
      "ensureRentCollection ulid i s = Some (rec, s1)"
      "distributionFigures i (listActivePositionHolders (calc_pivId i) s1) = Some (net, t, per, es)"
      "createOperatingDistribution ulid (figuresInput i (rcr_id rec) net t per es) s1 = Some (did, s2)"
      "calculateOperatingDistribution ulid i s = (Inr \<lparr>cdr_operatingDistributionId = did, cdr_distributableNetEur = net,
         cdr_amountPerUnitEur = per, cdr_entriesCreated = length es,
         cdr_skippedNoWalletPositionIds = skippedHolders t (listActivePositionHolders (calc_pivId i) s1),
         cdr_alreadyCalculated = False\<rparr>, s2)"
proof (cases "find (samePeriodDistribution (calc_pivId i) (calc_periodStart i) (calc_periodEnd i)) (distributions s)")
  case (Some d)
  then show ?thesis by (intro existing) (simp_all add: calculateOperatingDistribution_def findDistribution_def)
next
  case None
  then have nf: "findDistribution (calc_pivId i) (calc_periodStart i) (calc_periodEnd i) s = None"
    by (simp add: findDistribution_def)
  show ?thesis
  proof (cases "ensureRentCollection ulid i s")
    case None': None
    show ?thesis using None None' nf by (intro norent) (simp_all add: calculateOperatingDistribution_def)
  next
    case (Some p)
    obtain rec s1 where p: "ensureRentCollection ulid i s = Some (rec, s1)" using Some by (cases p) simp
    show ?thesis
    proof (cases "distributionFigures i (listActivePositionHolders (calc_pivId i) s1)")
      case None'': None
      show ?thesis using None None'' p nf by (intro failed) (simp_all add: calculateOperatingDistribution_def)
    next
      case (Some q)
      obtain net t per es where q: "distributionFigures i (listActivePositionHolders (calc_pivId i) s1) = Some (net, t, per, es)"
        using Some by (cases q) simp
      show ?thesis
      proof (cases "createOperatingDistribution ulid (figuresInput i (rcr_id rec) net t per es) s1")
        case n: None
        show ?thesis using None p q nf n
          by (intro refused) (simp_all add: calculateOperatingDistribution_def figuresInput_def)
      next
        case (Some c)
        obtain did s2 where c: "createOperatingDistribution ulid (figuresInput i (rcr_id rec) net t per es) s1 = Some (did, s2)"
          using Some by (cases c) simp
        show ?thesis using None p q nf c
          by (intro created) (simp_all add: calculateOperatingDistribution_def figuresInput_def)
      qed
    qed
  qed
qed

lemma create_distribution:
  assumes "createOperatingDistribution ulid i s = Some (did, s')"
  obtains d where "newDistribution ulid i (rental_ulids s) = Some d" "did = od_id d"
    "s' = s\<lparr>distributions := distributions s @ [d], rental_ulids := Suc (rental_ulids s + length (od_entries d))\<rparr>"
    "\<forall>x\<in>set (distributions s). od_rentCollectionId x \<noteq> od_rentCollectionId d"
  using assms by (auto simp: createOperatingDistribution_def list_ex_iff split: option.splits if_splits)

lemma newDistribution_keys:
  assumes "newDistribution ulid i n = Some d"
  shows "od_id d = ''opdist_'' @ ulid n \<and> od_rentCollectionId d = cdi_rentCollectionId i \<and> od_pivId d = cdi_pivId i \<and>
    od_periodStart d = cdi_periodStart i \<and> od_periodEnd d = cdi_periodEnd i"
  using assms by (auto simp: newDistribution_def split: option.splits)

lemma calculate_rentalOk:
  assumes "rentalOk ulid s" "currency_pattern (calc_grossRentCollectedEur i) \<or>
      findRentCollection (calc_pivId i) (calc_periodStart i) (calc_periodEnd i) s \<noteq> None"
  shows "rentalOk ulid (snd (calculateOperatingDistribution ulid i s))"
proof (cases rule: calculate_cases[of i s ulid])
  case (created rec s1 net t per es did s2)
  note e = ensure_ok[OF assms(1,2) created(2)]
  obtain d where d: "newDistribution ulid (figuresInput i (rcr_id rec) net t per es) (rental_ulids s1) = Some d"
    "s2 = s1\<lparr>distributions := distributions s1 @ [d], rental_ulids := Suc (rental_ulids s1 + length (od_entries d))\<rparr>"
    "\<forall>x\<in>set (distributions s1). od_rentCollectionId x \<noteq> od_rentCollectionId d"
    using created(4) by (rule create_distribution) blast
  have ids: "minted ulid ''opdist_'' (rental_ulids s2) (od_id d)"
    using newDistribution_keys[OF d(1)] minted_next[of ulid "''opdist_''" "rental_ulids s1"] by (simp add: d(2))
  have mono: "minted ulid p (rental_ulids s2) x" if "minted ulid p (rental_ulids s1) x" for p x
    using that by (rule minted_mono) (simp add: d(2))
  have "distributionOf s2 x" if "distributionOf s1 x" for x using that by (auto simp: distributionOf_def d(2))
  moreover have "distributionOf s2 d"
    using e newDistribution_keys[OF d(1)]
    by (auto simp: distributionOf_def d(2) figuresInput_def toRentCollectionRecord_def)
  ultimately have "rentalOk ulid s2"
    using e d(3) ids mono unfolding rentalOk_def by (auto simp: d(2) unitsOk_def)
  then show ?thesis using created(5) by simp
qed (use assms ensure_ok[OF assms(1,2)] in auto)

subsection \<open>The sweep\<close>

definition pendingRent :: "rentalStore \<Rightarrow> rentCollection \<Rightarrow> bool" where
  "pendingRent s r \<longleftrightarrow> (\<forall>d\<in>set (distributions s). od_rentCollectionId d \<noteq> rc_id r)"

lemma listAwaiting_eq:
  "listRentCollectionsAwaitingDistribution s = map toRentCollectionRecord (filter (pendingRent s) (rentCollections s))"
  by (simp add: listRentCollectionsAwaitingDistribution_def pendingRent_def[abs_def])

lemma entryFor_positions: "list_all2 (entryFor q) ps es \<Longrightarrow> map de_positionId es = map lp_id ps"
  by (induction rule: list_all2_induct) (auto simp: entryFor_def)

lemma period_rent_unique:
  assumes "rentalOk ulid s" "r \<in> set (rentCollections s)" "pendingRent s r"
  shows "find (samePeriodDistribution (rc_pivId r) (rc_periodStart r) (rc_periodEnd r)) (distributions s) = None"
proof (rule ccontr)
  assume "find (samePeriodDistribution (rc_pivId r) (rc_periodStart r) (rc_periodEnd r)) (distributions s) \<noteq> None"
  then obtain d where d: "d \<in> set (distributions s)" "od_pivId d = rc_pivId r" "od_periodStart d = rc_periodStart r"
      "od_periodEnd d = rc_periodEnd r"
    by (auto simp: find_None_iff samePeriodDistribution_def)
  then obtain r' where r': "r' \<in> set (rentCollections s)" "rc_id r' = od_rentCollectionId d" "rentPeriod r' = rentPeriod r"
    using assms(1) by (fastforce simp: rentalOk_def distributionOf_def rentPeriod_def)
  have "r' = r" using r'(1,3) assms(1,2) by (auto simp: rentalOk_def distinct_map inj_on_def)
  then show False using r'(2) d(1) assms(3) by (auto simp: pendingRent_def)
qed

lemma pending_distribution_fits:
  assumes "rentalOk ulid s" "inj ulid" "r \<in> set (rentCollections s)" "pendingRent s r"
    "od_id d = ''opdist_'' @ ulid (rental_ulids s)" "od_rentCollectionId d = rc_id r"
    "(od_pivId d, od_periodStart d, od_periodEnd d) = rentPeriod r"
    "list_all2 (entryFor q) (payees (activePositions (rc_pivId r) s)) (od_entries d)"
    "newDistribution ulid i (rental_ulids s) = Some d"
  shows "createOperatingDistribution ulid i s = Some (od_id d, s\<lparr>distributions := distributions s @ [d],
    rental_ulids := Suc (rental_ulids s + length (od_entries d))\<rparr>)"
proof -
  have "\<not> samePeriodDistribution (rc_pivId r) (rc_periodStart r) (rc_periodEnd r) x" if "x \<in> set (distributions s)" for x
    using period_rent_unique[OF assms(1,3,4)] that by (auto simp: find_None_iff)
  moreover have "od_id x \<noteq> od_id d" if "x \<in> set (distributions s)" for x
    using minted_fresh[OF assms(2)] assms(1,5) that unfolding rentalOk_def by metis
  ultimately have "\<not> list_ex (\<lambda>x. od_id x = od_id d \<or> od_rentCollectionId x = od_rentCollectionId d \<or>
            samePeriodDistribution (od_pivId d) (od_periodStart d) (od_periodEnd d) x) (distributions s)"
    using assms(4,6,7) by (auto simp: list_ex_iff pendingRent_def rentPeriod_def)
  moreover have "list_ex (\<lambda>x. rc_id x = od_rentCollectionId d) (rentCollections s)"
    using assms(3,6) by (auto simp: list_ex_iff)
  moreover have "od_pivId d \<in> set (knownPivs s)" using assms(1,3,7) by (auto simp: rentalOk_def rentPeriod_def)
  moreover have "distinct (map de_positionId (od_entries d))"
    using assms(1) entryFor_positions[OF assms(8)]
    by (auto simp: rentalOk_def payees_def paid_def activePositions_def distinct_map_filter)
  ultimately show ?thesis using assms(9) by (simp add: createOperatingDistribution_def)
qed

text \<open>For a collection without a distribution the figures exist and the transaction commits.\<close>

lemma pending_create:
  assumes "rentalOk ulid s" "inj ulid" "r \<in> set (rentCollections s)" "pendingRent s r"
    and cents: "centsText (calc_grossRentCollectedEur i) g" "centsText (calc_managementFeeEur i) f"
      "centsText (calc_otherExpensesEur i) e" "centsText (calc_reserveHoldbackEur i) h"
    and period: "(calc_pivId i, calc_periodStart i, calc_periodEnd i) = rentPeriod r"
  obtains net t per es d where "distributionFigures i (listActivePositionHolders (calc_pivId i) s) = Some (net, t, per, es)"
    "createOperatingDistribution ulid (figuresInput i (rc_id r) net t per es) s = Some (od_id d,
       s\<lparr>distributions := distributions s @ [d], rental_ulids := Suc (rental_ulids s + length (od_entries d))\<rparr>)"
    "distributionFor i g f e h (activePositions (calc_pivId i) s) d" "od_rentCollectionId d = rc_id r"
proof -
  let ?ps = "activePositions (calc_pivId i) s"
  let ?net = "periodNet g f e h"
  let ?q = "perUnit ?net (totalUnitsOf ?ps)"
  have units: "0 \<le> lp_unitCount p" if "p \<in> set ?ps" for p
    using activePositions_units that assms(1) by (auto simp: rentalOk_def)
  have fig: "distributionFigures i (listActivePositionHolders (calc_pivId i) s) =
      Some (fromCents ?net, totalUnitsOf ?ps, fromMicros ?q, map (entryOf ?q) (payees ?ps))"
    using figures_eq[OF cents units] by (simp add: listActivePositionHolders_eq)
  obtain d where d: "newDistribution ulid (figuresInput i (rc_id r) (fromCents ?net) (totalUnitsOf ?ps) (fromMicros ?q)
      (map (entryOf ?q) (payees ?ps))) (rental_ulids s) = Some d"
      "distributionFor i g f e h ?ps d" "od_id d = ''opdist_'' @ ulid (rental_ulids s)"
      "od_rentCollectionId d = rc_id r"
    using newDistribution_eq[OF cents units] by blast
  have same: "(od_pivId d, od_periodStart d, od_periodEnd d) = rentPeriod r"
    using d(2) period by (simp add: distributionFor_def samePeriodDistribution_def)
  have "calc_pivId i = rc_pivId r" using period by (simp add: rentPeriod_def)
  then have entries: "list_all2 (entryFor ?q) (payees (activePositions (rc_pivId r) s)) (od_entries d)"
    using d(2) by (simp add: distributionFor_def)
  show thesis
    by (rule that[OF fig pending_distribution_fits[OF assms(1-4) d(3,4) same entries d(1)] d(2,4)])
qed

lemma pending_calculate:
  assumes "rentalOk ulid s" "inj ulid" "r \<in> set (rentCollections s)" "pendingRent s r"
    "centsText (calc_grossRentCollectedEur i) g" "centsText (calc_managementFeeEur i) f"
    "centsText (calc_otherExpensesEur i) e" "centsText (calc_reserveHoldbackEur i) h"
    "(calc_pivId i, calc_periodStart i, calc_periodEnd i) = rentPeriod r"
  shows "\<exists>res d s'. calculateOperatingDistribution ulid i s = (Inr res, s') \<and>
    \<not> cdr_alreadyCalculated res \<and> distributions s' = distributions s @ [d] \<and> od_rentCollectionId d = rc_id r \<and>
    rentCollections s' = rentCollections s \<and> rentalOk ulid s' \<and>
    distributionFor i g f e h (activePositions (calc_pivId i) s) d"
proof -
  have fields: "calc_pivId i = rc_pivId r" "calc_periodStart i = rc_periodStart r" "calc_periodEnd i = rc_periodEnd r"
    using assms(9) by (simp_all add: rentPeriod_def)
  have found: "findRentCollection (calc_pivId i) (calc_periodStart i) (calc_periodEnd i) s = Some (toRentCollectionRecord r)"
    using find_rent[OF assms(1,3)] by (simp add: findRentCollection_def fields)
  have ensure: "ensureRentCollection ulid i s = Some (toRentCollectionRecord r, s)"
    using found by (simp add: ensureRentCollection_def)
  have none: "find (samePeriodDistribution (calc_pivId i) (calc_periodStart i) (calc_periodEnd i)) (distributions s) = None"
    using period_rent_unique[OF assms(1,3,4)] by (simp add: fields)
  have rid: "rcr_id (toRentCollectionRecord r) = rc_id r" by (simp add: toRentCollectionRecord_def)
  obtain net t per es d where n: "distributionFigures i (listActivePositionHolders (calc_pivId i) s) = Some (net, t, per, es)"
    "createOperatingDistribution ulid (figuresInput i (rc_id r) net t per es) s = Some (od_id d,
       s\<lparr>distributions := distributions s @ [d], rental_ulids := Suc (rental_ulids s + length (od_entries d))\<rparr>)"
    "distributionFor i g f e h (activePositions (calc_pivId i) s) d" "od_rentCollectionId d = rc_id r"
    by (rule pending_create[OF assms])
  have ok: "rentalOk ulid (snd (calculateOperatingDistribution ulid i s))"
    using calculate_rentalOk[OF assms(1)] found by simp
  show ?thesis
  proof (cases rule: calculate_cases[of i s ulid])
    case (created rec s1 net' t' per' es' did s2)
    have "s2 = s\<lparr>distributions := distributions s @ [d], rental_ulids := Suc (rental_ulids s + length (od_entries d))\<rparr>"
      using created(2-4) ensure n(1,2) rid by simp
    then show ?thesis using created(5) ok n(3,4) by simp
  qed (use none ensure n(1,2) rid in auto)
qed

subsection \<open>Conservation\<close>

text \<open>What every stored distribution satisfies: the net is what remains of the rent (not below zero), the
  entries together do not exceed it, and every entry is its holder's exact share, rounded down by less than
  one micro-euro plus one micro-euro per unit.\<close>

definition conserved :: "operatingDistribution \<Rightarrow> bool" where
  "conserved d \<longleftrightarrow>
     od_distributableNetEur d = max 0 (od_grossRentEur d - od_managementFeeEur d - od_otherExpensesEur d - od_reserveHoldbackEur d) \<and>
     sum_list (map de_amountEurc (od_entries d)) \<le> od_distributableNetEur d * 10000"

definition proRata :: "operatingDistribution \<Rightarrow> distributionEntry \<Rightarrow> bool" where
  "proRata d e \<longleftrightarrow>
     (let share = de_unitCountAtRecordDate e * (od_distributableNetEur d * 10000); t = od_totalUnitsAtRecordDate d in
      0 \<le> de_amountEurc e \<and> de_amountEurc e * t \<le> share \<and>
      1000000 * share < t * (1000000 * (de_amountEurc e + 1) + de_unitCountAtRecordDate e))"

lemma entryFor_amounts:
  "list_all2 (entryFor q) ps es \<Longrightarrow> map de_amountEurc es = map (\<lambda>u. u * q div 1000000) (map lp_unitCount ps)"
  by (induction rule: list_all2_induct) (auto simp: entryFor_def)

lemma sum_filter_le: "(\<And>x. x \<in> set xs \<Longrightarrow> 0 \<le> f x) \<Longrightarrow> sum_list (map f (filter P xs)) \<le> sum_list (map f xs)"
  for f :: "'a \<Rightarrow> int"
  by (induction xs) (auto intro: add_increasing)

lemma payees_units_le:
  assumes "\<And>p. p \<in> set ps \<Longrightarrow> 0 \<le> lp_unitCount p"
  shows "sum_list (map lp_unitCount (payees ps)) \<le> totalUnitsOf ps"
proof -
  have "0 \<le> totalUnitsOf ps" unfolding totalUnitsOf_def using assms by (intro sum_list_nonneg) auto
  then show ?thesis using sum_filter_le[of ps lp_unitCount, OF assms] by (simp add: payees_def paid_def totalUnitsOf_def)
qed

lemma distributionFor_conserved:
  assumes "distributionFor i g f e r ps d" "\<And>p. p \<in> set ps \<Longrightarrow> 0 \<le> lp_unitCount p"
  shows "conserved d"
proof -
  define n where "n = periodNet g f e r"
  define t where "t = totalUnitsOf ps"
  define q where "q = perUnit n t"
  have n: "0 \<le> n" by (simp add: n_def periodNet_def)
  have q: "0 \<le> q" using n unfolding q_def by (rule perUnit_nonneg)
  have d: "list_all2 (entryFor q) (payees ps) (od_entries d)" "od_distributableNetEur d = n"
    "n = max 0 (od_grossRentEur d - od_managementFeeEur d - od_otherExpensesEur d - od_reserveHoldbackEur d)"
    using assms(1) by (simp_all add: distributionFor_def n_def t_def q_def periodNet_def)
  have units: "\<And>u. u \<in> set (map lp_unitCount (payees ps)) \<Longrightarrow> 0 \<le> u"
    using assms(2) by (auto simp: payees_def paid_def split: if_splits)
  have "sum_list (map de_amountEurc (od_entries d)) * 1000000 \<le> sum_list (map lp_unitCount (payees ps)) * q"
    using entry_sum_le[of "map lp_unitCount (payees ps)" q 1000000, OF units q] unfolding entryFor_amounts[OF d(1)] by simp
  also have "\<dots> \<le> t * q" using payees_units_le[OF assms(2)] q unfolding t_def by (intro mult_right_mono) auto
  also have "\<dots> \<le> n * 10000 * 1000000"
    using n div_between(1)[of t "n * 10000 * 1000000"] by (simp add: q_def perUnit_def mult.commute)
  finally show ?thesis using d(2,3) by (simp add: conserved_def)
qed

lemma distributionFor_proRata:
  assumes "distributionFor i g f e r ps d" "\<And>p. p \<in> set ps \<Longrightarrow> 0 \<le> lp_unitCount p" "x \<in> set (od_entries d)"
  shows "proRata d x"
proof -
  define n where "n = periodNet g f e r"
  define t where "t = totalUnitsOf ps"
  have n: "0 \<le> n * 10000" by (simp add: n_def periodNet_def)
  have d: "list_all2 (entryFor (perUnit n t)) (payees ps) (od_entries d)" "od_distributableNetEur d = n"
    "od_totalUnitsAtRecordDate d = t"
    using assms(1) by (simp_all add: distributionFor_def n_def t_def)
  obtain p where p: "p \<in> set (payees ps)" "entryFor (perUnit n t) p x"
    using d(1) assms(3) by (metis in_set_conv_nth list_all2_conv_all_nth)
  have t: "0 < t" and u: "0 \<le> lp_unitCount p"
    using p(1) assms(2) by (auto simp: payees_def paid_def t_def split: if_splits)
  have "de_amountEurc x = lp_unitCount p * (n * 10000 * 1000000 div t) div 1000000" "de_unitCountAtRecordDate x = lp_unitCount p"
    using p(2) t by (simp_all add: entryFor_def perUnit_def)
  moreover have "0 \<le> n * 10000 * 1000000 div t" using n t by (simp add: pos_imp_zdiv_nonneg_iff)
  ultimately show ?thesis using share_bounds[OF n t u, of 1000000] u d(2,3)
    by (simp add: proRata_def pos_imp_zdiv_nonneg_iff)
qed

text \<open>The two conditions a calculation is run under: amounts of two decimals, or the sweep's own input.\<close>

lemma calculate_effect:
  assumes "rentalOk ulid s" "centsText (calc_grossRentCollectedEur i) g" "centsText (calc_managementFeeEur i) f"
    "centsText (calc_otherExpensesEur i) e" "centsText (calc_reserveHoldbackEur i) r"
    "currency_pattern (calc_grossRentCollectedEur i) \<or>
       findRentCollection (calc_pivId i) (calc_periodStart i) (calc_periodEnd i) s \<noteq> None"
    "calculateOperatingDistribution ulid i s = (out, s')"
  shows "(distributions s' = distributions s \<and> ((\<exists>x. out = Inr x) \<longrightarrow> s' = s)) \<or>
    (\<exists>d. distributions s' = distributions s @ [d] \<and> out \<noteq> Inl OtherError \<and>
       distributionFor i g f e r (activePositions (calc_pivId i) s) d)"
proof (cases rule: calculate_cases[of i s ulid])
  case (created rec s1 net t per es did s2)
  note en = ensure_ok[OF assms(1,6) created(2)]
  let ?ps = "activePositions (calc_pivId i) s"
  have units: "0 \<le> lp_unitCount p" if "p \<in> set ?ps" for p
    using activePositions_units that assms(1) by (auto simp: rentalOk_def)
  have ps: "listActivePositionHolders (calc_pivId i) s1 = map holderOf ?ps"
    using en by (simp add: listActivePositionHolders_eq activePositions_def)
  obtain d where d: "newDistribution ulid (figuresInput i (rcr_id rec) net t per es) (rental_ulids s1) = Some d"
    "s2 = s1\<lparr>distributions := distributions s1 @ [d], rental_ulids := Suc (rental_ulids s1 + length (od_entries d))\<rparr>"
    using created(4) by (rule create_distribution) blast
  have fig: "net = fromCents (periodNet g f e r)" "t = totalUnitsOf ?ps"
      "per = fromMicros (perUnit (periodNet g f e r) (totalUnitsOf ?ps))"
      "es = map (entryOf (perUnit (periodNet g f e r) (totalUnitsOf ?ps))) (payees ?ps)"
    using figures_eq[OF assms(2-5) units] created(3) unfolding ps by auto
  obtain d' where "newDistribution ulid (figuresInput i (rcr_id rec) net t per es) (rental_ulids s1) = Some d'"
      "distributionFor i g f e r ?ps d'"
    using newDistribution_eq[of i g f e r ?ps ulid "rcr_id rec" "rental_ulids s1", OF assms(2-5) units] unfolding fig by blast
  then have "distributionFor i g f e r ?ps d" using d(1) by simp
  then show ?thesis using en d(2) created(5) assms(7) by auto
qed (use assms(7) ensure_ok[OF assms(1,6)] in auto)

subsection \<open>The invariant over runs\<close>

definition rentalInv :: "(nat \<Rightarrow> string) \<Rightarrow> rentalStore \<Rightarrow> bool" where
  "rentalInv ulid s \<longleftrightarrow> rentalOk ulid s \<and> (\<forall>d\<in>set (distributions s). conserved d \<and> (\<forall>e\<in>set (od_entries d). proRata d e))"

lemma calculate_rentalInv:
  assumes "rentalInv ulid s" "centsText (calc_grossRentCollectedEur i) g" "centsText (calc_managementFeeEur i) f"
    "centsText (calc_otherExpensesEur i) e" "centsText (calc_reserveHoldbackEur i) r"
    "currency_pattern (calc_grossRentCollectedEur i) \<or>
       findRentCollection (calc_pivId i) (calc_periodStart i) (calc_periodEnd i) s \<noteq> None"
  shows "rentalInv ulid (snd (calculateOperatingDistribution ulid i s))"
proof -
  have ok: "rentalOk ulid s" using assms(1) by (simp add: rentalInv_def)
  obtain out s' where c: "calculateOperatingDistribution ulid i s = (out, s')" by fastforce
  have units: "0 \<le> lp_unitCount p" if "p \<in> set (activePositions (calc_pivId i) s)" for p
    using activePositions_units that ok by (auto simp: rentalOk_def)
  have "rentalOk ulid s'" using calculate_rentalOk[OF ok assms(6)] c by simp
  moreover have "conserved d \<and> (\<forall>x\<in>set (od_entries d). proRata d x)" if d: "d \<in> set (distributions s')" for d
  proof (cases "d \<in> set (distributions s)")
    case False
    then have "distributionFor i g f e r (activePositions (calc_pivId i) s) d"
      using calculate_effect[OF ok assms(2-6) c] d by auto
    then show ?thesis using distributionFor_conserved[OF _ units] distributionFor_proRata[OF _ units] by blast
  qed (use assms(1) in \<open>auto simp: rentalInv_def\<close>)
  ultimately show ?thesis using c by (simp add: rentalInv_def)
qed

lemma calculate_rents:
  assumes "findRentCollection (calc_pivId i) (calc_periodStart i) (calc_periodEnd i) s \<noteq> None"
  shows "rentCollections (snd (calculateOperatingDistribution ulid i s)) = rentCollections s"
proof (cases rule: calculate_cases[of i s ulid])
  case (created rec s1 net t per es did s2)
  then show ?thesis using assms by (elim create_distribution) (auto simp: ensureRentCollection_def)
qed (use assms in \<open>auto simp: ensureRentCollection_def\<close>)

lemma sweepInput_ok:
  assumes "rentalOk ulid s" "r \<in> set (rentCollections s)"
  shows "centsText (calc_grossRentCollectedEur (sweepInput (toRentCollectionRecord r))) (rc_grossRentCollectedEur r)"
    "centsText (calc_managementFeeEur (sweepInput (toRentCollectionRecord r))) 0"
    "centsText (calc_otherExpensesEur (sweepInput (toRentCollectionRecord r))) 0"
    "centsText (calc_reserveHoldbackEur (sweepInput (toRentCollectionRecord r))) 0"
    "(calc_pivId (sweepInput (toRentCollectionRecord r)), calc_periodStart (sweepInput (toRentCollectionRecord r)),
      calc_periodEnd (sweepInput (toRentCollectionRecord r))) = rentPeriod r"
  using assms centsText_decimalText[of "rc_grossRentCollectedEur r"] centsText_zero
  by (simp_all add: sweepInput_def toRentCollectionRecord_def rentPeriod_def rentalOk_def)

lemma sweep_calculate:
  assumes "rentalInv ulid s" "r \<in> set (rentCollections s)"
  shows "rentalInv ulid (snd (calculateOperatingDistribution ulid (sweepInput (toRentCollectionRecord r)) s)) \<and>
    rentCollections (snd (calculateOperatingDistribution ulid (sweepInput (toRentCollectionRecord r)) s)) = rentCollections s"
proof -
  let ?i = "sweepInput (toRentCollectionRecord r)"
  have ok: "rentalOk ulid s" using assms(1) by (simp add: rentalInv_def)
  have found: "findRentCollection (calc_pivId ?i) (calc_periodStart ?i) (calc_periodEnd ?i) s \<noteq> None"
    using find_rent[OF ok assms(2)] by (simp add: findRentCollection_def sweepInput_def toRentCollectionRecord_def)
  show ?thesis using calculate_rentalInv[OF assms(1) sweepInput_ok(1-4)[OF ok assms(2)]] found calculate_rents[OF found] by blast
qed

lemma sweepLoop_Cons:
  "calculateOperatingDistribution ulid (sweepInput r) s = (Inl e, s') \<Longrightarrow> sweepLoop ulid (r # rs) (s, n) = (False, s', n)"
  "calculateOperatingDistribution ulid (sweepInput r) s = (Inr res, s') \<Longrightarrow>
    sweepLoop ulid (r # rs) (s, n) = sweepLoop ulid rs (s', if cdr_alreadyCalculated res then n else Suc n)"
  by simp_all

lemma sweepLoop_rentalInv:
  "rentalInv ulid s \<Longrightarrow> set rs \<subseteq> set (rentCollections s) \<Longrightarrow>
    rentalInv ulid (fst (snd (sweepLoop ulid (map toRentCollectionRecord rs) (s, n))))"
proof (induction rs arbitrary: s n)
  case (Cons r rs)
  obtain out s' where c: "calculateOperatingDistribution ulid (sweepInput (toRentCollectionRecord r)) s = (out, s')" by fastforce
  have "rentalInv ulid s'" "rentCollections s' = rentCollections s"
    using sweep_calculate[OF Cons.prems(1), of r] Cons.prems(2) c by simp_all
  then show ?case using Cons.IH Cons.prems(2) c sweepLoop_Cons by (cases out) simp_all
qed simp

interpretation rental: invariant_system "rentalStep ulid" emptyRental "rentalInv ulid" for ulid
proof unfold_locales
  show "rentalInv ulid emptyRental" by (simp add: rentalInv_def rentalOk_def emptyRental_def unitsOk_def)
next
  fix s s' assume "rentalStep ulid s s'" "rentalInv ulid s"
  then show "rentalInv ulid s'"
  proof (induction rule: rentalStep.induct)
    case (record_rent i s r s')
    then show ?case using record_rent_ok by (metis rentalInv_def)
  next
    case (calculate i s)
    obtain g f e r where "centsText (calc_grossRentCollectedEur i) g" "centsText (calc_managementFeeEur i) f"
        "centsText (calc_otherExpensesEur i) e" "centsText (calc_reserveHoldbackEur i) r"
      using calculate(1) centsText_pattern unfolding calculateInputOk_def by metis
    then show ?case using calculate_rentalInv[OF calculate(2)] calculate(1) by (simp add: calculateInputOk_def)
  next
    case (sweep s)
    then show ?case using sweepLoop_rentalInv[of ulid s "filter (pendingRent s) (rentCollections s)" 0]
      by (auto simp: runOperatingDistributionSweep_def listAwaiting_eq Let_def split: prod.split)
  next
    case (environment ps s pivs accounts)
    then show ?case by (auto simp: rentalInv_def rentalOk_def unitsOk_def distributionOf_def list_all_iff)
  qed
qed

lemma reachable_rental: "rentalReachable ulid s \<Longrightarrow> rentalInv ulid s"
  unfolding rentalReachable_def by (rule rental.reach_inv)

lemma reachable_rentalOk: "rentalReachable ulid s \<Longrightarrow> rentalOk ulid s"
  using reachable_rental by (simp add: rentalInv_def)

text \<open>With distinct identifiers the sweep distributes every pending collection, in the order of its list.\<close>

definition distributesWhole :: "rentCollection \<Rightarrow> operatingDistribution \<Rightarrow> bool" where
  "distributesWhole r d \<longleftrightarrow> od_rentCollectionId d = rc_id r \<and>
     od_grossRentEur d = rc_grossRentCollectedEur r \<and> od_distributableNetEur d = rc_grossRentCollectedEur r"

lemma sweepLoop_completes:
  assumes "inj ulid"
  shows "rentalOk ulid s \<Longrightarrow> set rs \<subseteq> set (rentCollections s) \<Longrightarrow> distinct (map rc_id rs) \<Longrightarrow>
    \<forall>r\<in>set rs. pendingRent s r \<Longrightarrow>
    \<exists>s' ds. sweepLoop ulid (map toRentCollectionRecord rs) (s, n) = (True, s', n + length rs) \<and>
      rentCollections s' = rentCollections s \<and> distributions s' = distributions s @ ds \<and>
      list_all2 distributesWhole rs ds"
proof (induction rs arbitrary: s n)
  case (Cons r rs)
  obtain res d s1 where c: "calculateOperatingDistribution ulid (sweepInput (toRentCollectionRecord r)) s = (Inr res, s1)"
      "\<not> cdr_alreadyCalculated res" "distributions s1 = distributions s @ [d]" "od_rentCollectionId d = rc_id r"
      "rentCollections s1 = rentCollections s" "rentalOk ulid s1"
      "distributionFor (sweepInput (toRentCollectionRecord r)) (rc_grossRentCollectedEur r) 0 0 0
         (activePositions (calc_pivId (sweepInput (toRentCollectionRecord r))) s) d"
    using pending_calculate[OF Cons.prems(1) assms _ _ sweepInput_ok[OF Cons.prems(1)], of r] Cons.prems(2,4) by auto
  have "\<forall>x\<in>set rs. pendingRent s1 x" using Cons.prems(3,4) c(3,4) by (auto simp: pendingRent_def)
  then obtain s' ds where "sweepLoop ulid (map toRentCollectionRecord rs) (s1, Suc n) = (True, s', Suc n + length rs)"
      "rentCollections s' = rentCollections s1" "distributions s' = distributions s1 @ ds"
      "list_all2 distributesWhole rs ds"
    using Cons.IH[OF c(6), of "Suc n"] Cons.prems(2,3) c(5) by auto
  moreover have "distributesWhole r d"
    using c(4,7) Cons.prems(1,2) by (auto simp: distributesWhole_def distributionFor_def periodNet_def rentalOk_def)
  ultimately show ?case using c by (intro exI[of _ s'] exI[of _ "d # ds"]) (simp add: sweepLoop_Cons(2)[OF c(1)])
qed simp

subsection \<open>When a calculation fails\<close>

definition periodKnown :: "calculateInput \<Rightarrow> rentalStore \<Rightarrow> bool" where
  "periodKnown i s \<longleftrightarrow> findDistribution (calc_pivId i) (calc_periodStart i) (calc_periodEnd i) s \<noteq> None \<or>
     findRentCollection (calc_pivId i) (calc_periodStart i) (calc_periodEnd i) s \<noteq> None"

lemma record_rent_succeeds:
  assumes "rentalOk ulid s" "inj ulid" "currency_pattern (rri_grossRentCollectedEur i)"
    "findRentCollection (rri_pivId i) (rri_periodStart i) (rri_periodEnd i) s = None"
    "rri_pivId i \<in> set (knownPivs s)" "rri_recordedBy i \<in> set (knownAccounts s)"
  shows "recordRentCollection ulid i s \<noteq> None"
proof -
  obtain g where g: "numericText 2 (rri_grossRentCollectedEur i) = Some g"
    using centsText_pattern[OF assms(3)] by (auto simp: centsText_def)
  have "rc_id r \<noteq> ''rntcol_'' @ ulid (rental_ulids s)" if "r \<in> set (rentCollections s)" for r
    using minted_fresh[OF assms(2)] assms(1) that unfolding rentalOk_def by metis
  then show ?thesis using g assms(4-6)
    by (auto simp: recordRentCollection_def findRentCollection_def find_None_iff list_ex_iff Let_def)
qed

lemma new_rent_pending:
  assumes "rentalOk ulid s1" "findDistribution (calc_pivId i) (calc_periodStart i) (calc_periodEnd i) s1 = None"
    "r \<in> set (rentCollections s1)" "rentPeriod r = (calc_pivId i, calc_periodStart i, calc_periodEnd i)"
  shows "pendingRent s1 r"
  unfolding pendingRent_def
proof
  fix d assume d: "d \<in> set (distributions s1)"
  then obtain r' where r': "r' \<in> set (rentCollections s1)" "rc_id r' = od_rentCollectionId d"
      "rentPeriod r' = (od_pivId d, od_periodStart d, od_periodEnd d)"
    using assms(1) by (auto simp: rentalOk_def distributionOf_def)
  have "\<not> samePeriodDistribution (calc_pivId i) (calc_periodStart i) (calc_periodEnd i) d"
    using assms(2) d by (auto simp: findDistribution_def find_None_iff)
  then have "r' \<noteq> r" using r'(3) assms(4) by (auto simp: samePeriodDistribution_def)
  then show "od_rentCollectionId d \<noteq> rc_id r"
    using assms(1,3) r'(1,2) by (auto simp: rentalOk_def distinct_map inj_on_def)
qed

lemma calculate_succeeds:
  assumes "rentalOk ulid s" "inj ulid" "calculateInputOk i"
    "ensureRentCollection ulid i s = Some (rec, s1)"
    "findDistribution (calc_pivId i) (calc_periodStart i) (calc_periodEnd i) s = None"
  shows "\<exists>res s'. calculateOperatingDistribution ulid i s = (Inr res, s')"
proof -
  have gross: "currency_pattern (calc_grossRentCollectedEur i) \<or>
       findRentCollection (calc_pivId i) (calc_periodStart i) (calc_periodEnd i) s \<noteq> None"
    using assms(3) by (simp add: calculateInputOk_def)
  note en = ensure_ok[OF assms(1) gross assms(4)]
  then obtain r where r: "r \<in> set (rentCollections s1)" "rec = toRentCollectionRecord r"
      "rentPeriod r = (calc_pivId i, calc_periodStart i, calc_periodEnd i)" by blast
  have "pendingRent s1 r" using en assms(5) by (intro new_rent_pending[of ulid, OF _ _ r(1,3)]) (simp_all add: findDistribution_def)
  then have pending: "rentalOk ulid s1" "inj ulid" "r \<in> set (rentCollections s1)" "pendingRent s1 r"
    using en assms(2) r(1) by simp_all
  obtain g f e h where cents: "centsText (calc_grossRentCollectedEur i) g" "centsText (calc_managementFeeEur i) f"
      "centsText (calc_otherExpensesEur i) e" "centsText (calc_reserveHoldbackEur i) h"
    using assms(3) centsText_pattern unfolding calculateInputOk_def by metis
  obtain net t per es d where n:
    "distributionFigures i (listActivePositionHolders (calc_pivId i) s1) = Some (net, t, per, es)"
    "createOperatingDistribution ulid (figuresInput i (rc_id r) net t per es) s1 = Some (od_id d,
       s1\<lparr>distributions := distributions s1 @ [d], rental_ulids := Suc (rental_ulids s1 + length (od_entries d))\<rparr>)"
    by (rule pending_create[OF pending cents r(3)[symmetric]])
  have rid: "rcr_id rec = rc_id r" by (simp add: r(2) toRentCollectionRecord_def)
  show ?thesis
  proof (cases rule: calculate_cases[of i s ulid])
    case (failed rec' s1')
    then show ?thesis using n(1) assms(4) by simp
  next
    case (refused rec' s1' net' t' per' es')
    have "rec' = rec" "s1' = s1" using refused(2) assms(4) by simp_all
    then show ?thesis using refused(3,4) n rid by simp
  qed (use assms(4) in simp_all)
qed

lemma calculate_fails_iff:
  assumes "rentalOk ulid s" "inj ulid" "calculateInputOk i"
  shows "(\<exists>e. fst (calculateOperatingDistribution ulid i s) = Inl e) \<longleftrightarrow>
    \<not> periodKnown i s \<and> \<not> (calc_pivId i \<in> set (knownPivs s) \<and> calc_recordedBy i \<in> set (knownAccounts s))"
proof (cases "findDistribution (calc_pivId i) (calc_periodStart i) (calc_periodEnd i) s")
  case (Some d)
  then show ?thesis by (simp add: calculateOperatingDistribution_def periodKnown_def)
next
  case None
  show ?thesis
  proof (cases "ensureRentCollection ulid i s")
    case n: None
    then have "findRentCollection (calc_pivId i) (calc_periodStart i) (calc_periodEnd i) s = None"
      by (auto simp: ensureRentCollection_def split: option.splits)
    moreover have "\<not> (calc_pivId i \<in> set (knownPivs s) \<and> calc_recordedBy i \<in> set (knownAccounts s))"
      using record_rent_succeeds[OF assms(1,2), of "\<lparr>rri_pivId = calc_pivId i, rri_periodStart = calc_periodStart i,
         rri_periodEnd = calc_periodEnd i, rri_grossRentCollectedEur = calc_grossRentCollectedEur i,
         rri_recordedBy = calc_recordedBy i, rri_notes = calc_notes i\<rparr>"] calculation assms(3) n
      by (auto simp: ensureRentCollection_def calculateInputOk_def)
    ultimately show ?thesis using None n by (simp add: calculateOperatingDistribution_def periodKnown_def)
  next
    case (Some p)
    obtain rec s1 where p: "ensureRentCollection ulid i s = Some (rec, s1)" using Some by (cases p) simp
    then have "periodKnown i s \<or> calc_pivId i \<in> set (knownPivs s) \<and> calc_recordedBy i \<in> set (knownAccounts s)"
      by (auto simp: ensureRentCollection_def periodKnown_def recordRentCollection_def Let_def
          split: option.splits if_splits)
    then show ?thesis using calculate_succeeds[OF assms p None] by auto
  qed
qed

lemma calculate_failed_unchanged:
  assumes "rentalOk ulid s" "inj ulid" "calculateInputOk i"
    "fst (calculateOperatingDistribution ulid i s) = Inl e"
  shows "calculateOperatingDistribution ulid i s = (Inl OtherError, s)"
proof (cases rule: calculate_cases[of i s ulid])
  case (norent)
  then show ?thesis by blast
next
  case (failed rec s1)
  then show ?thesis using calculate_succeeds[OF assms(1-3) failed(2)] by (auto simp: findDistribution_def)
next
  case (refused rec s1 net t per es)
  then show ?thesis using calculate_succeeds[OF assms(1-3) refused(2)] by (auto simp: findDistribution_def)
qed (use assms(4) in auto)

end
