(* ===== verification/RentalProperties.thy ===== *)
theory RentalProperties
  imports RentalRuns
begin

text \<open>
  What operating distributions guarantee: conservation of the collected rent, pro-rata
  shares, one distribution per period, when a calculation fails, and that the sweep
  clears its work list.
\<close>

subsection \<open>A sample run\<close>

definition rentUlid :: "nat \<Rightarrow> string" where
  "rentUlid n = replicate n CHR ''a''"

definition sampleRental :: rentalStore where
  "sampleRental = emptyRental\<lparr>ledgerPositions :=
     [\<lparr>lp_id = ''p1'', lp_pivId = ''piv'', lp_unitCount = 3000000, lp_positionStatus = ''active'', lp_holderWalletAddress = Some ''0xA''\<rparr>,
      \<lparr>lp_id = ''p2'', lp_pivId = ''piv'', lp_unitCount = 4000000, lp_positionStatus = ''active'', lp_holderWalletAddress = None\<rparr>],
     knownPivs := [''piv''], knownAccounts := [''staff'']\<rparr>"

definition sampleCalculation :: calculateInput where
  "sampleCalculation = \<lparr>calc_pivId = ''piv'', calc_periodStart = 0, calc_periodEnd = 30,
     calc_grossRentCollectedEur = ''100.00'', calc_managementFeeEur = ''10.00'', calc_otherExpensesEur = ''0.00'',
     calc_reserveHoldbackEur = ''5.00'', calc_recordedBy = ''staff'', calc_notes = None\<rparr>"


definition sampleDistributed :: rentalStore where
  "sampleDistributed = snd (calculateOperatingDistribution rentUlid sampleCalculation sampleRental)"



lemma reachable_sampleRental: "rentalReachable rentUlid sampleRental"
proof -
  have "rentalStep rentUlid emptyRental (emptyRental\<lparr>ledgerPositions := ledgerPositions sampleRental,
      knownPivs := knownPivs sampleRental, knownAccounts := knownAccounts sampleRental\<rparr>)"
    by (rule rentalStep.environment) (simp_all add: sampleRental_def emptyRental_def)
  then show ?thesis unfolding rentalReachable_def by (simp add: sampleRental_def emptyRental_def r_into_rtranclp)
qed

lemma sampleCalculation_ok: "calculateInputOk sampleCalculation"
  by code_simp

lemma reachable_sampleDistributed: "rentalReachable rentUlid sampleDistributed"
  using reachable_sampleRental rentalStep.calculate[OF sampleCalculation_ok]
  unfolding rentalReachable_def sampleDistributed_def by (meson rtranclp.rtrancl_into_rtrancl)


subsection \<open>Properties\<close>

text \<open>
  Claim C25. In every reachable state, whatever calculations and sweeps ran, the net of a
  distribution is the rent less the management fee, the other expenses and the reserve, and not
  below zero, and its entries (micro-euros) together pay out no more than the net (cents).
\<close>
theorem distribution_conserves:
  assumes "rentalReachable ulid s" "d \<in> set (distributions s)"
  shows "od_distributableNetEur d =
      max 0 (od_grossRentEur d - od_managementFeeEur d - od_otherExpensesEur d - od_reserveHoldbackEur d) \<and>
    sum_list (map de_amountEurc (od_entries d)) \<le> od_distributableNetEur d * 10000"
  using reachable_rental[OF assms(1)] assms(2) unfolding rentalInv_def conserved_def by blast

theorem distribution_conserves_witness:
  "od_distributableNetEur (hd (distributions sampleDistributed)) = 8500 \<and>
   sum_list (map de_amountEurc (od_entries (hd (distributions sampleDistributed)))) = 36428571 \<and>
   sum_list (map de_amountEurc (od_entries (hd (distributions sampleDistributed)))) \<le> 85000000"
proof -
  have "hd (distributions sampleDistributed) \<in> set (distributions sampleDistributed)"
    by (rule hd_in_set) code_simp
  moreover have "od_distributableNetEur (hd (distributions sampleDistributed)) = 8500" by code_simp
  moreover have "sum_list (map de_amountEurc (od_entries (hd (distributions sampleDistributed)))) = 36428571" by code_simp
  ultimately show ?thesis using distribution_conserves[OF reachable_sampleDistributed] by fastforce
qed

text \<open>
  Claim C26. Every entry of a distribution is its holder's pro-rata share of the net, never
  more than the exact share and less by under one micro-euro plus one micro-euro per unit:
  with \<open>u\<close> of \<open>t\<close> micro-units and a net of \<open>n\<close> micro-euros, the amount \<open>a\<close> has
  \<open>a \<le> u * n / t\<close> and \<open>u * n / t < a + 1 + u / 1000000\<close>.
\<close>
theorem distribution_pro_rata:
  assumes "rentalReachable ulid s" "d \<in> set (distributions s)" "e \<in> set (od_entries d)"
  shows "0 \<le> de_amountEurc e \<and>
    de_amountEurc e * od_totalUnitsAtRecordDate d \<le> de_unitCountAtRecordDate e * (od_distributableNetEur d * 10000) \<and>
    1000000 * (de_unitCountAtRecordDate e * (od_distributableNetEur d * 10000)) <
      od_totalUnitsAtRecordDate d * (1000000 * (de_amountEurc e + 1) + de_unitCountAtRecordDate e)"
  using reachable_rental[OF assms(1)] assms(2,3) by (simp add: rentalInv_def proRata_def Let_def)

theorem distribution_pro_rata_witness:
  "de_amountEurc (hd (od_entries (hd (distributions sampleDistributed)))) = 36428571 \<and>
   de_amountEurc (hd (od_entries (hd (distributions sampleDistributed)))) * 7000000 \<le> 3000000 * (8500 * 10000)"
proof -
  have "hd (distributions sampleDistributed) \<in> set (distributions sampleDistributed)"
    by (rule hd_in_set) code_simp
  moreover have "hd (od_entries (hd (distributions sampleDistributed))) \<in> set (od_entries (hd (distributions sampleDistributed)))"
    by (rule hd_in_set) code_simp
  moreover have "od_distributableNetEur (hd (distributions sampleDistributed)) = 8500"
    "od_totalUnitsAtRecordDate (hd (distributions sampleDistributed)) = 7000000"
    "de_unitCountAtRecordDate (hd (od_entries (hd (distributions sampleDistributed)))) = 3000000"
    "de_amountEurc (hd (od_entries (hd (distributions sampleDistributed)))) = 36428571" by code_simp+
  ultimately show ?thesis using distribution_pro_rata[OF reachable_sampleDistributed] by fastforce
qed

lemma newEntries_length: "newEntries ulid n es = Some xs \<Longrightarrow> length xs = length es"
  by (induction es arbitrary: n xs) (auto split: option.splits)

lemma created_found:
  assumes "find (samePeriodDistribution (calc_pivId i) (calc_periodStart i) (calc_periodEnd i)) (distributions s) = None"
    "ensureRentCollection ulid i s = Some (rec, s1)"
    "createOperatingDistribution ulid (figuresInput i rid net t per es) s1 = Some (did, s2)"
  obtains d where "find (samePeriodDistribution (calc_pivId i) (calc_periodStart i) (calc_periodEnd i)) (distributions s2) = Some d"
    "did = od_id d" "length (od_entries d) = length es"
proof -
  obtain d where d: "newDistribution ulid (figuresInput i rid net t per es) (rental_ulids s1) = Some d" "did = od_id d"
      "distributions s2 = distributions s1 @ [d]"
    using assms(3) by (rule create_distribution) simp
  have "distributions s1 = distributions s"
    using assms(2) by (auto simp: ensureRentCollection_def recordRentCollection_def Let_def split: option.splits if_splits)
  moreover have "samePeriodDistribution (calc_pivId i) (calc_periodStart i) (calc_periodEnd i) d"
    using newDistribution_keys[OF d(1)] by (simp add: samePeriodDistribution_def figuresInput_def)
  moreover have "length (od_entries d) = length es"
    using d(1) newEntries_length by (auto simp: newDistribution_def figuresInput_def split: option.splits)
  ultimately show thesis using that[of d] d(2,3) assms(1) by (simp add: find_append)
qed

text \<open>
  Claim C27. A period is distributed once: after a calculation returned, every further calculation
  for the same vehicle and period, whatever its amounts, returns the same distribution, says that it
  was already calculated, and changes nothing.
\<close>
theorem distribution_once:
  assumes "rentalReachable ulid s" "calculateOperatingDistribution ulid i s = (Inr r, s')"
    "(calc_pivId j, calc_periodStart j, calc_periodEnd j) = (calc_pivId i, calc_periodStart i, calc_periodEnd i)"
  shows "\<exists>r'. calculateOperatingDistribution ulid j s' = (Inr r', s') \<and> cdr_alreadyCalculated r' \<and>
    cdr_operatingDistributionId r' = cdr_operatingDistributionId r \<and> cdr_entriesCreated r' = cdr_entriesCreated r"
proof -
  have j: "calc_pivId j = calc_pivId i" "calc_periodStart j = calc_periodStart i" "calc_periodEnd j = calc_periodEnd i"
    using assms(3) by simp_all
  show ?thesis
  proof (cases rule: calculate_cases[of i s ulid])
    case (existing d)
    then show ?thesis using assms(2) by (auto simp: calculateOperatingDistribution_def findDistribution_def j)
  next
    case (created rec s1 net t per es did s2)
    obtain d where d: "find (samePeriodDistribution (calc_pivId i) (calc_periodStart i) (calc_periodEnd i)) (distributions s2) = Some d"
        "did = od_id d" "length (od_entries d) = length es"
      using created_found[OF created(1,2,4)] by blast
    then show ?thesis using assms(2) created(5)
      by (auto simp: calculateOperatingDistribution_def findDistribution_def j)
  qed (use assms(2) in auto)
qed

theorem distribution_once_witness:
  "\<exists>r r'. calculateOperatingDistribution rentUlid sampleCalculation sampleRental = (Inr r, sampleDistributed) \<and>
    calculateOperatingDistribution rentUlid (sampleCalculation\<lparr>calc_grossRentCollectedEur := ''1.00''\<rparr>) sampleDistributed =
      (Inr r', sampleDistributed) \<and>
    cdr_alreadyCalculated r' \<and> cdr_operatingDistributionId r' = cdr_operatingDistributionId r"
proof -
  have "\<not> isl (fst (calculateOperatingDistribution rentUlid sampleCalculation sampleRental))" by code_simp
  then obtain r where "calculateOperatingDistribution rentUlid sampleCalculation sampleRental = (Inr r, sampleDistributed)"
    unfolding sampleDistributed_def by (metis prod.collapse sum.collapse(2))
  then show ?thesis using distribution_once[OF reachable_sampleRental, of sampleCalculation r sampleDistributed
      "sampleCalculation\<lparr>calc_grossRentCollectedEur := ''1.00''\<rparr>"] by fastforce
qed






text \<open>
  Claim C30. Printing an amount and reading it back is the identity: for whole cents with the two decimals of
  the offering module, also as the micro-euros of the payment provider, and for micro-units with the six
  decimals of the rental module.
\<close>
theorem amount_roundtrip:
  assumes "0 \<le> v"
  shows "toCents (fromCents v) = Some v \<and> toEurcMicros (fromCents v) = Some (v * 10000) \<and>
    toMicros (fromCents v) = Some (v * 10000) \<and> toMicros (fromMicros v) = Some v \<and>
    toMicroUnits (fromMicroUnits v) = Some v"
  using assms micros_read(3)[of v]
  by (simp add: cents.roundtrip toEurcMicros_fromCents toMicros_fromMicros toMicroUnits_fromMicroUnits)

theorem amount_roundtrip_witness:
  "fromCents 1005 = ''10.05'' \<and> toCents ''10.05'' = Some 1005 \<and> fromMicros 1005 = ''0.001005'' \<and>
   toMicros ''0.001005'' = Some 1005"
proof -
  have "fromCents 1005 = ''10.05''" "fromMicros 1005 = ''0.001005''" by code_simp+
  then show ?thesis using amount_roundtrip[of 1005] by simp
qed

end
