(* ===== verification/IpoEscrow.thy ===== *)
theory IpoEscrow
  imports Prelude "HOL-Library.Word"
begin

text \<open>
  contracts/contracts/VistaBloxIpoEscrow.sol: the storage of the escrow contract and every
  function of it, over 256-bit words with the checked arithmetic of Solidity 0.8. A function returns
  the new storage, or the error it reverts with, in which case nothing is changed. The EURC token is an
  ERC-20 contract outside the repository: a parameter with the state \<open>'e\<close>. The functions
  marked \<open>nonReentrant\<close> call only this token, which has no callback; the roles are those of
  OpenZeppelin's AccessControl, as a relation between roles and accounts.
\<close>

type_synonym uint256 = "256 word"
type_synonym address = "160 word"

datatype solError =
    ZeroAddress | ZeroAmount | InvalidDeadline
  | CampaignAlreadyOpened uint256 | CampaignNotOpen uint256
  | DeadlineNotReached uint256 | DeadlineAlreadyPassed uint256
  | TargetExceeded uint256 uint256 uint256
  | CampaignNotSuccessful uint256 | CampaignNotFailed uint256
  | AlreadySwept uint256 | NoContribution uint256 address
  | AccessControlUnauthorizedAccount | EnforcedPause | ExpectedPause
  | TokenReverted | Panic

datatype CampaignState = NotOpened | Open | Successful | Failed

record Campaign =
  targetAmount :: uint256
  totalRaised :: uint256
  deadline :: uint256
  treasury :: address
  state :: CampaignState
  swept :: bool

datatype escrowRole = DEFAULT_ADMIN_ROLE | CAMPAIGN_MANAGER_ROLE

text \<open>Checked arithmetic: an overflow is a panic.\<close>

definition addChecked :: "uint256 \<Rightarrow> uint256 \<Rightarrow> uint256 option" where
  "addChecked a b = (if a + b < a then None else Some (a + b))"

definition subChecked :: "uint256 \<Rightarrow> uint256 \<Rightarrow> uint256 option" where
  "subChecked a b = (if a < b then None else Some (a - b))"

text \<open>The token: \<open>transferFrom spender from to amount\<close> and \<open>transfer from to amount\<close>;
  \<open>None\<close> is a revert of SafeERC20.\<close>

record 'e erc20 =
  erc_transferFrom :: "address \<Rightarrow> address \<Rightarrow> address \<Rightarrow> uint256 \<Rightarrow> 'e \<Rightarrow> 'e option"
  erc_transfer :: "address \<Rightarrow> address \<Rightarrow> uint256 \<Rightarrow> 'e \<Rightarrow> 'e option"
  erc_balanceOf :: "'e \<Rightarrow> address \<Rightarrow> uint256"

record 'e escrow =
  campaigns :: "uint256 \<Rightarrow> Campaign"
  contributions :: "uint256 \<Rightarrow> address \<Rightarrow> uint256"
  contributorsList :: "uint256 \<Rightarrow> address list"
  hasContributed :: "uint256 \<Rightarrow> address \<Rightarrow> bool"
  paused :: bool
  hasRole :: "escrowRole \<Rightarrow> address \<Rightarrow> bool"
  eurc :: 'e

text \<open>\<open>msg.sender\<close>, \<open>block.timestamp\<close> and \<open>address(this)\<close>.\<close>

record msg =
  sender :: address
  timestamp :: uint256
  self :: address

definition noCampaign :: Campaign where
  "noCampaign = \<lparr>targetAmount = 0, totalRaised = 0, deadline = 0, treasury = 0, state = NotOpened, swept = False\<rparr>"

definition escrowConstructor :: "address \<Rightarrow> address \<Rightarrow> 'e \<Rightarrow> solError + 'e escrow" where
  "escrowConstructor eurcAddress deployer e =
    (if eurcAddress = 0 then Inl ZeroAddress
     else Inr \<lparr>campaigns = (\<lambda>_. noCampaign), contributions = (\<lambda>_ _. 0), contributorsList = (\<lambda>_. []),
       hasContributed = (\<lambda>_ _. False), paused = False,
       hasRole = (\<lambda>r a. r = DEFAULT_ADMIN_ROLE \<and> a = deployer), eurc = e\<rparr>)"

definition setCampaign :: "uint256 \<Rightarrow> Campaign \<Rightarrow> 'e escrow \<Rightarrow> 'e escrow" where
  "setCampaign tokenId c s = s\<lparr>campaigns := (campaigns s)(tokenId := c)\<rparr>"

definition setContribution :: "uint256 \<Rightarrow> address \<Rightarrow> uint256 \<Rightarrow> 'e escrow \<Rightarrow> 'e escrow" where
  "setContribution tokenId a v s =
    s\<lparr>contributions := (contributions s)(tokenId := (contributions s tokenId)(a := v))\<rparr>"

subsection \<open>Campaign management\<close>

definition openCampaign ::
  "msg \<Rightarrow> uint256 \<Rightarrow> uint256 \<Rightarrow> uint256 \<Rightarrow> address \<Rightarrow> 'e escrow \<Rightarrow> solError + 'e escrow" where
  "openCampaign m tokenId target dl tr s =
    (if \<not> hasRole s CAMPAIGN_MANAGER_ROLE (sender m) then Inl AccessControlUnauthorizedAccount
     else if state (campaigns s tokenId) \<noteq> NotOpened then Inl (CampaignAlreadyOpened tokenId)
     else if target = 0 then Inl ZeroAmount
     else if tr = 0 then Inl ZeroAddress
     else if dl \<le> timestamp m then Inl InvalidDeadline
     else Inr (setCampaign tokenId \<lparr>targetAmount = target, totalRaised = 0, deadline = dl, treasury = tr,
                 state = Open, swept = False\<rparr> s))"

definition extendDeadline :: "msg \<Rightarrow> uint256 \<Rightarrow> uint256 \<Rightarrow> 'e escrow \<Rightarrow> solError + 'e escrow" where
  "extendDeadline m tokenId newDeadline s =
    (let campaign = campaigns s tokenId in
     if \<not> hasRole s CAMPAIGN_MANAGER_ROLE (sender m) then Inl AccessControlUnauthorizedAccount
     else if state campaign \<noteq> Open then Inl (CampaignNotOpen tokenId)
     else if newDeadline \<le> timestamp m then Inl InvalidDeadline
     else Inr (setCampaign tokenId (campaign\<lparr>deadline := newDeadline\<rparr>) s))"

subsection \<open>Contributions\<close>

text \<open>The storage after the effects of \<open>contribute\<close>, before the token is called.\<close>

definition recordContribution ::
  "uint256 \<Rightarrow> address \<Rightarrow> uint256 \<Rightarrow> uint256 \<Rightarrow> 'e escrow \<Rightarrow> 'e escrow" where
  "recordContribution tokenId a raised contribution s =
    (let s1 = setContribution tokenId a contribution
                (setCampaign tokenId ((campaigns s tokenId)\<lparr>totalRaised := raised\<rparr>) s)
     in if hasContributed s tokenId a then s1
        else s1\<lparr>hasContributed := (hasContributed s1)(tokenId := (hasContributed s1 tokenId)(a := True)),
                contributorsList := (contributorsList s1)(tokenId := contributorsList s1 tokenId @ [a])\<rparr>)"

definition contribute :: "'e erc20 \<Rightarrow> msg \<Rightarrow> uint256 \<Rightarrow> uint256 \<Rightarrow> 'e escrow \<Rightarrow> solError + 'e escrow" where
  "contribute token m tokenId amount s =
    (let campaign = campaigns s tokenId in
     if paused s then Inl EnforcedPause
     else if state campaign \<noteq> Open then Inl (CampaignNotOpen tokenId)
     else if timestamp m \<ge> deadline campaign then Inl (DeadlineAlreadyPassed tokenId)
     else if amount = 0 then Inl ZeroAmount
     else (case subChecked (targetAmount campaign) (totalRaised campaign) of None \<Rightarrow> Inl Panic
       | Some remaining \<Rightarrow>
         if amount > remaining then Inl (TargetExceeded tokenId amount remaining)
         else (case (addChecked (totalRaised campaign) amount,
                     addChecked (contributions s tokenId (sender m)) amount) of
           (Some raised, Some contribution) \<Rightarrow>
             (let s1 = recordContribution tokenId (sender m) raised contribution s in
              case erc_transferFrom token (self m) (sender m) (self m) amount (eurc s1) of
                None \<Rightarrow> Inl TokenReverted
              | Some e \<Rightarrow> Inr (s1\<lparr>eurc := e\<rparr>))
         | _ \<Rightarrow> Inl Panic)))"

subsection \<open>Resolution and release\<close>

definition finalize :: "msg \<Rightarrow> uint256 \<Rightarrow> 'e escrow \<Rightarrow> solError + 'e escrow" where
  "finalize m tokenId s =
    (let campaign = campaigns s tokenId in
     if paused s then Inl EnforcedPause
     else if state campaign \<noteq> Open then Inl (CampaignNotOpen tokenId)
     else if timestamp m < deadline campaign then Inl (DeadlineNotReached tokenId)
     else (let successful = totalRaised campaign \<ge> targetAmount campaign
           in Inr (setCampaign tokenId (campaign\<lparr>state := (if successful then Successful else Failed)\<rparr>) s)))"

definition withdrawRaised :: "'e erc20 \<Rightarrow> msg \<Rightarrow> uint256 \<Rightarrow> 'e escrow \<Rightarrow> solError + 'e escrow" where
  "withdrawRaised token m tokenId s =
    (let campaign = campaigns s tokenId in
     if paused s then Inl EnforcedPause
     else if state campaign \<noteq> Successful then Inl (CampaignNotSuccessful tokenId)
     else if swept campaign then Inl (AlreadySwept tokenId)
     else (let s1 = setCampaign tokenId (campaign\<lparr>swept := True\<rparr>) s;
               amount = totalRaised campaign
           in case erc_transfer token (self m) (treasury campaign) amount (eurc s1) of
                None \<Rightarrow> Inl TokenReverted
              | Some e \<Rightarrow> Inr (s1\<lparr>eurc := e\<rparr>)))"

definition withdraw :: "'e erc20 \<Rightarrow> msg \<Rightarrow> uint256 \<Rightarrow> 'e escrow \<Rightarrow> solError + 'e escrow" where
  "withdraw token m tokenId s =
    (if paused s then Inl EnforcedPause
     else if state (campaigns s tokenId) \<noteq> Failed then Inl (CampaignNotFailed tokenId)
     else (let amount = contributions s tokenId (sender m) in
       if amount = 0 then Inl (NoContribution tokenId (sender m))
       else (let s1 = setContribution tokenId (sender m) 0 s
             in case erc_transfer token (self m) (sender m) amount (eurc s1) of
                  None \<Rightarrow> Inl TokenReverted
                | Some e \<Rightarrow> Inr (s1\<lparr>eurc := e\<rparr>))))"

subsection \<open>Views and the pause\<close>

definition contributionOf :: "uint256 \<Rightarrow> address \<Rightarrow> 'e escrow \<Rightarrow> uint256" where
  "contributionOf tokenId contributor s = contributions s tokenId contributor"

definition contributorsOf :: "uint256 \<Rightarrow> 'e escrow \<Rightarrow> address list" where
  "contributorsOf tokenId s = contributorsList s tokenId"

definition campaignOf :: "uint256 \<Rightarrow> 'e escrow \<Rightarrow> uint256 \<times> uint256 \<times> uint256 \<times> address \<times> CampaignState \<times> bool" where
  "campaignOf tokenId s = (let c = campaigns s tokenId in
     (targetAmount c, totalRaised c, deadline c, treasury c, state c, swept c))"

definition pause :: "msg \<Rightarrow> 'e escrow \<Rightarrow> solError + 'e escrow" where
  "pause m s = (if \<not> hasRole s DEFAULT_ADMIN_ROLE (sender m) then Inl AccessControlUnauthorizedAccount
     else if paused s then Inl EnforcedPause else Inr (s\<lparr>paused := True\<rparr>))"

definition unpause :: "msg \<Rightarrow> 'e escrow \<Rightarrow> solError + 'e escrow" where
  "unpause m s = (if \<not> hasRole s DEFAULT_ADMIN_ROLE (sender m) then Inl AccessControlUnauthorizedAccount
     else if \<not> paused s then Inl ExpectedPause else Inr (s\<lparr>paused := False\<rparr>))"

end
