(* ===== verification/EscrowFacts.thy ===== *)
theory EscrowFacts
  imports IpoEscrow
begin

text \<open>
  The invariant of the escrow contract over every sequence of calls: the books of each campaign, and
  that the contract's token balance covers what it owes.
\<close>

subsection \<open>The token\<close>

text \<open>What the ERC-20 standard promises of a transfer, read as natural numbers: the amount leaves the
  payer, who had it, and arrives at the payee; nobody else's balance changes.\<close>

definition moves :: "('e \<Rightarrow> address \<Rightarrow> uint256) \<Rightarrow> address \<Rightarrow> address \<Rightarrow> uint256 \<Rightarrow> 'e \<Rightarrow> 'e \<Rightarrow> bool" where
  "moves bal from to amount e e' \<longleftrightarrow> amount \<le> bal e from \<and>
     (if from = to then bal e' = bal e
      else unat (bal e' from) = unat (bal e from) - unat amount \<and>
        unat (bal e' to) = unat (bal e to) + unat amount \<and> (\<forall>a. a \<noteq> from \<and> a \<noteq> to \<longrightarrow> bal e' a = bal e a))"

definition erc20Laws :: "'e erc20 \<Rightarrow> bool" where
  "erc20Laws token \<longleftrightarrow>
     (\<forall>spender from to amount e e'. erc_transferFrom token spender from to amount e = Some e' \<longrightarrow>
        moves (erc_balanceOf token) from to amount e e') \<and>
     (\<forall>from to amount e e'. erc_transfer token from to amount e = Some e' \<longrightarrow>
        moves (erc_balanceOf token) from to amount e e')"

subsection \<open>Steps and reachability\<close>

text \<open>A call succeeds, or the world outside changes: token transfers that do not concern the
  contract (nobody else can spend its balance, since it approves nobody), and roles granted or revoked.\<close>

inductive escrowStep :: "'e erc20 \<Rightarrow> address \<Rightarrow> 'e escrow \<Rightarrow> 'e escrow \<Rightarrow> bool" for token me where
  openStep: "openCampaign m t target dl tr s = Inr s' \<Longrightarrow> escrowStep token me s s'"
| extendStep: "extendDeadline m t dl s = Inr s' \<Longrightarrow> escrowStep token me s s'"
| contributeStep: "contribute token m t amount s = Inr s' \<Longrightarrow> self m = me \<Longrightarrow> sender m \<noteq> me \<Longrightarrow>
    escrowStep token me s s'"
| finalizeStep: "finalize m t s = Inr s' \<Longrightarrow> escrowStep token me s s'"
| sweepStep: "withdrawRaised token m t s = Inr s' \<Longrightarrow> self m = me \<Longrightarrow> escrowStep token me s s'"
| refundStep: "withdraw token m t s = Inr s' \<Longrightarrow> self m = me \<Longrightarrow> sender m \<noteq> me \<Longrightarrow> escrowStep token me s s'"
| pauseStep: "pause m s = Inr s' \<Longrightarrow> escrowStep token me s s'"
| unpauseStep: "unpause m s = Inr s' \<Longrightarrow> escrowStep token me s s'"
| outsideStep: "erc_balanceOf token (eurc s) me \<le> erc_balanceOf token e me \<Longrightarrow>
    escrowStep token me s (s\<lparr>eurc := e, hasRole := roles\<rparr>)"

definition deployed :: "'e \<Rightarrow> address \<Rightarrow> 'e escrow" where
  "deployed e deployer = \<lparr>campaigns = (\<lambda>_. noCampaign), contributions = (\<lambda>_ _. 0), contributorsList = (\<lambda>_. []),
       hasContributed = (\<lambda>_ _. False), paused = False,
       hasRole = (\<lambda>r a. r = DEFAULT_ADMIN_ROLE \<and> a = deployer), eurc = e\<rparr>"

definition escrowReachable :: "'e erc20 \<Rightarrow> address \<Rightarrow> 'e escrow \<Rightarrow> bool" where
  "escrowReachable token me s \<longleftrightarrow>
     (\<exists>eurcAddress deployer e s0. escrowConstructor eurcAddress deployer e = Inr s0 \<and> (escrowStep token me)\<^sup>*\<^sup>* s0 s)"

subsection \<open>The books\<close>

text \<open>What a campaign still owes: to its contributors while it is open or failed, to its treasury
  until it is swept.\<close>

definition contributed :: "'e escrow \<Rightarrow> uint256 \<Rightarrow> nat" where
  "contributed s t = (\<Sum>a\<leftarrow>contributorsList s t. unat (contributions s t a))"

definition owed :: "'e escrow \<Rightarrow> uint256 \<Rightarrow> nat" where
  "owed s t = (if swept (campaigns s t) then 0 else contributed s t)"

definition campaignOk :: "'e escrow \<Rightarrow> uint256 \<Rightarrow> bool" where
  "campaignOk s t \<longleftrightarrow> (let c = campaigns s t in
     totalRaised c \<le> targetAmount c \<and>
     distinct (contributorsList s t) \<and> (\<forall>a. hasContributed s t a \<longleftrightarrow> a \<in> set (contributorsList s t)) \<and>
     (\<forall>a. contributions s t a \<noteq> 0 \<longrightarrow> a \<in> set (contributorsList s t)) \<and>
     (state c \<noteq> Failed \<longrightarrow> contributed s t = unat (totalRaised c) \<and> (\<forall>a\<in>set (contributorsList s t). contributions s t a \<noteq> 0)) \<and>
     (contributed s t \<le> unat (totalRaised c)) \<and>
     (state c = NotOpened \<longrightarrow> c = noCampaign \<and> contributorsList s t = []) \<and>
     (state c \<noteq> NotOpened \<longrightarrow> treasury c \<noteq> 0 \<and> targetAmount c \<noteq> 0) \<and>
     (state c = Successful \<longrightarrow> totalRaised c = targetAmount c) \<and>
     (state c = Failed \<longrightarrow> totalRaised c < targetAmount c) \<and>
     (swept c \<longrightarrow> state c = Successful))"

definition escrowOk :: "'e erc20 \<Rightarrow> address \<Rightarrow> 'e escrow \<Rightarrow> bool" where
  "escrowOk token me s \<longleftrightarrow> (\<forall>t. campaignOk s t) \<and>
     (\<Sum>t\<in>UNIV. owed s t) \<le> unat (erc_balanceOf token (eurc s) me)"

text \<open>A change of one campaign: the books of the others stay as they are.\<close>

definition sameBooks :: "uint256 \<Rightarrow> 'e escrow \<Rightarrow> 'e escrow \<Rightarrow> bool" where
  "sameBooks t s s' \<longleftrightarrow> campaigns s' t = campaigns s t \<and> contributions s' t = contributions s t \<and>
     contributorsList s' t = contributorsList s t \<and> hasContributed s' t = hasContributed s t"

lemma sameBooks_ok: "sameBooks t s s' \<Longrightarrow> campaignOk s' t = campaignOk s t \<and> owed s' t = owed s t"
  by (simp add: sameBooks_def campaignOk_def owed_def contributed_def)

lemma sum_owed_change:
  assumes "\<And>u. u \<noteq> t \<Longrightarrow> owed s' u = owed s u"
  shows "(\<Sum>u\<in>UNIV. owed s' u) + owed s t = (\<Sum>u\<in>UNIV. owed s u) + owed s' t"
proof -
  have "(\<Sum>u\<in>UNIV - {t}. owed s' u) = (\<Sum>u\<in>UNIV - {t}. owed s u)" using assms by (intro sum.cong) auto
  then show ?thesis by (simp add: sum.remove[of UNIV t])
qed

text \<open>The rule every operation on one campaign is an instance of: it keeps the campaign's books in order, and
  what it adds to the debts the balance gains.\<close>

lemma escrowOk_change:
  assumes "escrowOk token me s" "\<And>u. u \<noteq> t \<Longrightarrow> sameBooks u s s'" "campaignOk s' t"
    "unat (erc_balanceOf token (eurc s) me) + owed s' t \<le> unat (erc_balanceOf token (eurc s') me) + owed s t"
  shows "escrowOk token me s'"
proof -
  have "campaignOk s' u" for u using assms(1-3) sameBooks_ok[of u s s'] by (cases "u = t") (auto simp: escrowOk_def)
  moreover have "(\<Sum>u\<in>UNIV. owed s' u) + owed s t = (\<Sum>u\<in>UNIV. owed s u) + owed s' t"
    using assms(2) sameBooks_ok by (intro sum_owed_change) blast
  ultimately show ?thesis using assms(1,4) by (simp add: escrowOk_def)
qed

subsection \<open>Word arithmetic\<close>

lemma unat_bound: "unat (a :: uint256) < 2 ^ 256"
  using unsigned_less[of a] by simp

lemma add_no_wrap: "unat (a + b) = unat a + unat b \<longleftrightarrow> \<not> a + b < a" for a b :: uint256
  using unat_bound[of a] unat_bound[of b] by (auto simp: word_less_nat_alt unat_word_ariths mod_if)

lemma unat_addChecked: "addChecked a b = Some c \<Longrightarrow> unat c = unat a + unat b"
  using add_no_wrap[of a b] by (auto simp: addChecked_def split: if_splits)

lemma addChecked_fits: "unat a + unat b \<le> unat (d :: uint256) \<Longrightarrow> addChecked a b \<noteq> None"
  using unat_bound[of d] by (auto simp: addChecked_def add_no_wrap[symmetric] unat_word_ariths)

lemma unat_subChecked: "b \<le> a \<Longrightarrow> subChecked a b = Some (a - b) \<and> unat (a - b) = unat a - unat b"
  by (simp add: subChecked_def unat_sub not_less)

lemma sum_list_upd:
  "distinct xs \<Longrightarrow> a \<in> set xs \<Longrightarrow>
    (\<Sum>x\<leftarrow>xs. unat ((f(a := v)) x)) + unat (f a) = (\<Sum>x\<leftarrow>xs. unat (f x)) + unat v"
  for f :: "address \<Rightarrow> uint256"
proof (induction xs)
  case (Cons y ys)
  have "(\<Sum>x\<leftarrow>ys. unat (if x = a then v else f x)) = (\<Sum>x\<leftarrow>ys. unat (f x))" if "a \<notin> set ys"
    using that by (intro arg_cong[of _ _ sum_list] map_cong) auto
  then show ?case using Cons by (cases "y = a") auto
qed simp

lemma sum_list_upd_other: "a \<notin> set xs \<Longrightarrow> (\<Sum>x\<leftarrow>xs. unat ((f(a := v)) x)) = (\<Sum>x\<leftarrow>xs. unat (f x))"
  for f :: "address \<Rightarrow> uint256"
  by (intro arg_cong[of _ _ sum_list] map_cong) auto

lemma contribution_le:
  assumes "campaignOk s t"
  shows "unat (contributions s t a) \<le> contributed s t"
proof (cases "contributions s t a = 0")
  case False
  then have "a \<in> set (contributorsList s t)" using assms unfolding campaignOk_def Let_def by blast
  then show ?thesis unfolding contributed_def by (intro member_le_sum_list) auto
qed simp

subsection \<open>The operations keep the books\<close>

lemma setCampaign_simps [simp]:
  "campaigns (setCampaign t c s) = (campaigns s)(t := c)" "contributions (setCampaign t c s) = contributions s"
  "contributorsList (setCampaign t c s) = contributorsList s" "hasContributed (setCampaign t c s) = hasContributed s"
  "eurc (setCampaign t c s) = eurc s" "paused (setCampaign t c s) = paused s" "hasRole (setCampaign t c s) = hasRole s"
  by (simp_all add: setCampaign_def)

lemma setContribution_simps [simp]:
  "campaigns (setContribution t a v s) = campaigns s"
  "contributions (setContribution t a v s) = (contributions s)(t := (contributions s t)(a := v))"
  "contributorsList (setContribution t a v s) = contributorsList s"
  "hasContributed (setContribution t a v s) = hasContributed s" "eurc (setContribution t a v s) = eurc s"
  "paused (setContribution t a v s) = paused s" "hasRole (setContribution t a v s) = hasRole s"
  by (simp_all add: setContribution_def)

lemma record_books: "u \<noteq> t \<Longrightarrow> sameBooks u s (recordContribution t a r c s)"
  by (simp add: sameBooks_def recordContribution_def Let_def)

lemma record_eurc [simp]: "eurc (recordContribution t a r c s) = eurc s"
  by (simp add: recordContribution_def Let_def)

lemma record_campaign [simp]:
  "campaigns (recordContribution t a r c s) = (campaigns s)(t := (campaigns s t)\<lparr>totalRaised := r\<rparr>)"
  "contributions (recordContribution t a r c s) t = (contributions s t)(a := c)"
  by (simp_all add: recordContribution_def Let_def)

lemma record_list:
  "contributorsList (recordContribution t a r c s) t =
     (if hasContributed s t a then contributorsList s t else contributorsList s t @ [a])"
  "hasContributed (recordContribution t a r c s) t = (hasContributed s t)(a := True)"
  by (auto simp: recordContribution_def Let_def fun_eq_iff)

lemma record_contributed:
  assumes "campaignOk s t" "unat c = unat (contributions s t a) + n"
  shows "contributed (recordContribution t a r c s) t = contributed s t + n"
proof -
  have ok: "distinct (contributorsList s t)" "hasContributed s t a \<longleftrightarrow> a \<in> set (contributorsList s t)"
    "contributions s t a \<noteq> 0 \<longrightarrow> a \<in> set (contributorsList s t)"
    using assms(1) unfolding campaignOk_def Let_def by blast+
  show ?thesis
  proof (cases "a \<in> set (contributorsList s t)")
    case True
    then show ?thesis using sum_list_upd[OF ok(1) True, of "contributions s t" c] ok(2) assms(2)
      by (simp add: contributed_def record_list)
  next
    case False
    then have "contributions s t a = 0" using ok(3) by blast
    then show ?thesis using sum_list_upd_other[OF False, of "contributions s t" c] False ok(2) assms(2)
      by (simp add: contributed_def record_list)
  qed
qed

lemma contribute_cases:
  assumes "contribute token m t amount s = Inr s'" "campaignOk s t"
  obtains raised c e where "state (campaigns s t) = Open" "amount \<noteq> 0" "\<not> paused s"
    "timestamp m < deadline (campaigns s t)"
    "unat raised = unat (totalRaised (campaigns s t)) + unat amount" "raised \<le> targetAmount (campaigns s t)"
    "unat c = unat (contributions s t (sender m)) + unat amount"
    "erc_transferFrom token (self m) (sender m) (self m) amount (eurc s) = Some e"
    "s' = (recordContribution t (sender m) raised c s)\<lparr>eurc := e\<rparr>"
proof -
  have le: "totalRaised (campaigns s t) \<le> targetAmount (campaigns s t)"
    using assms(2) unfolding campaignOk_def Let_def by blast
  note sub = unat_subChecked[OF le]
  obtain raised c e where h: "state (campaigns s t) = Open" "amount \<noteq> 0" "\<not> paused s"
    "timestamp m < deadline (campaigns s t)"
    "amount \<le> targetAmount (campaigns s t) - totalRaised (campaigns s t)"
    "addChecked (totalRaised (campaigns s t)) amount = Some raised"
    "addChecked (contributions s t (sender m)) amount = Some c"
    "erc_transferFrom token (self m) (sender m) (self m) amount (eurc s) = Some e"
    "s' = (recordContribution t (sender m) raised c s)\<lparr>eurc := e\<rparr>"
    using assms(1) sub by (auto simp: contribute_def Let_def not_le not_less split: if_splits option.splits)
  have "raised \<le> targetAmount (campaigns s t)"
    using h(5) unat_addChecked[OF h(6)] sub le by (simp add: word_le_nat_alt)
  then show thesis using that h unat_addChecked[OF h(6)] unat_addChecked[OF h(7)] by blast
qed

end
