(* ===== verification/EscrowInvariant.thy ===== *)
theory EscrowInvariant
  imports EscrowFacts
begin

text \<open>
  Every operation of the escrow contract keeps its invariant; the reachable states have it.
\<close>

lemma record_ok:
  assumes "campaignOk s t" "state (campaigns s t) = Open" "amount \<noteq> 0"
    "unat raised = unat (totalRaised (campaigns s t)) + unat amount" "raised \<le> targetAmount (campaigns s t)"
    "unat c = unat (contributions s t a) + unat amount"
  shows "campaignOk (recordContribution t a raised c s) t"
proof -
  have "0 < unat amount" using assms(3) by (simp add: unat_gt_0)
  then have "c \<noteq> 0" using assms(6) by (metis add_is_0 less_irrefl unsigned_0)
  moreover have "distinct (contributorsList s t)" "\<forall>a. hasContributed s t a \<longleftrightarrow> a \<in> set (contributorsList s t)"
    "\<forall>a. contributions s t a \<noteq> 0 \<longrightarrow> a \<in> set (contributorsList s t)"
    "contributed s t = unat (totalRaised (campaigns s t))" "\<forall>a\<in>set (contributorsList s t). contributions s t a \<noteq> 0"
    "treasury (campaigns s t) \<noteq> 0" "targetAmount (campaigns s t) \<noteq> 0" "\<not> swept (campaigns s t)"
    using assms(1,2) unfolding campaignOk_def Let_def by auto
  moreover have "contributed (recordContribution t a raised c s) t = unat raised"
    using record_contributed[OF assms(1,6), of raised] calculation(5) assms(4) by simp
  ultimately show ?thesis using assms(2,5)
    unfolding campaignOk_def Let_def by (intro conjI) (auto simp: record_list)
qed

lemma contribute_ok:
  assumes "erc20Laws token" "escrowOk token me s" "contribute token m t amount s = Inr s'" "self m = me" "sender m \<noteq> me"
  shows "escrowOk token me s'"
proof -
  have ok: "campaignOk s t" using assms(2) by (simp add: escrowOk_def)
  obtain raised c e where h: "state (campaigns s t) = Open" "amount \<noteq> 0"
    "unat raised = unat (totalRaised (campaigns s t)) + unat amount" "raised \<le> targetAmount (campaigns s t)"
    "unat c = unat (contributions s t (sender m)) + unat amount"
    "erc_transferFrom token (self m) (sender m) (self m) amount (eurc s) = Some e"
    "s' = (recordContribution t (sender m) raised c s)\<lparr>eurc := e\<rparr>"
    using contribute_cases[OF assms(3) ok] by metis
  let ?r = "recordContribution t (sender m) raised c s"
  have "moves (erc_balanceOf token) (sender m) me amount (eurc s) e"
    using assms(1,4) h(6) unfolding erc20Laws_def by blast
  then have bal: "unat (erc_balanceOf token e me) = unat (erc_balanceOf token (eurc s) me) + unat amount"
    using assms(5) by (simp add: moves_def)
  have same: "campaignOk s' u = campaignOk ?r u" "owed s' u = owed ?r u" for u
    using sameBooks_ok[of u ?r s'] by (simp_all add: h(7) sameBooks_def)
  have "\<not> swept (campaigns s t)" using ok h(1) unfolding campaignOk_def Let_def by auto
  then have "owed ?r t = owed s t + unat amount"
    using record_contributed[OF ok h(5), of raised] by (simp add: owed_def)
  then have "unat (erc_balanceOf token (eurc s) me) + owed s' t \<le> unat (erc_balanceOf token (eurc s') me) + owed s t"
    using bal same(2) by (simp add: h(7))
  moreover have "sameBooks u s s'" if "u \<noteq> t" for u
    using record_books[OF that, of s "sender m" raised c] by (simp add: h(7) sameBooks_def)
  moreover have "campaignOk s' t" using record_ok[OF ok h(1-5)] same(1) by simp
  ultimately show ?thesis by (intro escrowOk_change[OF assms(2), of t])
qed

lemma transfer_balance:
  assumes "erc20Laws token" "erc_transfer token me to amount e = Some e'"
  shows "unat (erc_balanceOf token e me) \<le> unat (erc_balanceOf token e' me) + unat amount"
proof -
  have "moves (erc_balanceOf token) me to amount e e'" using assms unfolding erc20Laws_def by blast
  then show ?thesis by (cases "me = to") (auto simp: moves_def)
qed

lemma withdrawRaised_cases:
  assumes "withdrawRaised token m t s = Inr s'"
  obtains e where "\<not> paused s" "state (campaigns s t) = Successful" "\<not> swept (campaigns s t)"
    "erc_transfer token (self m) (treasury (campaigns s t)) (totalRaised (campaigns s t)) (eurc s) = Some e"
    "s' = (setCampaign t ((campaigns s t)\<lparr>swept := True\<rparr>) s)\<lparr>eurc := e\<rparr>"
  using assms by (auto simp: withdrawRaised_def Let_def split: if_splits option.splits)

lemma withdrawRaised_ok:
  assumes "erc20Laws token" "escrowOk token me s" "withdrawRaised token m t s = Inr s'" "self m = me"
  shows "escrowOk token me s'"
proof -
  obtain e where h: "state (campaigns s t) = Successful" "\<not> swept (campaigns s t)"
    "erc_transfer token (self m) (treasury (campaigns s t)) (totalRaised (campaigns s t)) (eurc s) = Some e"
    "s' = (setCampaign t ((campaigns s t)\<lparr>swept := True\<rparr>) s)\<lparr>eurc := e\<rparr>"
    using withdrawRaised_cases[OF assms(3)] by metis
  have ok: "campaignOk s t" using assms(2) by (simp add: escrowOk_def)
  then have "owed s t = unat (totalRaised (campaigns s t))" using h(1,2)
    unfolding campaignOk_def Let_def owed_def by auto
  moreover have "campaignOk s' t" using ok h(1)
    unfolding campaignOk_def Let_def h(4) contributed_def noCampaign_def by auto
  ultimately show ?thesis using transfer_balance[OF assms(1)] h(3) assms(4)
    by (intro escrowOk_change[OF assms(2), of t]) (auto simp: h(4) sameBooks_def owed_def)
qed

lemma withdraw_cases:
  assumes "withdraw token m t s = Inr s'"
  obtains e where "\<not> paused s" "state (campaigns s t) = Failed" "contributions s t (sender m) \<noteq> 0"
    "erc_transfer token (self m) (sender m) (contributions s t (sender m)) (eurc s) = Some e"
    "s' = (setContribution t (sender m) 0 s)\<lparr>eurc := e\<rparr>"
  using assms by (auto simp: withdraw_def Let_def split: if_splits option.splits)

lemma refund_contributed:
  assumes "campaignOk s t" "contributions s t a \<noteq> 0"
  shows "contributed (setContribution t a 0 s) t + unat (contributions s t a) = contributed s t"
proof -
  have "distinct (contributorsList s t)" "a \<in> set (contributorsList s t)"
    using assms unfolding campaignOk_def Let_def by blast+
  then show ?thesis using sum_list_upd[of "contributorsList s t" a "contributions s t" 0] by (simp add: contributed_def)
qed

lemma withdraw_ok:
  assumes "erc20Laws token" "escrowOk token me s" "withdraw token m t s = Inr s'" "self m = me"
  shows "escrowOk token me s'"
proof -
  obtain e where h: "state (campaigns s t) = Failed" "contributions s t (sender m) \<noteq> 0"
    "erc_transfer token (self m) (sender m) (contributions s t (sender m)) (eurc s) = Some e"
    "s' = (setContribution t (sender m) 0 s)\<lparr>eurc := e\<rparr>"
    using withdraw_cases[OF assms(3)] by metis
  let ?r = "setContribution t (sender m) 0 s"
  have ok: "campaignOk s t" using assms(2) by (simp add: escrowOk_def)
  note refund = refund_contributed[OF ok h(2)]
  have same: "campaignOk s' t = campaignOk ?r t" "owed s' t = owed ?r t"
    using sameBooks_ok[of t ?r s'] by (simp_all add: h(4) sameBooks_def)
  have "campaignOk ?r t" using ok h(1) refund unfolding campaignOk_def Let_def by auto
  moreover have "owed ?r t + unat (contributions s t (sender m)) = owed s t"
    using refund ok h(1) by (simp add: owed_def campaignOk_def Let_def)
  moreover have "unat (erc_balanceOf token (eurc s) me) \<le>
      unat (erc_balanceOf token (eurc s') me) + unat (contributions s t (sender m))"
    using transfer_balance[OF assms(1)] h(3) assms(4) by (simp add: h(4))
  ultimately show ?thesis using same
    by (intro escrowOk_change[OF assms(2), of t]) (simp_all add: h(4) sameBooks_def)
qed

lemma finalize_cases:
  assumes "finalize m t s = Inr s'"
  obtains "\<not> paused s" "state (campaigns s t) = Open" "deadline (campaigns s t) \<le> timestamp m"
    "s' = setCampaign t ((campaigns s t)\<lparr>state := (if totalRaised (campaigns s t) \<ge> targetAmount (campaigns s t)
        then Successful else Failed)\<rparr>) s"
  using assms by (auto simp: finalize_def Let_def not_less split: if_splits)

lemma finalize_ok:
  assumes "escrowOk token me s" "finalize m t s = Inr s'"
  shows "escrowOk token me s'"
proof -
  have ok: "campaignOk s t" using assms(1) by (simp add: escrowOk_def)
  show ?thesis
    using assms(2)
  proof (rule finalize_cases)
    assume h: "state (campaigns s t) = Open" "s' = setCampaign t ((campaigns s t)\<lparr>state :=
        (if totalRaised (campaigns s t) \<ge> targetAmount (campaigns s t) then Successful else Failed)\<rparr>) s"
    have "contributed s' t = contributed s t" by (simp add: h(2) contributed_def)
    moreover have "campaignOk s' t"
      using ok h(1) calculation unfolding campaignOk_def Let_def
      by (cases "totalRaised (campaigns s t) \<ge> targetAmount (campaigns s t)") (auto simp: h(2) not_le)
    ultimately show ?thesis
      by (intro escrowOk_change[OF assms(1), of t]) (simp_all add: h(2) sameBooks_def owed_def)
  qed
qed

lemma open_ok:
  assumes "escrowOk token me s" "openCampaign m t target dl tr s = Inr s'"
  shows "escrowOk token me s'"
proof -
  have ok: "campaignOk s t" using assms(1) by (simp add: escrowOk_def)
  have h: "state (campaigns s t) = NotOpened" "target \<noteq> 0" "tr \<noteq> 0"
    "s' = setCampaign t \<lparr>targetAmount = target, totalRaised = 0, deadline = dl, treasury = tr, state = Open, swept = False\<rparr> s"
    using assms(2) by (auto simp: openCampaign_def split: if_splits)
  have "contributed s' t = contributed s t" "contributed s t = 0"
    using ok h(1) by (auto simp: h(4) contributed_def campaignOk_def Let_def)
  moreover have "campaignOk s' t" using ok h(1-3) calculation unfolding campaignOk_def Let_def by (auto simp: h(4))
  ultimately show ?thesis by (intro escrowOk_change[OF assms(1), of t]) (simp_all add: h(4) sameBooks_def owed_def)
qed

lemma extend_ok:
  assumes "escrowOk token me s" "extendDeadline m t dl s = Inr s'"
  shows "escrowOk token me s'"
proof -
  have ok: "campaignOk s t" using assms(1) by (simp add: escrowOk_def)
  have h: "state (campaigns s t) = Open" "s' = setCampaign t ((campaigns s t)\<lparr>deadline := dl\<rparr>) s"
    using assms(2) by (auto simp: extendDeadline_def Let_def split: if_splits)
  have "contributed s' t = contributed s t" by (simp add: h(2) contributed_def)
  moreover have "campaignOk s' t" using ok h(1) calculation unfolding campaignOk_def Let_def by (auto simp: h(2))
  ultimately show ?thesis by (intro escrowOk_change[OF assms(1), of t]) (simp_all add: h(2) sameBooks_def owed_def)
qed

lemma books_only:
  assumes "escrowOk token me s" "\<And>t. sameBooks t s s'"
    "erc_balanceOf token (eurc s) me \<le> erc_balanceOf token (eurc s') me"
  shows "escrowOk token me s'"
proof -
  have same: "campaignOk s' 0 = campaignOk s 0" "owed s' 0 = owed s 0" using sameBooks_ok[OF assms(2)] by blast+
  have "campaignOk s' 0" using assms(1) same(1) by (simp add: escrowOk_def)
  then show ?thesis using assms(2,3) same(2) by (intro escrowOk_change[OF assms(1), of 0]) (simp_all add: word_le_nat_alt)
qed

lemma step_ok:
  assumes "escrowStep token me s s'" "erc20Laws token" "escrowOk token me s"
  shows "escrowOk token me s'"
  using assms(1)
proof cases
  case (outsideStep e roles)
  then show ?thesis using books_only[OF assms(3)] by (simp add: sameBooks_def)
next
  case (pauseStep m)
  then show ?thesis using books_only[OF assms(3)] by (auto simp: sameBooks_def pause_def split: if_splits)
next
  case (unpauseStep m)
  then show ?thesis using books_only[OF assms(3)] by (auto simp: sameBooks_def unpause_def split: if_splits)
next
  case (openStep m t target dl tr)
  from open_ok[OF assms(3) openStep] show ?thesis .
next
  case (extendStep m t dl)
  from extend_ok[OF assms(3) extendStep] show ?thesis .
next
  case (contributeStep m t amount)
  from contribute_ok[OF assms(2,3) contributeStep] show ?thesis .
next
  case (finalizeStep m t)
  from finalize_ok[OF assms(3) finalizeStep] show ?thesis .
next
  case (sweepStep m t)
  from withdrawRaised_ok[OF assms(2,3) sweepStep] show ?thesis .
next
  case (refundStep m t)
  from withdraw_ok[OF assms(2,3) refundStep(1,2)] show ?thesis .
qed

interpretation escrow: invariant_system "escrowStep token me" "deployed e deployer"
    "\<lambda>s. erc20Laws token \<longrightarrow> escrowOk token me s" for token me e deployer
proof unfold_locales
  show "erc20Laws token \<longrightarrow> escrowOk token me (deployed e deployer)"
    by (simp add: escrowOk_def campaignOk_def deployed_def noCampaign_def owed_def contributed_def)
next
  fix s s' :: "'a escrow"
  assume "escrowStep token me s s'" "erc20Laws token \<longrightarrow> escrowOk token me s"
  then show "erc20Laws token \<longrightarrow> escrowOk token me s'" using step_ok by blast
qed

lemma reachable_escrowOk: "escrowReachable token me s \<Longrightarrow> erc20Laws token \<Longrightarrow> escrowOk token me s"
  using escrow.reach_inv unfolding escrowReachable_def escrowConstructor_def
  by (fastforce simp: deployed_def split: if_splits)

lemma reachable_campaignOk: "escrowReachable token me s \<Longrightarrow> erc20Laws token \<Longrightarrow> campaignOk s t"
  using reachable_escrowOk unfolding escrowOk_def by blast

lemma escrow_reach_start: "escrowReachable token me (deployed e deployer)"
proof -
  have "escrowConstructor 1 deployer e = Inr (deployed e deployer)" by (simp add: escrowConstructor_def deployed_def)
  then show ?thesis unfolding escrowReachable_def by blast
qed

lemma escrow_reach_step: "escrowReachable token me s \<Longrightarrow> escrowStep token me s s' \<Longrightarrow> escrowReachable token me s'"
  unfolding escrowReachable_def by (meson rtranclp.rtrancl_into_rtrancl)

subsection \<open>The life of a campaign\<close>

text \<open>What any step may do to a campaign: nothing that matters to its outcome once it is resolved, and before that
  only open it, raise its total within the target, or resolve it.\<close>

definition laterCampaign :: "Campaign \<Rightarrow> Campaign \<Rightarrow> bool" where
  "laterCampaign c c' \<longleftrightarrow>
     (state c \<noteq> NotOpened \<longrightarrow> treasury c' = treasury c \<and> targetAmount c' = targetAmount c \<and> state c' \<noteq> NotOpened) \<and>
     totalRaised c \<le> totalRaised c' \<and>
     (state c \<in> {Successful, Failed} \<longrightarrow> state c' = state c \<and> totalRaised c' = totalRaised c) \<and>
     (swept c \<longrightarrow> swept c')"

lemma laterCampaign_refl [simp]: "laterCampaign c c"
  by (simp add: laterCampaign_def)

lemma laterCampaign_trans: "laterCampaign a b \<Longrightarrow> laterCampaign b c \<Longrightarrow> laterCampaign a c"
  unfolding laterCampaign_def by (auto intro: order_trans)

lemma step_later:
  assumes "escrowStep token me s s'" "campaignOk s t"
  shows "laterCampaign (campaigns s t) (campaigns s' t)"
  using assms(1)
proof cases
  case (contributeStep m u amount)
  show ?thesis
  proof (cases "u = t")
    case True
    obtain raised c e where "state (campaigns s t) = Open"
      "unat raised = unat (totalRaised (campaigns s t)) + unat amount" 
      "s' = (recordContribution t (sender m) raised c s)\<lparr>eurc := e\<rparr>"
      using contribute_cases[OF contributeStep(1)[unfolded True] assms(2)] by metis
    then show ?thesis by (simp add: laterCampaign_def word_le_nat_alt)
  next
    case False
    then have "campaigns s' t = campaigns s t"
      using contributeStep(1) by (auto simp: contribute_def Let_def split: if_splits option.splits)
    then show ?thesis by simp
  qed
next
  case (openStep m u target dl tr)
  show ?thesis
  proof (cases "u = t")
    case True
    have "state (campaigns s t) = NotOpened" using openStep True by (auto simp: openCampaign_def split: if_splits)
    then have "campaigns s t = noCampaign" using assms(2) unfolding campaignOk_def Let_def by blast
    then show ?thesis by (simp add: laterCampaign_def noCampaign_def)
  next
    case False
    then have "campaigns s' t = campaigns s t" using openStep by (auto simp: openCampaign_def split: if_splits)
    then show ?thesis by simp
  qed
next
  case (extendStep m u dl)
  then show ?thesis by (auto simp: extendDeadline_def laterCampaign_def Let_def split: if_splits)
next
  case (finalizeStep m u)
  then show ?thesis by (auto simp: finalize_def laterCampaign_def Let_def split: if_splits)
next
  case (sweepStep m u)
  then show ?thesis by (elim withdrawRaised_cases) (auto simp: laterCampaign_def)
next
  case (refundStep m u)
  then show ?thesis by (elim withdraw_cases) simp
next
  case (pauseStep m)
  then show ?thesis by (auto simp: pause_def split: if_splits)
next
  case (unpauseStep m)
  then show ?thesis by (auto simp: unpause_def split: if_splits)
next
  case (outsideStep e roles)
  then show ?thesis by simp
qed

subsection \<open>Paying out\<close>

lemma escrowOk_owed:
  assumes "escrowOk token me s"
  shows "owed s t \<le> unat (erc_balanceOf token (eurc s) me)"
proof -
  have "owed s t \<le> (\<Sum>u\<in>UNIV. owed s u)" by (intro member_le_sum) auto
  then show ?thesis using assms by (simp add: escrowOk_def)
qed

lemma contribute_no_panic:
  assumes "campaignOk s t"
  shows "contribute token m t amount s \<noteq> Inl Panic"
proof
  assume p: "contribute token m t amount s = Inl Panic"
  have le: "totalRaised (campaigns s t) \<le> targetAmount (campaigns s t)"
    using assms unfolding campaignOk_def Let_def by blast
  note sub = unat_subChecked[OF le]
  have h: "amount \<le> targetAmount (campaigns s t) - totalRaised (campaigns s t)"
      "addChecked (totalRaised (campaigns s t)) amount = None \<or> addChecked (contributions s t (sender m)) amount = None"
    using p sub by (auto simp: contribute_def Let_def not_less split: if_splits option.splits)
  have fits: "unat (totalRaised (campaigns s t)) + unat amount \<le> unat (targetAmount (campaigns s t))"
    using h(1) sub le by (simp add: word_le_nat_alt)
  moreover have "unat (contributions s t (sender m)) \<le> unat (totalRaised (campaigns s t))"
    using contribution_le[OF assms, of "sender m"] assms unfolding campaignOk_def Let_def by linarith
  ultimately have "unat (contributions s t (sender m)) + unat amount \<le> unat (targetAmount (campaigns s t))" by linarith
  from h(2) addChecked_fits[OF fits] addChecked_fits[OF this] show False by metis
qed

lemma sweep_pays:
  assumes "campaignOk s t" "owed s t \<le> unat (erc_balanceOf token (eurc s) me)" "self m = me" "\<not> paused s"
    "\<And>to a. a \<le> erc_balanceOf token (eurc s) me \<Longrightarrow> erc_transfer token me to a (eurc s) \<noteq> None"
  shows "state (campaigns s t) = Successful \<and> \<not> swept (campaigns s t) \<longrightarrow>
      (\<exists>e s'. withdrawRaised token m t s = Inr s' \<and> eurc s' = e \<and>
         erc_transfer token me (treasury (campaigns s t)) (targetAmount (campaigns s t)) (eurc s) = Some e \<and>
         withdrawRaised token m t s' = Inl (AlreadySwept t))"
proof
  assume h: "state (campaigns s t) = Successful \<and> \<not> swept (campaigns s t)"
  have raised: "totalRaised (campaigns s t) = targetAmount (campaigns s t)"
      "owed s t = unat (targetAmount (campaigns s t))"
    using assms(1) h unfolding campaignOk_def Let_def owed_def by auto
  then have "targetAmount (campaigns s t) \<le> erc_balanceOf token (eurc s) me"
    using assms(2) by (simp add: word_le_nat_alt)
  then obtain e where "erc_transfer token me (treasury (campaigns s t)) (targetAmount (campaigns s t)) (eurc s) = Some e"
    using assms(5) by blast
  then show "\<exists>e s'. withdrawRaised token m t s = Inr s' \<and> eurc s' = e \<and>
         erc_transfer token me (treasury (campaigns s t)) (targetAmount (campaigns s t)) (eurc s) = Some e \<and>
         withdrawRaised token m t s' = Inl (AlreadySwept t)"
    using h assms(3,4) raised(1) by (simp add: withdrawRaised_def Let_def)
qed

lemma refund_pays:
  assumes "campaignOk s t" "owed s t \<le> unat (erc_balanceOf token (eurc s) me)" "self m = me" "\<not> paused s"
    "\<And>to a. a \<le> erc_balanceOf token (eurc s) me \<Longrightarrow> erc_transfer token me to a (eurc s) \<noteq> None"
  shows "state (campaigns s t) = Failed \<and> contributions s t (sender m) \<noteq> 0 \<longrightarrow>
      (\<exists>e s'. withdraw token m t s = Inr s' \<and> eurc s' = e \<and>
         erc_transfer token me (sender m) (contributions s t (sender m)) (eurc s) = Some e \<and>
         contributions s' t (sender m) = 0 \<and> withdraw token m t s' = Inl (NoContribution t (sender m)))"
proof
  assume h: "state (campaigns s t) = Failed \<and> contributions s t (sender m) \<noteq> 0"
  then have "\<not> swept (campaigns s t)" using assms(1) unfolding campaignOk_def Let_def by auto
  then have "contributions s t (sender m) \<le> erc_balanceOf token (eurc s) me"
    using assms(2) contribution_le[OF assms(1), of "sender m"] by (simp add: owed_def word_le_nat_alt)
  then obtain e where "erc_transfer token me (sender m) (contributions s t (sender m)) (eurc s) = Some e"
    using assms(5) by blast
  then show "\<exists>e s'. withdraw token m t s = Inr s' \<and> eurc s' = e \<and>
         erc_transfer token me (sender m) (contributions s t (sender m)) (eurc s) = Some e \<and>
         contributions s' t (sender m) = 0 \<and> withdraw token m t s' = Inl (NoContribution t (sender m))"
    using h assms(3,4) by (simp add: withdraw_def Let_def)
qed

end
