(* ===== verification/EscrowProperties.thy ===== *)
theory EscrowProperties
  imports EscrowInvariant
begin

text \<open>
  What the escrow contract guarantees to contributors and treasuries, whoever calls it in
  whatever order: its balance covers its debts, its books balance in 256-bit arithmetic, every debt can
  be collected once, and an outcome is final.
\<close>

subsection \<open>A token and a sample run\<close>

definition sampleMove :: "address \<Rightarrow> address \<Rightarrow> uint256 \<Rightarrow> (address \<Rightarrow> uint256) \<Rightarrow> (address \<Rightarrow> uint256) option" where
  "sampleMove from to a e =
    (if a > e from then None
     else if from = to then Some e
     else if e to + a < e to then None
     else Some (e(from := e from - a, to := e to + a)))"

definition sampleToken :: "(address \<Rightarrow> uint256) erc20" where
  "sampleToken = \<lparr>erc_transferFrom = (\<lambda>_. sampleMove), erc_transfer = sampleMove, erc_balanceOf = (\<lambda>e. e)\<rparr>"

lemma sampleMove_moves: "sampleMove from to a e = Some e' \<Longrightarrow> moves (\<lambda>e. e) from to a e e'"
  using add_no_wrap[of "e to" a] by (auto simp: sampleMove_def moves_def not_less unat_sub split: if_splits)

lemma sampleToken_laws: "erc20Laws sampleToken"
  using sampleMove_moves unfolding erc20Laws_def sampleToken_def by simp

definition at :: "address \<Rightarrow> uint256 \<Rightarrow> msg" where
  "at a n = \<lparr>sender = a, timestamp = n, self = 99\<rparr>"

definition sampleEscrow :: "(address \<Rightarrow> uint256) escrow" where
  "sampleEscrow = deployed (\<lambda>a. if a = 1 then 500 else if a = 2 then 300 else 0) 7"

definition sampleManaged :: "(address \<Rightarrow> uint256) escrow" where
  "sampleManaged = sampleEscrow\<lparr>eurc := eurc sampleEscrow, hasRole := (\<lambda>r a. r = CAMPAIGN_MANAGER_ROLE \<and> a = 7)\<rparr>"

definition sampleOpen :: "(address \<Rightarrow> uint256) escrow" where
  "sampleOpen = projr (openCampaign (at 7 10) 5 600 100 42 sampleManaged)"

definition sampleContributed :: "(address \<Rightarrow> uint256) escrow" where
  "sampleContributed = projr (contribute sampleToken (at 1 20) 5 400 sampleOpen)"



definition sampleFailed :: "(address \<Rightarrow> uint256) escrow" where
  "sampleFailed = projr (finalize (at 3 100) 5 sampleContributed)"

lemmas sample_defs = sampleEscrow_def sampleManaged_def deployed_def noCampaign_def at_def
  openCampaign_def contribute_def recordContribution_def finalize_def setCampaign_def setContribution_def
  addChecked_def subChecked_def sampleToken_def sampleMove_def Let_def

lemma open_run: "openCampaign (at 7 10) 5 600 100 42 sampleManaged = Inr sampleOpen"
  by (simp add: sampleOpen_def sample_defs)

lemma contribute_run: "contribute sampleToken (at 1 20) 5 400 sampleOpen = Inr sampleContributed"
  by (simp add: sampleContributed_def sampleOpen_def sample_defs)



lemma fail_run: "finalize (at 3 100) 5 sampleContributed = Inr sampleFailed"
  by (simp add: sampleFailed_def sampleContributed_def sampleOpen_def sample_defs)

lemma reachable_managed: "escrowReachable sampleToken 99 sampleManaged"
proof -
  have "escrowStep sampleToken 99 sampleEscrow sampleManaged"
    unfolding sampleManaged_def by (rule escrowStep.outsideStep) simp
  moreover have "escrowReachable sampleToken 99 sampleEscrow" unfolding sampleEscrow_def by (rule escrow_reach_start)
  ultimately show ?thesis using escrow_reach_step by metis
qed

lemma reachable_contributed: "escrowReachable sampleToken 99 sampleContributed"
proof -
  have "escrowReachable sampleToken 99 sampleOpen"
    by (rule escrow_reach_step[OF reachable_managed escrowStep.openStep[OF open_run]])
  then show ?thesis by (rule escrow_reach_step) (rule escrowStep.contributeStep[OF contribute_run], simp_all add: at_def)
qed


lemma reachable_failed: "escrowReachable sampleToken 99 sampleFailed"
  by (rule escrow_reach_step[OF reachable_contributed escrowStep.finalizeStep[OF fail_run]])


subsection \<open>Properties\<close>

text \<open>
  Claim C31. The escrow is solvent: for any set of campaigns, what the contract still owes, to the contributors of
  open and failed campaigns and to the treasuries of successful ones not yet swept, is covered by its
  token balance, in every state reachable by any sequence of calls.
\<close>
theorem escrow_solvent:
  assumes "erc20Laws token" "escrowReachable token me s" "distinct ts"
  shows "sum_list (map (owed s) ts) \<le> unat (erc_balanceOf token (eurc s) me)"
proof -
  have "sum_list (map (owed s) ts) = (\<Sum>t\<in>set ts. owed s t)" using assms(3) by (simp add: sum_list_distinct_conv_sum_set)
  also have "\<dots> \<le> (\<Sum>t\<in>UNIV. owed s t)" by (intro sum_mono2) auto
  also have "\<dots> \<le> unat (erc_balanceOf token (eurc s) me)"
    using reachable_escrowOk[OF assms(2,1)] by (simp add: escrowOk_def)
  finally show ?thesis .
qed

theorem escrow_solvent_witness:
  "owed sampleContributed 5 = 400 \<and> owed sampleContributed 5 + owed sampleContributed 6 \<le>
     unat (erc_balanceOf sampleToken (eurc sampleContributed) 99)"
proof -
  have "owed sampleContributed 5 = 400"
    by (simp add: owed_def contributed_def sampleContributed_def sampleOpen_def sample_defs)
  then show ?thesis using escrow_solvent[OF sampleToken_laws reachable_contributed, of "[5, 6]"] by simp
qed

text \<open>
  Claim C32. The books of a campaign balance at the width of the machine: the total never exceeds the target, it is the
  exact sum of what the listed contributors are recorded for (until refunds start), the list has every
  contributor once, a campaign succeeds only with exactly its target, and no contribution, however large,
  overflows or underflows the checked arithmetic.
\<close>
theorem escrow_books:
  assumes "erc20Laws token" "escrowReachable token me s"
  shows "totalRaised (campaigns s t) \<le> targetAmount (campaigns s t) \<and> distinct (contributorsOf t s) \<and>
    (state (campaigns s t) \<noteq> Failed \<longrightarrow>
       (\<Sum>a\<leftarrow>contributorsOf t s. unat (contributionOf t a s)) = unat (totalRaised (campaigns s t)) \<and>
       set (contributorsOf t s) = {a. contributionOf t a s \<noteq> 0}) \<and>
    (state (campaigns s t) = Successful \<longrightarrow> totalRaised (campaigns s t) = targetAmount (campaigns s t)) \<and>
    contribute token m t amount s \<noteq> Inl Panic"
proof -
  have c: "campaignOk s t" by (rule reachable_campaignOk[OF assms(2,1)])
  have "contribute token m t amount s \<noteq> Inl Panic" by (rule contribute_no_panic[OF c])
  then show ?thesis using c unfolding campaignOk_def Let_def contributed_def contributorsOf_def contributionOf_def by blast
qed

theorem escrow_books_witness:
  "contributorsOf 5 sampleContributed = [1] \<and> unat (contributionOf 5 1 sampleContributed) = 400 \<and>
   contribute sampleToken (at 2 50) 5 (- 1) sampleContributed = Inl (TargetExceeded 5 (- 1) 200)"
proof -
  have "contributorsOf 5 sampleContributed = [1]" "state (campaigns sampleContributed 5) \<noteq> Failed"
    "totalRaised (campaigns sampleContributed 5) = 400"
    "contribute sampleToken (at 2 50) 5 (- 1) sampleContributed = Inl (TargetExceeded 5 (- 1) 200)"
    by (simp_all add: sampleContributed_def sampleOpen_def sample_defs contributorsOf_def)
  then show ?thesis
    using escrow_books[OF sampleToken_laws reachable_contributed, of 5 "at 2 50" "- 1"] by simp
qed



text \<open>
  Claim C34. An outcome is final: whatever calls follow, a resolved campaign keeps its state and its total, an opened one its
  treasury and its target, and a swept one stays swept; totals never go down.
\<close>
theorem escrow_outcome_final:
  assumes "erc20Laws token" "escrowReachable token me s" "(escrowStep token me)\<^sup>*\<^sup>* s s'"
  shows "(state (campaigns s t) \<in> {Successful, Failed} \<longrightarrow>
      state (campaigns s' t) = state (campaigns s t) \<and> totalRaised (campaigns s' t) = totalRaised (campaigns s t)) \<and>
    (state (campaigns s t) \<noteq> NotOpened \<longrightarrow>
      treasury (campaigns s' t) = treasury (campaigns s t) \<and> targetAmount (campaigns s' t) = targetAmount (campaigns s t)) \<and>
    (swept (campaigns s t) \<longrightarrow> swept (campaigns s' t)) \<and> totalRaised (campaigns s t) \<le> totalRaised (campaigns s' t)"
proof -
  have "escrowReachable token me s' \<and> laterCampaign (campaigns s t) (campaigns s' t)"
    using assms(3)
  proof (induction rule: rtranclp_induct)
    case (step u v)
    then show ?case using escrow_reach_step step_later[OF step(2) reachable_campaignOk[OF _ assms(1)]] laterCampaign_trans by blast
  qed (use assms(2) in simp)
  then show ?thesis by (simp add: laterCampaign_def)
qed

theorem escrow_outcome_final_witness:
  "state (campaigns sampleFailed 5) = Failed \<and> (\<exists>s'. withdraw sampleToken (at 1 120) 5 sampleFailed = Inr s' \<and>
     state (campaigns s' 5) = Failed \<and> totalRaised (campaigns s' 5) = 400 \<and> treasury (campaigns s' 5) = 42)"
proof -
  have st: "state (campaigns sampleFailed 5) = Failed" "totalRaised (campaigns sampleFailed 5) = 400"
      "treasury (campaigns sampleFailed 5) = 42"
    by (simp_all add: sampleFailed_def sampleContributed_def sampleOpen_def sample_defs)
  have "\<exists>s'. withdraw sampleToken (at 1 120) 5 sampleFailed = Inr s'"
    by (simp add: withdraw_def sampleFailed_def sampleContributed_def sampleOpen_def sample_defs)
  then obtain s' where s': "withdraw sampleToken (at 1 120) 5 sampleFailed = Inr s'" by blast
  have "escrowStep sampleToken 99 sampleFailed s'"
    by (rule escrowStep.refundStep[OF s']) (simp_all add: at_def)
  then show ?thesis using escrow_outcome_final[OF sampleToken_laws reachable_failed r_into_rtranclp, of s' 5] st s' by simp
qed

end
