(* ===== verification/Spec2Isabelle.thy ===== *)
theory Spec2Isabelle
  imports OfferingServiceProperties RentalProperties EscrowProperties
begin

text \<open>
  Verification of the Vistablox API, a property investment platform (src/src, TypeScript over
  PostgreSQL through Prisma) and of its escrow contract (src/contracts, Solidity).

  \<^bold>\<open>The program.\<close> An approved intake case becomes an offering (modules/offering). Investors
  reserve amounts against its capacity and pay with EURC bought through Coinbase; when enough is funded the
  operators publish the final terms, every investor reconfirms within a rights window (reopened
  by a material change), and when the window closes a job turns reconfirmed reservations into positions of the
  property's vehicle. Rent collected for a vehicle is divided among the active positions
  (modules/rental). Independently, EURC can be contributed on chain to the escrow contract, which releases it to
  the vehicle's treasury when the target is met at the deadline and back to the contributors otherwise.

  \<^bold>\<open>Theories.\<close>
  \<^item> \<open>Prelude\<close>: results and errors (\<open>shared/errors/app-error.ts\<close>), tables as lists of rows
    with SQL's update, sum and count, and the locale \<open>invariant_system\<close> of step relations with an
    invariant, interpreted by every component with a state.
  \<^item> \<open>JsRuntime\<close>, \<open>Calendar\<close>, \<open>Currency\<close>: what the code uses of JavaScript's strings, bigints and
    dates, and \<open>shared/domain\<close>. The locale \<open>decimal_codec\<close> holds the round trip of printing and
    parsing decimal amounts, interpreted for cents and EURC micros; \<open>RentalFacts\<close> adds
    \<open>decimal_reader\<close> for the rental module's three parsers.
  \<^item> \<open>OfferingPolicy\<close>: the functions of \<open>offering/domain\<close>. \<open>OfferingStore\<close>: the tables, one record per
    Prisma model, all columns the transactions read or write. \<open>OfferingOps\<close>: one function per method of
    \<open>PrismaOfferingRepository\<close>, from a store to a result and a store; a locked transaction is atomic,
    its loops are folds over the rows the query selects. \<open>OfferingReads\<close>: the read models.
  \<^item> \<open>OfferingEffects\<close>, \<open>OfferingInvariant\<close>, \<open>OfferingRuns\<close>: what each transaction changes, the
    store invariant \<open>storeOk\<close> and the step relation \<open>offeringStep\<close> of all transactions, in any order
    and with any arguments; \<open>reachable\<close> states have the invariant.
  \<^item> \<open>OfferingServices\<close>: \<open>offering/application\<close>. A service reads, decides and calls
    transactions; a job is a loop over rows that stops at the first exception (\<open>runJob\<close>). The onramp client,
    the mail sender, the clock and the generated identifiers are arguments.
    \<open>OfferingServiceFacts\<close>: the locales \<open>job_body\<close> and \<open>mail_job\<close>, interpreted for the five jobs.
  \<^item> \<open>OfferingProperties\<close>, \<open>OfferingServiceProperties\<close>: capacity is never exceeded, positions match
    finalized reservations one to one, publication and finalization equal bulk updates, a material change takes
    back every reconfirmation, each reservation moves along its life cycle, replays change nothing, only
    eligible investors reserve, funding is backed by a purchase, jobs are exact and idempotent, paging visits every
    public offering once, and what investors and document readers see.
  \<^item> \<open>Rental\<close>, \<open>RentalFacts\<close>, \<open>RentalRuns\<close>, \<open>RentalProperties\<close>: \<open>modules/rental\<close> with its
    tables. The entries of a distribution never exceed the net, each is its holder's pro-rata share up to rounding,
    a period is distributed once, when a calculation fails, and the sweep clears its list.
  \<^item> \<open>IpoEscrow\<close>: every function of \<open>VistaBloxIpoEscrow.sol\<close> over 256-bit words with
    checked arithmetic. \<open>EscrowFacts\<close>, \<open>EscrowInvariant\<close>, \<open>EscrowProperties\<close>: the contract is solvent
    under any sequence of calls, its books balance without overflow, every debt is paid exactly once, and an
    outcome is final.

  \<^bold>\<open>Conventions.\<close> Instants are milliseconds and dates day numbers (\<open>int\<close>); NUMERIC columns are integers at
  their scale, texts cross the boundary through \<open>numericText\<close> and its inverses, so rounding and
  malformed amounts are part of the model; the NUMERIC range is not bounded. \<open>Inl\<close> is a thrown error, with its
  code, status and field codes; titles and log lines are left out. An exception outside the code's own errors
  (a violated constraint, a malformed number) is \<open>OtherError\<close> or \<open>None\<close>. \<open>ulid\<close> is an arbitrary
  sequence; theorems that need distinct identifiers say \<open>inj ulid\<close>. All loops are structural recursion or folds
  over finite tables, so no fuel is used; \<open>allPages\<close> iterates the paging at most as often as there are rows,
  which \<open>public_paging\<close> shows to be enough.

  \<^bold>\<open>Hypotheses on code outside the repository.\<close> The ERC-20 laws of the EURC token (\<open>erc20Laws\<close>), which
  \<open>sampleToken\<close> satisfies; nothing is assumed of the onramp client, the mail sender or the clock.

  \<^bold>\<open>Not modelled.\<close> HTTP routing, request parsing by zod (bodies enter as the parsed values), authentication
  (better-auth and its plugins), object storage, mail and log text, configuration and process start are
  input/output or third-party code. The intake module's case workflow, the identity module and the
  settlement jobs are left to their own developments: the offering module meets them in the stored
  eligibility state, the approved case and the wallet registrations, which are part of the stores here and change
  by the environment steps of \<open>offeringStep\<close> and \<open>rentalStep\<close>.
\<close>

end
